(* ===== verification/SVC_Prelude.thy ===== *)
theory SVC_Prelude
  imports Complex_Main "HOL-Library.Word"
begin

text \<open>
  Shared vocabulary of the development: the machine integer types of the C sources, the
  collections that gather simplification facts per layer, and generic lemmas on words that
  several components use.
\<close>

section \<open>Machine integers\<close>

type_synonym u8 = "8 word"
type_synonym u32 = "32 word"
type_synonym u64 = "64 word"

section \<open>Error numbers\<close>

text \<open>The values of \<open>errno.h\<close> the program uses.\<close>

definition EACCES :: int where "EACCES = 13"
definition EBUSY :: int where "EBUSY = 16"
definition ECONNRESET :: int where "ECONNRESET = 54"
definition ETIMEDOUT :: int where "ETIMEDOUT = 60"
definition ECONNREFUSED :: int where "ECONNREFUSED = 61"
definition EPROTO :: int where "EPROTO = 100"

lemmas errno_defs = EBUSY_def EACCES_def EPROTO_def ECONNRESET_def ETIMEDOUT_def ECONNREFUSED_def

section \<open>Fact collections\<close>

named_theorems float_ops \<open>unfolding rules of the floating point operations\<close>
named_theorems ring_defs \<open>definitions of the shared audio ring\<close>
named_theorems driver_defs \<open>definitions of the HAL driver's property layer\<close>
named_theorems step_invs \<open>preservation facts of step relations\<close>

section \<open>Words\<close>

lemma unat_plus_no_wrap:
  fixes a b :: u64
  assumes "unat a + unat b < 2 ^ 64"
  shows "unat (a + b) = unat a + unat b"
  using assms by (simp add: unat_word_ariths)

lemma unat_minus_le:
  fixes a b :: u64
  assumes "b \<le> a"
  shows "unat (a - b) = unat a - unat b"
  using assms by (rule unat_sub)

lemma unat_of_nat_u64 [simp]: "n < 2 ^ 64 \<Longrightarrow> unat (of_nat n :: u64) = n"
  by (simp add: unat_of_nat)

lemma unat_of_nat_u32 [simp]: "n < 2 ^ 32 \<Longrightarrow> unat (of_nat n :: u32) = n"
  by (simp add: unat_of_nat)

lemma unat_u64_bound: "unat (w :: u64) < 18446744073709551616"
  using unsigned_less [of w, where 'a = nat] by simp

lemma unat_u32_bound: "unat (w :: u32) < 4294967296"
  using unsigned_less [of w, where 'a = nat] by simp

lemma unat_minus_one: "unat (- 1 :: u64) = 2 ^ 64 - 1"
  by (simp add: unsigned_minus_1_eq_mask mask_eq_exp_minus_1)

lemma unat_suc_no_wrap:
  fixes a :: u64
  assumes "a \<noteq> - 1"
  shows "unat (a + 1) = Suc (unat a)"
proof -
  from assms have "a + 1 \<noteq> 0"
    by (metis add_diff_cancel_right' diff_0)
  then show ?thesis
    by (simp add: unatSuc add.commute)
qed

lemma u32_dec:
  fixes n :: u32
  assumes "0 < n"
  shows "unat (n - 1) = unat n - 1"
proof -
  have "1 \<le> n" using assms by (simp add: word_le_nat_alt word_less_nat_alt)
  then show ?thesis by (simp add: unat_sub)
qed

lemma ucast_u32_u64 [simp]: "unat (ucast (w :: u32) :: u64) = unat w"
  using unat_u32_bound [of w] by (simp add: unsigned_ucast_eq take_bit_nat_eq_self)

section \<open>Options\<close>

lemma bind_option_Some_iff:
  "Option.bind m f = Some y \<longleftrightarrow> (\<exists>x. m = Some x \<and> f x = Some y)"
  by (cases m) simp_all

end
