(* ===== verification/Float_Model.thy ===== *)
theory Float_Model
  imports SVC_Prelude "HOL-Library.Log_Nat"
begin

text \<open>
  IEEE 754 binary floating point, as the C sources use it (\<open>Float32\<close>/\<open>float\<close> and
  \<open>Float64\<close>/\<open>double\<close> in round-to-nearest-even, the mode no source file changes).
  A value is NaN, a signed infinity, or a signed magnitude; a format is a precision, the
  exponent of its smallest quantum and its overflow bound. Every operation computes the exact
  real result and rounds it once. All definitions compute on rational reals.
\<close>

section \<open>Rounding of exact magnitudes\<close>

record fmt =
  prec :: nat
  qmin :: int
  emax :: int

definition binary32 :: fmt where
  "binary32 = \<lparr>prec = 24, qmin = - 149, emax = 128\<rparr>"

definition binary64 :: fmt where
  "binary64 = \<lparr>prec = 53, qmin = - 1074, emax = 1024\<rparr>"

lemma binary32_sel [simp]: "prec binary32 = 24" "qmin binary32 = - 149" "emax binary32 = 128"
  by (simp_all add: binary32_def)

lemma binary64_sel [simp]: "prec binary64 = 53" "qmin binary64 = - 1074" "emax binary64 = 1024"
  by (simp_all add: binary64_def)

text \<open>\<open>ilog2 x\<close> is the exponent of the leading bit of a positive \<open>x\<close>.\<close>

definition ilog2 :: "real \<Rightarrow> int" where
  "ilog2 x = (if 1 \<le> x then bitlen \<lfloor>x\<rfloor> - 1 else - bitlen (\<lceil>1 / x\<rceil> - 1))"

text \<open>Round to an integer, ties to even.\<close>

definition rne :: "real \<Rightarrow> int" where
  "rne x = (let f = \<lfloor>x\<rfloor>; d = x - of_int f
            in if d < 1 / 2 \<or> (d = 1 / 2 \<and> even f) then f else f + 1)"

definition quantum :: "fmt \<Rightarrow> real \<Rightarrow> int" where
  "quantum F x = max (qmin F) (ilog2 x + 1 - int (prec F))"

definition rnd :: "fmt \<Rightarrow> real \<Rightarrow> real" where
  "rnd F x = (if x \<le> 0 then 0
              else of_int (rne (x / 2 powi quantum F x)) * 2 powi quantum F x)"

section \<open>The leading exponent\<close>

text \<open>Evaluation of \<open>bitlen\<close> on numerals, so that rounding computes by simplification.\<close>

lemma bitlen_step: "0 < n \<Longrightarrow> bitlen n = bitlen (n div 2) + 1"
  by (subst compute_bitlen) simp

lemma bitlen_numerals [simp]:
  "bitlen 0 = 0"
  "bitlen 1 = 1"
  "bitlen (numeral (num.Bit0 k)) = bitlen (numeral k) + 1"
  "bitlen (numeral (num.Bit1 k)) = bitlen (numeral k) + 1"
proof -
  show z: "bitlen 0 = 0" by (simp add: bitlen_eq_zero_iff)
  show "bitlen 1 = 1" using bitlen_step [of 1] z by simp
  show "bitlen (numeral (num.Bit0 k)) = bitlen (numeral k) + 1"
    using bitlen_step [of "numeral (num.Bit0 k)"] by simp
  show "bitlen (numeral (num.Bit1 k)) = bitlen (numeral k) + 1"
    using bitlen_step [of "numeral (num.Bit1 k)"] by simp
qed

lemma bitlen_bounds_real:
  assumes "0 < n"
  shows "2 powi (bitlen n - 1) \<le> real_of_int n" "real_of_int n < 2 powi bitlen n"
proof -
  have pos: "0 < bitlen n"
    using assms bitlen_eq_zero_iff [of n] bitlen_nonneg [of n] by linarith
  have b: "2 ^ nat (bitlen n - 1) \<le> n" "n < 2 ^ nat (bitlen n)"
    using bitlen_bounds [OF assms] by simp_all
  have "real_of_int (2 ^ nat (bitlen n - 1)) \<le> real_of_int n"
    "real_of_int n < real_of_int (2 ^ nat (bitlen n))"
    using b by linarith+
  then show "2 powi (bitlen n - 1) \<le> real_of_int n" "real_of_int n < 2 powi bitlen n"
    using pos by (simp_all add: power_int_def)
qed

lemma ilog2_bounds_ge1:
  assumes "1 \<le> x"
  shows "2 powi ilog2 x \<le> x" "x < 2 powi (ilog2 x + 1)"
proof -
  have f: "0 < \<lfloor>x\<rfloor>" using assms by simp
  note b = bitlen_bounds_real [OF f]
  show "2 powi ilog2 x \<le> x"
    using b(1) assms by (simp add: ilog2_def) linarith
  have "\<lfloor>x\<rfloor> + 1 \<le> 2 ^ nat (bitlen \<lfloor>x\<rfloor>)"
    using bitlen_bounds [OF f] by simp
  then have "real_of_int (\<lfloor>x\<rfloor> + 1) \<le> real_of_int (2 ^ nat (bitlen \<lfloor>x\<rfloor>))"
    by linarith
  moreover have "0 \<le> bitlen \<lfloor>x\<rfloor>" by (simp add: bitlen_nonneg)
  ultimately have "real_of_int \<lfloor>x\<rfloor> + 1 \<le> 2 powi bitlen \<lfloor>x\<rfloor>"
    by (simp add: power_int_def)
  then show "x < 2 powi (ilog2 x + 1)"
    using assms by (simp add: ilog2_def) linarith
qed

lemma ilog2_bounds_lt1:
  assumes "0 < x" "x < 1"
  shows "2 powi ilog2 x \<le> x" "x < 2 powi (ilog2 x + 1)"
proof -
  define n where "n = \<lceil>1 / x\<rceil> - 1"
  have inv: "1 < 1 / x" using assms by simp
  then have n: "0 < n" unfolding n_def by linarith
  have up: "1 / x \<le> real_of_int n + 1" and lo: "real_of_int n < 1 / x"
    unfolding n_def by linarith+
  note b = bitlen_bounds_real [OF n]
  have e: "ilog2 x = - bitlen n" using assms by (simp add: ilog2_def n_def)
  have "n + 1 \<le> 2 ^ nat (bitlen n)"
    using bitlen_bounds [OF n] by simp
  then have "real_of_int (n + 1) \<le> real_of_int (2 ^ nat (bitlen n))"
    by linarith
  moreover have "0 \<le> bitlen n" by (simp add: bitlen_nonneg)
  ultimately have "real_of_int n + 1 \<le> 2 powi bitlen n"
    by (simp add: power_int_def)
  with up have "1 / x \<le> 2 powi bitlen n" by linarith
  then show "2 powi ilog2 x \<le> x"
    using assms e by (simp add: power_int_minus field_simps)
  have "2 powi (bitlen n - 1) < 1 / x" using b(1) lo by linarith
  moreover have "2 powi (ilog2 x + 1) * 2 powi (bitlen n - 1) = (1 :: real)"
    using e by (simp add: power_int_add [symmetric])
  ultimately show "x < 2 powi (ilog2 x + 1)"
    using assms
    by (smt (verit) divide_pos_pos mult_less_cancel_right nonzero_eq_divide_eq
        zero_less_power_int mult.commute)
qed

lemma ilog2_bounds:
  assumes "0 < x"
  shows "2 powi ilog2 x \<le> x" "x < 2 powi (ilog2 x + 1)"
  using ilog2_bounds_ge1 ilog2_bounds_lt1 assms by (cases "1 \<le> x"; force)+

lemma powi2_mono: "a \<le> b \<Longrightarrow> (2 :: real) powi a \<le> 2 powi b"
  by (simp add: power_int_increasing)

lemma powi2_less_iff: "((2 :: real) powi a < 2 powi b) = (a < b)"
  by (metis linorder_not_le power_int_strict_increasing powi2_mono one_less_numeral_iff
      semiring_norm(76))

lemma powi2_pos [simp]: "0 < (2 :: real) powi a"
  by simp

lemma ilog2_eqI:
  assumes "2 powi k \<le> x" "x < 2 powi (k + 1)"
  shows "ilog2 x = k"
proof -
  have x: "0 < x" using assms(1) powi2_pos [of k] by linarith
  have "(2 :: real) powi k < 2 powi (ilog2 x + 1)" "(2 :: real) powi ilog2 x < 2 powi (k + 1)"
    using ilog2_bounds [OF x] assms by linarith+
  then show ?thesis by (simp add: powi2_less_iff)
qed

lemma ilog2_mono:
  assumes "0 < x" "x \<le> y"
  shows "ilog2 x \<le> ilog2 y"
proof -
  have "(2 :: real) powi ilog2 x < 2 powi (ilog2 y + 1)"
    using ilog2_bounds [of x] ilog2_bounds [of y] assms by linarith
  then show ?thesis by (simp add: powi2_less_iff)
qed

lemma quantum_mono: "0 < x \<Longrightarrow> x \<le> y \<Longrightarrow> quantum F x \<le> quantum F y"
  using ilog2_mono [of x y] by (simp add: quantum_def)

lemma quantum_ge_qmin: "qmin F \<le> quantum F x"
  by (simp add: quantum_def)

section \<open>Rounding to integers\<close>

lemma rne_of_int [simp]: "rne (of_int n) = n"
  by (simp add: rne_def)

lemma rne_error: "\<bar>of_int (rne x) - x\<bar> \<le> 1 / 2"
  unfolding rne_def Let_def by (auto; linarith)

lemma rne_mono:
  assumes "x \<le> y"
  shows "rne x \<le> rne y"
proof (cases "\<lfloor>x\<rfloor> = \<lfloor>y\<rfloor>")
  case True
  with assms show ?thesis by (auto simp: rne_def Let_def)
next
  case False
  with assms have "\<lfloor>x\<rfloor> + 1 \<le> \<lfloor>y\<rfloor>"
    by (meson floor_mono order_le_less zless_imp_add1_zle)
  then show ?thesis by (auto simp: rne_def Let_def)
qed

lemma rne_nonneg: "0 \<le> x \<Longrightarrow> 0 \<le> rne x"
  using rne_mono [of 0 x] rne_of_int [of 0] by simp

section \<open>Representable magnitudes\<close>

text \<open>
  \<open>rep F y\<close>: the magnitude \<open>y\<close> is a multiple of a quantum the format has, with a
  significand that fits. Such values are fixed points of rounding.
\<close>

definition rep :: "fmt \<Rightarrow> real \<Rightarrow> bool" where
  "rep F y \<longleftrightarrow> (\<exists>m q. 0 \<le> m \<and> m \<le> 2 ^ prec F \<and> qmin F \<le> q \<and> y = of_int m * 2 powi q)"

lemma repI: "0 \<le> m \<Longrightarrow> m \<le> 2 ^ prec F \<Longrightarrow> qmin F \<le> q \<Longrightarrow> y = of_int m * 2 powi q \<Longrightarrow> rep F y"
  by (auto simp: rep_def)

lemma rep_nonneg: "rep F y \<Longrightarrow> 0 \<le> y"
  by (auto simp: rep_def)

lemma rep_0 [simp]: "rep F 0"
  by (rule repI [of 0 F "qmin F"]) simp_all

lemma rep_powi: "qmin F \<le> k \<Longrightarrow> rep F (2 powi k)"
  by (rule repI [of 1 F k]) simp_all

text \<open>
  What the lemmas below need of a format: a significand of at least two bits, 1 a normal
  value, and every integer up to the precision below the overflow bound. Both C formats are
  instances.
\<close>

locale ieee_format =
  fixes F :: fmt
  assumes prec_pos: "1 < prec F"
    and qmin_le: "qmin F + int (prec F) \<le> 1"
    and emax_ge: "int (prec F) < emax F"
begin

lemma rnd_quotient_less:
  assumes "0 < x"
  shows "x / 2 powi quantum F x < 2 ^ prec F"
proof -
  have "x < 2 powi (ilog2 x + 1)" using ilog2_bounds [OF assms] by simp
  also have "\<dots> \<le> 2 powi (int (prec F) + quantum F x)"
    by (rule powi2_mono) (simp add: quantum_def)
  also have "\<dots> = 2 ^ prec F * 2 powi quantum F x"
    by (simp add: power_int_add)
  finally show ?thesis by (simp add: divide_less_eq)
qed

lemma rep_rnd: "rep F (rnd F x)"
proof (cases "x \<le> 0")
  case True
  then show ?thesis by (simp add: rnd_def)
next
  case False
  let ?q = "x / 2 powi quantum F x"
  have "?q \<le> of_int (2 ^ prec F)"
    using rnd_quotient_less [of x] False by simp
  then have "rne ?q \<le> rne (of_int (2 ^ prec F))"
    by (rule rne_mono)
  then have "rne ?q \<le> 2 ^ prec F" by (simp only: rne_of_int)
  moreover have "0 \<le> rne ?q" using False by (intro rne_nonneg) simp
  ultimately show ?thesis
    using False by (intro repI [of "rne ?q" F "quantum F x"]) (simp_all add: rnd_def quantum_ge_qmin)
qed

lemma rnd_nonneg [simp]: "0 \<le> rnd F x"
  by (rule rep_nonneg) (rule rep_rnd)

text \<open>A representable magnitude is a whole number of its own quanta.\<close>

lemma rep_whole_quanta:
  assumes "rep F y" "0 < y"
  obtains n where "y = of_int n * 2 powi quantum F y"
proof -
  obtain m q where m: "0 \<le> m" "m \<le> 2 ^ prec F" "qmin F \<le> q" "y = of_int m * 2 powi q"
    using assms(1) by (auto simp: rep_def)
  have mr: "real_of_int m \<le> 2 ^ prec F" using m(2) by simp
  show ?thesis
  proof (cases "quantum F y \<le> q")
    case True
    have "(2 :: real) powi q = 2 ^ nat (q - quantum F y) * 2 powi quantum F y"
      using True by (simp add: power_int_add [symmetric] flip: power_int_of_nat)
    then have "of_int m * (2 :: real) powi q
        = of_int (m * 2 ^ nat (q - quantum F y)) * 2 powi quantum F y"
      by simp
    with m(4) show ?thesis by (intro that [of "m * 2 ^ nat (q - quantum F y)"]) (simp only:)
  next
    case False
    then have big: "q < ilog2 y + 1 - int (prec F)" using m(3) by (simp add: quantum_def)
    have "(2 :: real) powi ilog2 y \<le> of_int m * 2 powi q" using ilog2_bounds [OF assms(2)] m by simp
    also have "\<dots> \<le> 2 powi (int (prec F) + q)"
      using mr by (simp add: power_int_add mult_right_mono)
    finally have "ilog2 y \<le> int (prec F) + q" by (meson linorder_not_le powi2_less_iff)
    with big have e: "ilog2 y = int (prec F) + q" by simp
    have "of_int m * 2 powi q = 2 ^ prec F * (2 :: real) powi q"
    proof (rule antisym)
      show "of_int m * 2 powi q \<le> 2 ^ prec F * (2 :: real) powi q"
        using mr by (simp add: mult_right_mono)
      show "2 ^ prec F * (2 :: real) powi q \<le> of_int m * 2 powi q"
        using ilog2_bounds(1) [OF assms(2)] e m(4) by (simp add: power_int_add)
    qed
    also have "\<dots> = 2 powi ilog2 y" using e by (simp add: power_int_add)
    finally have y: "y = 2 powi ilog2 y" using m(4) by simp
    show ?thesis
    proof (cases "quantum F y \<le> ilog2 y")
      case True
      have "2 powi ilog2 y = of_int (2 ^ nat (ilog2 y - quantum F y)) * (2 :: real) powi quantum F y"
        using True by (simp add: power_int_add [symmetric] flip: power_int_of_nat)
      with y show ?thesis by (intro that [of "2 ^ nat (ilog2 y - quantum F y)"]) (simp only:)
    next
      case False
      with m(3) e prec_pos show ?thesis by (simp add: quantum_def split: if_splits)
    qed
  qed
qed

lemma rnd_rep:
  assumes "rep F y"
  shows "rnd F y = y"
proof (cases "0 < y")
  case True
  then obtain n where n: "y = of_int n * 2 powi quantum F y"
    using rep_whole_quanta assms by blast
  then have "y / 2 powi quantum F y = of_int n" by (metis nonzero_mult_div_cancel_right powi2_pos less_irrefl)
  with True n show ?thesis by (simp add: rnd_def)
next
  case False
  with rep_nonneg [OF assms] show ?thesis by (simp add: rnd_def)
qed

lemma rnd_idem [simp]: "rnd F (rnd F x) = rnd F x"
  by (rule rnd_rep) (rule rep_rnd)

lemma rep_iff: "rep F y \<longleftrightarrow> rnd F y = y"
  using rnd_rep rep_rnd by metis

lemma rep_1 [simp]: "rep F 1"
  using rep_powi [of F 0] qmin_le prec_pos by simp

lemma rnd_0 [simp]: "rnd F 0 = 0"
  by (simp add: rnd_def)

lemma rnd_1 [simp]: "rnd F 1 = 1"
  by (simp add: rnd_rep)

lemma rep_of_nat:
  assumes "n \<le> 2 ^ prec F"
  shows "rep F (real n)"
proof (rule repI [of "int n" F 0])
  show "int n \<le> 2 ^ prec F" using assms by (metis of_nat_le_iff of_nat_numeral of_nat_power)
qed (use qmin_le prec_pos in auto)

lemma rnd_of_nat: "n \<le> 2 ^ prec F \<Longrightarrow> rnd F (real n) = real n"
  by (rule rnd_rep) (rule rep_of_nat)

text \<open>Rounding is monotone: within a binade by rounding of integers, across by its bound.\<close>

lemma rnd_mono:
  assumes "x \<le> y"
  shows "rnd F x \<le> rnd F y"
proof (cases "0 < x")
  case False
  then show ?thesis by (simp add: rnd_def rnd_nonneg [unfolded rnd_def])
next
  case x: True
  with assms have y: "0 < y" by simp
  show ?thesis
  proof (cases "quantum F x = quantum F y")
    case True
    have "rne (x / 2 powi quantum F y) \<le> rne (y / 2 powi quantum F y)"
      using assms by (intro rne_mono divide_right_mono) simp_all
    then show ?thesis using x y True by (simp add: rnd_def mult_right_mono)
  next
    case False
    then have q: "quantum F x < quantum F y"
      using quantum_mono [OF x assms, of F] by simp
    then have qy: "quantum F y = ilog2 y + 1 - int (prec F)"
      using quantum_ge_qmin [of F x] unfolding quantum_def by linarith
    let ?b = "(2 :: real) powi ilog2 y"
    have "x < ?b"
    proof (rule ccontr)
      assume "\<not> x < ?b"
      then have "ilog2 x = ilog2 y"
        using ilog2_bounds [OF y] assms by (intro ilog2_eqI) simp_all
      with q show False by (simp add: quantum_def)
    qed
    have b: "?b = of_int (2 ^ (prec F - 1)) * 2 powi quantum F y"
    proof -
      have "ilog2 y = int (prec F - 1) + quantum F y" using qy prec_pos by simp
      then show ?thesis by (simp add: power_int_add)
    qed
    have "rne (2 ^ (prec F - 1)) \<le> rne (y / 2 powi quantum F y)"
      using ilog2_bounds(1) [OF y] b by (intro rne_mono) (simp add: pos_le_divide_eq)
    then have "2 ^ (prec F - 1) \<le> rne (y / 2 powi quantum F y)"
      by (metis of_int_numeral of_int_power rne_of_int)
    then have "?b \<le> rnd F y"
      using y unfolding b by (simp add: rnd_def mult_right_mono flip: of_int_le_iff)
    moreover have "rnd F x \<le> ?b"
    proof -
      have "ilog2 x < ilog2 y" using \<open>x < ?b\<close> ilog2_bounds(1) [OF x]
        by (meson le_less_trans powi2_less_iff)
      then have e: "quantum F x \<le> ilog2 y"
        using q qy prec_pos by linarith
      define k where "k = nat (ilog2 y - quantum F x)"
      have bk: "?b = of_int (2 ^ k) * 2 powi quantum F x"
        using e by (simp add: k_def power_int_add [symmetric] flip: power_int_of_nat)
      have "rne (x / 2 powi quantum F x) \<le> rne (of_int (2 ^ k))"
        using \<open>x < ?b\<close> bk by (intro rne_mono) (simp add: pos_divide_le_eq)
      then have "rne (x / 2 powi quantum F x) \<le> 2 ^ k" by (simp only: rne_of_int)
      then show ?thesis
        using x unfolding bk by (simp add: rnd_def mult_right_mono)
    qed
    ultimately show ?thesis by simp
  qed
qed

lemma rnd_le_rep: "x \<le> y \<Longrightarrow> rep F y \<Longrightarrow> rnd F x \<le> y"
  using rnd_mono [of x y] rnd_rep [of y] by simp

lemma rep_le_rnd: "y \<le> x \<Longrightarrow> rep F y \<Longrightarrow> y \<le> rnd F x"
  using rnd_mono [of y x] rnd_rep [of y] by simp

text \<open>The rounding error is at most half a quantum.\<close>

lemma rnd_error:
  assumes "0 \<le> x"
  shows "\<bar>rnd F x - x\<bar> \<le> 2 powi (quantum F x - 1)"
proof (cases "x = 0")
  case True
  then show ?thesis by simp
next
  case False
  let ?u = "(2 :: real) powi quantum F x"
  have "rnd F x - x = (of_int (rne (x / ?u)) - x / ?u) * ?u"
    using False assms by (simp add: rnd_def left_diff_distrib)
  then have "\<bar>rnd F x - x\<bar> = \<bar>of_int (rne (x / ?u)) - x / ?u\<bar> * ?u"
    by (simp only: abs_mult) simp
  also have "\<dots> \<le> 1 / 2 * ?u"
    by (rule mult_right_mono) (rule rne_error, simp)
  also have "\<dots> = 2 powi (quantum F x - 1)"
    by (simp add: power_int_diff)
  finally show ?thesis .
qed

lemma rnd_error_bound:
  assumes "0 \<le> x" "x < 2 powi k" "qmin F \<le> k - int (prec F)"
  shows "\<bar>rnd F x - x\<bar> \<le> 2 powi (k - int (prec F) - 1)"
proof (cases "x = 0")
  case True
  then show ?thesis by simp
next
  case False
  with assms(1) have x: "0 < x" by simp
  have "(2 :: real) powi ilog2 x < 2 powi k"
    using ilog2_bounds(1) [OF x] assms(2) by linarith
  then have "ilog2 x < k" by (simp add: powi2_less_iff)
  then have "quantum F x - 1 \<le> k - int (prec F) - 1" using assms(3) by (simp add: quantum_def)
  then show ?thesis using rnd_error [OF assms(1)] powi2_mono by (meson order_trans)
qed

end

interpretation f32: ieee_format binary32
  by unfold_locales simp_all

interpretation f64: ieee_format binary64
  by unfold_locales simp_all

end
