(* ===== verification/Float_Ops.thy ===== *)
theory Float_Ops
  imports Float_Model
begin

text \<open>
  The floating point values and the operations of C on them: arithmetic, comparison,
  conversion between formats and to unsigned integers (undefined out of range, hence an
  option), the 32-bit pattern that \<open>memcpy\<close> sees, and the facts about them that the audio
  components share.
\<close>

section \<open>Values\<close>

datatype fp = NaN | Inf bool | Fin bool real

primrec fp_val :: "fp \<Rightarrow> real" where
  "fp_val NaN = 0"
| "fp_val (Inf s) = 0"
| "fp_val (Fin s r) = (if s then - r else r)"

primrec fp_isfinite :: "fp \<Rightarrow> bool" where
  "fp_isfinite NaN = False"
| "fp_isfinite (Inf s) = False"
| "fp_isfinite (Fin s r) = True"

primrec fp_isnan :: "fp \<Rightarrow> bool" where
  "fp_isnan NaN = True"
| "fp_isnan (Inf s) = False"
| "fp_isnan (Fin s r) = False"

text \<open>The values a format can hold.\<close>

primrec fp_in :: "fmt \<Rightarrow> fp \<Rightarrow> bool" where
  "fp_in F NaN = True"
| "fp_in F (Inf s) = True"
| "fp_in F (Fin s r) = (rnd F r = r \<and> r < 2 powi emax F)"

section \<open>Arithmetic\<close>

text \<open>One rounding of an exact magnitude; at the overflow bound the result is infinite.\<close>

definition fp_make :: "fmt \<Rightarrow> bool \<Rightarrow> real \<Rightarrow> fp" where
  "fp_make F s x = (let r = rnd F x in if r < 2 powi emax F then Fin s r else Inf s)"

text \<open>One rounding of an exact signed result; \<open>z\<close> is the sign of an exact zero.\<close>

definition fp_round :: "fmt \<Rightarrow> bool \<Rightarrow> real \<Rightarrow> fp" where
  "fp_round F z x = (if x = 0 then Fin z 0 else fp_make F (x < 0) \<bar>x\<bar>)"

primrec fp_neg :: "fp \<Rightarrow> fp" where
  "fp_neg NaN = NaN"
| "fp_neg (Inf s) = Inf (\<not> s)"
| "fp_neg (Fin s r) = Fin (\<not> s) r"

fun fp_add :: "fmt \<Rightarrow> fp \<Rightarrow> fp \<Rightarrow> fp" where
  "fp_add F (Fin s x) (Fin t y) = fp_round F (s \<and> t) (fp_val (Fin s x) + fp_val (Fin t y))"
| "fp_add F (Inf s) (Inf t) = (if s = t then Inf s else NaN)"
| "fp_add F (Inf s) (Fin t y) = Inf s"
| "fp_add F (Fin s x) (Inf t) = Inf t"
| "fp_add F NaN b = NaN"
| "fp_add F a NaN = NaN"

definition fp_sub :: "fmt \<Rightarrow> fp \<Rightarrow> fp \<Rightarrow> fp" where
  "fp_sub F a b = fp_add F a (fp_neg b)"

fun fp_mul :: "fmt \<Rightarrow> fp \<Rightarrow> fp \<Rightarrow> fp" where
  "fp_mul F (Fin s x) (Fin t y) = fp_make F (s \<noteq> t) (x * y)"
| "fp_mul F (Inf s) (Inf t) = Inf (s \<noteq> t)"
| "fp_mul F (Inf s) (Fin t y) = (if y = 0 then NaN else Inf (s \<noteq> t))"
| "fp_mul F (Fin s x) (Inf t) = (if x = 0 then NaN else Inf (s \<noteq> t))"
| "fp_mul F NaN b = NaN"
| "fp_mul F a NaN = NaN"

fun fp_div :: "fmt \<Rightarrow> fp \<Rightarrow> fp \<Rightarrow> fp" where
  "fp_div F (Fin s x) (Fin t y) =
     (if y = 0 then (if x = 0 then NaN else Inf (s \<noteq> t)) else fp_make F (s \<noteq> t) (x / y))"
| "fp_div F (Inf s) (Inf t) = NaN"
| "fp_div F (Inf s) (Fin t y) = Inf (s \<noteq> t)"
| "fp_div F (Fin s x) (Inf t) = Fin (s \<noteq> t) 0"
| "fp_div F NaN b = NaN"
| "fp_div F a NaN = NaN"

text \<open>
  \<open>a * b + c\<close> rounded once: what the compiler may emit where floating point contraction is
  on, as it is by default for the build's Clang.
\<close>

definition fp_fma :: "fmt \<Rightarrow> fp \<Rightarrow> fp \<Rightarrow> fp \<Rightarrow> fp" where
  "fp_fma F a b c =
     (case (a, b, c) of
        (Fin s x, Fin t y, Fin u z) \<Rightarrow>
          fp_round F ((s \<noteq> t) \<and> u) (fp_val (Fin s x) * fp_val (Fin t y) + fp_val (Fin u z))
      | _ \<Rightarrow> fp_add F (fp_mul F a b) c)"

section \<open>Comparison\<close>

fun fp_lt :: "fp \<Rightarrow> fp \<Rightarrow> bool" where
  "fp_lt (Fin s x) (Fin t y) = (fp_val (Fin s x) < fp_val (Fin t y))"
| "fp_lt (Inf s) (Inf t) = (s \<and> \<not> t)"
| "fp_lt (Inf s) (Fin t y) = s"
| "fp_lt (Fin s x) (Inf t) = (\<not> t)"
| "fp_lt NaN b = False"
| "fp_lt a NaN = False"

fun fp_eq :: "fp \<Rightarrow> fp \<Rightarrow> bool" where
  "fp_eq (Fin s x) (Fin t y) = (fp_val (Fin s x) = fp_val (Fin t y))"
| "fp_eq (Inf s) (Inf t) = (s = t)"
| "fp_eq (Inf s) (Fin t y) = False"
| "fp_eq (Fin s x) (Inf t) = False"
| "fp_eq NaN b = False"
| "fp_eq a NaN = False"

definition fp_le :: "fp \<Rightarrow> fp \<Rightarrow> bool" where
  "fp_le a b \<longleftrightarrow> fp_lt a b \<or> fp_eq a b"

section \<open>Conversions\<close>

text \<open>A decimal literal is rounded to its type once; conversion between formats rounds.\<close>

definition fp_lit :: "fmt \<Rightarrow> bool \<Rightarrow> real \<Rightarrow> fp" where
  "fp_lit F s x = fp_make F s x"

definition fp_of_nat :: "fmt \<Rightarrow> nat \<Rightarrow> fp" where
  "fp_of_nat F n = fp_make F False (real n)"

primrec fp_conv :: "fmt \<Rightarrow> fp \<Rightarrow> fp" where
  "fp_conv F NaN = NaN"
| "fp_conv F (Inf s) = Inf s"
| "fp_conv F (Fin s r) = fp_make F s r"

primrec fp_ceil :: "fp \<Rightarrow> fp" where
  "fp_ceil NaN = NaN"
| "fp_ceil (Inf s) = Inf s"
| "fp_ceil (Fin s r) = Fin s (if s then of_int \<lfloor>r\<rfloor> else of_int \<lceil>r\<rceil>)"

text \<open>
  Conversion to an unsigned integer below \<open>n\<close> truncates towards zero; C leaves it undefined
  when the truncated value does not fit, which is \<open>None\<close> here.
\<close>

primrec fp_trunc :: "nat \<Rightarrow> fp \<Rightarrow> nat option" where
  "fp_trunc n NaN = None"
| "fp_trunc n (Inf s) = None"
| "fp_trunc n (Fin s r) =
     (if s then (if r < 1 then Some 0 else None)
      else if \<lfloor>r\<rfloor> < int n then Some (nat \<lfloor>r\<rfloor>) else None)"

section \<open>The 32-bit pattern\<close>

text \<open>Little-endian order is left to the code that packs two patterns into 64 bits.\<close>

definition f32_magnitude :: "real \<Rightarrow> nat" where
  "f32_magnitude r =
     (if r < 2 powi (- 126) then nat \<lfloor>r * 2 ^ 149\<rfloor>
      else nat (ilog2 r + 126) * 2 ^ 23 + nat \<lfloor>r / 2 powi (ilog2 r - 23)\<rfloor>)"

primrec f32_encode :: "fp \<Rightarrow> u32" where
  "f32_encode NaN = 0x7FC00000"
| "f32_encode (Inf s) = of_nat ((if s then 2 ^ 31 else 0) + 255 * 2 ^ 23)"
| "f32_encode (Fin s r) = of_nat ((if s then 2 ^ 31 else 0) + f32_magnitude r)"

definition f32_decode :: "u32 \<Rightarrow> fp" where
  "f32_decode w =
     (let n = unat w; s = (2 ^ 31 \<le> n); e = n div 2 ^ 23 mod 2 ^ 8; m = n mod 2 ^ 23
      in if e = 255 then (if m = 0 then Inf s else NaN)
         else if e = 0 then Fin s (real m * 2 powi (- 149))
         else Fin s (real (2 ^ 23 + m) * 2 powi (int e - 150)))"

section \<open>Basic facts\<close>

lemma fp_val_neg [simp]: "fp_val (fp_neg a) = - fp_val a"
  by (cases a) auto

lemma fp_isfinite_cases:
  assumes "fp_isfinite a"
  obtains s r where "a = Fin s r"
  using assms by (cases a) auto

lemma fp_eq_refl: "\<not> fp_isnan a \<Longrightarrow> fp_eq a a"
  by (cases a) auto

lemma fp_in_nonneg:
  assumes "fp_in F (Fin s r)"
  shows "0 \<le> r"
  using assms by (metis fp_in.simps(3) rnd_def of_int_0_le_iff order_refl linorder_not_le
      mult_nonneg_nonneg powi2_pos order_less_imp_le rne_nonneg zero_le_divide_iff)

context ieee_format
begin

lemma fp_in_iff: "fp_in F (Fin s r) \<longleftrightarrow> rep F r \<and> r < 2 powi emax F"
  by (simp add: rep_iff)

lemma fp_in_make [simp]: "fp_in F (fp_make F s x)"
  by (simp add: fp_make_def Let_def)

lemma fp_in_round [simp]: "fp_in F (fp_round F z x)"
  by (simp add: fp_round_def)

lemma fp_in_add [simp]: "fp_in F a \<Longrightarrow> fp_in F b \<Longrightarrow> fp_in F (fp_add F a b)"
  by (cases "(F, a, b)" rule: fp_add.cases) simp_all

lemma fp_in_neg [simp]: "fp_in F (fp_neg a) = fp_in F a"
  by (cases a) simp_all

lemma fp_in_sub [simp]: "fp_in F a \<Longrightarrow> fp_in F b \<Longrightarrow> fp_in F (fp_sub F a b)"
  by (simp add: fp_sub_def)

lemma fp_in_mul [simp]: "fp_in F (fp_mul F a b)"
  by (cases "(F, a, b)" rule: fp_mul.cases) simp_all

lemma fp_in_div [simp]: "fp_in F (fp_div F a b)"
  by (cases "(F, a, b)" rule: fp_div.cases) simp_all

lemma fp_in_of_nat [simp]: "fp_in F (fp_of_nat F n)"
  by (simp add: fp_of_nat_def)

lemma fp_in_conv [simp]: "fp_in F (fp_conv F a)"
  by (cases a) simp_all

lemma prec_less_emax: "(2 :: real) ^ prec F < 2 powi emax F"
  using powi2_less_iff [of "int (prec F)" "emax F"] emax_ge by simp

text \<open>Magnitudes up to the precision bound round without overflow.\<close>

lemma fp_make_small:
  assumes "x \<le> 2 ^ prec F"
  shows "fp_make F s x = Fin s (rnd F x)"
proof -
  have "rep F (2 ^ prec F)" using rep_of_nat [of "2 ^ prec F"] by simp
  with assms have "rnd F x \<le> 2 ^ prec F" by (rule rnd_le_rep)
  then show ?thesis using prec_less_emax by (simp add: fp_make_def)
qed

lemma fp_make_rep:
  assumes "rep F x" "x < 2 powi emax F"
  shows "fp_make F s x = Fin s x"
  using assms by (simp add: fp_make_def rnd_rep)

lemma fp_of_nat_exact: "n \<le> 2 ^ prec F \<Longrightarrow> fp_of_nat F n = Fin False (real n)"
  using fp_make_small [of "real n" False] rnd_of_nat [of n]
  by (simp add: fp_of_nat_def numeral_power_le_of_nat_cancel_iff)

end

section \<open>Signed rounding\<close>

definition srnd :: "fmt \<Rightarrow> real \<Rightarrow> real" where
  "srnd F x = (if x < 0 then - rnd F (- x) else rnd F x)"

context ieee_format
begin

lemma srnd_mono: "x \<le> y \<Longrightarrow> srnd F x \<le> srnd F y"
  using rnd_mono [of x y] rnd_mono [of "- y" "- x"] rnd_nonneg [of "- x"] rnd_nonneg [of y]
  unfolding srnd_def by (auto intro: order_trans [of "- rnd F (- x)" 0])

lemma srnd_0 [simp]: "srnd F 0 = 0"
  by (simp add: srnd_def)

lemma srnd_rep: "rep F x \<Longrightarrow> srnd F x = x"
  using rep_nonneg [of F x] rnd_rep [of x] by (simp add: srnd_def)

lemma srnd_le_rep: "x \<le> y \<Longrightarrow> rep F y \<Longrightarrow> srnd F x \<le> y"
  using srnd_mono [of x y] srnd_rep [of y] by simp

lemma rep_le_srnd: "y \<le> x \<Longrightarrow> rep F y \<Longrightarrow> y \<le> srnd F x"
  using srnd_mono [of y x] srnd_rep [of y] by simp

lemma srnd_minus: "srnd F (- x) = - srnd F x"
  by (simp add: srnd_def)

lemma srnd_ge_minus_rep: "- y \<le> x \<Longrightarrow> rep F y \<Longrightarrow> - y \<le> srnd F x"
  using srnd_le_rep [of "- x" y] srnd_minus [of x] by simp

lemma srnd_error_bound:
  assumes "\<bar>x\<bar> < 2 powi k" "qmin F \<le> k - int (prec F)"
  shows "\<bar>srnd F x - x\<bar> \<le> 2 powi (k - int (prec F) - 1)"
  using assms rnd_error_bound [of x k] rnd_error_bound [of "- x" k] by (auto simp: srnd_def)

text \<open>An exact result within the precision bound rounds to a finite value.\<close>

lemma fp_round_small:
  assumes "\<bar>x\<bar> \<le> 2 ^ prec F"
  shows "fp_isfinite (fp_round F z x)" "fp_val (fp_round F z x) = srnd F x"
  using fp_make_small [OF assms] by (auto simp: fp_round_def srnd_def)

end

section \<open>The 32-bit pattern determines the value\<close>

definition f32_pattern :: "bool \<Rightarrow> nat \<Rightarrow> nat \<Rightarrow> nat" where
  "f32_pattern s e m = (if s then 2 ^ 31 else 0) + e * 2 ^ 23 + m"

lemma f32_pattern_fields:
  assumes "e < 256" "m < 2 ^ 23"
  shows "f32_pattern s e m < 2 ^ 32"
    and "(2 ^ 31 \<le> f32_pattern s e m) = s"
    and "f32_pattern s e m div 2 ^ 23 mod 2 ^ 8 = e"
    and "f32_pattern s e m mod 2 ^ 23 = m"
proof -
  have e: "e * 2 ^ 23 + m < 2 ^ 31" using assms by simp
  then show "f32_pattern s e m < 2 ^ 32" "(2 ^ 31 \<le> f32_pattern s e m) = s"
    by (simp_all add: f32_pattern_def)
  have p: "f32_pattern s e m = m + ((if s then 256 else 0) + e) * 2 ^ 23"
    by (simp add: f32_pattern_def algebra_simps)
  have d: "f32_pattern s e m div 2 ^ 23 = (if s then 256 else 0) + e"
    unfolding p using assms by simp
  then show "f32_pattern s e m div 2 ^ 23 mod 2 ^ 8 = e" using assms by simp
  show "f32_pattern s e m mod 2 ^ 23 = m"
    unfolding p using assms by (simp only: mod_mult_self1 mod_less)
qed

lemma f32_decode_pattern:
  assumes "e < 256" "m < 2 ^ 23"
  shows "f32_decode (of_nat (f32_pattern s e m)) =
    (if e = 255 then (if m = 0 then Inf s else NaN)
     else if e = 0 then Fin s (real m * 2 powi (- 149))
     else Fin s (real (2 ^ 23 + m) * 2 powi (int e - 150)))"
proof -
  have "unat (of_nat (f32_pattern s e m) :: u32) = f32_pattern s e m"
    using f32_pattern_fields(1) [OF assms] by (intro unat_of_nat_u32) simp
  then show ?thesis
    using f32_pattern_fields [OF assms] unfolding f32_decode_def Let_def by presburger
qed

text \<open>A positive binary32 magnitude is a whole number of quanta; its two layouts.\<close>

lemma f32_subnormal:
  assumes "rep binary32 r" "0 \<le> r" "r < 2 powi (- 126)"
  obtains n where "r = real n * 2 powi (- 149)" "n < 2 ^ 23" "f32_magnitude r = n"
proof (cases "r = 0")
  case True
  then show ?thesis by (intro that [of 0]) (simp_all add: f32_magnitude_def)
next
  case False
  then have r: "0 < r" using assms(2) by simp
  have "(2 :: real) powi ilog2 r < 2 powi (- 126)" using ilog2_bounds(1) [OF r] assms(3) by linarith
  then have "ilog2 r < - 126" by (simp only: powi2_less_iff)
  then have q: "quantum binary32 r = - 149" by (simp add: quantum_def)
  obtain i where i: "r = of_int i * 2 powi (- 149)"
    using f32.rep_whole_quanta [OF assms(1) r] q by metis
  have i0: "0 \<le> i" using i r by (simp add: zero_less_mult_iff)
  have "(2 :: real) powi (- 126) = 2 ^ 23 * 2 powi (- 149)"
    using power_int_add [of "2 :: real" 23 "- 149"] by simp
  then have "real_of_int i * 2 powi (- 149) < 2 ^ 23 * 2 powi (- 149)"
    using assms(3) i by (simp only:)
  then have "real_of_int i < 2 ^ 23" by (simp only: mult_less_cancel_right) auto
  then have i1: "nat i < 2 ^ 23" using i0 by simp
  have "r * 2 ^ 149 = real_of_int i * (2 powi (- 149) * 2 powi 149)" using i by simp
  also have "\<dots> = real_of_int i"
    using power_int_add [of "2 :: real" "- 149" 149] by simp
  finally have "r * 2 ^ 149 = real_of_int i" .
  then have "f32_magnitude r = nat i" using assms(3) by (simp add: f32_magnitude_def)
  with i i0 i1 show ?thesis by (intro that [of "nat i"]) simp_all
qed

lemma f32_normal:
  assumes "rep binary32 r" "2 powi (- 126) \<le> r" "r < 2 powi 128"
  obtains k n where "r = real (2 ^ 23 + n) * 2 powi (k - 23)" "n < 2 ^ 23"
    "- 126 \<le> k" "k \<le> 127" "f32_magnitude r = nat (k + 127) * 2 ^ 23 + n"
proof -
  define k where "k = ilog2 r"
  have r: "0 < r" using assms(2) powi2_pos [of "- 126"] by linarith
  note b = ilog2_bounds [OF r, folded k_def]
  have "(2 :: real) powi (- 126) < 2 powi (k + 1)" "(2 :: real) powi k < 2 powi 128"
    using b assms by linarith+
  then have k: "- 126 \<le> k" "k \<le> 127" by (simp_all only: powi2_less_iff)
  then have q: "quantum binary32 r = k - 23" by (simp add: quantum_def k_def)
  obtain i where i: "r = of_int i * 2 powi (k - 23)"
    using f32.rep_whole_quanta [OF assms(1) r] q by metis
  have u: "(2 :: real) powi k = 2 ^ 23 * 2 powi (k - 23)"
    "(2 :: real) powi (k + 1) = 2 ^ 24 * 2 powi (k - 23)"
    using power_int_add [of "2 :: real" 23 "k - 23"] power_int_add [of "2 :: real" 24 "k - 23"]
    by (simp_all add: add.commute)
  have "2 ^ 23 * 2 powi (k - 23) \<le> real_of_int i * 2 powi (k - 23)"
    "real_of_int i * 2 powi (k - 23) < 2 ^ 24 * 2 powi (k - 23)"
    using b i u by simp_all
  then have "2 ^ 23 \<le> real_of_int i" "real_of_int i < 2 ^ 24"
    by (simp_all add: mult_le_cancel_right mult_less_cancel_right)
  then have ib: "2 ^ 23 \<le> i" "i < 2 ^ 24" by simp_all
  define n where "n = nat (i - 2 ^ 23)"
  have n: "i = 2 ^ 23 + int n" "n < 2 ^ 23" using ib by (simp_all add: n_def)
  have "r / 2 powi (k - 23) = real_of_int i" using i by simp
  then have "f32_magnitude r = nat (k + 126) * 2 ^ 23 + nat i"
    using assms(2) by (simp add: f32_magnitude_def k_def)
  also have "\<dots> = nat (k + 127) * 2 ^ 23 + n" using k n by (simp add: nat_add_distrib)
  finally show ?thesis using i n k by (intro that [of n k]) simp_all
qed

text \<open>Reading back the pattern of a float gives the float: \<open>BitsFloat (FloatBits x) = x\<close>.\<close>

lemma f32_decode_encode:
  assumes "fp_in binary32 a"
  shows "f32_decode (f32_encode a) = a"
proof (cases a)
  case NaN
  show ?thesis using NaN by (simp add: f32_decode_def Let_def)
next
  case (Inf s)
  have "f32_encode a = of_nat (f32_pattern s 255 0)" using Inf by (simp add: f32_pattern_def)
  moreover have "f32_decode (of_nat (f32_pattern s 255 0)) = Inf s"
    by (subst f32_decode_pattern) simp_all
  ultimately show ?thesis using Inf by (simp only:)
next
  case (Fin s r)
  with assms have r: "rep binary32 r" "r < 2 powi 128"
    by (simp_all add: f32.rep_iff del: power_int_numeral)
  show ?thesis
  proof (cases "r < 2 powi (- 126)")
    case True
    then obtain n where n: "r = real n * 2 powi (- 149)" "n < 2 ^ 23" "f32_magnitude r = n"
      using f32_subnormal r rep_nonneg by metis
    have "f32_encode a = of_nat (f32_pattern s 0 n)"
      using Fin n(3) by (simp add: f32_pattern_def)
    moreover have "f32_decode (of_nat (f32_pattern s 0 n)) = Fin s (real n * 2 powi (- 149))"
      using n(2) by (subst f32_decode_pattern) simp_all
    ultimately show ?thesis using Fin n(1) by (simp only:)
  next
    case False
    then obtain k n where n: "r = real (2 ^ 23 + n) * 2 powi (k - 23)" "n < 2 ^ 23"
      "- 126 \<le> k" "k \<le> 127" "f32_magnitude r = nat (k + 127) * 2 ^ 23 + n"
      using f32_normal r by (metis linorder_not_less)
    have e: "nat (k + 127) < 256" "nat (k + 127) \<noteq> 255" "nat (k + 127) \<noteq> 0"
      "int (nat (k + 127)) - 150 = k - 23" using n by simp_all
    have "f32_encode a = of_nat (f32_pattern s (nat (k + 127)) n)"
      using Fin n(5) by (simp add: f32_pattern_def)
    moreover have "f32_decode (of_nat (f32_pattern s (nat (k + 127)) n))
        = Fin s (real (2 ^ 23 + n) * 2 powi (k - 23))"
      using n(2) e by (subst f32_decode_pattern) (simp_all only: if_False)
    ultimately show ?thesis using Fin n(1) by (simp only:)
  qed
qed

section \<open>Decoded samples\<close>

lemma powi2_add: "(2 :: real) powi a * 2 powi b = 2 powi (a + b)"
  by (simp add: power_int_add)

lemma f32_decode_in: "fp_in binary32 (f32_decode w)"
proof -
  have "rep binary32 (real m * 2 powi (- 149)) \<and> real m * 2 powi (- 149) < 2 powi 128" if "m < 2 ^ 23" for m
  proof
    show "rep binary32 (real m * 2 powi (- 149))"
      using that by (intro repI [of "int m" _ "- 149"]) simp_all
    have "real m \<le> 2 powi 23" using that by simp
    then have "real m * 2 powi (- 149) \<le> 2 powi 23 * 2 powi (- 149)" by (rule mult_right_mono) simp
    also have "\<dots> = 2 powi (23 + - 149)" by (rule powi2_add)
    also have "\<dots> < (2 :: real) powi 128" by (simp only: powi2_less_iff)
    finally show "real m * 2 powi (- 149) < 2 powi 128" .
  qed
  moreover have "rep binary32 (real (2 ^ 23 + m) * 2 powi (int e - 150)) \<and>
      real (2 ^ 23 + m) * 2 powi (int e - 150) < 2 powi 128" if "m < 2 ^ 23" "e \<noteq> 0" "e < 255" for m e
  proof
    show "rep binary32 (real (2 ^ 23 + m) * 2 powi (int e - 150))"
      using that by (intro repI [of "int (2 ^ 23 + m)" _ "int e - 150"]) simp_all
    have "real (2 ^ 23 + m) < 2 powi 24" using that(1) by simp
    then have "real (2 ^ 23 + m) * 2 powi (int e - 150) < 2 powi 24 * 2 powi (int e - 150)"
      by (rule mult_strict_right_mono) simp
    also have "\<dots> = 2 powi (24 + (int e - 150))" by (rule powi2_add)
    also have "\<dots> \<le> 2 powi 128" using that by (intro powi2_mono) simp
    finally show "real (2 ^ 23 + m) * 2 powi (int e - 150) < 2 powi 128" .
  qed
  moreover have "unat w div 2 ^ 23 mod 2 ^ 8 < 256" "unat w mod 2 ^ 23 < 2 ^ 23" by simp_all
  ultimately show ?thesis
    by (auto simp: f32_decode_def Let_def f32.fp_in_iff simp del: fp_in.simps(3))
qed

section \<open>Operations within the precision bound\<close>

context ieee_format
begin

lemma fp_add_small:
  assumes "fp_isfinite a" "fp_isfinite b" "\<bar>fp_val a + fp_val b\<bar> \<le> 2 ^ prec F"
  shows "fp_isfinite (fp_add F a b)" "fp_val (fp_add F a b) = srnd F (fp_val a + fp_val b)"
  using assms fp_round_small [OF assms(3)]
  by (cases a; cases b; simp)+

lemma fp_isfinite_neg [simp]: "fp_isfinite (fp_neg a) = fp_isfinite a"
  by (cases a) simp_all

lemma fp_sub_small:
  assumes "fp_isfinite a" "fp_isfinite b" "\<bar>fp_val a - fp_val b\<bar> \<le> 2 ^ prec F"
  shows "fp_isfinite (fp_sub F a b)" "fp_val (fp_sub F a b) = srnd F (fp_val a - fp_val b)"
  using fp_add_small [of a "fp_neg b"] assms by (simp_all add: fp_sub_def)

lemma fp_div_small:
  assumes "fp_in F a" "fp_isfinite a" "b = Fin False y" "0 < y" "\<bar>fp_val a\<bar> / y \<le> 2 ^ prec F"
  shows "fp_isfinite (fp_div F a b)" "fp_val (fp_div F a b) = srnd F (fp_val a / y)"
proof -
  obtain s x where a: "a = Fin s x" using assms(2) by (rule fp_isfinite_cases)
  have x: "0 \<le> x" using assms(1) a fp_in_nonneg by blast
  then have "x / y \<le> 2 ^ prec F" using assms(5) a by (cases s) simp_all
  then have q: "fp_div F a b = Fin s (rnd F (x / y))"
    using a assms(3,4) fp_make_small [of "x / y" s] by simp
  then show "fp_isfinite (fp_div F a b)" by simp
  have "x = 0 \<or> 0 < x / y" using x assms(4) by (cases "x = 0") simp_all
  then show "fp_val (fp_div F a b) = srnd F (fp_val a / y)"
    using q a by (cases s) (auto simp: srnd_def)
qed

end

section \<open>The unit interval\<close>

primrec fp_unit :: "fp \<Rightarrow> bool" where
  "fp_unit NaN = False"
| "fp_unit (Inf s) = False"
| "fp_unit (Fin s r) = (0 \<le> r \<and> r \<le> 1 \<and> (s \<longrightarrow> r = 0))"

lemma fp_unit_cases:
  assumes "fp_unit a"
  obtains s r where "a = Fin s r" "fp_val a = r" "0 \<le> r" "r \<le> 1" "s \<longrightarrow> r = 0"
  using assms by (cases a) auto

end
