(* ===== verification/Volume_Curve.thy ===== *)
theory Volume_Curve
  imports Float_Ops
begin

text \<open>
  \<open>common/VolumeCurve.h\<close>: the mapping between the volume control's scalar, its decibels and
  the linear gain. The two functions of the C mathematics library it calls are the fields of
  a record that every definition takes; \<open>libm_contract\<close> states what their documentation
  promises, and \<open>ideal_libm\<close>, the correctly rounded functions, satisfies it.
\<close>

section \<open>The library functions\<close>

record libm =
  log10f :: "fp \<Rightarrow> fp"
  powf :: "fp \<Rightarrow> fp \<Rightarrow> fp"

abbreviation f32_zero :: fp where "f32_zero \<equiv> Fin False 0"
abbreviation f32_one :: fp where "f32_one \<equiv> Fin False 1"
abbreviation f32_ten :: fp where "f32_ten \<equiv> Fin False 10"

definition SVC_VOLUME_MINIMUM_DECIBELS :: fp where
  "SVC_VOLUME_MINIMUM_DECIBELS = Fin True 96"

definition SVC_VOLUME_MAXIMUM_DECIBELS :: fp where
  "SVC_VOLUME_MAXIMUM_DECIBELS = Fin False 0"

section \<open>The curve\<close>

definition SVCVolumeClampScalar :: "fp \<Rightarrow> fp" where
  "SVCVolumeClampScalar value =
     (if \<not> fp_isfinite value \<or> fp_le value f32_zero then f32_zero
      else if fp_le f32_one value then f32_one else value)"

definition SVCVolumeScalarToDecibels :: "libm \<Rightarrow> fp \<Rightarrow> fp" where
  "SVCVolumeScalarToDecibels L scalar0 =
     (let scalar = SVCVolumeClampScalar scalar0 in
      if fp_eq scalar f32_zero then SVC_VOLUME_MINIMUM_DECIBELS
      else let decibels = fp_mul binary32 (Fin False 40) (log10f L scalar) in
           if fp_lt decibels SVC_VOLUME_MINIMUM_DECIBELS
           then SVC_VOLUME_MINIMUM_DECIBELS else decibels)"

definition SVCVolumeDecibelsToScalar :: "libm \<Rightarrow> fp \<Rightarrow> fp" where
  "SVCVolumeDecibelsToScalar L decibels =
     (if fp_isnan decibels \<or> fp_le decibels SVC_VOLUME_MINIMUM_DECIBELS then f32_zero
      else if fp_le SVC_VOLUME_MAXIMUM_DECIBELS decibels then f32_one
      else powf L f32_ten (fp_div binary32 decibels (Fin False 40)))"

definition SVCVolumeScalarToGain :: "libm \<Rightarrow> fp \<Rightarrow> fp" where
  "SVCVolumeScalarToGain L scalar0 =
     (let scalar = SVCVolumeClampScalar scalar0 in
      if fp_eq scalar f32_zero then f32_zero
      else powf L f32_ten
             (fp_div binary32 (SVCVolumeScalarToDecibels L scalar) (Fin False 20)))"

section \<open>Clamping\<close>

lemma rep32_of_nat: "n \<le> 2 ^ 24 \<Longrightarrow> rep binary32 (real n)"
  using f32.rep_of_nat [of n] by simp

lemma rep32_numeral [simp]: "numeral k \<le> (2 ^ 24 :: nat) \<Longrightarrow> rep binary32 (numeral k)"
  using rep32_of_nat [of "numeral k"] by simp

lemma clamp_cases:
  obtains (zero) "SVCVolumeClampScalar v = f32_zero" "\<not> fp_isfinite v \<or> fp_val v \<le> 0"
  | (one) "SVCVolumeClampScalar v = f32_one" "fp_isfinite v" "1 \<le> fp_val v"
  | (inside) "SVCVolumeClampScalar v = v" "fp_isfinite v" "0 < fp_val v" "fp_val v < 1"
proof (cases "fp_isfinite v")
  case True
  then obtain s r where "v = Fin s r" by (rule fp_isfinite_cases)
  then have "SVCVolumeClampScalar v =
      (if fp_val v \<le> 0 then f32_zero else if 1 \<le> fp_val v then f32_one else v)"
    by (auto simp add: SVCVolumeClampScalar_def fp_le_def)
  with True show ?thesis
    using that by (cases "fp_val v \<le> 0"; cases "1 \<le> fp_val v") simp_all
qed (use that in \<open>auto simp: SVCVolumeClampScalar_def\<close>)

text \<open>A positive finite value of a format has a clear sign bit.\<close>

lemma fp_in_positive:
  assumes "fp_in F v" "fp_isfinite v" "0 < fp_val v"
  shows "v = Fin False (fp_val v)"
  using assms fp_in_nonneg by (cases v) (force simp del: fp_in.simps)+

lemma clamp_unit:
  assumes "fp_in binary32 v"
  shows "fp_unit (SVCVolumeClampScalar v)"
proof (cases v rule: clamp_cases)
  case inside
  then show ?thesis using fp_in_positive [OF assms] by (metis fp_unit.simps(3) order_less_imp_le)
qed simp_all

lemma clamp_idem: "SVCVolumeClampScalar (SVCVolumeClampScalar v) = SVCVolumeClampScalar v"
  by (cases v rule: clamp_cases) (simp_all add: SVCVolumeClampScalar_def fp_le_def)

lemma fp_in_zero_one [simp]: "fp_in binary32 f32_zero" "fp_in binary32 f32_one"
  by simp_all

lemma clamp_fp_in: "fp_in binary32 v \<Longrightarrow> fp_in binary32 (SVCVolumeClampScalar v)"
  by (cases v rule: clamp_cases) (simp_all del: fp_in.simps)

section \<open>The contract of the library functions\<close>

text \<open>
  \<open>neg_fp lo a\<close>: a finite value between \<open>- lo\<close> and zero. The contract, for the arguments
  the curve passes: \<open>log10f\<close> is exactly zero at one, finite and not positive on the rest of
  the unit interval; \<open>powf\<close> with base ten is exactly one at zero and stays in the unit
  interval on non-positive exponents.
\<close>

definition fp_nonpos :: "fp \<Rightarrow> bool" where
  "fp_nonpos a \<longleftrightarrow> fp_isfinite a \<and> fp_val a \<le> 0"

locale libm_contract =
  fixes L :: libm
  assumes log10f_one: "fp_val (log10f L f32_one) = 0 \<and> fp_isfinite (log10f L f32_one)"
    and log10f_unit: "rep binary32 r \<Longrightarrow> 0 < r \<Longrightarrow> r < 1 \<Longrightarrow>
      fp_in binary32 (log10f L (Fin False r)) \<and> fp_nonpos (log10f L (Fin False r)) \<and>
      - 46 \<le> fp_val (log10f L (Fin False r))"
    and powf_zero: "powf L f32_ten (Fin s 0) = f32_one"
    and powf_nonpos: "fp_in binary32 y \<Longrightarrow> fp_nonpos y \<Longrightarrow>
      fp_in binary32 (powf L f32_ten y) \<and> fp_unit (powf L f32_ten y)"

text \<open>A library whose two functions are also monotone.\<close>

locale libm_monotone = libm_contract +
  assumes log10f_mono: "rep binary32 r \<Longrightarrow> rep binary32 t \<Longrightarrow> 0 < r \<Longrightarrow> r \<le> t \<Longrightarrow> t \<le> 1 \<Longrightarrow>
      fp_val (log10f L (Fin False r)) \<le> fp_val (log10f L (Fin False t))"
    and powf_mono: "fp_in binary32 y \<Longrightarrow> fp_in binary32 z \<Longrightarrow> fp_nonpos y \<Longrightarrow> fp_nonpos z \<Longrightarrow>
      fp_val y \<le> fp_val z \<Longrightarrow> fp_val (powf L f32_ten y) \<le> fp_val (powf L f32_ten z)"

section \<open>The curve under the contract\<close>

lemma fp_div_nonpos:
  assumes "fp_in binary32 y" "fp_nonpos y" "- (2 ^ 24) \<le> fp_val y" "1 \<le> n"
  shows "fp_in binary32 (fp_div binary32 y (Fin False n))"
    and "fp_nonpos (fp_div binary32 y (Fin False n))"
    and "fp_val (fp_div binary32 y (Fin False n)) = - rnd binary32 (- fp_val y / n)"
proof -
  obtain s r where y: "y = Fin s r" using assms(2) by (auto simp: fp_nonpos_def elim: fp_isfinite_cases)
  have r0: "0 \<le> r" using assms(1) y fp_in_nonneg by blast
  with assms(2) y have rv: "- fp_val y = r" by (cases s) (simp_all add: fp_nonpos_def)
  have s: "s \<or> r = 0" using rv y by (cases s) simp_all
  have "r / n \<le> r" using r0 assms(4) by (simp add: divide_le_eq mult_le_cancel_left1)
  then have "r / n \<le> 2 ^ 24" using rv assms(3) by linarith
  then have m: "fp_make binary32 s (r / n) = Fin s (rnd binary32 (r / n))"
    using f32.fp_make_small [of "r / n" s] by simp
  show "fp_in binary32 (fp_div binary32 y (Fin False n))" by (rule f32.fp_in_div)
  have d: "fp_div binary32 y (Fin False n) = Fin s (rnd binary32 (r / n))"
    using m y assms(4) by simp
  show "fp_nonpos (fp_div binary32 y (Fin False n))"
    unfolding d using s by (cases s) (simp_all add: fp_nonpos_def)
  show "fp_val (fp_div binary32 y (Fin False n)) = - rnd binary32 (- fp_val y / n)"
    unfolding d rv using s by (cases s) simp_all
qed

context libm_contract
begin

text \<open>The decibels of a positive scalar: the rounded product, floored at the minimum.\<close>

lemma decibels_props:
  assumes "fp_in binary32 v"
  shows "fp_in binary32 (SVCVolumeScalarToDecibels L v) \<and>
    fp_nonpos (SVCVolumeScalarToDecibels L v) \<and>
    - 96 \<le> fp_val (SVCVolumeScalarToDecibels L v)"
proof -
  let ?c = "SVCVolumeClampScalar v"
  have min: "fp_in binary32 SVC_VOLUME_MINIMUM_DECIBELS" "fp_nonpos SVC_VOLUME_MINIMUM_DECIBELS"
    "fp_val SVC_VOLUME_MINIMUM_DECIBELS = - 96"
    by (simp_all add: SVC_VOLUME_MINIMUM_DECIBELS_def fp_nonpos_def f32.rnd_rep)
  show ?thesis
  proof (cases "fp_eq ?c f32_zero")
    case True
    with min show ?thesis by (simp add: SVCVolumeScalarToDecibels_def)
  next
    case False
    have c: "fp_in binary32 ?c" "fp_unit ?c" using assms clamp_fp_in clamp_unit by blast+
    then obtain r where r: "?c = Fin False r" "0 < r" "r \<le> 1" "rep binary32 r"
      using False by (cases ?c) (auto simp: f32.rep_iff split: if_splits)
    have "fp_in binary32 (log10f L ?c) \<or> r = 1" "fp_nonpos (log10f L ?c)" "- 46 \<le> fp_val (log10f L ?c)"
      using r log10f_unit [of r] log10f_one by (cases "r = 1"; auto simp: fp_nonpos_def)+
    then obtain s l where l: "log10f L ?c = Fin s l" and lb: "- 46 \<le> fp_val (Fin s l)" "fp_val (Fin s l) \<le> 0"
      and l0: "r = 1 \<or> 0 \<le> l"
      using fp_in_nonneg by (cases "log10f L ?c") (auto simp: fp_nonpos_def simp del: fp_in.simps)
    define d where "d = fp_mul binary32 (Fin False 40) (Fin s l)"
    have "l = 0 \<or> (s \<and> 0 < l \<and> l \<le> 46)"
      using lb l0 r(1) log10f_one l by (cases "r = 1"; cases s; auto)
    then have "fp_nonpos d" "fp_in binary32 d"
      using f32.fp_make_small [of "40 * l" s] by (auto simp: d_def fp_nonpos_def)
    moreover have "SVCVolumeScalarToDecibels L v =
        (if fp_lt d SVC_VOLUME_MINIMUM_DECIBELS then SVC_VOLUME_MINIMUM_DECIBELS else d)"
      using False l by (simp add: SVCVolumeScalarToDecibels_def Let_def d_def)
    moreover have "fp_lt d SVC_VOLUME_MINIMUM_DECIBELS \<longleftrightarrow> fp_val d < - 96"
      using \<open>fp_nonpos d\<close> by (cases d) (simp_all add: SVC_VOLUME_MINIMUM_DECIBELS_def fp_nonpos_def)
    ultimately show ?thesis using min by simp
  qed
qed

lemma gain_unit:
  assumes "fp_in binary32 v"
  shows "fp_in binary32 (SVCVolumeScalarToGain L v) \<and> fp_unit (SVCVolumeScalarToGain L v)"
proof -
  note d = decibels_props [OF clamp_fp_in [OF assms]]
  have "fp_in binary32 (fp_div binary32 (SVCVolumeScalarToDecibels L (SVCVolumeClampScalar v)) (Fin False 20))"
    "fp_nonpos (fp_div binary32 (SVCVolumeScalarToDecibels L (SVCVolumeClampScalar v)) (Fin False 20))"
    using d by (intro fp_div_nonpos; simp)+
  then show ?thesis
    using powf_nonpos by (simp add: SVCVolumeScalarToGain_def Let_def)
qed

lemma scalar_of_decibels_unit:
  assumes "fp_in binary32 d"
  shows "fp_in binary32 (SVCVolumeDecibelsToScalar L d) \<and> fp_unit (SVCVolumeDecibelsToScalar L d)"
proof (cases "fp_isfinite d \<and> - 96 < fp_val d \<and> fp_val d < 0")
  case True
  then have n: "fp_nonpos d" by (simp add: fp_nonpos_def)
  have "SVCVolumeDecibelsToScalar L d = powf L f32_ten (fp_div binary32 d (Fin False 40))"
    using True by (cases d) (auto simp: SVCVolumeDecibelsToScalar_def fp_le_def
        SVC_VOLUME_MINIMUM_DECIBELS_def SVC_VOLUME_MAXIMUM_DECIBELS_def)
  then show ?thesis
    using powf_nonpos fp_div_nonpos [OF assms n] True by simp
next
  case False
  then have "SVCVolumeDecibelsToScalar L d = f32_zero \<or> SVCVolumeDecibelsToScalar L d = f32_one"
    by (cases d) (auto simp: SVCVolumeDecibelsToScalar_def fp_le_def
        SVC_VOLUME_MINIMUM_DECIBELS_def SVC_VOLUME_MAXIMUM_DECIBELS_def)
  then show ?thesis by auto
qed

end

section \<open>Endpoints\<close>

context libm_contract
begin

lemma log10f_shape:
  assumes "rep binary32 x" "0 < x" "x \<le> 1"
  obtains s y where "log10f L (Fin False x) = Fin s y" "s \<and> 0 \<le> y \<and> y \<le> 46 \<or> y = 0"
proof (cases "x = 1")
  case True
  obtain s y where "log10f L f32_one = Fin s y" using log10f_one fp_isfinite_cases by blast
  with True log10f_one that [of s y] show ?thesis by (cases s) simp_all
next
  case False
  with assms have x: "x < 1" by simp
  note l = log10f_unit [OF assms(1,2) x]
  obtain s y where y: "log10f L (Fin False x) = Fin s y"
    using l fp_isfinite_cases by (auto simp: fp_nonpos_def)
  have "0 \<le> y" using l y fp_in_nonneg by metis
  with l y that [of s y] show ?thesis by (cases s) (simp_all add: fp_nonpos_def)
qed

lemma decibels_one: "fp_val (SVCVolumeScalarToDecibels L f32_one) = 0 \<and>
    fp_isfinite (SVCVolumeScalarToDecibels L f32_one)"
proof -
  obtain s l where l: "log10f L f32_one = Fin s l" "l = 0"
    using log10f_one by (cases "log10f L f32_one") (auto split: if_splits)
  have "SVCVolumeClampScalar f32_one = f32_one"
    by (simp add: SVCVolumeClampScalar_def fp_le_def)
  then show ?thesis
    using l f32.fp_make_small [of 0 s]
    by (simp add: SVCVolumeScalarToDecibels_def Let_def SVC_VOLUME_MINIMUM_DECIBELS_def)
qed

lemma gain_one: "SVCVolumeScalarToGain L f32_one = f32_one"
proof -
  obtain s where d: "SVCVolumeScalarToDecibels L f32_one = Fin s 0"
    using decibels_one by (cases "SVCVolumeScalarToDecibels L f32_one") (auto split: if_splits)
  have "SVCVolumeClampScalar f32_one = f32_one"
    by (simp add: SVCVolumeClampScalar_def fp_le_def)
  moreover have "fp_div binary32 (Fin s 0) (Fin False 20) = Fin s 0"
    using f32.fp_make_small [of 0 s] by simp
  ultimately show ?thesis
    using d powf_zero by (simp add: SVCVolumeScalarToGain_def Let_def)
qed

end

lemma gain_zero: "SVCVolumeScalarToGain L f32_zero = f32_zero"
  by (simp add: SVCVolumeScalarToGain_def SVCVolumeClampScalar_def fp_le_def)

section \<open>Monotonicity\<close>

context libm_monotone
begin

lemma decibels_mono:
  assumes v: "fp_in binary32 v" "fp_in binary32 w" "0 < fp_val v" "fp_val v \<le> fp_val w" "fp_val w \<le> 1"
  shows "fp_val (SVCVolumeScalarToDecibels L v) \<le> fp_val (SVCVolumeScalarToDecibels L w)"
proof -
  obtain r t where r: "v = Fin False r" "w = Fin False t" "0 < r" "r \<le> t" "t \<le> 1"
      "rep binary32 r" "rep binary32 t"
  proof -
    have "fp_isfinite v" "fp_isfinite w" using v(3,4) by (cases v; cases w; simp)+
    then have "v = Fin False (fp_val v)" "w = Fin False (fp_val w)"
      using v fp_in_positive [of binary32] by auto
    then show ?thesis using that v f32.fp_in_iff by metis
  qed
  have eq: "fp_val (SVCVolumeScalarToDecibels L (Fin False x)) =
      max (- 96) (srnd binary32 (40 * fp_val (log10f L (Fin False x))))"
    if x: "0 < x" "x \<le> 1" "rep binary32 x" for x
  proof -
    have c: "SVCVolumeClampScalar (Fin False x) = Fin False x"
      using x by (auto simp: SVCVolumeClampScalar_def fp_le_def)
    obtain s y where y: "log10f L (Fin False x) = Fin s y" "s \<and> 0 \<le> y \<and> y \<le> 46 \<or> y = 0"
      using log10f_shape [OF x(3,1,2)] .
    have m: "fp_make binary32 s (40 * y) = Fin s (rnd binary32 (40 * y))"
      using y f32.fp_make_small [of "40 * y" s] by auto
    show ?thesis
      using y(2) x by (auto simp: SVCVolumeScalarToDecibels_def Let_def c y(1) m srnd_def
          SVC_VOLUME_MINIMUM_DECIBELS_def)
  qed
  have "srnd binary32 (40 * fp_val (log10f L (Fin False r)))
      \<le> srnd binary32 (40 * fp_val (log10f L (Fin False t)))"
    using log10f_mono [of r t] r by (intro f32.srnd_mono) simp
  then show ?thesis using r eq [of r] eq [of t] by (simp add: max_def)
qed

lemma gain_mono:
  assumes "fp_in binary32 v" "fp_in binary32 w" "fp_isfinite v" "fp_isfinite w" "fp_val v \<le> fp_val w"
  shows "fp_val (SVCVolumeScalarToGain L v) \<le> fp_val (SVCVolumeScalarToGain L w)"
proof -
  let ?c = SVCVolumeClampScalar
  have c: "fp_in binary32 (?c v)" "fp_in binary32 (?c w)" "fp_unit (?c v)" "fp_unit (?c w)"
    using assms clamp_fp_in clamp_unit by blast+
  have cv: "fp_val (?c v) \<le> fp_val (?c w)"
    using assms by (cases v rule: clamp_cases; cases w rule: clamp_cases) auto
  show ?thesis
  proof (cases "fp_val (?c v) = 0")
    case True
    then have "SVCVolumeScalarToGain L v = f32_zero"
      using c(3) by (cases "?c v") (auto simp: SVCVolumeScalarToGain_def)
    moreover have "0 \<le> fp_val (SVCVolumeScalarToGain L w)"
      using gain_unit [OF assms(2)] by (auto elim: fp_unit_cases)
    ultimately show ?thesis by simp
  next
    case False
    then have p: "0 < fp_val (?c v)" using c(3) by (auto elim: fp_unit_cases)
    have w1: "fp_val (?c w) \<le> 1" using c(4) by (auto elim: fp_unit_cases)
    let ?d = "\<lambda>x. SVCVolumeScalarToDecibels L (?c x)"
    have d: "fp_val (?d v) \<le> fp_val (?d w)"
      using decibels_mono [OF c(1,2) p cv w1] .
    have q: "fp_in binary32 (fp_div binary32 (?d x) (Fin False 20))"
      "fp_nonpos (fp_div binary32 (?d x) (Fin False 20))"
      "fp_val (fp_div binary32 (?d x) (Fin False 20)) = - rnd binary32 (- fp_val (?d x) / 20)"
      if "fp_in binary32 (?c x)" for x
      using decibels_props [OF that] by (intro fp_div_nonpos; simp)+
    have "rnd binary32 (- fp_val (?d w) / 20) \<le> rnd binary32 (- fp_val (?d v) / 20)"
      using d by (intro f32.rnd_mono) simp
    then have "fp_val (powf L f32_ten (fp_div binary32 (?d v) (Fin False 20)))
        \<le> fp_val (powf L f32_ten (fp_div binary32 (?d w) (Fin False 20)))"
      using powf_mono q [OF c(1)] q [OF c(2)] by simp
    moreover have "\<not> fp_eq (?c v) f32_zero" "\<not> fp_eq (?c w) f32_zero"
      using p cv by (cases "?c v"; cases "?c w"; simp)+
    ultimately show ?thesis by (simp add: SVCVolumeScalarToGain_def Let_def)
  qed
qed

end

end
