(* ===== verification/Volume_Laws.thy ===== *)
theory Volume_Laws
  imports Volume_Curve
begin

text \<open>
  The correctly rounded library functions satisfy the contract of the volume curve, and under
  them the gain is the square of the scalar up to a stated error. The properties of the curve.
\<close>

section \<open>The correctly rounded library\<close>

text \<open>\<open>powf\<close> is given on the positive finite bases; the curve passes only ten.\<close>

definition ideal_libm :: libm where
  "ideal_libm = \<lparr>
     log10f = (\<lambda>a. case a of
         Fin s r \<Rightarrow> (if r = 0 then Inf True
                    else if s then NaN else fp_round binary32 False (log 10 r))
       | Inf s \<Rightarrow> (if s then NaN else Inf False)
       | NaN \<Rightarrow> NaN),
     powf = (\<lambda>a b. case (a, b) of
         (Fin False x, Fin s y) \<Rightarrow>
            (if x = 0 then NaN else fp_make binary32 False (x powr fp_val (Fin s y)))
       | _ \<Rightarrow> NaN)\<rparr>"

lemma log10f_ideal:
  "0 < r \<Longrightarrow> log10f ideal_libm (Fin False r) = fp_round binary32 False (log 10 r)"
  by (simp add: ideal_libm_def)

lemma powf_ideal:
  "fp_isfinite y \<Longrightarrow> powf ideal_libm f32_ten y = fp_make binary32 False (10 powr fp_val y)"
  by (cases y) (simp_all add: ideal_libm_def)

lemma rep32_positive_min:
  assumes "rep binary32 r" "0 < r"
  shows "2 powi (- 149) \<le> r"
proof -
  obtain m q where m: "r = of_int m * 2 powi q" "- 149 \<le> q" "0 \<le> m"
    using assms(1) by (auto simp: rep_def)
  then have "1 \<le> m" using assms(2) by (cases "m = 0") simp_all
  then have "1 * 2 powi q \<le> real_of_int m * 2 powi q" by (intro mult_right_mono) simp_all
  with m(1) have "2 powi q \<le> r" by simp
  with powi2_mono [OF m(2)] show ?thesis by (rule order_trans)
qed

lemma log10_unit_bounds:
  assumes "rep binary32 r" "0 < r" "r \<le> 1"
  shows "- 46 \<le> log 10 r" "log 10 r \<le> 0"
proof -
  have "(10 :: real) powr (- 46) = inverse (10 ^ 46)"
    by (simp add: powr_minus powr_numeral)
  also have "\<dots> \<le> 2 powi (- 149)" by simp
  finally have "10 powr (- 46) \<le> r" using rep32_positive_min [OF assms(1,2)] by linarith
  then show "- 46 \<le> log 10 r" using assms(2) by (simp add: le_log_iff)
  show "log 10 r \<le> 0" using assms by simp
qed

lemma rep32_46 [simp]: "rep binary32 46" by simp

lemma log10f_ideal_val:
  assumes "rep binary32 r" "0 < r" "r \<le> 1"
  shows "fp_isfinite (log10f ideal_libm (Fin False r))"
    "fp_val (log10f ideal_libm (Fin False r)) = srnd binary32 (log 10 r)"
  using log10_unit_bounds [OF assms] assms
  by (simp_all add: log10f_ideal f32.fp_round_small)

lemma powf_ideal_val:
  assumes "fp_nonpos y"
  shows "powf ideal_libm f32_ten y = Fin False (rnd binary32 (10 powr fp_val y))"
    "rnd binary32 (10 powr fp_val y) \<le> 1"
proof -
  have "(10 :: real) powr fp_val y \<le> 1"
    using assms powr_mono [of "fp_val y" 0 "10 :: real"] by (simp add: fp_nonpos_def)
  then show "rnd binary32 (10 powr fp_val y) \<le> 1"
    "powf ideal_libm f32_ten y = Fin False (rnd binary32 (10 powr fp_val y))"
    using assms f32.fp_make_small [of "10 powr fp_val y"] f32.rnd_le_rep [of _ 1]
    by (simp_all add: powf_ideal fp_nonpos_def)
qed

interpretation ideal: libm_monotone ideal_libm
proof unfold_locales
  show "fp_val (log10f ideal_libm f32_one) = 0 \<and> fp_isfinite (log10f ideal_libm f32_one)"
    by (simp add: log10f_ideal fp_round_def)
next
  fix r :: real
  assume r: "rep binary32 r" "0 < r" "r < 1"
  note b = log10_unit_bounds [OF r(1,2) less_imp_le [OF r(3)]]
  note v = log10f_ideal_val [OF r(1,2) less_imp_le [OF r(3)]]
  have "- 46 \<le> srnd binary32 (log 10 r)" using b by (intro f32.srnd_ge_minus_rep) simp_all
  moreover have "srnd binary32 (log 10 r) \<le> 0" using b by (intro f32.srnd_le_rep) simp_all
  ultimately show "fp_in binary32 (log10f ideal_libm (Fin False r)) \<and>
      fp_nonpos (log10f ideal_libm (Fin False r)) \<and>
      - 46 \<le> fp_val (log10f ideal_libm (Fin False r))"
    using v r by (simp add: fp_nonpos_def log10f_ideal)
next
  fix s
  show "powf ideal_libm f32_ten (Fin s 0) = f32_one"
    using f32.fp_make_small [of 1 False] by (simp add: powf_ideal)
next
  fix y
  assume "fp_in binary32 y" "fp_nonpos y"
  then show "fp_in binary32 (powf ideal_libm f32_ten y) \<and> fp_unit (powf ideal_libm f32_ten y)"
    using powf_ideal_val [of y] by simp
next
  fix r t :: real
  assume a: "rep binary32 r" "rep binary32 t" "0 < r" "r \<le> t" "t \<le> 1"
  then have "log 10 r \<le> log 10 t" by simp
  then show "fp_val (log10f ideal_libm (Fin False r)) \<le> fp_val (log10f ideal_libm (Fin False t))"
    using a by (simp add: log10f_ideal_val f32.srnd_mono)
next
  fix y z
  assume "fp_nonpos y" "fp_nonpos z" "fp_val y \<le> fp_val z"
  then show "fp_val (powf ideal_libm f32_ten y) \<le> fp_val (powf ideal_libm f32_ten z)"
    by (simp add: powf_ideal_val f32.rnd_mono powr_mono)
qed

section \<open>The square law\<close>

lemma ten_powr_lipschitz:
  assumes "b \<le> a" "a \<le> 0"
  shows "10 powr a - 10 powr b \<le> 9 * (a - b :: real)"
proof -
  have ln10: "ln (10 :: real) \<le> 9" using ln_le_minus_one [of 10] by simp
  have "10 powr b = 10 powr a * (10 powr (b - a) :: real)"
    by (simp add: powr_add [symmetric])
  then have "10 powr a - 10 powr b = 10 powr a * (1 - 10 powr (b - a) :: real)"
    by (simp add: right_diff_distrib)
  also have "\<dots> \<le> 1 * (1 - 10 powr (b - a))"
    using assms powr_mono [of a 0 "10 :: real"] powr_mono [of "b - a" 0 "10 :: real"]
    by (intro mult_right_mono) simp_all
  also have "\<dots> \<le> (a - b) * ln 10"
  proof -
    have "1 + (b - a) * ln 10 \<le> exp ((b - a) * ln 10)" by (rule exp_ge_add_one_self)
    then have "1 + (b - a) * ln 10 \<le> 10 powr (b - a)" by (simp add: powr_def)
    then show ?thesis by (simp add: left_diff_distrib)
  qed
  also have "\<dots> \<le> (a - b) * 9" using assms ln10 by (intro mult_left_mono) simp_all
  finally show ?thesis by simp
qed

lemma ten_powr_close:
  assumes "\<bar>a - b\<bar> \<le> e" "a \<le> 0" "b \<le> 0"
  shows "\<bar>10 powr a - 10 powr b :: real\<bar> \<le> 9 * e"
proof (cases "a \<le> b")
  case True
  then have "(10 :: real) powr a \<le> 10 powr b" by (intro powr_mono) simp_all
  moreover have "10 powr b - 10 powr a \<le> 9 * (b - a)" by (rule ten_powr_lipschitz) fact+
  moreover have "b - a \<le> e" using assms(1) by linarith
  ultimately show ?thesis by simp
next
  case False
  then have "(10 :: real) powr b \<le> 10 powr a" by (intro powr_mono) simp_all
  moreover have "10 powr a - 10 powr b \<le> 9 * (a - b)"
    using False assms(2) by (intro ten_powr_lipschitz) simp_all
  moreover have "a - b \<le> e" using assms(1) by linarith
  ultimately show ?thesis by simp
qed

text \<open>
  The decibels are close to forty times the logarithm, with the floor: below it the two roundings
  stay within the same distance of \<open>-96\<close>, as rounding is monotone.
\<close>

lemma floored_product_close:
  fixes x :: real
  assumes "x \<le> 0"
  shows "\<bar>max (- 96) (srnd binary32 (40 * srnd binary32 x)) - max (- 96) (40 * x)\<bar> \<le> 40 * 2 powi (- 23) + 2 powi (- 18)"
proof -
  define f where "f = (\<lambda>x. srnd binary32 (40 * srnd binary32 x))"
  have mono: "f a \<le> f b" if "a \<le> b" for a b
    unfolding f_def using that by (intro f32.srnd_mono mult_left_mono) simp_all
  have close: "\<bar>f a - 40 * a\<bar> \<le> 40 * 2 powi (- 23) + 2 powi (- 18)" if a: "- 12 / 5 \<le> a" "a \<le> 0" for a
  proof -
    have e1: "\<bar>srnd binary32 a - a\<bar> \<le> 2 powi (- 23)"
      using f32.srnd_error_bound [of a 2] a by simp
    have "srnd binary32 a \<le> 0" using f32.srnd_le_rep [of a 0] a by simp
    then have "\<bar>40 * srnd binary32 a\<bar> < 2 powi 7" using e1 a by (simp add: abs_if split: if_splits)
    then have e2: "\<bar>f a - 40 * srnd binary32 a\<bar> \<le> 2 powi (- 18)"
      using f32.srnd_error_bound [of "40 * srnd binary32 a" 7] by (simp add: f_def)
    have "\<bar>f a - 40 * a\<bar> \<le> \<bar>f a - 40 * srnd binary32 a\<bar> + 40 * \<bar>srnd binary32 a - a\<bar>" by (simp add: abs_if)
    also have "\<dots> \<le> 2 powi (- 18) + 40 * 2 powi (- 23)"
      using e1 e2 by (intro add_mono mult_left_mono) simp_all
    finally show ?thesis by simp
  qed
  show ?thesis
  proof (cases "- 12 / 5 \<le> x")
    case True
    then show ?thesis using close [OF True assms] unfolding f_def by (simp add: max_def abs_if split: if_splits)
  next
    case False
    then have "f x \<le> f (- 12 / 5)" by (intro mono) simp
    also have "\<dots> \<le> - 96 + (40 * 2 powi (- 23) + 2 powi (- 18))" using close [of "- 12 / 5"] by (simp add: abs_if split: if_splits)
    finally show ?thesis using False unfolding f_def by (simp add: max_def)
  qed
qed

lemma decibels_close:
  assumes r: "rep binary32 r" "0 < r" "r \<le> 1"
  shows "\<bar>fp_val (SVCVolumeScalarToDecibels ideal_libm (Fin False r)) - max (- 96) (40 * log 10 r)\<bar>
    \<le> 40 * 2 powi (- 23) + 2 powi (- 18)"
proof -
  have c: "SVCVolumeClampScalar (Fin False r) = Fin False r"
    using r by (auto simp: SVCVolumeClampScalar_def fp_le_def)
  obtain s y where y: "log10f ideal_libm (Fin False r) = Fin s y" "s \<and> 0 \<le> y \<and> y \<le> 46 \<or> y = 0"
    using ideal.log10f_shape [OF r] .
  have l: "fp_val (Fin s y) = srnd binary32 (log 10 r)" using log10f_ideal_val(2) [OF r] y by simp
  have m: "fp_make binary32 s (40 * y) = Fin s (rnd binary32 (40 * y))"
    using y f32.fp_make_small [of "40 * y" s] by auto
  have "fp_val (SVCVolumeScalarToDecibels ideal_libm (Fin False r)) = max (- 96) (srnd binary32 (40 * fp_val (Fin s y)))"
    using y r by (auto simp: SVCVolumeScalarToDecibels_def Let_def c m srnd_def SVC_VOLUME_MINIMUM_DECIBELS_def)
  then show ?thesis unfolding l using floored_product_close [of "log 10 r"] log10_unit_bounds [OF r] by simp
qed

lemma gain_square_error:
  assumes r: "rep binary32 r" "0 < r" "r \<le> 1"
  shows "\<bar>fp_val (SVCVolumeScalarToGain ideal_libm (Fin False r)) - max (r\<^sup>2) (10 powr (- 24 / 5))\<bar> \<le> 1 / 100000"
proof -
  let ?D = "SVCVolumeScalarToDecibels ideal_libm (Fin False r)" and ?x = "max (- 24 / 5) (2 * log 10 r)"
  have v: "fp_in binary32 (Fin False r)" using r by (simp add: f32.rnd_rep)
  have c: "SVCVolumeClampScalar (Fin False r) = Fin False r"
    using r by (auto simp: SVCVolumeClampScalar_def fp_le_def)
  note D = ideal.decibels_props [OF v]
  have q: "fp_in binary32 (fp_div binary32 ?D (Fin False 20))"
    "fp_nonpos (fp_div binary32 ?D (Fin False 20))"
    "fp_val (fp_div binary32 ?D (Fin False 20)) = - rnd binary32 (- fp_val ?D / 20)"
    using D by (intro fp_div_nonpos; simp)+
  define e where "e = - rnd binary32 (- fp_val ?D / 20)"
  have "\<bar>rnd binary32 (- fp_val ?D / 20) - (- fp_val ?D / 20)\<bar> \<le> 2 powi (- 22)"
    using D f32.rnd_error_bound [of "- fp_val ?D / 20" 3] by (simp add: fp_nonpos_def)
  then have "\<bar>e - ?x\<bar> \<le> 2 powi (- 22) + (40 * 2 powi (- 23) + 2 powi (- 18)) / 20"
    using decibels_close [OF assms] unfolding e_def by (simp add: max_def abs_if split: if_splits)
  also have "\<dots> \<le> 7 / 10000000" by simp
  finally have close: "\<bar>e - ?x\<bar> \<le> 7 / 10000000" .
  have neg: "e \<le> 0" "?x \<le> 0" using log10_unit_bounds [OF r] by (simp_all add: e_def)
  have sq: "10 powr (2 * log 10 r) = r\<^sup>2"
    using r powr_powr [of 10 "log 10 r" 2] by (simp add: mult.commute powr_numeral)
  have fl: "10 powr ?x = max (r\<^sup>2) (10 powr (- 24 / 5))"
    using powr_le_cancel_iff [of "10 :: real" "- 24 / 5" "2 * log 10 r"] unfolding sq by (auto simp: max_def sq)
  have "\<bar>10 powr e - max (r\<^sup>2) (10 powr (- 24 / 5))\<bar> \<le> 9 * (7 / 10000000)"
    using ten_powr_close [OF close neg] unfolding fl .
  moreover have "\<bar>rnd binary32 (10 powr e) - 10 powr e\<bar> \<le> 2 powi (- 24)"
    using f32.rnd_error_bound [of "10 powr e" 1] powr_mono [of e 0 "10 :: real"] neg by simp
  moreover have "fp_val (SVCVolumeScalarToGain ideal_libm (Fin False r)) = rnd binary32 (10 powr e)"
    using r powf_ideal_val(1) [OF q(2)] q(3) by (simp add: SVCVolumeScalarToGain_def Let_def c e_def)
  ultimately show ?thesis by (simp add: abs_if split: if_splits)
qed

section \<open>Properties\<close>

lemma half_in_binary32 [simp]: "fp_in binary32 (Fin False (1 / 2))"
  using f32.rep_iff [of "1 / 2"] f32.rep_rnd rep_powi [of binary32 "- 1"] by simp

text \<open>
  Property C24 (bounds). Under the library's contract the gain of every binary32 scalar, NaN and
  the infinities included, is a finite binary32 value of the unit interval, so the forwarder
  never amplifies; scalar zero is digital silence and scalar one is exactly unity.
\<close>

theorem volume_gain_never_amplifies:
  assumes "libm_contract L" "fp_in binary32 scalar"
  shows "fp_in binary32 (SVCVolumeScalarToGain L scalar) \<and> fp_unit (SVCVolumeScalarToGain L scalar) \<and>
    SVCVolumeScalarToGain L f32_zero = f32_zero \<and> SVCVolumeScalarToGain L f32_one = f32_one"
  using libm_contract.gain_unit [OF assms] libm_contract.gain_one [OF assms(1)] gain_zero by simp

theorem volume_gain_never_amplifies_witness:
  "fp_unit (SVCVolumeScalarToGain ideal_libm (Fin False (1 / 2)))"
  using volume_gain_never_amplifies [OF ideal.libm_contract_axioms half_in_binary32] by simp

text \<open>
  Both conversions stay in the range the HAL control publishes: decibels in
  \<open>-96 .. 0\<close> for every scalar, and a scalar of the unit interval for every decibel value.
\<close>

theorem volume_conversions_in_range:
  assumes "libm_contract L" "fp_in binary32 x"
  shows "fp_isfinite (SVCVolumeScalarToDecibels L x) \<and>
    - 96 \<le> fp_val (SVCVolumeScalarToDecibels L x) \<and> fp_val (SVCVolumeScalarToDecibels L x) \<le> 0 \<and>
    fp_unit (SVCVolumeDecibelsToScalar L x)"
  using libm_contract.decibels_props [OF assms] libm_contract.scalar_of_decibels_unit [OF assms]
  by (simp add: fp_nonpos_def)

theorem volume_conversions_in_range_witness:
  "- 96 \<le> fp_val (SVCVolumeScalarToDecibels ideal_libm (Fin False (1 / 2)))"
  using volume_conversions_in_range [OF ideal.libm_contract_axioms half_in_binary32] by simp

text \<open>
  Property C25 (functional). With correctly rounded library functions a higher scalar never gives a lower
  gain, through the clamp, the decibel floor and all four roundings, for any two finite floats.
\<close>

theorem volume_gain_monotone:
  assumes "fp_in binary32 v" "fp_in binary32 w" "fp_isfinite v" "fp_isfinite w" "fp_val v \<le> fp_val w"
  shows "fp_val (SVCVolumeScalarToGain ideal_libm v) \<le> fp_val (SVCVolumeScalarToGain ideal_libm w)"
  using assms by (rule ideal.gain_mono)

theorem volume_gain_monotone_witness:
  "fp_val (SVCVolumeScalarToGain ideal_libm (Fin False (1 / 2)))
    \<le> fp_val (SVCVolumeScalarToGain ideal_libm f32_one)"
  using volume_gain_monotone [OF half_in_binary32 fp_in_zero_one(2)] by simp

text \<open>
  Property C26 (equivalence). The curve is the square law the comment in the header promises, down to the
  floor of \<open>-96\<close> decibels: with correctly rounded library functions the computed gain of every positive
  scalar up to one is within \<open>0.00001\<close>, the tolerance of the repository's own test, of its square, or of
  \<open>10 powr (- 4.8)\<close>, the gain at the floor, where the square is less.
\<close>

theorem volume_square_law:
  assumes "rep binary32 r" "0 < r" "r \<le> 1"
  shows "\<bar>fp_val (SVCVolumeScalarToGain ideal_libm (Fin False r)) - max (r\<^sup>2) (10 powr (- 24 / 5))\<bar> \<le> 1 / 100000"
  using assms by (rule gain_square_error)

text \<open>Half the scalar gives a quarter of the gain; the square is above the floor there.\<close>

theorem volume_square_law_witness:
  "\<bar>fp_val (SVCVolumeScalarToGain ideal_libm (Fin False (1 / 2))) - 1 / 4\<bar> \<le> 1 / 100000"
proof -
  have "rep binary32 (1 / 2)" using half_in_binary32 f32.fp_in_iff by blast
  then have "\<bar>fp_val (SVCVolumeScalarToGain ideal_libm (Fin False (1 / 2))) - max ((1 / 2)\<^sup>2) (10 powr (- 24 / 5))\<bar> \<le> 1 / 100000"
    by (rule volume_square_law) simp_all
  moreover have "(10 :: real) powr (- 24 / 5) \<le> 10 powr (- 1)" by (intro powr_mono) simp_all
  then have "max ((1 / 2)\<^sup>2) (10 powr (- 24 / 5)) = (1 / 4 :: real)"
    by (simp add: max_def power2_eq_square powr_minus)
  ultimately show ?thesis by (simp only:)
qed

end
