(* ===== verification/Frame_Store.thy ===== *)
theory Frame_Store
  imports SVC_Prelude
begin

text \<open>
  The contract of the ring: an indexed store of tagged frames in which a frame is found
  exactly while no later store has taken its slot. The contract is a locale; its abstract
  specification is the history of stores, and the lemmas about blocks and windows of frames
  are proved from the contract alone. The ring of \<open>common/SharedAudio.h\<close> is an instance.
\<close>

section \<open>Histories\<close>

text \<open>
  The specification: the list of stores, most recent first. A load finds the most recent
  store into the frame's slot, and succeeds when that store was for this very frame.
\<close>

fun last_in_slot :: "nat \<Rightarrow> nat \<Rightarrow> (nat \<times> 'a) list \<Rightarrow> (nat \<times> 'a) option" where
  "last_in_slot cap i [] = None"
| "last_in_slot cap i ((g, s) # H) = (if g mod cap = i then Some (g, s) else last_in_slot cap i H)"

definition history_load :: "nat \<Rightarrow> (nat \<times> 'a) list \<Rightarrow> nat \<Rightarrow> 'a option" where
  "history_load cap H f =
     (case last_in_slot cap (f mod cap) H of
        None \<Rightarrow> None
      | Some (g, s) \<Rightarrow> if g = f then Some s else None)"

text \<open>The loop that stores consecutive frames.\<close>

fun store_block :: "('m \<Rightarrow> u64 \<Rightarrow> 'a \<Rightarrow> 'm) \<Rightarrow> 'm \<Rightarrow> u64 \<Rightarrow> 'a list \<Rightarrow> 'm" where
  "store_block st m f [] = m"
| "store_block st m f (s # ss) = store_block st (st m f s) (f + 1) ss"

text \<open>The history that loop leaves.\<close>

fun block_history :: "nat \<Rightarrow> 'a list \<Rightarrow> (nat \<times> 'a) list \<Rightarrow> (nat \<times> 'a) list" where
  "block_history f [] H = H"
| "block_history f (s # ss) H = block_history (Suc f) ss ((f, s) # H)"

lemma block_history_append:
  "block_history f (ss @ ts) H = block_history (f + length ss) ts (block_history f ss H)"
  by (induction ss arbitrary: f H) simp_all

lemma block_history_snoc:
  "block_history f (ss @ [s]) H = (f + length ss, s) # block_history f ss H"
  by (simp add: block_history_append)

text \<open>A frame of the block is loaded when no later frame of the block shares its slot.\<close>

lemma last_in_slot_block:
  assumes "k < length ss" "length ss \<le> k + cap" "0 < cap"
  shows "last_in_slot cap ((f + k) mod cap) (block_history f ss H) = Some (f + k, ss ! k)"
  using assms(1,2)
proof (induction ss rule: rev_induct)
  case Nil
  then show ?case by simp
next
  case (snoc s ss)
  show ?case
  proof (cases "k = length ss")
    case True
    then show ?thesis by (simp add: block_history_snoc)
  next
    case False
    with snoc.prems have k: "k < length ss" "length ss \<le> k + cap" "length ss - k < cap" by simp_all
    have "(f + length ss) mod cap \<noteq> (f + k) mod cap"
    proof
      assume "(f + length ss) mod cap = (f + k) mod cap"
      then have "cap dvd (f + length ss) - (f + k)"
        using k(1) by (metis mod_eq_dvd_iff_nat add_le_cancel_left less_imp_le_nat)
      then have "cap dvd length ss - k" by simp
      with k show False by (auto dest: dvd_imp_le)
    qed
    with snoc.IH [OF k(1,2)] k(1) show ?thesis by (simp add: block_history_snoc nth_append)
  qed
qed

lemma history_load_block:
  assumes "k < length ss" "length ss \<le> k + cap" "0 < cap"
  shows "history_load cap (block_history f ss H) (f + k) = Some (ss ! k)"
  using last_in_slot_block [OF assms, of f H] by (simp add: history_load_def)

lemma last_in_slot_member:
  "last_in_slot cap i H = Some (g, s) \<Longrightarrow> (g, s) \<in> set H"
  by (induction H) (auto split: if_splits)

lemma history_load_member:
  "history_load cap H f = Some s \<Longrightarrow> (f, s) \<in> set H"
  by (auto simp: history_load_def dest: last_in_slot_member split: option.splits if_splits)

section \<open>The contract\<close>

locale frame_store =
  fixes store :: "'m \<Rightarrow> u64 \<Rightarrow> 'a \<Rightarrow> 'm"
    and load :: "'m \<Rightarrow> u64 \<Rightarrow> 'a option"
    and cap :: nat
  assumes cap_pos: "0 < cap"
    and load_same: "load (store m f s) f = Some s"
    and load_evicted: "f \<noteq> g \<Longrightarrow> unat f mod cap = unat g mod cap \<Longrightarrow> load (store m f s) g = None"
    and load_other: "unat f mod cap \<noteq> unat g mod cap \<Longrightarrow> load (store m f s) g = load m g"
begin

text \<open>
  \<open>m\<close> implements the history \<open>H\<close>, on every frame but the last 64-bit number, whose tag
  would be zero.
\<close>

definition implements :: "'m \<Rightarrow> (nat \<times> 'a) list \<Rightarrow> bool" where
  "implements m H \<longleftrightarrow> (\<forall>f. f \<noteq> - 1 \<longrightarrow> load m f = history_load cap H (unat f))"

lemma implements_load: "implements m H \<Longrightarrow> f \<noteq> - 1 \<Longrightarrow> load m f = history_load cap H (unat f)"
  by (simp add: implements_def)

lemma implements_store:
  assumes "implements m H"
  shows "implements (store m f s) ((unat f, s) # H)"
  unfolding implements_def
proof (intro allI impI)
  fix g :: u64
  assume g: "g \<noteq> - 1"
  show "load (store m f s) g = history_load cap ((unat f, s) # H) (unat g)"
  proof (cases "unat f mod cap = unat g mod cap")
    case True
    then show ?thesis
      using load_same load_evicted [of f g m s]
      by (cases "f = g") (auto simp: history_load_def dest: word_unat_eq_iff [THEN iffD2])
  next
    case False
    then show ?thesis
      using load_other [OF False] implements_load [OF assms g] by (auto simp: history_load_def)
  qed
qed

lemma implements_block:
  assumes "implements m H" "unat f + length ss \<le> 2 ^ 64 - 1"
  shows "implements (store_block store m f ss) (block_history (unat f) ss H)"
  using assms
proof (induction ss arbitrary: m f H)
  case Nil
  then show ?case by simp
next
  case (Cons s ss)
  have f: "unat (f + 1) = Suc (unat f)"
    using Cons.prems(2) by (intro unat_suc_no_wrap) (auto simp: unat_minus_one)
  show ?case
    using Cons.IH [OF implements_store [OF Cons.prems(1), of f s], of "f + 1"] Cons.prems(2)
    by (simp add: f)
qed

text \<open>The last \<open>cap\<close> frames of a stored block are all loaded back.\<close>

lemma load_block:
  assumes "implements m H" "unat f + length ss \<le> 2 ^ 64 - 1"
    and "k < length ss" "length ss \<le> k + cap"
  shows "load (store_block store m f ss) (f + of_nat k) = Some (ss ! k)"
proof -
  have "unat (of_nat k :: u64) = k" using assms(2,3) by (intro unat_of_nat_u64) simp
  then have "unat (f + of_nat k) = unat f + k"
    using assms(2,3) by (subst unat_plus_no_wrap) simp_all
  moreover have "f + of_nat k \<noteq> - 1"
    using \<open>unat (f + of_nat k) = unat f + k\<close> assms(2,3) by (auto simp: unat_minus_one)
  ultimately show ?thesis
    using implements_load [OF implements_block [OF assms(1,2)], of "f + of_nat k"]
      history_load_block [OF assms(3,4) cap_pos] by simp
qed

text \<open>Nothing is ever loaded that was not stored for that frame.\<close>

lemma load_was_stored:
  "implements m H \<Longrightarrow> f \<noteq> - 1 \<Longrightarrow> load m f = Some s \<Longrightarrow> (unat f, s) \<in> set H"
  using history_load_member by (simp add: implements_def)

end

end
