(* ===== verification/Shared_Audio.thy ===== *)
theory Shared_Audio
  imports Frame_Store
begin

text \<open>
  \<open>common/SharedAudio.h\<close>: the shared ring, its validity check and initialisation, and the
  store and load of one stereo frame. A stereo frame is the two 32-bit patterns of its
  samples; an array is a function of its index, which the code keeps below the capacity by
  \<open>frame % kSVCSharedAudioCapacityFrames\<close>. A pointer that may be null is an option.
\<close>

unbundle bit_operations_syntax

section \<open>Constants and layout\<close>

definition SVC_SHARED_AUDIO_MAGIC :: u32 where
  "SVC_SHARED_AUDIO_MAGIC = 0x53564341"

definition SVC_SHARED_AUDIO_VERSION :: u32 where
  "SVC_SHARED_AUDIO_VERSION = 2"

definition kSVCSharedAudioChannelCount :: nat where
  "kSVCSharedAudioChannelCount = 2"

definition kSVCSharedAudioCapacityFrames :: nat where
  "kSVCSharedAudioCapacityFrames = 32768"

lemmas shared_consts = SVC_SHARED_AUDIO_MAGIC_def SVC_SHARED_AUDIO_VERSION_def
  kSVCSharedAudioChannelCount_def kSVCSharedAudioCapacityFrames_def

record SVCSharedFrame =
  tag :: u64
  stereo :: u64

record SVCSharedAudio =
  magic :: u32
  version :: u32
  channelCount :: u32
  capacityFrames :: u32
  sampleRate :: u32
  processOutputCount :: u32
  writeFrame :: u64
  streamStartFrame :: u64
  streamEpoch :: u64
  writerActive :: u32
  writeMixCount :: u32
  reserved1 :: "u32 \<times> u32"
  frames :: "nat \<Rightarrow> SVCSharedFrame"

type_synonym stereo_bits = "u32 \<times> u32"

section \<open>Validity and initialisation\<close>

definition SVCSharedAudioIsValid :: "SVCSharedAudio option \<Rightarrow> bool" where
  "SVCSharedAudioIsValid audio =
     (case audio of None \<Rightarrow> False
      | Some a \<Rightarrow> magic a = SVC_SHARED_AUDIO_MAGIC
          \<and> version a = SVC_SHARED_AUDIO_VERSION
          \<and> channelCount a = of_nat kSVCSharedAudioChannelCount
          \<and> capacityFrames a = of_nat kSVCSharedAudioCapacityFrames
          \<and> 0 < sampleRate a)"

text \<open>The \<open>memset\<close> and the per-frame stores leave every field zero but the five set here.\<close>

definition zero_frame :: SVCSharedFrame where
  "zero_frame = \<lparr>tag = 0, stereo = 0\<rparr>"

definition SVCSharedAudioInitialize :: "SVCSharedAudio \<Rightarrow> u32 \<Rightarrow> SVCSharedAudio" where
  "SVCSharedAudioInitialize audio rate =
     (let cleared = \<lparr>magic = 0, version = 0, channelCount = 0, capacityFrames = 0, sampleRate = 0,
            processOutputCount = 0, writeFrame = 0, streamStartFrame = 0, streamEpoch = 0,
            writerActive = 0, writeMixCount = 0, reserved1 = (0, 0),
            frames = (\<lambda>index. zero_frame)\<rparr>
      in cleared\<lparr>version := SVC_SHARED_AUDIO_VERSION,
            channelCount := of_nat kSVCSharedAudioChannelCount,
            capacityFrames := of_nat kSVCSharedAudioCapacityFrames,
            sampleRate := rate,
            magic := SVC_SHARED_AUDIO_MAGIC\<rparr>)"

section \<open>One frame\<close>

text \<open>\<open>memcpy\<close> of two floats into a 64-bit word on a little-endian machine.\<close>

definition pack_stereo :: "stereo_bits \<Rightarrow> u64" where
  "pack_stereo s = (ucast (fst s) :: u64) OR push_bit 32 (ucast (snd s))"

definition unpack_stereo :: "u64 \<Rightarrow> stereo_bits" where
  "unpack_stereo bits = (ucast bits, ucast (drop_bit 32 bits))"

definition slot_of :: "u64 \<Rightarrow> nat" where
  "slot_of frame = unat frame mod kSVCSharedAudioCapacityFrames"

text \<open>The three atomic stores, in the code's order.\<close>

definition SVCSharedAudioStoreFrame ::
  "SVCSharedAudio \<Rightarrow> u64 \<Rightarrow> stereo_bits \<Rightarrow> SVCSharedAudio" where
  "SVCSharedAudioStoreFrame audio frame s =
     (let i = slot_of frame; bits = pack_stereo s;
          a1 = audio\<lparr>frames := (frames audio)(i := (frames audio i)\<lparr>tag := 0\<rparr>)\<rparr>;
          a2 = a1\<lparr>frames := (frames a1)(i := (frames a1 i)\<lparr>stereo := bits\<rparr>)\<rparr>
      in a2\<lparr>frames := (frames a2)(i := (frames a2 i)\<lparr>tag := frame + 1\<rparr>)\<rparr>)"

text \<open>The load when no store runs between its three reads: the two tag reads agree.\<close>

definition SVCSharedAudioLoadFrame :: "SVCSharedAudio \<Rightarrow> u64 \<Rightarrow> stereo_bits option" where
  "SVCSharedAudioLoadFrame audio frame =
     (let slot = frames audio (slot_of frame) in
      if tag slot \<noteq> frame + 1 then None
      else let bits = stereo slot in
           if tag slot \<noteq> frame + 1 then None else Some (unpack_stereo bits))"

lemma unpack_pack [simp]: "unpack_stereo (pack_stereo s) = s"
proof (cases s)
  case (Pair l r)
  have "ucast (pack_stereo (l, r)) = l"
    by (rule bit_word_eqI) (auto simp: pack_stereo_def bit_simps)
  moreover have "ucast (drop_bit 32 (pack_stereo (l, r))) = r"
    by (rule bit_word_eqI) (auto simp: pack_stereo_def bit_simps dest: bit_imp_le_length)
  ultimately show ?thesis using Pair by (simp add: unpack_stereo_def)
qed

lemma pack_unpack [simp]: "pack_stereo (unpack_stereo w) = w"
  by (rule bit_word_eqI) (auto simp: pack_stereo_def unpack_stereo_def bit_simps)

lemma slot_of_less [simp]: "slot_of frame < kSVCSharedAudioCapacityFrames"
  by (simp add: slot_of_def kSVCSharedAudioCapacityFrames_def)

lemma store_frames [ring_defs]:
  "frames (SVCSharedAudioStoreFrame a f s) =
    (frames a)(slot_of f := \<lparr>tag = f + 1, stereo = pack_stereo s\<rparr>)"
  by (cases "frames a (slot_of f)") (simp add: SVCSharedAudioStoreFrame_def Let_def)

lemma load_frame [ring_defs]:
  "SVCSharedAudioLoadFrame a f =
    (if tag (frames a (slot_of f)) = f + 1 then Some (unpack_stereo (stereo (frames a (slot_of f)))) else None)"
  by (simp add: SVCSharedAudioLoadFrame_def Let_def)

text \<open>A store writes nothing but its slot.\<close>

lemma store_fields [simp]:
  "magic (SVCSharedAudioStoreFrame a f s) = magic a"
  "version (SVCSharedAudioStoreFrame a f s) = version a"
  "channelCount (SVCSharedAudioStoreFrame a f s) = channelCount a"
  "capacityFrames (SVCSharedAudioStoreFrame a f s) = capacityFrames a"
  "sampleRate (SVCSharedAudioStoreFrame a f s) = sampleRate a"
  "processOutputCount (SVCSharedAudioStoreFrame a f s) = processOutputCount a"
  "writeFrame (SVCSharedAudioStoreFrame a f s) = writeFrame a"
  "streamStartFrame (SVCSharedAudioStoreFrame a f s) = streamStartFrame a"
  "streamEpoch (SVCSharedAudioStoreFrame a f s) = streamEpoch a"
  "writerActive (SVCSharedAudioStoreFrame a f s) = writerActive a"
  "writeMixCount (SVCSharedAudioStoreFrame a f s) = writeMixCount a"
  by (simp_all add: SVCSharedAudioStoreFrame_def Let_def)

section \<open>The ring keeps the contract\<close>

interpretation ring: frame_store SVCSharedAudioStoreFrame SVCSharedAudioLoadFrame
  kSVCSharedAudioCapacityFrames
proof unfold_locales
  show "0 < kSVCSharedAudioCapacityFrames" by (simp add: kSVCSharedAudioCapacityFrames_def)
qed (auto simp: ring_defs slot_of_def)

text \<open>A ring whose tags are all zero holds no frame: after initialisation and after a reset.\<close>

lemma cleared_implements:
  assumes "\<And>i. i < kSVCSharedAudioCapacityFrames \<Longrightarrow> tag (frames a i) = 0"
  shows "ring.implements a []"
  unfolding ring.implements_def
proof (intro allI impI)
  fix f :: u64
  assume "f \<noteq> - 1"
  then have "f + 1 \<noteq> 0" by (metis add_diff_cancel_right' diff_0)
  then show "SVCSharedAudioLoadFrame a f = history_load kSVCSharedAudioCapacityFrames [] (unat f)"
    using assms [of "slot_of f"] by (simp add: load_frame history_load_def)
qed

lemma initialized_implements: "ring.implements (SVCSharedAudioInitialize a rate) []"
  by (rule cleared_implements) (simp add: SVCSharedAudioInitialize_def zero_frame_def Let_def)

lemma initialized_valid: "0 < rate \<Longrightarrow> SVCSharedAudioIsValid (Some (SVCSharedAudioInitialize a rate))"
  by (simp add: SVCSharedAudioIsValid_def SVCSharedAudioInitialize_def Let_def)

lemma store_valid [simp]:
  "SVCSharedAudioIsValid (Some (SVCSharedAudioStoreFrame a f s)) = SVCSharedAudioIsValid (Some a)"
  by (simp add: SVCSharedAudioIsValid_def)

text \<open>Fields that a block of stores leaves alone.\<close>

lemma store_block_fields [simp]:
  "SVCSharedAudioIsValid (Some (store_block SVCSharedAudioStoreFrame a f ss)) = SVCSharedAudioIsValid (Some a)"
  "writeFrame (store_block SVCSharedAudioStoreFrame a f ss) = writeFrame a"
  "streamStartFrame (store_block SVCSharedAudioStoreFrame a f ss) = streamStartFrame a"
  "streamEpoch (store_block SVCSharedAudioStoreFrame a f ss) = streamEpoch a"
  "writerActive (store_block SVCSharedAudioStoreFrame a f ss) = writerActive a"
  "processOutputCount (store_block SVCSharedAudioStoreFrame a f ss) = processOutputCount a"
  "writeMixCount (store_block SVCSharedAudioStoreFrame a f ss) = writeMixCount a"
  by (induction ss arbitrary: a f) simp_all

text \<open>The tag invariant: a slot is empty or tagged with a frame that belongs in it.\<close>

definition tags_ok :: "SVCSharedAudio \<Rightarrow> bool" where
  "tags_ok a \<longleftrightarrow> (\<forall>i < kSVCSharedAudioCapacityFrames.
     tag (frames a i) = 0 \<or> slot_of (tag (frames a i) - 1) = i)"

lemma tags_ok_store: "tags_ok a \<Longrightarrow> tags_ok (SVCSharedAudioStoreFrame a f s)"
  by (auto simp: tags_ok_def ring_defs)

lemma tags_ok_initialized: "tags_ok (SVCSharedAudioInitialize a rate)"
  by (simp add: tags_ok_def SVCSharedAudioInitialize_def zero_frame_def Let_def)

lemma tags_ok_store_block: "tags_ok a \<Longrightarrow> tags_ok (store_block SVCSharedAudioStoreFrame a f ss)"
  by (induction ss arbitrary: a f) (simp_all add: tags_ok_store)

end
