(* ===== verification/Ring_Concurrency.thy ===== *)
theory Ring_Concurrency
  imports Shared_Audio
begin

text \<open>
  One writer and one reader on the ring, each atomic access a step of its own, in any
  interleaving. The accesses of \<open>SVCSharedAudioStoreFrame\<close> and \<open>SVCSharedAudioLoadFrame\<close> are
  plain \<open>atomic_store\<close> and \<open>atomic_load\<close>, hence sequentially consistent. The ghost list
  records every store begun.
\<close>

section \<open>Program counters\<close>

text \<open>A constructor names the access its thread performs next.\<close>

datatype wpc =
    WIdle
  | WClearTag u64 stereo_bits
  | WStereo u64 stereo_bits
  | WSetTag u64 stereo_bits

datatype rpc =
    RIdle
  | RFirstTag u64
  | RStereo u64
  | RSecondTag u64 u64
  | RDone u64 "stereo_bits option"

record race =
  cells :: "nat \<Rightarrow> SVCSharedFrame"
  writer_at :: wpc
  reader_at :: rpc
  stored :: "(u64 \<times> stereo_bits) list"

text \<open>The accesses of the store, one equation per atomic operation.\<close>

fun writer_access :: "race \<Rightarrow> race" where
  "writer_access \<sigma> =
     (case writer_at \<sigma> of
        WIdle \<Rightarrow> \<sigma>
      | WClearTag f s \<Rightarrow>
          \<sigma>\<lparr>cells := (cells \<sigma>)(slot_of f := (cells \<sigma> (slot_of f))\<lparr>tag := 0\<rparr>),
            writer_at := WStereo f s\<rparr>
      | WStereo f s \<Rightarrow>
          \<sigma>\<lparr>cells := (cells \<sigma>)(slot_of f := (cells \<sigma> (slot_of f))\<lparr>stereo := pack_stereo s\<rparr>),
            writer_at := WSetTag f s\<rparr>
      | WSetTag f s \<Rightarrow>
          \<sigma>\<lparr>cells := (cells \<sigma>)(slot_of f := (cells \<sigma> (slot_of f))\<lparr>tag := f + 1\<rparr>),
            writer_at := WIdle\<rparr>)"

text \<open>The accesses of the load; a tag that does not match ends it with failure.\<close>

fun reader_access :: "race \<Rightarrow> race" where
  "reader_access \<sigma> =
     (case reader_at \<sigma> of
        RIdle \<Rightarrow> \<sigma>
      | RFirstTag f \<Rightarrow>
          \<sigma>\<lparr>reader_at := (if tag (cells \<sigma> (slot_of f)) \<noteq> f + 1 then RDone f None else RStereo f)\<rparr>
      | RStereo f \<Rightarrow> \<sigma>\<lparr>reader_at := RSecondTag f (stereo (cells \<sigma> (slot_of f)))\<rparr>
      | RSecondTag f bits \<Rightarrow>
          \<sigma>\<lparr>reader_at := RDone f (if tag (cells \<sigma> (slot_of f)) \<noteq> f + 1 then None
                                else Some (unpack_stereo bits))\<rparr>
      | RDone f r \<Rightarrow> \<sigma>)"

text \<open>
  The calls: a store may begin for a frame not stored before (the timeline moves forward
  within a stream), a load may begin for any frame whenever the reader is free.
\<close>

inductive race_step :: "race \<Rightarrow> race \<Rightarrow> bool" where
  begin_store: "writer_at \<sigma> = WIdle \<Longrightarrow> f \<noteq> - 1 \<Longrightarrow> f \<notin> fst ` set (stored \<sigma>) \<Longrightarrow>
     race_step \<sigma> (\<sigma>\<lparr>writer_at := WClearTag f s, stored := (f, s) # stored \<sigma>\<rparr>)"
| begin_load: "reader_at \<sigma> = RIdle \<or> (\<exists>g r. reader_at \<sigma> = RDone g r) \<Longrightarrow> f \<noteq> - 1 \<Longrightarrow>
     race_step \<sigma> (\<sigma>\<lparr>reader_at := RFirstTag f\<rparr>)"
| writer_moves: "writer_at \<sigma> \<noteq> WIdle \<Longrightarrow> race_step \<sigma> (writer_access \<sigma>)"
| reader_moves: "reader_at \<sigma> \<noteq> RIdle \<Longrightarrow> race_step \<sigma> (reader_access \<sigma>)"

definition race_init :: race where
  "race_init = \<lparr>cells = (\<lambda>i. zero_frame), writer_at = WIdle, reader_at = RIdle, stored = []\<rparr>"

inductive race_reachable :: "race \<Rightarrow> bool" where
  start: "race_reachable race_init"
| step: "race_reachable \<sigma> \<Longrightarrow> race_step \<sigma> \<tau> \<Longrightarrow> race_reachable \<tau>"

section \<open>The invariant\<close>

primrec writing :: "wpc \<Rightarrow> u64 option" where
  "writing WIdle = None"
| "writing (WClearTag f s) = Some f"
| "writing (WStereo f s) = Some f"
| "writing (WSetTag f s) = Some f"

text \<open>A non-zero tag vouches for its slot, and never for the frame being written.\<close>

definition tag_inv :: "race \<Rightarrow> bool" where
  "tag_inv \<sigma> \<longleftrightarrow> (\<forall>i. tag (cells \<sigma> i) \<noteq> 0 \<longrightarrow>
     (\<exists>f s. tag (cells \<sigma> i) = f + 1 \<and> (f, s) \<in> set (stored \<sigma>) \<and> stereo (cells \<sigma> i) = pack_stereo s \<and>
        writing (writer_at \<sigma>) \<noteq> Some f))"

primrec writer_inv :: "race \<Rightarrow> wpc \<Rightarrow> bool" where
  "writer_inv \<sigma> WIdle = True"
| "writer_inv \<sigma> (WClearTag f s) = (f \<noteq> - 1 \<and> (f, s) \<in> set (stored \<sigma>))"
| "writer_inv \<sigma> (WStereo f s) =
     (f \<noteq> - 1 \<and> (f, s) \<in> set (stored \<sigma>) \<and> tag (cells \<sigma> (slot_of f)) = 0)"
| "writer_inv \<sigma> (WSetTag f s) =
     (f \<noteq> - 1 \<and> (f, s) \<in> set (stored \<sigma>) \<and> tag (cells \<sigma> (slot_of f)) = 0 \<and>
      stereo (cells \<sigma> (slot_of f)) = pack_stereo s)"

text \<open>
  Once the first tag matched, the frame is stored and not being written; a stereo word read
  since is the slot's own as long as the tag still matches.
\<close>

primrec reader_inv :: "race \<Rightarrow> rpc \<Rightarrow> bool" where
  "reader_inv \<sigma> RIdle = True"
| "reader_inv \<sigma> (RFirstTag f) = (f \<noteq> - 1)"
| "reader_inv \<sigma> (RStereo f) =
     (f \<noteq> - 1 \<and> f \<in> fst ` set (stored \<sigma>) \<and> writing (writer_at \<sigma>) \<noteq> Some f)"
| "reader_inv \<sigma> (RSecondTag f bits) =
     (f \<noteq> - 1 \<and> f \<in> fst ` set (stored \<sigma>) \<and> writing (writer_at \<sigma>) \<noteq> Some f \<and>
      (tag (cells \<sigma> (slot_of f)) = f + 1 \<longrightarrow> bits = stereo (cells \<sigma> (slot_of f))))"
| "reader_inv \<sigma> (RDone f r) = (\<forall>s. r = Some s \<longrightarrow> (f, s) \<in> set (stored \<sigma>))"

definition race_inv :: "race \<Rightarrow> bool" where
  "race_inv \<sigma> \<longleftrightarrow> tag_inv \<sigma> \<and> writer_inv \<sigma> (writer_at \<sigma>) \<and> reader_inv \<sigma> (reader_at \<sigma>) \<and>
     distinct (map fst (stored \<sigma>))"

lemma succ_nonzero: "(f :: u64) \<noteq> - 1 \<Longrightarrow> f + 1 \<noteq> 0"
  by (metis add_diff_cancel_right' diff_0)

lemma race_inv_init: "race_inv race_init"
  by (simp add: race_inv_def race_init_def tag_inv_def zero_frame_def)

lemma race_inv_begin_store:
  assumes "race_inv \<sigma>" "writer_at \<sigma> = WIdle" "f \<noteq> - 1" "f \<notin> fst ` set (stored \<sigma>)"
  shows "race_inv (\<sigma>\<lparr>writer_at := WClearTag f s, stored := (f, s) # stored \<sigma>\<rparr>)"
proof -
  let ?\<tau> = "\<sigma>\<lparr>writer_at := WClearTag f s, stored := (f, s) # stored \<sigma>\<rparr>"
  have "tag_inv ?\<tau>"
    using assms(1,4) by (fastforce simp: race_inv_def tag_inv_def image_iff)
  moreover have "reader_inv ?\<tau> (reader_at \<sigma>)"
    using assms by (cases "reader_at \<sigma>") (auto simp: race_inv_def)
  ultimately show ?thesis using assms by (simp add: race_inv_def)
qed

lemma race_inv_write:
  assumes "race_inv \<sigma>"
  shows "race_inv (writer_access \<sigma>)"
proof (cases "writer_at \<sigma>")
  case WIdle
  with assms show ?thesis by simp
next
  case (WClearTag f s)
  let ?\<tau> = "writer_access \<sigma>"
  have "tag_inv ?\<tau>" using assms WClearTag by (fastforce simp: race_inv_def tag_inv_def)
  moreover have "reader_inv ?\<tau> (reader_at \<sigma>)"
    using assms WClearTag by (cases "reader_at \<sigma>") (auto simp: race_inv_def dest: succ_nonzero)
  ultimately show ?thesis using assms WClearTag by (simp add: race_inv_def)
next
  case (WStereo f s)
  let ?\<tau> = "writer_access \<sigma>"
  have "tag_inv ?\<tau>" using assms WStereo by (fastforce simp: race_inv_def tag_inv_def)
  moreover have "reader_inv ?\<tau> (reader_at \<sigma>)"
    using assms WStereo by (cases "reader_at \<sigma>") (auto simp: race_inv_def dest: succ_nonzero)
  ultimately show ?thesis using assms WStereo by (simp add: race_inv_def)
next
  case (WSetTag f s)
  let ?\<tau> = "writer_access \<sigma>"
  have "tag_inv ?\<tau>"
    unfolding tag_inv_def
  proof (intro allI impI)
    fix i
    assume i: "tag (cells ?\<tau> i) \<noteq> 0"
    show "\<exists>g t. tag (cells ?\<tau> i) = g + 1 \<and> (g, t) \<in> set (stored ?\<tau>) \<and>
        stereo (cells ?\<tau> i) = pack_stereo t \<and> writing (writer_at ?\<tau>) \<noteq> Some g"
    proof (cases "i = slot_of f")
      case True
      then show ?thesis using assms WSetTag
        by (intro exI [of _ f] exI [of _ s]) (simp add: race_inv_def)
    next
      case False
      then have "tag (cells \<sigma> i) \<noteq> 0" using i WSetTag by simp
      then obtain g t where "tag (cells \<sigma> i) = g + 1" "(g, t) \<in> set (stored \<sigma>)"
          "stereo (cells \<sigma> i) = pack_stereo t"
        using assms unfolding race_inv_def tag_inv_def by blast
      with False WSetTag show ?thesis by (intro exI [of _ g] exI [of _ t]) simp
    qed
  qed
  moreover have "reader_inv ?\<tau> (reader_at \<sigma>)"
    using assms WSetTag by (cases "reader_at \<sigma>") (auto simp: race_inv_def)
  ultimately show ?thesis using assms WSetTag by (simp add: race_inv_def)
qed

text \<open>What a matching tag tells the reader.\<close>

lemma matching_tag:
  assumes "race_inv \<sigma>" "f \<noteq> - 1" "tag (cells \<sigma> (slot_of f)) = f + 1"
  obtains s where "(f, s) \<in> set (stored \<sigma>)" "stereo (cells \<sigma> (slot_of f)) = pack_stereo s"
    "writing (writer_at \<sigma>) \<noteq> Some f"
proof -
  have "tag (cells \<sigma> (slot_of f)) \<noteq> 0" using assms(2,3) succ_nonzero by simp
  then obtain g s where g: "f + 1 = g + 1" "(g, s) \<in> set (stored \<sigma>)"
    "stereo (cells \<sigma> (slot_of f)) = pack_stereo s" "writing (writer_at \<sigma>) \<noteq> Some g"
    using assms(1,3) unfolding race_inv_def tag_inv_def by metis
  then have "g = f" by simp
  with g that show ?thesis by blast
qed

lemma race_inv_read:
  assumes "race_inv \<sigma>"
  shows "race_inv (reader_access \<sigma>)"
proof -
  have keep: "tag_inv (\<sigma>\<lparr>reader_at := r\<rparr>) = tag_inv \<sigma>"
    "writer_inv (\<sigma>\<lparr>reader_at := r\<rparr>) w = writer_inv \<sigma> w" for r w
    by (simp add: tag_inv_def) (cases w; simp)
  show ?thesis
  proof (cases "reader_at \<sigma>")
    case (RFirstTag f)
    then have "f \<noteq> - 1" using assms by (simp add: race_inv_def)
    then show ?thesis
      using assms RFirstTag by (auto simp: race_inv_def keep elim!: matching_tag [OF assms] intro: rev_image_eqI)
  next
    case (RStereo f)
    then show ?thesis using assms by (auto simp: race_inv_def keep)
  next
    case (RSecondTag f bits)
    then have "f \<noteq> - 1" and b: "tag (cells \<sigma> (slot_of f)) = f + 1 \<longrightarrow> bits = stereo (cells \<sigma> (slot_of f))"
      using assms by (simp_all add: race_inv_def)
    then show ?thesis
      using assms RSecondTag by (auto simp: race_inv_def keep elim!: matching_tag [OF assms])
  qed (use assms in \<open>simp_all add: race_inv_def\<close>)
qed

lemma race_step_inv [step_invs]:
  "race_step \<sigma> \<tau> \<Longrightarrow> race_inv \<sigma> \<Longrightarrow> race_inv \<tau>"
proof (induction rule: race_step.induct)
  case (begin_store \<sigma> f s)
  then show ?case by (rule_tac race_inv_begin_store)
next
  case (begin_load \<sigma> f)
  have "writer_inv (\<sigma>\<lparr>reader_at := RFirstTag f\<rparr>) w = writer_inv \<sigma> w" for w by (cases w) simp_all
  with begin_load show ?case by (simp add: race_inv_def tag_inv_def)
next
  case (writer_moves \<sigma>)
  then show ?case by (rule_tac race_inv_write)
next
  case (reader_moves \<sigma>)
  then show ?case by (rule_tac race_inv_read)
qed

lemma race_reachable_inv: "race_reachable \<sigma> \<Longrightarrow> race_inv \<sigma>"
  by (induction rule: race_reachable.induct) (auto intro: race_inv_init race_step_inv)

section \<open>Properties\<close>

text \<open>Run without interruption, the three writer accesses are the sequential store.\<close>

lemma writer_accesses_store:
  assumes "writer_at \<sigma> = WClearTag f s" "cells \<sigma> = frames a"
  shows "cells (writer_access (writer_access (writer_access \<sigma>))) = frames (SVCSharedAudioStoreFrame a f s)"
    and "writer_at (writer_access (writer_access (writer_access \<sigma>))) = WIdle"
  using assms by (simp_all add: SVCSharedAudioStoreFrame_def Let_def)

text \<open>Run without interruption, the reader accesses are the sequential load.\<close>

lemma reader_accesses_load:
  assumes "reader_at \<sigma> = RFirstTag f" "cells \<sigma> = frames a"
  shows "reader_at (reader_access (reader_access (reader_access \<sigma>))) =
    RDone f (SVCSharedAudioLoadFrame a f)"
  using assms by (simp add: load_frame)

text \<open>
  Property C8 (safety). However the atomic accesses of a store and of a load interleave, a load
  that succeeds returns the one stereo pair that was stored for that very frame: never half of
  two frames, never the previous or the next tenant of the slot.
\<close>

theorem ring_load_never_torn:
  assumes "race_reachable \<sigma>" "reader_at \<sigma> = RDone f (Some s)"
  shows "map_of (stored \<sigma>) f = Some s \<and> (\<forall>t. (f, t) \<in> set (stored \<sigma>) \<longrightarrow> t = s)"
proof -
  have i: "race_inv \<sigma>" using assms(1) by (rule race_reachable_inv)
  then have "(f, s) \<in> set (stored \<sigma>)" using assms(2) by (simp add: race_inv_def)
  with i show ?thesis by (auto simp: race_inv_def dest: eq_key_imp_eq_value)
qed

text \<open>A run in which the load of frame 5 begins while its store is under way.\<close>

definition race_example :: race where
  "race_example =
     (let \<sigma>1 = race_init\<lparr>writer_at := WClearTag 5 (7, 9), stored := [(5, (7, 9))]\<rparr>;
          \<sigma>2 = (writer_access (writer_access \<sigma>1))\<lparr>reader_at := RFirstTag 5\<rparr>
      in reader_access (reader_access (reader_access (writer_access \<sigma>2))))"

lemma race_example_reachable: "race_reachable race_example"
proof -
  let ?s1 = "race_init\<lparr>writer_at := WClearTag 5 (7, 9), stored := [(5, (7, 9))]\<rparr>"
  let ?s2 = "(writer_access (writer_access ?s1))\<lparr>reader_at := RFirstTag 5\<rparr>"
  have 1: "race_reachable ?s1"
    using race_reachable.step [OF race_reachable.start race_step.begin_store [of race_init 5 "(7, 9)"]]
    by (simp add: race_init_def)
  have 2: "race_reachable (writer_access (writer_access ?s1))"
    using 1 by (intro race_reachable.step [OF race_reachable.step [OF 1] race_step.writer_moves]
        race_step.writer_moves) simp_all
  have 3: "race_reachable ?s2"
    by (rule race_reachable.step [OF 2 race_step.begin_load]) (simp_all add: race_init_def)
  have 4: "race_reachable (writer_access ?s2)"
    by (rule race_reachable.step [OF 3 race_step.writer_moves]) simp
  have 5: "race_reachable (reader_access (writer_access ?s2))"
    by (rule race_reachable.step [OF 4 race_step.reader_moves]) simp
  have 6: "race_reachable (reader_access (reader_access (writer_access ?s2)))"
    by (rule race_reachable.step [OF 5 race_step.reader_moves]) (simp add: race_init_def)
  have "race_reachable (reader_access (reader_access (reader_access (writer_access ?s2))))"
    by (rule race_reachable.step [OF 6 race_step.reader_moves]) (simp add: race_init_def)
  then show ?thesis by (simp only: race_example_def Let_def)
qed

lemma race_example_done: "reader_at race_example = RDone 5 (Some (7, 9))"
  by (simp add: race_example_def race_init_def Let_def)

theorem ring_load_never_torn_witness: "map_of (stored race_example) 5 = Some (7, 9)"
  using ring_load_never_torn [OF race_example_reachable race_example_done] by simp

end
