(* ===== verification/Audio_Reader.thy ===== *)
theory Audio_Reader
  imports Shared_Audio Float_Ops
begin

text \<open>
  \<open>forwarder/SharedAudioReader.c\<close>: the forwarder's side of the ring. The driver may write
  while a read runs, so a read is given a view: what each of its atomic reads returned, with
  no assumption that they agree. \<open>still_view\<close> is the view of a ring nobody writes.
  Conversions from floating point that C leaves undefined make the result \<open>None\<close>.
\<close>

section \<open>State\<close>

record SVCSharedAudioReader =
  readFrame :: fp
  lastEpoch :: u64
  underrunCount :: u64
  resyncCount :: u64
  targetLatencyFrames :: u32
  synchronized :: bool

text \<open>
  \<open>view_load\<close> is indexed by the number of the load within the call, since two loads of the
  same frame may see different rings.
\<close>

record ring_view =
  view_valid :: bool
  view_capacity :: u32
  view_active :: u32
  view_epoch :: u64
  view_write :: u64
  view_start :: u64
  view_load :: "nat \<Rightarrow> u64 \<Rightarrow> stereo_bits option"
  view_epoch_end :: u64
  view_active_end :: u32

definition still_view :: "SVCSharedAudio \<Rightarrow> ring_view" where
  "still_view a =
     \<lparr>view_valid = SVCSharedAudioIsValid (Some a), view_capacity = capacityFrames a,
      view_active = writerActive a, view_epoch = streamEpoch a, view_write = writeFrame a,
      view_start = streamStartFrame a, view_load = (\<lambda>k. SVCSharedAudioLoadFrame a),
      view_epoch_end = streamEpoch a, view_active_end = writerActive a\<rparr>"

section \<open>Initialisation\<close>

definition ClampTargetLatency :: "SVCSharedAudio \<Rightarrow> u32 \<Rightarrow> u32" where
  "ClampTargetLatency audio requested =
     (let maximum = capacityFrames audio div 4; minimum = 256
      in if requested < minimum then minimum
         else if maximum < requested then maximum else requested)"

definition SVCSharedAudioReaderInit :: "SVCSharedAudio option \<Rightarrow> u32 \<Rightarrow> SVCSharedAudioReader" where
  "SVCSharedAudioReaderInit sharedAudio target =
     (let reader = \<lparr>readFrame = Fin False 0, lastEpoch = 0, underrunCount = 0, resyncCount = 0,
            targetLatencyFrames = 0, synchronized = False\<rparr>
      in case sharedAudio of
           None \<Rightarrow> reader
         | Some audio \<Rightarrow>
             if SVCSharedAudioIsValid (Some audio)
             then reader\<lparr>targetLatencyFrames := ClampTargetLatency audio target,
                         lastEpoch := streamEpoch audio\<rparr>
             else reader)"

section \<open>Helpers\<close>

text \<open>A buffer is the list of its floats; \<open>WriteSilence\<close> clears the first \<open>2 * frameCount\<close>.\<close>

definition WriteSilence :: "fp list option \<Rightarrow> u32 \<Rightarrow> fp list option" where
  "WriteSilence output frameCount =
     (case output of
        None \<Rightarrow> None
      | Some buf \<Rightarrow>
          let n = unat frameCount * kSVCSharedAudioChannelCount
          in Some (if 0 < frameCount then replicate n (Fin False 0) @ drop n buf else buf))"

definition ClampCorrection :: "fp \<Rightarrow> fp" where
  "ClampCorrection correction =
     (if fp_lt correction (fp_lit binary64 True (5 / 1000)) then fp_lit binary32 True (5 / 1000)
      else if fp_lt (fp_lit binary64 False (5 / 1000)) correction then fp_lit binary32 False (5 / 1000)
      else fp_conv binary32 correction)"

text \<open>
  One interpolated sample. With \<open>contracted\<close> the compiler fuses the multiplication and the
  addition of the expression, as Clang may.
\<close>

definition interpolate :: "bool \<Rightarrow> fp \<Rightarrow> fp \<Rightarrow> fp \<Rightarrow> fp" where
  "interpolate contracted first second fraction =
     (let d = fp_sub binary32 second first; t = fp_conv binary32 fraction
      in if contracted then fp_fma binary32 d t first
         else fp_add binary32 first (fp_mul binary32 d t))"

text \<open>The loop over output frames; \<open>False\<close> when a load fails.\<close>

fun read_loop ::
  "bool \<Rightarrow> (nat \<Rightarrow> u64 \<Rightarrow> stereo_bits option) \<Rightarrow> fp \<Rightarrow> nat \<Rightarrow> nat \<Rightarrow> fp \<Rightarrow> fp list
    \<Rightarrow> (bool \<times> fp \<times> fp list) option" where
  "read_loop contracted load ratio outputFrame 0 pos buf = Some (True, pos, buf)"
| "read_loop contracted load ratio outputFrame (Suc n) pos buf =
     (case fp_trunc (2 ^ 64) pos of
        None \<Rightarrow> None
      | Some src \<Rightarrow>
          let sourceFrame = of_nat src;
              fraction = fp_sub binary64 pos (fp_of_nat binary64 src)
          in case (load (2 * outputFrame) sourceFrame, load (2 * outputFrame + 1) (sourceFrame + 1)) of
               (Some first, Some second) \<Rightarrow>
                 read_loop contracted load ratio (Suc outputFrame) n (fp_add binary64 pos ratio)
                   (buf[outputFrame * kSVCSharedAudioChannelCount :=
                          interpolate contracted (f32_decode (fst first)) (f32_decode (fst second)) fraction,
                        outputFrame * kSVCSharedAudioChannelCount + 1 :=
                          interpolate contracted (f32_decode (snd first)) (f32_decode (snd second)) fraction])
             | _ \<Rightarrow> Some (False, pos, buf))"

section \<open>The read\<close>

text \<open>Lines 72 to 90: follow the epoch, wait for enough frames, take a position.\<close>

definition follow_epoch :: "SVCSharedAudioReader \<Rightarrow> ring_view \<Rightarrow> SVCSharedAudioReader" where
  "follow_epoch reader v =
     (if view_epoch v \<noteq> lastEpoch reader
      then reader\<lparr>lastEpoch := view_epoch v, synchronized := False\<rparr> else reader)"

definition synchronize :: "SVCSharedAudioReader \<Rightarrow> ring_view \<Rightarrow> SVCSharedAudioReader" where
  "synchronize reader v =
     (if \<not> synchronized reader
      then let p = fp_of_nat binary64 (unat (view_write v - ucast (targetLatencyFrames reader)));
               s = fp_of_nat binary64 (unat (view_start v))
           in reader\<lparr>readFrame := (if fp_lt p s then s else p), synchronized := True,
                     resyncCount := resyncCount reader + 1\<rparr>
      else reader)"

text \<open>Lines 100 to 108: the clock correction from the number of frames available.\<close>

definition playback_ratio :: "u64 \<Rightarrow> u32 \<Rightarrow> fp" where
  "playback_ratio available target =
     (let t = fp_of_nat binary64 (unat target);
          normalizedError = fp_div binary64 (fp_sub binary64 (fp_of_nat binary64 (unat available)) t) t
      in fp_add binary64 (Fin False 1)
           (fp_conv binary64 (ClampCorrection (fp_mul binary64 normalizedError
              (fp_lit binary64 False (1 / 100))))))"

definition required_frames :: "u32 \<Rightarrow> fp \<Rightarrow> u64 option" where
  "required_frames count ratio =
     map_option (\<lambda>r. of_nat r + 2)
       (fp_trunc (2 ^ 64) (fp_ceil (fp_mul binary64 (fp_of_nat binary64 (unat count)) ratio)))"

text \<open>Lines 92 to 148: check the position, then render, or leave silence and say why.\<close>

definition render ::
  "bool \<Rightarrow> SVCSharedAudioReader \<Rightarrow> ring_view \<Rightarrow> fp list \<Rightarrow> u32
    \<Rightarrow> (SVCSharedAudioReader \<times> fp list option \<times> u32) option" where
  "render contracted r v buf count =
     (let silence = WriteSilence (Some buf) count in
      case fp_trunc (2 ^ 64) (readFrame r) of
        None \<Rightarrow> None
      | Some i \<Rightarrow>
          let integerReadFrame = of_nat i in
          if view_write v < integerReadFrame
             \<or> ucast (view_capacity v - 2) \<le> view_write v - integerReadFrame
          then Some (r\<lparr>synchronized := False\<rparr>, silence, 0)
          else
            let available = view_write v - integerReadFrame;
                ratio = playback_ratio available (targetLatencyFrames r) in
            (case required_frames count ratio of
               None \<Rightarrow> None
             | Some required \<Rightarrow>
                 if available < required
                 then Some (r\<lparr>underrunCount := underrunCount r + 1\<rparr>, silence, 0)
                 else
                   (case read_loop contracted (view_load v) ratio 0 (unat count) (readFrame r) buf of
                      None \<Rightarrow> None
                    | Some (ok, pos, buf') \<Rightarrow>
                        if \<not> ok
                        then Some (r\<lparr>readFrame := pos, synchronized := False,
                                     underrunCount := underrunCount r + 1\<rparr>, silence, 0)
                        else if view_epoch_end v \<noteq> view_epoch v \<or> view_active_end v = 0
                        then Some (r\<lparr>readFrame := pos, synchronized := False\<rparr>, silence, 0)
                        else Some (r\<lparr>readFrame := pos\<rparr>, Some buf', count))))"

definition SVCSharedAudioReaderRead ::
  "bool \<Rightarrow> SVCSharedAudioReader option \<Rightarrow> ring_view \<Rightarrow> fp list option \<Rightarrow> u32
    \<Rightarrow> (SVCSharedAudioReader option \<times> fp list option \<times> u32) option" where
  "SVCSharedAudioReaderRead contracted reader v stereoOutput count =
     (case (reader, stereoOutput) of
        (Some r0, Some buf) \<Rightarrow>
          let silence = WriteSilence stereoOutput count in
          if count = 0 \<or> \<not> view_valid v then Some (reader, silence, 0)
          else if view_active v = 0 then Some (Some (r0\<lparr>synchronized := False\<rparr>), silence, 0)
          else
            let r1 = follow_epoch r0 v in
            if view_write v < view_start v
               \<or> view_write v - view_start v < ucast (targetLatencyFrames r1)
            then Some (Some r1, silence, 0)
            else map_option (apfst Some) (render contracted (synchronize r1 v) v buf count)
      | _ \<Rightarrow> Some (reader, WriteSilence stereoOutput count, 0))"

end
