(* ===== verification/Reader_Ratio.thy ===== *)
theory Reader_Ratio
  imports Audio_Reader
begin

text \<open>
  The arithmetic of one read: the reader invariant, the playback ratio, and how far the read
  position can move under rounding.
\<close>

section \<open>Small exact values\<close>

lemma f64_of_nat [simp]: "n \<le> 2 ^ 53 \<Longrightarrow> fp_of_nat binary64 n = Fin False (real n)"
  using f64.fp_of_nat_exact [of n] by simp

lemma rep64_of_nat: "n \<le> 2 ^ 53 \<Longrightarrow> rep binary64 (real n)"
  using f64.rep_of_nat [of n] by simp

lemma rep64_of_int: "0 \<le> i \<Longrightarrow> i \<le> 2 ^ 53 \<Longrightarrow> rep binary64 (real_of_int i)"
  using rep64_of_nat [of "nat i"] by simp

lemma f64_sub_nat:
  assumes "a \<le> 2 ^ 53" "b \<le> 2 ^ 53"
  shows "fp_sub binary64 (Fin False (real a)) (Fin False (real b))
    = Fin (a < b) \<bar>real a - real b\<bar>"
proof (cases "a = b")
  case True
  then show ?thesis by (simp add: fp_sub_def fp_round_def)
next
  case False
  have "rep binary64 \<bar>real a - real b\<bar>"
    using rep64_of_nat [of "a - b"] rep64_of_nat [of "b - a"] assms
    by (cases "b \<le> a") (simp_all add: of_nat_diff)
  moreover have "\<bar>real a - real b\<bar> \<le> 2 ^ 53"
  proof -
    have "real a \<le> real (2 ^ 53)" "real b \<le> real (2 ^ 53)" using assms by (simp_all only: of_nat_le_iff)
    then show ?thesis by simp
  qed
  ultimately show ?thesis
    using False f64.fp_make_small [of "\<bar>real a - real b\<bar>" "a < b"]
    by (simp add: fp_sub_def fp_round_def f64.rnd_rep)
qed

section \<open>The clamped correction\<close>

abbreviation correction_limit :: real where
  "correction_limit \<equiv> 5368709 / 2 ^ 30"

lemma lit32_5m: "fp_lit binary32 s (1 / 200) = Fin s correction_limit"
  by (simp add: fp_lit_def fp_make_def rnd_def quantum_def ilog2_def rne_def Let_def)

lemma lit64_5m: "fp_lit binary64 s (1 / 200) = Fin s (5764607523034235 / 2 ^ 60)"
  by (simp add: fp_lit_def fp_make_def rnd_def quantum_def ilog2_def rne_def Let_def)

lemma lit64_10m: "fp_lit binary64 s (1 / 100) = Fin s (5764607523034235 / 2 ^ 59)"
  by (simp add: fp_lit_def fp_make_def rnd_def quantum_def ilog2_def rne_def Let_def)

lemma rnd32_5m: "rnd binary32 (5764607523034235 / 2 ^ 60) = correction_limit"
  by (simp add: rnd_def quantum_def ilog2_def rne_def Let_def)

lemma ClampCorrection_bounds:
  assumes "fp_isfinite c" "fp_in binary64 c"
  obtains s r where "ClampCorrection c = Fin s r" "0 \<le> r" "r \<le> correction_limit"
    "rep binary32 r" "fp_val c = 0 \<longrightarrow> r = 0"
proof -
  obtain s r where c: "c = Fin s r" using assms(1) by (rule fp_isfinite_cases)
  have r0: "0 \<le> r" using assms(2) c fp_in_nonneg by blast
  have rl: "rep binary32 correction_limit"
    using f32.rep_rnd [of "5764607523034235 / 2 ^ 60"] by (simp only: rnd32_5m)
  consider (low) "fp_val c < - (5764607523034235 / 2 ^ 60)" | (high) "5764607523034235 / 2 ^ 60 < fp_val c"
    | (mid) "\<bar>fp_val c\<bar> \<le> 5764607523034235 / 2 ^ 60" by linarith
  then show ?thesis
  proof cases
    case low
    then show ?thesis using that [of True correction_limit] rl c
      by (simp add: ClampCorrection_def lit32_5m lit64_5m)
  next
    case high
    then show ?thesis using that [of False correction_limit] rl c
      by (simp add: ClampCorrection_def lit32_5m lit64_5m)
  next
    case mid
    then have r1: "r \<le> 5764607523034235 / 2 ^ 60" using c by (cases s) simp_all
    then have "rnd binary32 r \<le> correction_limit" using f32.rnd_mono [OF r1] by (simp only: rnd32_5m)
    moreover have "ClampCorrection c = fp_conv binary32 c"
      using mid c by (auto simp: ClampCorrection_def lit32_5m lit64_5m)
    moreover have "r \<le> 2 ^ 24" using r1 by simp
    then have "fp_conv binary32 c = Fin s (rnd binary32 r)" using c f32.fp_make_small [of r s] by simp
    moreover have "rnd binary32 r = 0" if "fp_val c = 0"
      using that c by (cases s) simp_all
    ultimately show ?thesis using that [of s "rnd binary32 r"] f32.rep_rnd f32.rnd_nonneg by metis
  qed
qed

text \<open>
  The ratio of a read with a positive target: one plus a bounded correction, exactly one at
  the target.
\<close>

lemma rep64_1_pm:
  "rnd binary64 (1 + correction_limit) = 1 + correction_limit"
  "rnd binary64 (1 - correction_limit) = 1 - correction_limit"
  by (simp_all add: rnd_def quantum_def ilog2_def rne_def Let_def)

lemma playback_ratio_bounds:
  assumes "unat available \<le> 2 ^ 20" "0 < target" "unat target \<le> 2 ^ 20"
  obtains r where "playback_ratio available target = Fin False r"
    "1 - correction_limit \<le> r" "r \<le> 1 + correction_limit" "rep binary64 r"
    "unat available = unat target \<longrightarrow> r = 1"
proof -
  define a where "a = unat available"
  define t where "t = unat target"
  have ab: "a \<le> 2 ^ 20" "t \<le> 2 ^ 20" "1 \<le> t"
    using assms by (simp_all add: a_def t_def unat_gt_0 Suc_le_eq)
  let ?e = "\<bar>real a - real t\<bar>"
  have e: "?e \<le> 2 ^ 20"
    using ab by (cases "a \<le> t") (simp_all add: abs_if)
  have "?e / real t \<le> ?e" using ab(3) by (simp add: divide_le_eq mult_le_cancel_left1)
  with e have q: "?e / real t \<le> 2 ^ 20" by linarith
  let ?n = "rnd binary64 (?e / real t)"
  have n: "?n \<le> 2 ^ 20" using q rep64_of_nat [of "2 ^ 20"] by (intro f64.rnd_le_rep) simp_all
  have d: "fp_div binary64 (fp_sub binary64 (fp_of_nat binary64 a) (fp_of_nat binary64 t)) (fp_of_nat binary64 t)
      = Fin (a < t) ?n"
    using ab q f64.fp_make_small [of "?e / real t" "a < t"] by (simp add: f64_sub_nat)
  define c where "c = fp_mul binary64 (Fin (a < t) ?n) (fp_lit binary64 False (1 / 100))"
  have "?n * (5764607523034235 / 2 ^ 59) \<le> 2 ^ 53" using n by simp
  then have c1: "c = Fin (a < t) (rnd binary64 (?n * (5764607523034235 / 2 ^ 59)))"
    using f64.fp_make_small [of "?n * (5764607523034235 / 2 ^ 59)" "a < t"]
    unfolding c_def lit64_10m fp_mul.simps by simp
  have "fp_isfinite c" using c1 by simp
  moreover have "fp_in binary64 c" unfolding c_def by (rule f64.fp_in_mul)
  ultimately obtain s k where k: "ClampCorrection c = Fin s k" "0 \<le> k" "k \<le> correction_limit" "rep binary32 k"
      "fp_val c = 0 \<longrightarrow> k = 0"
    by (rule ClampCorrection_bounds)
  have k64: "fp_conv binary64 (Fin s k) = Fin s (rnd binary64 k)"
    using k(3) f64.fp_make_small [of k s] by simp
  have kr: "rnd binary64 k \<le> correction_limit"
  proof -
    have "rep binary64 correction_limit"
      by (rule repI [of 5368709 _ "- 30"]) (simp_all add: power_int_def field_simps)
    with k(3) show ?thesis by (rule f64.rnd_le_rep)
  qed
  define x where "x = 1 + (if s then - rnd binary64 k else rnd binary64 k)"
  have x: "1 - correction_limit \<le> x" "x \<le> 1 + correction_limit"
    using kr f64.rnd_nonneg [of k] unfolding x_def by (cases s; simp only: if_True if_False; linarith)+
  have x0: "0 < x" using x(1) by simp
  then have "fp_add binary64 (Fin False 1) (Fin s (rnd binary64 k)) = Fin False (rnd binary64 x)"
    using x f64.fp_make_small [of x False] by (simp add: fp_round_def x_def)
  then have "playback_ratio available target = Fin False (rnd binary64 x)"
    using d k(1) k64 by (simp add: playback_ratio_def Let_def c_def a_def [symmetric] t_def [symmetric])
  moreover have "1 - correction_limit \<le> rnd binary64 x"
    using f64.rnd_mono [OF x(1)] by (simp only: rep64_1_pm)
  moreover have "rnd binary64 x \<le> 1 + correction_limit"
    using f64.rnd_mono [OF x(2)] by (simp only: rep64_1_pm)
  moreover have "rnd binary64 x = 1" if "a = t"
  proof -
    have "fp_val c = 0" using c1 that by simp
    then show ?thesis using k(5) by (simp add: x_def)
  qed
  ultimately show ?thesis using that f64.rep_rnd unfolding a_def t_def by blast
qed

end
