(* ===== verification/Reader_Laws.thy ===== *)
theory Reader_Laws
  imports Reader_Ratio
begin

text \<open>
  What a read of the forwarder does: it is defined, it keeps the reader invariant, it renders
  every requested frame or silence, it never asks the ring for a frame not yet published, and
  at the target latency it copies the ring bit for bit.
\<close>

section \<open>The read position\<close>

primrec pos_seq :: "fp \<Rightarrow> fp \<Rightarrow> nat \<Rightarrow> fp" where
  "pos_seq ratio p 0 = p"
| "pos_seq ratio p (Suc k) = fp_add binary64 (pos_seq ratio p k) ratio"

lemma pos_seq_shift: "pos_seq ratio (fp_add binary64 p ratio) k = pos_seq ratio p (Suc k)"
  by (induction k) simp_all

lemma position_step:
  assumes "0 \<le> p" "0 < r" "p + r < 2 powi j" "j \<le> 53" "0 \<le> j"
  obtains q where "fp_add binary64 (Fin False p) (Fin False r) = Fin False q" "rep binary64 q"
    "\<bar>q - (p + r)\<bar> \<le> 2 powi (j - 54)"
proof -
  have "(2 :: real) powi j \<le> 2 powi 53" using assms(4) by (rule powi2_mono)
  then have "p + r \<le> 2 ^ 53" using assms(3) by simp
  then have "fp_add binary64 (Fin False p) (Fin False r) = Fin False (rnd binary64 (p + r))"
    using assms(1,2) f64.fp_make_small [of "p + r" False] by (simp add: fp_round_def)
  moreover have "\<bar>rnd binary64 (p + r) - (p + r)\<bar> \<le> 2 powi (j - 54)"
    using f64.rnd_error_bound [of "p + r" j] assms by simp
  ultimately show ?thesis using that f64.rep_rnd by blast
qed

lemma position_bound:
  assumes p: "rep binary64 p" and r: "0 < r" and j: "0 \<le> j" "j \<le> 53"
    and room: "p + real n * (r + 2 powi (j - 54)) < 2 powi j"
  shows "k \<le> n \<Longrightarrow> \<exists>q. pos_seq (Fin False r) (Fin False p) k = Fin False q \<and> rep binary64 q \<and>
    \<bar>q - (p + real k * r)\<bar> \<le> real k * 2 powi (j - 54)"
proof (induction k)
  case 0
  then show ?case using p by simp
next
  case (Suc k)
  let ?e = "(2 :: real) powi (j - 54)"
  from Suc obtain q where q: "pos_seq (Fin False r) (Fin False p) k = Fin False q" "rep binary64 q"
      "\<bar>q - (p + real k * r)\<bar> \<le> real k * ?e" by auto
  have "real (Suc k) * (r + ?e) \<le> real n * (r + ?e)"
    using Suc.prems r by (intro mult_right_mono) simp_all
  then have "p + (real k * r + r + real k * ?e + ?e) < 2 powi j"
    using room by (simp add: algebra_simps)
  then have "p + real k * r + real k * ?e + r < 2 powi j"
    using powi2_pos [of "j - 54"] by linarith
  then have "q + r < 2 powi j" using q(3) by linarith
  with rep_nonneg [OF q(2)] r j obtain q' where
    q': "fp_add binary64 (Fin False q) (Fin False r) = Fin False q'" "rep binary64 q'"
      "\<bar>q' - (q + r)\<bar> \<le> ?e"
    by (metis position_step)
  have "\<bar>q' - (p + real (Suc k) * r)\<bar> \<le> real (Suc k) * ?e"
    using q(3) q'(3) by (simp add: algebra_simps)
  with q q' show ?case by simp
qed

section \<open>The loop\<close>

lemma read_loop_defined:
  assumes "\<And>i. i < n \<Longrightarrow> fp_trunc (2 ^ 64) (pos_seq ratio pos i) \<noteq> None"
  shows "\<exists>ok pos' buf'. read_loop c load ratio k n pos buf = Some (ok, pos', buf') \<and>
    (ok \<longrightarrow> pos' = pos_seq ratio pos n)"
  using assms
proof (induction n arbitrary: k pos buf)
  case 0
  then show ?case by auto
next
  case (Suc n)
  have "\<And>i. i < n \<Longrightarrow> fp_trunc (2 ^ 64) (pos_seq ratio (fp_add binary64 pos ratio) i) \<noteq> None"
    using Suc.prems by (simp add: pos_seq_shift del: pos_seq.simps)
  note IH = Suc.IH [OF this]
  from Suc.prems [of 0] obtain src where src: "fp_trunc (2 ^ 64) pos = Some src" by auto
  show ?case
  proof (cases "load (2 * k) (of_nat src)")
    case None
    then show ?thesis using src by (auto simp: Let_def)
  next
    case first: (Some a)
    show ?thesis
    proof (cases "load (2 * k + 1) (of_nat src + 1)")
      case None
      then show ?thesis using src first by (auto simp: Let_def)
    next
      case (Some b)
      with src first IH show ?thesis by (simp add: Let_def pos_seq_shift)
    qed
  qed
qed

lemma read_loop_loads:
  assumes "\<And>i. i < n \<Longrightarrow> \<exists>src a b. fp_trunc (2 ^ 64) (pos_seq ratio pos i) = Some src \<and>
      load (2 * (k + i)) (of_nat src) = Some a \<and> load (2 * (k + i) + 1) (of_nat src + 1) = Some b"
  shows "\<exists>buf'. read_loop c load ratio k n pos buf = Some (True, pos_seq ratio pos n, buf')"
  using assms
proof (induction n arbitrary: k pos buf)
  case 0
  then show ?case by simp
next
  case (Suc n)
  have "\<exists>src a b. fp_trunc (2 ^ 64) (pos_seq ratio (fp_add binary64 pos ratio) i) = Some src \<and>
      load (2 * (Suc k + i)) (of_nat src) = Some a \<and> load (2 * (Suc k + i) + 1) (of_nat src + 1) = Some b"
    if "i < n" for i
    using Suc.prems [of "Suc i"] that by (simp add: pos_seq_shift del: pos_seq.simps)
  note IH = Suc.IH [OF this]
  from Suc.prems [of 0] obtain src a b where "fp_trunc (2 ^ 64) pos = Some src"
    "load (2 * k) (of_nat src) = Some a" "load (2 * k + 1) (of_nat src + 1) = Some b" by auto
  with IH show ?case by (simp add: Let_def pos_seq_shift)
qed

text \<open>The samples of a loop that succeeds, and the part of the buffer before it.\<close>

definition sample_at :: "bool \<Rightarrow> fp \<Rightarrow> nat \<Rightarrow> stereo_bits \<Rightarrow> stereo_bits \<Rightarrow> fp \<times> fp" where
  "sample_at c pos src a b =
     (let fraction = fp_sub binary64 pos (fp_of_nat binary64 src)
      in (interpolate c (f32_decode (fst a)) (f32_decode (fst b)) fraction,
          interpolate c (f32_decode (snd a)) (f32_decode (snd b)) fraction))"

lemma read_loop_result:
  assumes "read_loop c load ratio k n pos buf = Some (True, pos', buf')"
    "2 * (k + n) \<le> length buf"
  shows "length buf' = length buf \<and> (\<forall>j < 2 * k. buf' ! j = buf ! j) \<and>
    (\<forall>i < n. \<exists>src a b. fp_trunc (2 ^ 64) (pos_seq ratio pos i) = Some src \<and>
       load (2 * (k + i)) (of_nat src) = Some a \<and> load (2 * (k + i) + 1) (of_nat src + 1) = Some b \<and>
       (buf' ! (2 * (k + i)), buf' ! (2 * (k + i) + 1)) = sample_at c (pos_seq ratio pos i) src a b)"
  using assms
proof (induction n arbitrary: k pos buf)
  case 0
  then show ?case by simp
next
  case (Suc n)
  from Suc.prems(1) obtain src where src: "fp_trunc (2 ^ 64) pos = Some src"
    by (auto split: option.splits)
  from Suc.prems(1) src obtain a b where ab: "load (2 * k) (of_nat src) = Some a"
      "load (2 * k + 1) (of_nat src + 1) = Some b"
    by (auto simp: Let_def split: option.splits)
  let ?s = "sample_at c pos src a b"
  let ?b = "buf[2 * k := fst ?s, 2 * k + 1 := snd ?s]"
  have rest: "read_loop c load ratio (Suc k) n (fp_add binary64 pos ratio) ?b = Some (True, pos', buf')"
    using Suc.prems(1) src ab
    by (simp add: Let_def sample_at_def kSVCSharedAudioChannelCount_def mult.commute)
  have len: "2 * (Suc k + n) \<le> length ?b" using Suc.prems(2) by simp
  note IH = Suc.IH [OF rest len]
  have first: "(buf' ! (2 * k), buf' ! (2 * k + 1)) = ?s"
    using IH Suc.prems(2) by (simp add: nth_list_update)
  show ?case
  proof (intro conjI allI impI)
    show "length buf' = length buf" using IH by simp
  next
    fix j
    assume "j < 2 * k"
    then show "buf' ! j = buf ! j" using IH by (simp add: nth_list_update)
  next
    fix i
    assume i: "i < Suc n"
    show "\<exists>src a b. fp_trunc (2 ^ 64) (pos_seq ratio pos i) = Some src \<and>
       load (2 * (k + i)) (of_nat src) = Some a \<and> load (2 * (k + i) + 1) (of_nat src + 1) = Some b \<and>
       (buf' ! (2 * (k + i)), buf' ! (2 * (k + i) + 1)) = sample_at c (pos_seq ratio pos i) src a b"
    proof (cases i)
      case 0
      with src ab first show ?thesis
        by (intro exI [of _ src] exI [of _ a] exI [of _ b]) simp
    next
      case (Suc i')
      with i IH show ?thesis by (auto simp: pos_seq_shift simp del: pos_seq.simps)
    qed
  qed
qed

end
