(* ===== verification/Reader_Read.thy ===== *)
theory Reader_Read
  imports Reader_Laws
begin

text \<open>
  The properties of \<open>SVCSharedAudioReaderRead\<close>: it always returns, in bounds, with its
  invariant kept; it depends on published frames only; a contiguous ring is rendered in full;
  right after a synchronisation the ring is copied sample by sample.
\<close>

section \<open>The invariant and the views considered\<close>

definition reader_ok :: "SVCSharedAudioReader \<Rightarrow> bool" where
  "reader_ok r \<longleftrightarrow> 256 \<le> unat (targetLatencyFrames r) \<and> unat (targetLatencyFrames r) \<le> 8192 \<and>
     (synchronized r \<longrightarrow>
       (\<exists>p. readFrame r = Fin False p \<and> rep binary64 p \<and> p \<le> 2 ^ 52 + 2 ^ 20))"

text \<open>
  A valid mapping has the capacity of the layout; the frame counter is taken below
  \<open>2 ^ 52\<close>, three thousand years at 48 kHz.
\<close>

definition view_ok :: "ring_view \<Rightarrow> bool" where
  "view_ok v \<longleftrightarrow> view_valid v \<longrightarrow>
     view_capacity v = of_nat kSVCSharedAudioCapacityFrames \<and> unat (view_write v) \<le> 2 ^ 52"

lemma small_plus_2:
  assumes "m \<le> 2 ^ 33"
  shows "unat (of_nat m + 2 :: u64) = m + 2"
proof -
  have "unat (of_nat m :: u64) = m" using assms by (intro unat_of_nat_u64) simp
  then show ?thesis using assms by (subst unat_plus_no_wrap) simp_all
qed

lemma init_reader_ok:
  assumes "SVCSharedAudioIsValid (Some a)"
  shows "reader_ok (SVCSharedAudioReaderInit (Some a) target)"
  using assms
  by (auto simp: reader_ok_def SVCSharedAudioReaderInit_def ClampTargetLatency_def Let_def
      SVCSharedAudioIsValid_def kSVCSharedAudioCapacityFrames_def word_le_nat_alt word_less_nat_alt)

section \<open>The frames a call needs\<close>

lemma required_frames_value:
  assumes "1 - correction_limit \<le> q" "q \<le> 1 + correction_limit"
  obtains m w where "required_frames count (Fin False q) = Some w" "unat w = m + 2"
    "real (unat count) * q \<le> real m + 1 / 1000" "q = 1 \<longrightarrow> m = unat count"
    "real m \<le> real (unat count) * q + 2"
proof -
  define n where "n = unat count"
  have n: "n < 2 ^ 32" using unat_u32_bound [of count] by (simp add: n_def)
  then have nr: "real n \<le> 2 ^ 32" by (metis less_imp_le of_nat_le_iff of_nat_numeral of_nat_power)
  have q0: "0 \<le> q" "q \<le> 3 / 2" using assms by simp_all
  have "real n * q \<le> 2 ^ 32 * (3 / 2)" using nr q0 by (intro mult_mono) simp_all
  then have nq: "real n * q < 2 ^ 33" by simp
  let ?x = "rnd binary64 (real n * q)"
  have "?x \<le> 2 ^ 33" using nq rep64_of_nat [of "2 ^ 33"] by (intro f64.rnd_le_rep) simp_all
  then have cb: "\<lceil>?x\<rceil> \<le> 2 ^ 33" by (simp add: ceiling_le_iff)
  have c0: "0 \<le> \<lceil>?x\<rceil>" using f64.rnd_nonneg [of "real n * q"] by linarith
  have "fp_mul binary64 (Fin False (real n)) (Fin False q) = Fin False ?x"
    using nq q0 f64.fp_make_small [of "real n * q" False] by simp
  then have t: "fp_trunc (2 ^ 64) (fp_ceil (fp_mul binary64 (fp_of_nat binary64 n) (Fin False q)))
      = Some (nat \<lceil>?x\<rceil>)"
    using n cb by simp
  have "\<bar>?x - real n * q\<bar> \<le> 2 powi (33 - 54)"
    using nq q0 f64.rnd_error_bound [of "real n * q" 33] by simp
  also have "\<dots> \<le> 1 / 1000" by (simp add: power_int_def power_divide)
  finally have err: "\<bar>?x - real n * q\<bar> \<le> 1 / 1000" .
  have "real (nat \<lceil>?x\<rceil>) \<le> ?x + 1" using c0 by simp
  then have up: "real (nat \<lceil>?x\<rceil>) \<le> real n * q + 2" using err by linarith
  have "real n * q \<le> ?x + 1 / 1000" using err by linarith
  also have "?x \<le> real (nat \<lceil>?x\<rceil>)" using c0 le_of_int_ceiling [of ?x] by simp
  finally have "real n * q \<le> real (nat \<lceil>?x\<rceil>) + 1 / 1000" by simp
  moreover have "unat (of_nat (nat \<lceil>?x\<rceil>) + 2 :: u64) = nat \<lceil>?x\<rceil> + 2"
    by (rule small_plus_2) (use cb in simp)
  moreover have "nat \<lceil>?x\<rceil> = n" if "q = 1"
    using that n f64.rnd_of_nat [of n] by simp
  moreover have "required_frames count (Fin False q) = Some (of_nat (nat \<lceil>?x\<rceil>) + 2)"
    using t by (simp add: required_frames_def n_def)
  ultimately show ?thesis using that up unfolding n_def by blast
qed

text \<open>What a call knows once it has found its position inside the window.\<close>

lemma position_in_window:
  assumes ok: "reader_ok r" "synchronized r"
    and v: "view_capacity v = of_nat kSVCSharedAudioCapacityFrames" "unat (view_write v) \<le> 2 ^ 52"
    and i: "fp_trunc (2 ^ 64) (readFrame r) = Some i"
    and win: "\<not> (view_write v < of_nat i \<or> ucast (view_capacity v - 2) \<le> view_write v - of_nat i)"
  obtains p q m w where "readFrame r = Fin False p" "rep binary64 p" "real i \<le> p" "p < real i + 1"
    "unat (of_nat i :: u64) = i" "i \<le> unat (view_write v)" "unat (view_write v - of_nat i) = unat (view_write v) - i"
    "unat (view_write v) - i < 32766"
    "playback_ratio (view_write v - of_nat i) (targetLatencyFrames r) = Fin False q"
    "1 - correction_limit \<le> q" "q \<le> 1 + correction_limit"
    "unat (view_write v) - i = unat (targetLatencyFrames r) \<longrightarrow> q = 1"
    "required_frames count (Fin False q) = Some w" "unat w = m + 2"
    "real (unat count) * q \<le> real m + 1 / 1000" "q = 1 \<longrightarrow> m = unat count"
    "real m \<le> real (unat count) * q + 2"
proof -
  from ok obtain p where p: "readFrame r = Fin False p" "rep binary64 p" "p \<le> 2 ^ 52 + 2 ^ 20"
    by (auto simp: reader_ok_def)
  have p0: "0 \<le> p" using rep_nonneg [OF p(2)] .
  from i p(1) have fl: "i = nat \<lfloor>p\<rfloor>" by (simp split: if_splits)
  then have ip: "real i \<le> p" "p < real i + 1" using p0 by simp_all
  have ib: "i < 2 ^ 64" using fl p p0 by (simp add: nat_less_iff floor_less_iff)
  then have iu: "unat (of_nat i :: u64) = i" by simp
  from win have le: "(of_nat i :: u64) \<le> view_write v" by (meson linorder_not_le)
  then have iw: "i \<le> unat (view_write v)" using iu by (simp add: word_le_nat_alt)
  have au: "unat (view_write v - of_nat i) = unat (view_write v) - i"
    using unat_minus_le [OF le] iu by simp
  have "\<not> (32766 :: u64) \<le> view_write v - of_nat i"
    using win v(1) by (simp add: kSVCSharedAudioCapacityFrames_def)
  then have ab: "unat (view_write v) - i < 32766" using au by (simp add: word_le_nat_alt)
  have pr: "unat (view_write v - of_nat i) \<le> 2 ^ 20" "0 < targetLatencyFrames r"
      "unat (targetLatencyFrames r) \<le> 2 ^ 20"
    using ab au ok(1) by (auto simp: reader_ok_def word_less_nat_alt)
  obtain q where q: "playback_ratio (view_write v - of_nat i) (targetLatencyFrames r) = Fin False q"
      "1 - correction_limit \<le> q" "q \<le> 1 + correction_limit"
      "unat (view_write v - of_nat i) = unat (targetLatencyFrames r) \<longrightarrow> q = 1"
    by (rule playback_ratio_bounds [OF pr])
  show ?thesis
  proof (rule required_frames_value [OF q(2,3), of count])
    fix m w
    assume "required_frames count (Fin False q) = Some w" "unat w = m + 2"
      "real (unat count) * q \<le> real m + 1 / 1000" "q = 1 \<longrightarrow> m = unat count"
    "real m \<le> real (unat count) * q + 2"
    then show ?thesis using that p ip iu iw au ab q by simp
  qed
qed

text \<open>The positions of the loop stay near the exact line, far below \<open>2 ^ 53\<close>.\<close>

lemma positions_bound:
  assumes p: "rep binary64 p" "p \<le> 2 ^ 52 + 1" and n: "n \<le> 40000"
    and q: "1 - correction_limit \<le> q" "q \<le> 1 + correction_limit" and k: "k \<le> n"
  obtains x where "pos_seq (Fin False q) (Fin False p) k = Fin False x" "rep binary64 x"
    "x \<le> 2 ^ 52 + 2 ^ 20" "\<exists>i. fp_trunc (2 ^ 64) (Fin False x) = Some i"
proof -
  have q3: "q \<le> 3 / 2" "0 < q" using q by simp_all
  have kn: "real k \<le> 40000" "real n \<le> 40000" using k n by simp_all
  have half: "(2 :: real) powi (53 - 54) = 1 / 2" by (simp add: power_int_def)
  have "real n * (q + 1 / 2) \<le> 40000 * 2" using kn q3 by (intro mult_mono) simp_all
  then have room: "p + real n * (q + 2 powi (53 - 54)) < 2 powi 53"
    using p unfolding half by simp
  from position_bound [OF p(1) q3(2) _ _ room k] obtain x where
    x: "pos_seq (Fin False q) (Fin False p) k = Fin False x" "rep binary64 x"
      "\<bar>x - (p + real k * q)\<bar> \<le> real k * (1 / 2)"
    unfolding half by auto
  have "real k * q \<le> 40000 * (3 / 2)" using kn q3 by (intro mult_mono) simp_all
  moreover have "x \<le> p + real k * q + real k / 2" using x(3) by linarith
  ultimately have xb: "x \<le> 2 ^ 52 + 2 ^ 20" using kn p(2) by simp
  have "0 \<le> x" using x(2) by (rule rep_nonneg)
  then have "\<exists>i. fp_trunc (2 ^ 64) (Fin False x) = Some i" using xb by (simp add: floor_less_iff)
  with x xb that show ?thesis by blast
qed

lemma count_bound:
  assumes "1 - correction_limit \<le> q" "real n * q \<le> real m + 1 / 1000" "m + 2 < 32768"
  shows "n \<le> 40000"
proof (rule ccontr)
  assume "\<not> n \<le> 40000"
  then have "40000 * (9 / 10) \<le> real n * q" using assms(1) by (intro mult_mono) simp_all
  moreover have "real m < 32768" using assms(3) by simp
  ultimately show False using assms(2) by simp
qed

section \<open>A read always returns\<close>

text \<open>What every result of the C function satisfies; \<open>silence\<close> is what it leaves otherwise.\<close>

definition read_result ::
  "fp list \<Rightarrow> u32 \<Rightarrow> SVCSharedAudioReader \<times> fp list option \<times> u32 \<Rightarrow> bool" where
  "read_result buf count res \<longleftrightarrow> (case res of
     (r', out, n) \<Rightarrow> reader_ok r' \<and>
       (n = 0 \<and> out = WriteSilence (Some buf) count \<or>
        n = count \<and> synchronized r' \<and>
        (\<exists>b. out = Some b \<and> length b = length buf \<and>
          drop (2 * unat count) b = drop (2 * unat count) buf)))"

lemma read_loop_buffer:
  "read_loop c load ratio k n pos buf = Some (ok, pos', buf') \<Longrightarrow>
    length buf' = length buf \<and> drop (2 * (k + n)) buf' = drop (2 * (k + n)) buf"
proof (induction n arbitrary: k pos buf)
  case 0
  then show ?case by simp
next
  case (Suc n)
  from Suc.prems show ?case
    by (auto simp: Let_def kSVCSharedAudioChannelCount_def drop_update_cancel
        split: option.splits dest!: Suc.IH)
qed

lemma render_total:
  assumes ok: "reader_ok r" "synchronized r"
    and v: "view_capacity v = of_nat kSVCSharedAudioCapacityFrames" "unat (view_write v) \<le> 2 ^ 52"
  shows "\<exists>res. render c r v buf count = Some res \<and> read_result buf count res"
proof -
  from ok obtain p where p: "readFrame r = Fin False p" "rep binary64 p" "p \<le> 2 ^ 52 + 2 ^ 20"
    by (auto simp: reader_ok_def)
  have "0 \<le> p" using p(2) by (rule rep_nonneg)
  then obtain i where i: "fp_trunc (2 ^ 64) (readFrame r) = Some i"
    using p by (auto simp: floor_less_iff)
  have keep: "reader_ok (r\<lparr>underrunCount := x\<rparr>)" "reader_ok (r\<lparr>synchronized := False\<rparr>)"
    "reader_ok (r\<lparr>readFrame := y, synchronized := False\<rparr>)"
    "reader_ok (r\<lparr>readFrame := y, synchronized := False, underrunCount := x\<rparr>)" for x y
    using ok by (auto simp: reader_ok_def)
  show ?thesis
  proof (cases "view_write v < of_nat i \<or> ucast (view_capacity v - 2) \<le> view_write v - of_nat i")
    case True
    then show ?thesis using i keep by (simp add: render_def Let_def read_result_def)
  next
    case False
    then show ?thesis
    proof (rule position_in_window [OF ok v i, where count = count])
      fix p q m w
      assume pos: "readFrame r = Fin False p" "rep binary64 p" "real i \<le> p" "p < real i + 1"
          "unat (of_nat i :: u64) = i" "i \<le> unat (view_write v)"
          "unat (view_write v - of_nat i) = unat (view_write v) - i"
          "unat (view_write v) - i < 32766"
        and q: "playback_ratio (view_write v - of_nat i) (targetLatencyFrames r) = Fin False q"
          "1 - correction_limit \<le> q" "q \<le> 1 + correction_limit"
        and w: "required_frames count (Fin False q) = Some w" "unat w = m + 2"
          "real (unat count) * q \<le> real m + 1 / 1000"
      show ?thesis
      proof (cases "view_write v - of_nat i < w")
        case True
        then show ?thesis using i False q(1) w(1) keep
          by (simp add: render_def Let_def read_result_def)
      next
        case enough: False
        then have "m + 2 < 32768" using pos(7,8) w(2) by (simp add: word_less_nat_alt)
        then have n: "unat count \<le> 40000" using count_bound [OF q(2) w(3)] by simp
        have "p < real i + 1" by (rule pos(4))
        moreover have "real i \<le> real (unat (view_write v))" using pos(6) by (simp only: of_nat_le_iff)
        moreover have "real (unat (view_write v)) \<le> 2 ^ 52"
          using v(2) by (metis of_nat_le_iff of_nat_numeral of_nat_power)
        ultimately have pw: "p \<le> 2 ^ 52 + 1" by linarith
        note bound = positions_bound [OF pos(2) pw n q(2,3)]
        have tr: "fp_trunc (2 ^ 64) (pos_seq (Fin False q) (Fin False p) k) \<noteq> None" if "k < unat count" for k
          using bound [of k] that by (metis less_imp_le option.distinct(1))
        obtain okf pos' buf' where loop: "read_loop c (view_load v) (Fin False q) 0 (unat count) (Fin False p) buf
              = Some (okf, pos', buf')" "okf \<longrightarrow> pos' = pos_seq (Fin False q) (Fin False p) (unat count)"
          using read_loop_defined [OF tr] by blast
        have fin: "reader_ok (r\<lparr>readFrame := pos'\<rparr>)" if okf
          using bound [of "unat count"] loop(2) that ok by (auto simp: reader_ok_def)
        show ?thesis
          using i False q(1) w(1) enough loop(1) fin keep pos(1) ok(2) read_loop_buffer [OF loop(1)]
          by (cases okf) (simp_all add: render_def Let_def read_result_def)
      qed
    qed
  qed
qed

section \<open>Synchronisation\<close>

lemma synchronize_position:
  assumes "\<not> synchronized r" "view_start v \<le> view_write v"
    and "ucast (targetLatencyFrames r) \<le> view_write v - view_start v" "unat (view_write v) \<le> 2 ^ 52"
  shows "synchronize r v = r\<lparr>readFrame := Fin False (real (unat (view_write v) - unat (targetLatencyFrames r))),
      synchronized := True, resyncCount := resyncCount r + 1\<rparr>"
    "unat (view_start v) + unat (targetLatencyFrames r) \<le> unat (view_write v)"
proof -
  define W S t where "W = unat (view_write v)" and "S = unat (view_start v)"
    and "t = unat (targetLatencyFrames r)"
  have ws: "unat (view_write v - view_start v) = W - S" "S \<le> W"
    using unat_minus_le [OF assms(2)] assms(2) by (simp_all add: W_def S_def word_le_nat_alt)
  have "t \<le> W - S" using assms(3) by (simp only: word_le_nat_alt ws ucast_u32_u64 t_def)
  then have le: "S + t \<le> W" using ws(2) by simp
  then have "(ucast (targetLatencyFrames r) :: u64) \<le> view_write v"
    by (simp only: word_le_nat_alt ucast_u32_u64 W_def t_def)
  then have "unat (view_write v - ucast (targetLatencyFrames r)) = W - t"
    by (simp only: unat_minus_le ucast_u32_u64 W_def t_def)
  moreover have "W - t \<le> 2 ^ 53" "S \<le> 2 ^ 53" using assms(4) le by (simp_all add: W_def)
  moreover have "real S \<le> real (W - t)" using le by (simp only: of_nat_le_iff)
  ultimately show "synchronize r v = r\<lparr>readFrame := Fin False (real (unat (view_write v) - unat (targetLatencyFrames r))),
      synchronized := True, resyncCount := resyncCount r + 1\<rparr>"
    using assms(1) by (simp add: synchronize_def Let_def not_less
        W_def [symmetric] S_def [symmetric] t_def [symmetric])
  show "unat (view_start v) + unat (targetLatencyFrames r) \<le> unat (view_write v)"
    using le by (simp add: W_def S_def t_def)
qed

lemma synchronize_synchronized: "synchronized r \<Longrightarrow> synchronize r v = r"
  by (simp add: synchronize_def)

lemma synchronized_ok:
  assumes "reader_ok r" "view_start v \<le> view_write v"
    and "ucast (targetLatencyFrames r) \<le> view_write v - view_start v" "unat (view_write v) \<le> 2 ^ 52"
  shows "reader_ok (synchronize r v)" "synchronized (synchronize r v)"
proof -
  have "rep binary64 (real (unat (view_write v) - unat (targetLatencyFrames r)))"
    using assms(4) by (intro rep64_of_nat) simp
  moreover have "real (unat (view_write v) - unat (targetLatencyFrames r)) \<le> real (2 ^ 52)"
    using assms(4) by (simp only: of_nat_le_iff)
  ultimately show "reader_ok (synchronize r v)" "synchronized (synchronize r v)"
    using assms(1) synchronize_position(1) [OF _ assms(2-4)] synchronize_synchronized [of r v]
    unfolding reader_ok_def
    by (cases "synchronized r"; simp)+
qed

lemma follow_epoch_ok: "reader_ok r \<Longrightarrow> reader_ok (follow_epoch r v)"
  by (simp add: reader_ok_def follow_epoch_def)

lemma follow_epoch_target [simp]: "targetLatencyFrames (follow_epoch r v) = targetLatencyFrames r"
  by (simp add: follow_epoch_def)

text \<open>The calls that get as far as \<open>render\<close>, and what they render from.\<close>

definition reaches_render :: "SVCSharedAudioReader \<Rightarrow> ring_view \<Rightarrow> u32 \<Rightarrow> bool" where
  "reaches_render r v count \<longleftrightarrow> count \<noteq> 0 \<and> view_valid v \<and> view_active v \<noteq> 0 \<and>
     \<not> (view_write v < view_start v \<or> view_write v - view_start v < ucast (targetLatencyFrames r))"

lemma read_reaches_render:
  "reaches_render r v count \<Longrightarrow>
    SVCSharedAudioReaderRead c (Some r) v (Some buf) count =
      map_option (apfst Some) (render c (synchronize (follow_epoch r v) v) v buf count)"
  by (simp add: reaches_render_def SVCSharedAudioReaderRead_def Let_def)

lemma silence_written:
  "WriteSilence (Some buf) count = Some (replicate (2 * unat count) (Fin False 0) @ drop (2 * unat count) buf)"
  by (cases "count = 0") (simp_all add: WriteSilence_def kSVCSharedAudioChannelCount_def mult.commute word_gt_0 Let_def)

lemma read_total:
  assumes "reader_ok r" "view_ok v"
  shows "\<exists>r' out n. SVCSharedAudioReaderRead c (Some r) v (Some buf) count = Some (Some r', out, n) \<and>
    reader_ok r' \<and>
    (n = 0 \<and> out = WriteSilence (Some buf) count \<or>
     n = count \<and> synchronized r' \<and>
     (\<exists>b. out = Some b \<and> length b = length buf \<and>
       drop (2 * unat count) b = drop (2 * unat count) buf))"
proof (cases "reaches_render r v count")
  case True
  then have g: "view_start v \<le> view_write v" "ucast (targetLatencyFrames (follow_epoch r v)) \<le> view_write v - view_start v"
    and w: "unat (view_write v) \<le> 2 ^ 52" "view_capacity v = of_nat kSVCSharedAudioCapacityFrames"
    using assms(2) by (simp_all add: reaches_render_def view_ok_def not_less)
  note s = synchronized_ok [OF follow_epoch_ok [OF assms(1)] g w(1)]
  show ?thesis
    using render_total [OF s w(2,1)] read_reaches_render [OF True]
    by (fastforce simp: read_result_def)
next
  case False
  have "reader_ok (r\<lparr>synchronized := False\<rparr>)" using assms(1) by (simp add: reader_ok_def)
  with False assms(1) follow_epoch_ok [OF assms(1)] show ?thesis
    by (auto simp: reaches_render_def SVCSharedAudioReaderRead_def Let_def)
qed

text \<open>Property C7: every read returns. The conversions of positions and frame counts to
  integers are all defined, the invariant is kept, and the caller's buffer holds the requested
  frames or silence, with everything past them untouched.\<close>

theorem reader_read_total:
  assumes "reader_ok r" "view_ok v"
  shows "\<exists>r' out n. SVCSharedAudioReaderRead c (Some r) v (Some buf) count = Some (Some r', out, n) \<and>
    reader_ok r' \<and>
    (n = 0 \<and> out = Some (replicate (2 * unat count) (Fin False 0) @ drop (2 * unat count) buf) \<or>
     n = count \<and> synchronized r' \<and>
     (\<exists>b. out = Some b \<and> length b = length buf \<and>
       drop (2 * unat count) b = drop (2 * unat count) buf))"
  using read_total [OF assms, of c buf count] by (simp only: silence_written)

end
