(* ===== verification/Reader_Playback.thy ===== *)
theory Reader_Playback
  imports Reader_Read
begin

text \<open>
  What a read plays: published frames of the current stream only, all of them when the ring is
  contiguous, and the captured samples themselves right after a synchronisation. The frame
  counter is taken below \<open>2 ^ 40\<close> (265 days at 48 kHz) and a call below 4096 frames, so that
  the rounding of the position stays below half a frame.
\<close>

section \<open>The frames the loop loads\<close>

lemma read_loop_cong:
  assumes "\<And>i src k. i < n \<Longrightarrow> fp_trunc (2 ^ 64) (pos_seq ratio pos i) = Some src \<Longrightarrow>
      load k (of_nat src) = load' k (of_nat src) \<and> load k (of_nat src + 1) = load' k (of_nat src + 1)"
  shows "read_loop c load ratio k0 n pos buf = read_loop c load' ratio k0 n pos buf"
  using assms
proof (induction n arbitrary: k0 pos buf)
  case 0
  then show ?case by simp
next
  case (Suc n)
  have IH: "read_loop c load ratio k (n) (fp_add binary64 pos ratio) b
      = read_loop c load' ratio k n (fp_add binary64 pos ratio) b" for k b
  proof (rule Suc.IH)
    fix i src k
    assume "i < n" "fp_trunc (2 ^ 64) (pos_seq ratio (fp_add binary64 pos ratio) i) = Some src"
    then show "load k (of_nat src) = load' k (of_nat src) \<and> load k (of_nat src + 1) = load' k (of_nat src + 1)"
      using Suc.prems [of "Suc i"] by (simp add: pos_seq_shift del: pos_seq.simps)
  qed
  show ?case
    using Suc.prems [of 0] by (auto simp: IH Let_def split: option.splits)
qed

lemma positions_in_window:
  assumes p: "rep binary64 p" "real i \<le> p" "p < real i + 1" and W: "W \<le> 2 ^ 40" "i \<le> W"
    and n: "n \<le> 4096" and q: "1 - correction_limit \<le> q" "q \<le> 1 + correction_limit"
    and m: "real n * q \<le> real m + 1 / 1000" "m + 2 \<le> W - i" and k: "k < n"
  obtains src where "fp_trunc (2 ^ 64) (pos_seq (Fin False q) (Fin False p) k) = Some src"
    "i \<le> src" "src + 1 < W" "unat (of_nat src :: u64) = src" "unat (of_nat src + 1 :: u64) = src + 1"
proof -
  have W': "real W \<le> 2 ^ 40" using W(1) by (metis of_nat_le_iff of_nat_numeral of_nat_power)
  have iW: "real i \<le> real W" using W(2) by (simp only: of_nat_le_iff)
  have kn: "real k + 1 \<le> real n" "real n \<le> 4096" using k n by simp_all
  have q0: "0 < q" "q \<le> 3 / 2" "99 / 100 < q" using q by simp_all
  have e: "(2 :: real) powi (41 - 54) = 1 / 8192" by (simp add: power_int_def power_divide)
  have "real n * (q + 1 / 8192) \<le> 4096 * 2" using kn q0 by (intro mult_mono) simp_all
  then have "p + real n * (q + 2 powi (41 - 54)) < 2 powi 41" using p(3) W' iW unfolding e by simp
  from position_bound [OF p(1) q0(1) _ _ this, of k] k obtain x where
    x: "pos_seq (Fin False q) (Fin False p) k = Fin False x" "rep binary64 x"
      "\<bar>x - (p + real k * q)\<bar> \<le> real k * (1 / 8192)"
    unfolding e by auto
  have kq: "real k * (99 / 100) \<le> real k * q" using q0 by (intro mult_left_mono) simp_all
  have k0: "0 \<le> real k" by simp
  have ix: "real i \<le> x" using x(3) kq p(2) k0 by linarith
  have "(real k + 1) * q \<le> real n * q" using kn q0 by (intro mult_right_mono) simp_all
  moreover have "real m + 2 \<le> real W - real i" using m(2) W(2) by linarith
  ultimately have "real i + real k * q + q + 2 \<le> real W + 1 / 1000"
    using m(1) by (simp add: algebra_simps)
  moreover have "x \<le> p + real k * q + 1 / 2" using x(3) kn by linarith
  ultimately have xW: "x + 1 < real W" using p(3) q0(3) by linarith
  let ?s = "nat \<lfloor>x\<rfloor>"
  have s0: "0 \<le> x" using x(2) by (rule rep_nonneg)
  have s: "real ?s \<le> x" using s0 by simp
  have "x < real ?s + 1" using s0 by simp
  then have "real i < real ?s + 1" using ix by linarith
  then have is_: "i \<le> ?s" by linarith
  have "real (?s + 1) < real W" using s xW by linarith
  then have sW: "?s + 1 < W" by (simp only: of_nat_less_iff)
  have "fp_trunc (2 ^ 64) (Fin False x) = Some ?s" using xW W' s0 by (simp add: floor_less_iff)
  moreover have u: "unat (of_nat ?s :: u64) = ?s" using sW W(1) by (intro unat_of_nat_u64) simp
  moreover have "unat (of_nat ?s + 1 :: u64) = ?s + 1"
    using u sW W(1) by (subst unat_plus_no_wrap) simp_all
  ultimately show ?thesis using that is_ sW x(1) by simp
qed

section \<open>Interpolation at a whole position\<close>

lemma interpolate_whole:
  assumes "fp_isfinite a" "fp_isfinite b" "fp_in binary32 a" "\<bar>fp_val a\<bar> \<le> 2 ^ 20" "\<bar>fp_val b\<bar> \<le> 2 ^ 20"
  shows "fp_isfinite (interpolate c a b (Fin False 0))"
    "fp_val (interpolate c a b (Fin False 0)) = fp_val a"
proof -
  obtain s x where a: "a = Fin s x" using assms(1) by (rule fp_isfinite_cases)
  obtain t y where b: "b = Fin t y" using assms(2) by (rule fp_isfinite_cases)
  have x: "rep binary32 x" using assms(3) a by (simp add: f32.rep_iff)
  have "\<bar>fp_val b - fp_val a\<bar> \<le> 2 ^ 20 + 2 ^ 20" using assms(4,5) by linarith
  then have "\<bar>fp_val b - fp_val a\<bar> \<le> 2 ^ prec binary32" by simp
  note f32.fp_round_small [OF this]
  moreover have "fp_sub binary32 b a = fp_round binary32 (t \<and> \<not> s) (fp_val b - fp_val a)"
    by (cases s) (simp_all add: fp_sub_def a b)
  ultimately have d: "fp_isfinite (fp_sub binary32 b a)" by simp
  then obtain u z where z: "fp_sub binary32 b a = Fin u z" by (rule fp_isfinite_cases)
  have c0: "fp_conv binary32 (Fin False 0) = Fin False 0"
    using f32.fp_make_small [of 0 False] by simp
  have m0: "fp_make binary32 v 0 = Fin v 0" for v using f32.fp_make_small [of 0 v] by simp
  have sr: "srnd binary32 (fp_val a) = fp_val a"
    using a x f32.srnd_rep [of x] f32.srnd_minus [of x] by simp
  have r: "fp_isfinite (fp_round binary32 k (fp_val a))" "fp_val (fp_round binary32 k (fp_val a)) = fp_val a" for k
    using f32.fp_round_small [of "fp_val a" k] assms(4) sr by simp_all
  show "fp_isfinite (interpolate c a b (Fin False 0))"
    "fp_val (interpolate c a b (Fin False 0)) = fp_val a"
    using r z c0 a by (cases s; simp add: interpolate_def Let_def fp_fma_def m0 del: fp_conv.simps)+
qed

section \<open>The position a call starts from\<close>

definition play_start :: "SVCSharedAudioReader \<Rightarrow> ring_view \<Rightarrow> nat" where
  "play_start r v =
     (case fp_trunc (2 ^ 64) (readFrame (synchronize (follow_epoch r v) v)) of
        None \<Rightarrow> 0 | Some i \<Rightarrow> i)"

definition resyncs :: "SVCSharedAudioReader \<Rightarrow> ring_view \<Rightarrow> bool" where
  "resyncs r v \<longleftrightarrow> \<not> synchronized r \<or> view_epoch v \<noteq> lastEpoch r"

lemma resyncs_follow: "resyncs r v = (\<not> synchronized (follow_epoch r v))"
  by (auto simp: resyncs_def follow_epoch_def)

lemma reaches_render_order:
  "reaches_render r v count \<Longrightarrow> view_start v \<le> view_write v"
  "reaches_render r v count \<Longrightarrow> ucast (targetLatencyFrames (follow_epoch r v)) \<le> view_write v - view_start v"
  by (simp_all add: reaches_render_def not_less)

lemma play_start_position:
  assumes "reader_ok r" "reaches_render r v count" "unat (view_write v) \<le> 2 ^ 52"
  obtains s where "s = synchronize (follow_epoch r v) v" "reader_ok s" "synchronized s"
    "fp_trunc (2 ^ 64) (readFrame s) = Some (play_start r v)"
proof -
  let ?s = "synchronize (follow_epoch r v) v"
  have ok: "reader_ok ?s" "synchronized ?s"
    using synchronized_ok [OF follow_epoch_ok [OF assms(1)] reaches_render_order [OF assms(2)] assms(3)] .
  then obtain p where p: "readFrame ?s = Fin False p" "rep binary64 p" "p \<le> 2 ^ 52 + 2 ^ 20"
    by (auto simp: reader_ok_def)
  have "0 \<le> p" using p(2) by (rule rep_nonneg)
  then have "fp_trunc (2 ^ 64) (readFrame ?s) = Some (play_start r v)"
    using p by (simp add: play_start_def floor_less_iff)
  with ok that show ?thesis by blast
qed

lemma resync_position:
  assumes "resyncs r v" "reaches_render r v count" "unat (view_write v) \<le> 2 ^ 52"
  shows "readFrame (synchronize (follow_epoch r v) v) =
      Fin False (real (unat (view_write v) - unat (targetLatencyFrames r)))"
    "play_start r v = unat (view_write v) - unat (targetLatencyFrames r)"
    "unat (view_start v) + unat (targetLatencyFrames r) \<le> unat (view_write v)"
proof -
  note s = synchronize_position [OF _ reaches_render_order [OF assms(2)] assms(3)]
  show r: "readFrame (synchronize (follow_epoch r v) v) =
      Fin False (real (unat (view_write v) - unat (targetLatencyFrames r)))"
    using s(1) assms(1) by (simp add: resyncs_follow)
  show "unat (view_start v) + unat (targetLatencyFrames r) \<le> unat (view_write v)"
    using s(2) assms(1) by (simp add: resyncs_follow)
  have "unat (view_write v) - unat (targetLatencyFrames r) < 2 ^ 64" using assms(3) by simp
  then show "play_start r v = unat (view_write v) - unat (targetLatencyFrames r)"
    unfolding play_start_def r by simp
qed

text \<open>The frames between the start position and the frame counter are all a call looks at.\<close>

lemma render_cong:
  assumes ok: "reader_ok r" "synchronized r"
    and v: "view_capacity v = of_nat kSVCSharedAudioCapacityFrames" "unat (view_write v) \<le> 2 ^ 40"
    and n: "unat count \<le> 4096" and i: "fp_trunc (2 ^ 64) (readFrame r) = Some i"
    and same: "\<And>k f. i \<le> unat f \<Longrightarrow> unat f < unat (view_write v) \<Longrightarrow> view_load v k f = load k f"
  shows "render c r (v\<lparr>view_load := load\<rparr>) buf count = render c r v buf count"
proof (cases "view_write v < of_nat i \<or> ucast (view_capacity v - 2) \<le> view_write v - of_nat i")
  case True
  then show ?thesis using i by (simp add: render_def Let_def)
next
  case False
  from v(2) have "unat (view_write v) \<le> 2 ^ 52" by simp
  then show ?thesis
  proof (rule position_in_window [OF ok v(1) _ i False, where count = count])
    fix p q m w
    assume pos: "readFrame r = Fin False p" "rep binary64 p" "real i \<le> p" "p < real i + 1"
        "i \<le> unat (view_write v)" "unat (view_write v - of_nat i) = unat (view_write v) - i"
      and q: "playback_ratio (view_write v - of_nat i) (targetLatencyFrames r) = Fin False q"
        "1 - correction_limit \<le> q" "q \<le> 1 + correction_limit"
      and w: "required_frames count (Fin False q) = Some w" "unat w = m + 2"
        "real (unat count) * q \<le> real m + 1 / 1000"
    show ?thesis
    proof (cases "view_write v - of_nat i < w")
      case True
      then show ?thesis using i False q(1) w(1) by (simp add: render_def Let_def)
    next
      case enough: False
      then have m: "m + 2 \<le> unat (view_write v) - i" using pos(6) w(2) by (simp add: word_less_nat_alt)
      have "read_loop c load (Fin False q) 0 (unat count) (Fin False p) buf =
          read_loop c (view_load v) (Fin False q) 0 (unat count) (Fin False p) buf"
      proof (rule read_loop_cong)
        fix j src k
        assume j: "j < unat count" "fp_trunc (2 ^ 64) (pos_seq (Fin False q) (Fin False p) j) = Some src"
        show "load k (of_nat src) = view_load v k (of_nat src) \<and>
            load k (of_nat src + 1) = view_load v k (of_nat src + 1)"
          using positions_in_window [OF pos(2-4) v(2) pos(5) n q(2,3) w(3) m j(1)] j(2) same
          by (metis (no_types, lifting) Suc_eq_plus1 Suc_lessD le_SucI option.inject)
      qed
      then show ?thesis
        using i q(1) pos(1) False enough w(1) 
        by (simp add: render_def Let_def del: fp_trunc.simps split: option.split prod.split)
    qed
  qed
qed

text \<open>A call whose frames are all there, on a stream that stays up, renders every frame.\<close>

lemma render_full:
  assumes ok: "reader_ok r" "synchronized r"
    and v: "view_capacity v = of_nat kSVCSharedAudioCapacityFrames" "unat (view_write v) \<le> 2 ^ 40"
    and n: "unat count \<le> 4096" and i: "fp_trunc (2 ^ 64) (readFrame r) = Some i"
    and room: "i + unat count + unat count div 100 + 4 \<le> unat (view_write v)"
      "unat (view_write v) < i + 32766"
    and there: "\<And>k f. i \<le> unat f \<Longrightarrow> unat f < unat (view_write v) \<Longrightarrow> view_load v k f \<noteq> None"
    and up: "view_epoch_end v = view_epoch v" "view_active_end v \<noteq> 0"
  shows "\<exists>pos b. render c r v buf count = Some (r\<lparr>readFrame := pos\<rparr>, Some b, count)"
proof -
  have "unat (of_nat i :: u64) = i" using room(1) v(2) by (intro unat_of_nat_u64) simp
  moreover from this have le: "(of_nat i :: u64) \<le> view_write v"
    using room(1) by (simp add: word_le_nat_alt)
  ultimately have au: "unat (view_write v - of_nat i) = unat (view_write v) - i"
    by (simp add: unat_minus_le)
  have "\<not> (32766 :: u64) \<le> view_write v - of_nat i"
    using au room(2) by (simp add: word_le_nat_alt)
  then have win: "\<not> (view_write v < of_nat i \<or> ucast (view_capacity v - 2) \<le> view_write v - of_nat i)"
    using v(1) le by (simp add: kSVCSharedAudioCapacityFrames_def not_less)
  from v(2) have "unat (view_write v) \<le> 2 ^ 52" by simp
  then show ?thesis
  proof (rule position_in_window [OF ok v(1) _ i win, where count = count])
    fix p q m w
    assume pos: "readFrame r = Fin False p" "rep binary64 p" "real i \<le> p" "p < real i + 1"
        "i \<le> unat (view_write v)"
      and q: "playback_ratio (view_write v - of_nat i) (targetLatencyFrames r) = Fin False q"
        "1 - correction_limit \<le> q" "q \<le> 1 + correction_limit"
      and w: "required_frames count (Fin False q) = Some w" "unat w = m + 2"
        "real (unat count) * q \<le> real m + 1 / 1000" "real m \<le> real (unat count) * q + 2"
    define n' where "n' = unat count"
    have "real n' * q \<le> real n' * (1 + 1 / 100)" using q(3) by (intro mult_left_mono) simp_all
    moreover have "real n' / 100 < real (n' div 100) + 1" by linarith
    ultimately have "real m < real (n' + n' div 100 + 3)" using w(4) unfolding n'_def by simp
    then have mle: "m \<le> n' + n' div 100 + 2" by linarith
    then have m: "m + 2 \<le> unat (view_write v) - i" using room(1) by (simp add: n'_def)
    then have enough: "\<not> view_write v - of_nat i < w" using au w(2) by (simp add: word_less_nat_alt)
    have "\<exists>b. read_loop c (view_load v) (Fin False q) 0 (unat count) (Fin False p) buf
        = Some (True, pos_seq (Fin False q) (Fin False p) (unat count), b)"
    proof (rule read_loop_loads)
      fix j
      assume j: "j < unat count"
      obtain src where src: "fp_trunc (2 ^ 64) (pos_seq (Fin False q) (Fin False p) j) = Some src"
          "i \<le> src" "src + 1 < unat (view_write v)"
          "unat (of_nat src :: u64) = src" "unat (of_nat src + 1 :: u64) = src + 1"
        by (rule positions_in_window [OF pos(2-4) v(2) pos(5) n q(2,3) w(3) m j])
      have "view_load v (2 * (0 + j)) (of_nat src) \<noteq> None"
        by (rule there; unfold src(4); use src in linarith)
      moreover have "view_load v (2 * (0 + j) + 1) (of_nat src + 1) \<noteq> None"
        by (rule there; unfold src(5); use src in linarith)
      ultimately show "\<exists>src a b. fp_trunc (2 ^ 64) (pos_seq (Fin False q) (Fin False p) j) = Some src \<and>
          view_load v (2 * (0 + j)) (of_nat src) = Some a \<and>
          view_load v (2 * (0 + j) + 1) (of_nat src + 1) = Some b"
        using src(1) by blast
    qed
    then show ?thesis
      using i q(1) pos(1) win enough w(1) up by (auto simp: render_def Let_def simp del: fp_trunc.simps)
  qed
qed

end
