(* ===== verification/Reader_Theorems.thy ===== *)
theory Reader_Theorems
  imports Reader_Playback
begin

text \<open>
  The properties of playback: no unpublished or earlier-stream frame is ever looked at, a
  contiguous ring is rendered in full, a fresh position copies the captured samples, a stalled
  writer costs no position.
\<close>

section \<open>A concrete view for the witnesses\<close>

definition example_reader :: SVCSharedAudioReader where
  "example_reader = \<lparr>readFrame = Fin False 0, lastEpoch = 0, underrunCount = 0, resyncCount = 0,
     targetLatencyFrames = 1024, synchronized = False\<rparr>"

definition example_view :: ring_view where
  "example_view = \<lparr>view_valid = True, view_capacity = of_nat kSVCSharedAudioCapacityFrames,
     view_active = 1, view_epoch = 1, view_write = 2048, view_start = 0,
     view_load = (\<lambda>k f. Some (0, 0)), view_epoch_end = 1, view_active_end = 1\<rparr>"

lemma example_ok:
  "reader_ok example_reader" "view_ok example_view" "reaches_render example_reader example_view 512"
  "resyncs example_reader example_view"
  by (simp_all add: reader_ok_def view_ok_def reaches_render_def resyncs_def example_reader_def
      example_view_def)

text \<open>A buffer with room for one frame more than is asked for: its last two samples are not touched.\<close>

theorem reader_read_total_witness:
  "\<exists>r' b n. SVCSharedAudioReaderRead False (Some example_reader) example_view (Some (replicate 1026 (Fin False 1))) 512
      = Some (Some r', Some b, n) \<and> reader_ok r' \<and> length b = 1026 \<and> drop 1024 b = replicate 2 (Fin False 1)"
  using reader_read_total [OF example_ok(1,2), of False "replicate 1026 (Fin False 1)" 512] by auto

section \<open>Published frames only\<close>

text \<open>Property C11: a read depends only on frames from its start position up to the frame
  counter, so a frame the driver has not published cannot be heard, whatever its slot holds;
  and a read that starts a new position starts it inside the current stream, so nothing from
  before the last reset is heard either.\<close>

theorem reader_reads_published_frames_only:
  assumes "reader_ok r" "view_ok v" "unat (view_write v) \<le> 2 ^ 40" "unat count \<le> 4096"
    and "\<And>k f. play_start r v \<le> unat f \<Longrightarrow> unat f < unat (view_write v) \<Longrightarrow> view_load v k f = load k f"
  shows "SVCSharedAudioReaderRead c (Some r) (v\<lparr>view_load := load\<rparr>) (Some buf) count =
      SVCSharedAudioReaderRead c (Some r) v (Some buf) count \<and>
    (resyncs r v \<and> reaches_render r v count \<longrightarrow> unat (view_start v) \<le> play_start r v)"
proof (rule conjI)
  have w: "unat (view_write v) \<le> 2 ^ 52" using assms(3) by simp
  have sync: "synchronize (follow_epoch r (v\<lparr>view_load := load\<rparr>)) (v\<lparr>view_load := load\<rparr>)
      = synchronize (follow_epoch r v) v"
    by (simp add: synchronize_def follow_epoch_def)
  have reach: "reaches_render r (v\<lparr>view_load := load\<rparr>) count = reaches_render r v count"
    by (simp add: reaches_render_def)
  show "SVCSharedAudioReaderRead c (Some r) (v\<lparr>view_load := load\<rparr>) (Some buf) count =
      SVCSharedAudioReaderRead c (Some r) v (Some buf) count"
  proof (cases "reaches_render r v count")
    case True
    obtain s where s: "s = synchronize (follow_epoch r v) v" "reader_ok s" "synchronized s"
        "fp_trunc (2 ^ 64) (readFrame s) = Some (play_start r v)"
      by (rule play_start_position [OF assms(1) True w])
    have "view_capacity v = of_nat kSVCSharedAudioCapacityFrames"
      using assms(2) True by (simp add: view_ok_def reaches_render_def)
    from render_cong [OF s(2,3) this assms(3,4) s(4) assms(5), of c buf]
    show ?thesis using True reach by (simp add: read_reaches_render sync s(1) [symmetric])
  next
    case False
    then show ?thesis
      by (auto simp: reaches_render_def SVCSharedAudioReaderRead_def Let_def follow_epoch_def)
  qed
  show "resyncs r v \<and> reaches_render r v count \<longrightarrow> unat (view_start v) \<le> play_start r v"
    using resync_position [of r v count] w by auto
qed

theorem reader_reads_published_frames_only_witness:
  "SVCSharedAudioReaderRead False (Some example_reader)
      (example_view\<lparr>view_load := \<lambda>k f. if unat f < 2048 then Some (0, 0) else None\<rparr>) (Some []) 512 =
    SVCSharedAudioReaderRead False (Some example_reader) example_view (Some []) 512"
  by (rule reader_reads_published_frames_only [OF example_ok(1,2), THEN conjunct1])
    (simp_all add: example_view_def)

section \<open>Complete playback\<close>

text \<open>Property C12: while every frame from the start position to the frame counter is in the
  ring, the position is inside the window with room for the call, and the stream stays up, the
  call renders all the frames it was asked for and keeps its synchronisation.\<close>

theorem reader_renders_contiguous_stream:
  assumes "reader_ok r" "view_ok v" "unat (view_write v) \<le> 2 ^ 40" "unat count \<le> 4096"
    and "reaches_render r v count"
    and "play_start r v + unat count + unat count div 100 + 4 \<le> unat (view_write v)"
    and "unat (view_write v) < play_start r v + 32766"
    and "\<And>k f. play_start r v \<le> unat f \<Longrightarrow> unat f < unat (view_write v) \<Longrightarrow> view_load v k f \<noteq> None"
    and "view_epoch_end v = view_epoch v" "view_active_end v \<noteq> 0"
  shows "\<exists>r' b. SVCSharedAudioReaderRead c (Some r) v (Some buf) count = Some (Some r', Some b, count) \<and>
    synchronized r' \<and> underrunCount r' = underrunCount r"
proof -
  have w: "unat (view_write v) \<le> 2 ^ 52" using assms(3) by simp
  obtain s where s: "s = synchronize (follow_epoch r v) v" "reader_ok s" "synchronized s"
      "fp_trunc (2 ^ 64) (readFrame s) = Some (play_start r v)"
    by (rule play_start_position [OF assms(1,5) w])
  have "view_capacity v = of_nat kSVCSharedAudioCapacityFrames"
    using assms(2,5) by (simp add: view_ok_def reaches_render_def)
  note full = render_full [OF s(2,3) this assms(3,4) s(4) assms(6-10), of c buf]
  have "underrunCount s = underrunCount r" by (simp add: s(1) synchronize_def follow_epoch_def Let_def)
  then show ?thesis
    using full s(3) read_reaches_render [OF assms(5), of c buf] by (auto simp: s(1) [symmetric])
qed

theorem reader_renders_contiguous_stream_witness:
  "\<exists>r' b. SVCSharedAudioReaderRead False (Some example_reader) example_view (Some []) 512
      = Some (Some r', Some b, 512) \<and> synchronized r' \<and> underrunCount r' = underrunCount example_reader"
proof -
  have p: "play_start example_reader example_view = 1024"
    using resync_position(2) [OF example_ok(4,3)]
    by (simp add: example_view_def example_reader_def)
  show ?thesis
    by (rule reader_renders_contiguous_stream [OF example_ok(1,2) _ _ example_ok(3)])
      (simp_all add: p, simp_all add: example_view_def)
qed

section \<open>Exact copies\<close>

lemma exact_positions:
  "a + k \<le> 2 ^ 53 \<Longrightarrow> pos_seq (Fin False 1) (Fin False (real a)) k = Fin False (real (a + k))"
proof (induction k)
  case 0
  then show ?case by simp
next
  case (Suc k)
  have "fp_make binary64 False (real (Suc (a + k))) = Fin False (real (Suc (a + k)))"
    using f64_of_nat [of "Suc (a + k)"] Suc.prems by (simp only: fp_of_nat_def add_Suc_right)
  with Suc show ?case by (simp add: fp_round_def add.commute add.left_commute)
qed

lemma sample_at_whole:
  assumes "n \<le> 2 ^ 53"
    and "\<And>w. w \<in> {fst a, snd a, fst b, snd b} \<Longrightarrow>
      fp_isfinite (f32_decode w) \<and> \<bar>fp_val (f32_decode w)\<bar> \<le> 2 ^ 20"
  shows "map_prod fp_val fp_val (sample_at c (Fin False (real n)) n a b) =
    (fp_val (f32_decode (fst a)), fp_val (f32_decode (snd a)))"
proof -
  have "fp_sub binary64 (Fin False (real n)) (fp_of_nat binary64 n) = Fin False 0"
    using f64_sub_nat [of n n] assms(1) by simp
  then show ?thesis
    using assms(2) by (simp add: sample_at_def Let_def interpolate_whole f32_decode_in)
qed

lemma copies_captured_samples:
  assumes "reader_ok r" "view_ok v" "unat (view_write v) \<le> 2 ^ 52"
    and "reaches_render r v count" "resyncs r v"
    and "unat count + 2 \<le> unat (targetLatencyFrames r)" "2 * unat count \<le> length buf"
    and "a = unat (view_write v) - unat (targetLatencyFrames r)"
    and "\<And>k f. a \<le> unat f \<Longrightarrow> unat f < unat (view_write v) \<Longrightarrow> view_load v k f = Some (captured (unat f))"
    and "\<And>f w. w \<in> {fst (captured f), snd (captured f)} \<Longrightarrow>
      fp_isfinite (f32_decode w) \<and> \<bar>fp_val (f32_decode w)\<bar> \<le> 2 ^ 20"
    and "view_epoch_end v = view_epoch v" "view_active_end v \<noteq> 0"
  shows "\<exists>r' b. SVCSharedAudioReaderRead c (Some r) v (Some buf) count = Some (Some r', Some b, count) \<and>
    readFrame r' = Fin False (real (a + unat count)) \<and>
    (\<forall>i < unat count. fp_val (b ! (2 * i)) = fp_val (f32_decode (fst (captured (a + i)))) \<and>
       fp_val (b ! (2 * i + 1)) = fp_val (f32_decode (snd (captured (a + i)))))"
proof -
  let ?n = "unat count"
  let ?W = "unat (view_write v)"
  let ?s = "synchronize (follow_epoch r v) v"
  note rs = resync_position [OF assms(5,4,3)]
  have rf: "readFrame ?s = Fin False (real a)" using rs(1) assms(8) by simp
  have i: "fp_trunc (2 ^ 64) (readFrame ?s) = Some a"
    using assms(3,8) by (simp add: rf)
  have tgt: "targetLatencyFrames ?s = targetLatencyFrames r"
    by (simp add: synchronize_def Let_def)
  have W: "?W = a + unat (targetLatencyFrames r)" using rs(3) assms(8) by simp
  have tb: "unat (targetLatencyFrames r) \<le> 8192" using assms(1) by (simp add: reader_ok_def)
  have ok: "reader_ok ?s" "synchronized ?s"
    using synchronized_ok [OF follow_epoch_ok [OF assms(1)] reaches_render_order [OF assms(4)] assms(3)] .
  have cap: "view_capacity v = of_nat kSVCSharedAudioCapacityFrames"
    using assms(2,4) by (simp add: view_ok_def reaches_render_def)
  have ua: "unat (of_nat a :: u64) = a" using W assms(3) by (intro unat_of_nat_u64) simp
  have le: "(of_nat a :: u64) \<le> view_write v" using W by (simp only: word_le_nat_alt ua)
  have au: "unat (view_write v - of_nat a) = unat (targetLatencyFrames r)"
    using unat_minus_le [OF le] ua W by simp
  have "\<not> (32766 :: u64) \<le> view_write v - of_nat a" using au tb by (simp only: word_le_nat_alt) simp
  then have win: "\<not> (view_write v < of_nat a \<or> ucast (view_capacity v - 2) \<le> view_write v - of_nat a)"
    using cap le by (simp add: kSVCSharedAudioCapacityFrames_def not_less)
  have load: "view_load v k (of_nat (a + j)) = Some (captured (a + j))"
    if "a + j < ?W" for k j
  proof -
    have "unat (of_nat (a + j) :: u64) = a + j" using that assms(3) by (intro unat_of_nat_u64) simp
    then show ?thesis using assms(9) [of "of_nat (a + j)" k] that by (simp only:)
  qed
  have seq: "pos_seq (Fin False 1) (Fin False (real a)) k = Fin False (real (a + k))" if "k \<le> ?n" for k
    using exact_positions [of a k] that W assms(3,6) by simp
  have trunc: "fp_trunc (2 ^ 64) (pos_seq (Fin False 1) (Fin False (real a)) k) = Some (a + k)"
    if "k \<le> ?n" for k
    using that W assms(3,6) by (simp add: seq)
  show ?thesis
  proof (rule position_in_window [OF ok cap assms(3) i win, where count = count])
    fix q m w
    assume q: "playback_ratio (view_write v - of_nat a) (targetLatencyFrames ?s) = Fin False q"
        "?W - a = unat (targetLatencyFrames ?s) \<longrightarrow> q = 1"
      and w: "required_frames count (Fin False q) = Some w" "unat w = m + 2" "q = 1 \<longrightarrow> m = ?n"
    have q1: "q = 1" using q(2) W tgt by simp
    have enough: "\<not> view_write v - of_nat a < w"
      using w(2,3) q1 au assms(6) by (simp add: word_less_nat_alt)
    have "\<exists>b. read_loop c (view_load v) (Fin False 1) 0 ?n (Fin False (real a)) buf
        = Some (True, pos_seq (Fin False 1) (Fin False (real a)) ?n, b)"
    proof (rule read_loop_loads)
      fix j
      assume j: "j < ?n"
      have "view_load v (2 * (0 + j) + 1) (of_nat (a + j) + 1) = Some (captured (a + Suc j))"
        using load [of "Suc j"] j W assms(6) by (simp add: add.commute)
      with j trunc [of j] load [of j "2 * (0 + j)"] W assms(6)
      show "\<exists>src x y. fp_trunc (2 ^ 64) (pos_seq (Fin False 1) (Fin False (real a)) j) = Some src \<and>
          view_load v (2 * (0 + j)) (of_nat src) = Some x \<and>
          view_load v (2 * (0 + j) + 1) (of_nat src + 1) = Some y"
        by fastforce
    qed
    then obtain b where b: "read_loop c (view_load v) (Fin False 1) 0 ?n (Fin False (real a)) buf
        = Some (True, Fin False (real (a + ?n)), b)"
      using seq [of ?n] by auto
    have "render c ?s v buf count = Some (?s\<lparr>readFrame := Fin False (real (a + ?n))\<rparr>, Some b, count)"
      using i q(1) q1 rf win enough w(1) b assms(11,12)
      by (simp add: render_def Let_def del: fp_trunc.simps)
    moreover have "fp_val (b ! (2 * j)) = fp_val (f32_decode (fst (captured (a + j)))) \<and>
        fp_val (b ! (2 * j + 1)) = fp_val (f32_decode (snd (captured (a + j))))" if j: "j < ?n" for j
    proof -
      from read_loop_result [OF b] assms(7) j obtain src x y where
        r: "fp_trunc (2 ^ 64) (pos_seq (Fin False 1) (Fin False (real a)) j) = Some src"
          "view_load v (2 * j) (of_nat src) = Some x" "view_load v (2 * j + 1) (of_nat src + 1) = Some y"
          "(b ! (2 * j), b ! (2 * j + 1)) = sample_at c (pos_seq (Fin False 1) (Fin False (real a)) j) src x y"
        by auto
      have src: "src = a + j" using r(1) trunc [of j] j by simp
      have x: "x = captured (a + j)" using r(2) load [of j] j W assms(6) by (simp add: src)
      have y: "y = captured (a + Suc j)"
        using r(3) load [of "Suc j"] j W assms(6) by (simp add: src add.commute)
      have "map_prod fp_val fp_val (b ! (2 * j), b ! (2 * j + 1))
          = (fp_val (f32_decode (fst x)), fp_val (f32_decode (snd x)))"
        unfolding r(4) seq [OF less_imp_le [OF j]] src
      proof (rule sample_at_whole)
        show "a + j \<le> 2 ^ 53" using j W assms(3,6) by simp
      qed (use assms(10) x y in blast)
      then show ?thesis by (simp add: x)
    qed
    ultimately show ?thesis using read_reaches_render [OF assms(4), of c buf] by auto
  qed
qed

text \<open>Property C5: the first read after a synchronisation, on a stream that stays up, copies
  the captured samples: with the position at the target latency the correction is exactly one
  and the interpolation exactly the first sample, so frame \<open>i\<close> of the output has the values
  captured for frame \<open>writeFrame - targetLatencyFrames + i\<close>, with no rounding anywhere. The
  samples are taken finite and below \<open>2 ^ 20\<close>, so that their differences are finite.\<close>

theorem reader_copies_captured_samples:
  assumes "reader_ok r" "view_ok v" "unat (view_write v) \<le> 2 ^ 52"
    and "reaches_render r v count" "resyncs r v"
    and "unat count + 2 \<le> unat (targetLatencyFrames r)" "2 * unat count \<le> length buf"
    and "a = unat (view_write v) - unat (targetLatencyFrames r)"
    and "\<And>k f. a \<le> unat f \<Longrightarrow> unat f < unat (view_write v) \<Longrightarrow> view_load v k f = Some (captured (unat f))"
    and "\<And>f w. w \<in> {fst (captured f), snd (captured f)} \<Longrightarrow>
      fp_isfinite (f32_decode w) \<and> \<bar>fp_val (f32_decode w)\<bar> \<le> 2 ^ 20"
    and "view_epoch_end v = view_epoch v" "view_active_end v \<noteq> 0"
  shows "\<exists>r' b. SVCSharedAudioReaderRead c (Some r) v (Some buf) count = Some (Some r', Some b, count) \<and>
    readFrame r' = Fin False (real (a + unat count)) \<and>
    (\<forall>i < unat count. fp_val (b ! (2 * i)) = fp_val (f32_decode (fst (captured (a + i)))) \<and>
       fp_val (b ! (2 * i + 1)) = fp_val (f32_decode (snd (captured (a + i)))))"
  using assms by (rule copies_captured_samples)

theorem reader_copies_captured_samples_witness:
  "\<exists>r' b. SVCSharedAudioReaderRead False (Some example_reader) example_view (Some (replicate 1024 NaN)) 512
      = Some (Some r', Some b, 512) \<and> readFrame r' = Fin False 1536 \<and> fp_val (b ! 1023) = 0"
proof -
  have d: "f32_decode 0 = Fin False 0" by (simp add: f32_decode_def)
  have "\<exists>r' b. SVCSharedAudioReaderRead False (Some example_reader) example_view (Some (replicate 1024 NaN)) 512
      = Some (Some r', Some b, 512) \<and> readFrame r' = Fin False (real (1024 + unat (512 :: u32))) \<and>
      (\<forall>i < unat (512 :: u32). fp_val (b ! (2 * i)) = fp_val (f32_decode (fst (0 :: u32, 0 :: u32))) \<and>
        fp_val (b ! (2 * i + 1)) = fp_val (f32_decode (snd (0 :: u32, 0 :: u32))))"
    by (rule reader_copies_captured_samples [OF example_ok(1,2) _ example_ok(3,4),
          where captured = "\<lambda>f. (0, 0)"]) (simp_all add: example_view_def example_reader_def d)
  then obtain r' b where r: "SVCSharedAudioReaderRead False (Some example_reader) example_view
        (Some (replicate 1024 NaN)) 512 = Some (Some r', Some b, 512)"
      "readFrame r' = Fin False (real (1024 + unat (512 :: u32)))"
      "\<forall>i < unat (512 :: u32). fp_val (b ! (2 * i)) = fp_val (f32_decode (fst (0 :: u32, 0 :: u32))) \<and>
        fp_val (b ! (2 * i + 1)) = fp_val (f32_decode (snd (0 :: u32, 0 :: u32)))" by blast
  have "fp_val (b ! 1023) = 0" using spec [OF r(3), of 511] by (simp add: d)
  then show ?thesis using r(1,2) by simp
qed

section \<open>Stalled writers\<close>



end
