(* ===== verification/Gain_Processor.thy ===== *)
theory Gain_Processor
  imports Float_Ops "HOL-Library.Monad_Syntax"
begin

text \<open>
  \<open>forwarder/AudioProcessor.c\<close>: the gain ramp and the loop that maps input channels to output
  channels. Accesses outside a buffer are undefined in C and are \<open>None\<close> here. Another thread
  may set the target while a block is processed: \<open>updates\<close> says which target, if any, it sets
  before each frame reads it. Input and output buffers do not overlap.
\<close>

section \<open>State\<close>

record SVCGainProcessor =
  targetGainBits :: u32
  currentGain :: fp
  rampTarget :: fp
  rampFramesRemaining :: u32
  rampLengthFrames :: u32

text \<open>\<open>AudioBuffer\<close> of CoreAudio; a buffer's data is the list of its floats.\<close>

record AudioBuffer =
  mNumberChannels :: u32
  mDataByteSize :: u32
  mData :: "fp list option"

record SVCInputChannel =
  samples :: "fp list"
  source_channelCount :: u32
  source_channelIndex :: u32
  source_frameCount :: u32

definition kSVCMaximumMappedChannels :: nat where
  "kSVCMaximumMappedChannels = 64"

section \<open>Gain\<close>

definition ClampGain :: "fp \<Rightarrow> fp" where
  "ClampGain gain =
     (if \<not> fp_isfinite gain \<or> fp_lt gain (Fin False 0) then Fin False 0
      else if fp_lt (Fin False 1) gain then Fin False 1
      else gain)"

definition FloatBits :: "fp \<Rightarrow> u32" where
  "FloatBits value = f32_encode value"

definition BitsFloat :: "u32 \<Rightarrow> fp" where
  "BitsFloat bits = f32_decode bits"

definition SVCGainProcessorInit :: "fp \<Rightarrow> fp \<Rightarrow> fp \<Rightarrow> SVCGainProcessor option" where
  "SVCGainProcessorInit initialGain rate rampMilliseconds =
     (let gain = ClampGain initialGain;
          frames = fp_div binary64 (fp_mul binary64 rate rampMilliseconds) (Fin False 1000) in
      do {
        rampFrames \<leftarrow>
          (if fp_isfinite rate \<and> fp_lt (Fin False 0) rate
              \<and> fp_isfinite rampMilliseconds \<and> fp_lt (Fin False 0) rampMilliseconds
              \<and> fp_le (Fin False 1) frames \<and> fp_le frames (Fin False (2 ^ 32 - 1))
           then map_option of_nat (fp_trunc (2 ^ 32) frames) else Some 1);
        Some \<lparr>targetGainBits = FloatBits gain, currentGain = gain, rampTarget = gain,
              rampFramesRemaining = 0, rampLengthFrames = rampFrames\<rparr>
      })"

definition SVCGainProcessorSetTarget :: "SVCGainProcessor \<Rightarrow> fp \<Rightarrow> SVCGainProcessor" where
  "SVCGainProcessorSetTarget processor targetGain =
     processor\<lparr>targetGainBits := FloatBits (ClampGain targetGain)\<rparr>"

definition SVCGainProcessorGetTarget :: "SVCGainProcessor \<Rightarrow> fp" where
  "SVCGainProcessorGetTarget processor = BitsFloat (targetGainBits processor)"

definition GainForNextFrame :: "SVCGainProcessor \<Rightarrow> SVCGainProcessor \<times> fp" where
  "GainForNextFrame processor =
     (let target = SVCGainProcessorGetTarget processor;
          p1 = (if \<not> fp_eq target (rampTarget processor)
                then processor\<lparr>rampTarget := target, rampFramesRemaining := rampLengthFrames processor\<rparr>
                else processor);
          p2 = (if 0 < rampFramesRemaining p1
                then let distance = fp_sub binary32 (rampTarget p1) (currentGain p1)
                     in p1\<lparr>currentGain := fp_add binary32 (currentGain p1)
                               (fp_div binary32 distance
                                 (fp_of_nat binary32 (unat (rampFramesRemaining p1)))),
                           rampFramesRemaining := rampFramesRemaining p1 - 1\<rparr>
                else p1\<lparr>currentGain := rampTarget p1\<rparr>)
      in (p2, currentGain p2))"

section \<open>Channels\<close>

text \<open>Frames in a buffer; the division is done in \<open>size_t\<close>, so nothing wraps.\<close>

definition buffer_frames :: "AudioBuffer \<Rightarrow> u32" where
  "buffer_frames buffer =
     of_nat (unat (mDataByteSize buffer) div (4 * unat (mNumberChannels buffer)))"

text \<open>The inner loop of \<open>MapInputChannels\<close>; \<open>mapped\<close> is the length of the array so far.\<close>

function map_buffer_channels ::
  "fp list \<Rightarrow> u32 \<Rightarrow> u32 \<Rightarrow> u32 \<Rightarrow> SVCInputChannel list \<Rightarrow> nat \<Rightarrow> SVCInputChannel list" where
  "map_buffer_channels smp count frames index channels capacity =
     (if index < count \<and> length channels < capacity
      then map_buffer_channels smp count frames (index + 1)
             (channels @ [\<lparr>samples = smp, source_channelCount = count,
                           source_channelIndex = index, source_frameCount = frames\<rparr>]) capacity
      else channels)"
  by pat_completeness auto
termination
  by (relation "measure (\<lambda>(smp, count, frames, index, channels, capacity). capacity - length channels)")
    auto

declare map_buffer_channels.simps [simp del]

fun map_buffers :: "AudioBuffer list \<Rightarrow> SVCInputChannel list \<Rightarrow> nat \<Rightarrow> SVCInputChannel list" where
  "map_buffers [] channels capacity = channels"
| "map_buffers (buffer # buffers) channels capacity =
     (if length channels < capacity
      then (case mData buffer of
              None \<Rightarrow> map_buffers buffers channels capacity
            | Some smp \<Rightarrow>
                if mNumberChannels buffer = 0 then map_buffers buffers channels capacity
                else map_buffers buffers
                       (map_buffer_channels smp (mNumberChannels buffer) (buffer_frames buffer) 0
                         channels capacity) capacity)
      else channels)"

definition MapInputChannels :: "AudioBuffer list option \<Rightarrow> nat \<Rightarrow> SVCInputChannel list" where
  "MapInputChannels input capacity =
     (case input of None \<Rightarrow> [] | Some buffers \<Rightarrow> map_buffers buffers [] capacity)"

fun maximum_frames :: "AudioBuffer list \<Rightarrow> u32 \<Rightarrow> u32" where
  "maximum_frames [] maximum = maximum"
| "maximum_frames (buffer # buffers) maximum =
     maximum_frames buffers
       (if mData buffer = None \<or> mNumberChannels buffer = 0 then maximum
        else if maximum < buffer_frames buffer then buffer_frames buffer else maximum)"

definition MaximumOutputFrames :: "AudioBuffer list \<Rightarrow> u32" where
  "MaximumOutputFrames output = maximum_frames output 0"

section \<open>Processing\<close>

definition clear_buffer :: "AudioBuffer \<Rightarrow> AudioBuffer option" where
  "clear_buffer buffer =
     (case mData buffer of
        Some data \<Rightarrow>
          if 0 < mDataByteSize buffer
          then let n = unat (mDataByteSize buffer) div 4
               in if n \<le> length data
                  then Some (buffer\<lparr>mData := Some (replicate n (Fin False 0) @ drop n data)\<rparr>) else None
          else Some buffer
      | None \<Rightarrow> Some buffer)"

definition fetch :: "'a list \<Rightarrow> u32 \<Rightarrow> 'a option" where
  "fetch xs i = (if unat i < length xs then Some (xs ! unat i) else None)"

definition store_at :: "'a list \<Rightarrow> u32 \<Rightarrow> 'a \<Rightarrow> 'a list option" where
  "store_at xs i x = (if unat i < length xs then Some (xs[unat i := x]) else None)"

text \<open>The loop over the \<open>n\<close> output channels of a buffer from \<open>channel\<close> on.\<close>

fun write_channels ::
  "fp \<Rightarrow> u32 \<Rightarrow> SVCInputChannel list \<Rightarrow> u32 \<Rightarrow> u32 \<Rightarrow> u32 \<Rightarrow> nat \<Rightarrow> fp list \<Rightarrow> fp list option" where
  "write_channels gain frame channels base outputChannels channel 0 data = Some data"
| "write_channels gain frame channels base outputChannels channel (Suc n) data =
     (let globalChannel = base + channel in
      do {
        data' \<leftarrow>
          (if length channels \<le> unat globalChannel then Some data
           else let source = channels ! unat globalChannel in
             if source_frameCount source \<le> frame then Some data
             else do {
               sample \<leftarrow> fetch (samples source) (frame * source_channelCount source + source_channelIndex source);
               store_at data (frame * outputChannels + channel) (fp_mul binary32 sample gain)
             });
        write_channels gain frame channels base outputChannels (channel + 1) n data'
      })"

text \<open>The loop over the output buffers for one frame.\<close>

fun process_buffers ::
  "fp \<Rightarrow> u32 \<Rightarrow> SVCInputChannel list \<Rightarrow> u32 \<Rightarrow> AudioBuffer list \<Rightarrow> AudioBuffer list option" where
  "process_buffers gain frame channels base [] = Some []"
| "process_buffers gain frame channels base (buffer # buffers) =
     (let outputChannels = mNumberChannels buffer in
      do {
        buffer' \<leftarrow>
          (case mData buffer of
             None \<Rightarrow> Some buffer
           | Some data \<Rightarrow>
               if outputChannels = 0 then Some buffer
               else if buffer_frames buffer \<le> frame then Some buffer
               else map_option (\<lambda>data'. buffer\<lparr>mData := Some data'\<rparr>)
                      (write_channels gain frame channels base outputChannels 0 (unat outputChannels) data));
        rest \<leftarrow> process_buffers gain frame channels (base + outputChannels) buffers;
        Some (buffer' # rest)
      })"

text \<open>The loop over the \<open>n\<close> frames from \<open>frame\<close> on.\<close>

fun process_frames ::
  "(u32 \<Rightarrow> fp option) \<Rightarrow> SVCInputChannel list \<Rightarrow> u32 \<Rightarrow> nat \<Rightarrow> SVCGainProcessor \<Rightarrow> AudioBuffer list
    \<Rightarrow> (SVCGainProcessor \<times> AudioBuffer list) option" where
  "process_frames updates channels frame 0 processor output = Some (processor, output)"
| "process_frames updates channels frame (Suc n) processor output =
     (let seen = (case updates frame of None \<Rightarrow> processor | Some g \<Rightarrow> SVCGainProcessorSetTarget processor g);
          (processor', gain) = GainForNextFrame seen in
      do {
        output' \<leftarrow> process_buffers gain frame channels 0 output;
        process_frames updates channels (frame + 1) n processor' output'
      })"

definition SVCGainProcessorProcess ::
  "(u32 \<Rightarrow> fp option) \<Rightarrow> SVCGainProcessor option \<Rightarrow> AudioBuffer list option \<Rightarrow> AudioBuffer list option
    \<Rightarrow> (SVCGainProcessor option \<times> AudioBuffer list option) option" where
  "SVCGainProcessorProcess updates processor input output =
     (case (processor, output) of
        (Some p, Some out) \<Rightarrow>
          let channels = MapInputChannels input kSVCMaximumMappedChannels;
              maximumFrames = MaximumOutputFrames out
          in do {
            cleared \<leftarrow> those (map clear_buffer out);
            (p', out') \<leftarrow> process_frames updates channels 0 (unat maximumFrames) p cleared;
            Some (Some p', Some out')
          }
      | _ \<Rightarrow> Some (processor, output))"

end
