(* ===== verification/Gain_Laws.thy ===== *)
theory Gain_Laws
  imports Gain_Processor
begin

text \<open>
  The gain ramp: the gain stays between silence and unity under every rounding, moves towards
  its target without a jump, and reaches it exactly.
\<close>

section \<open>The invariant\<close>

text \<open>Gains are 32-bit floats in the unit interval.\<close>

definition gain_value :: "fp \<Rightarrow> bool" where
  "gain_value g \<longleftrightarrow> fp_unit g \<and> fp_in binary32 g"

definition gain_ok :: "SVCGainProcessor \<Rightarrow> bool" where
  "gain_ok p \<longleftrightarrow> gain_value (SVCGainProcessorGetTarget p) \<and> gain_value (currentGain p) \<and>
     gain_value (rampTarget p) \<and> rampFramesRemaining p \<le> rampLengthFrames p \<and>
     0 < rampLengthFrames p"

lemma gain_value_cases:
  assumes "gain_value g"
  obtains s r where "g = Fin s r" "fp_isfinite g" "fp_val g = r" "0 \<le> r" "r \<le> 1" "rep binary32 r"
proof -
  obtain s r where "g = Fin s r" "fp_val g = r" "0 \<le> r" "r \<le> 1"
    using assms by (metis gain_value_def fp_unit_cases)
  with assms that show ?thesis by (simp add: gain_value_def f32.rep_iff)
qed

lemma gain_valueI:
  assumes "fp_isfinite g" "fp_in binary32 g" "0 \<le> fp_val g" "fp_val g \<le> 1"
  shows "gain_value g"
proof -
  obtain s r where g: "g = Fin s r" using assms(1) by (rule fp_isfinite_cases)
  then have "0 \<le> r" using assms(2) fp_in_nonneg by blast
  with g assms show ?thesis by (cases s) (auto simp: gain_value_def)
qed

lemma gain_value_0_1 [simp]: "gain_value (Fin False 0)" "gain_value (Fin False 1)"
  by (rule gain_valueI; simp)+

lemma ClampGain_value: "fp_in binary32 g \<Longrightarrow> gain_value (ClampGain g)"
  by (cases g) (auto simp: ClampGain_def intro!: gain_valueI split: if_splits)

lemma BitsFloat_FloatBits: "fp_in binary32 g \<Longrightarrow> BitsFloat (FloatBits g) = g"
  by (simp add: BitsFloat_def FloatBits_def f32_decode_encode)

lemma get_set_target:
  assumes "fp_in binary32 g"
  shows "SVCGainProcessorGetTarget (SVCGainProcessorSetTarget p g) = ClampGain g"
  using ClampGain_value [OF assms]
  by (simp add: SVCGainProcessorGetTarget_def SVCGainProcessorSetTarget_def BitsFloat_FloatBits gain_value_def)

lemma set_target_ok:
  assumes "gain_ok p" "fp_in binary32 g"
  shows "gain_ok (SVCGainProcessorSetTarget p g)"
proof -
  have "gain_value (SVCGainProcessorGetTarget (SVCGainProcessorSetTarget p g))"
    using assms(2) by (simp add: get_set_target ClampGain_value)
  then show ?thesis using assms(1) by (simp add: gain_ok_def SVCGainProcessorSetTarget_def)
qed

lemma init_total:
  assumes "fp_in binary32 g"
  shows "\<exists>p. SVCGainProcessorInit g rate ramp = Some p \<and> gain_ok p \<and>
    currentGain p = ClampGain g \<and> rampFramesRemaining p = 0"
proof -
  let ?f = "fp_div binary64 (fp_mul binary64 rate ramp) (Fin False 1000)"
  have "gain_value (BitsFloat (FloatBits (ClampGain g)))"
    using ClampGain_value [OF assms] by (simp add: BitsFloat_FloatBits gain_value_def)
  moreover have "\<exists>n. fp_trunc (2 ^ 32) ?f = Some n \<and> 0 < (of_nat n :: u32)"
    if l: "fp_le (Fin False 1) ?f" "fp_le ?f (Fin False (2 ^ 32 - 1))"
  proof -
    from l obtain s r where f: "?f = Fin s r" by (cases ?f) (auto simp: fp_le_def)
    have "fp_in binary64 ?f" by (rule f64.fp_in_div)
    then have "0 \<le> r" using f fp_in_nonneg by metis
    with l f have r: "\<not> s" "1 \<le> r" "r \<le> 2 ^ 32 - 1" by (cases s; auto simp: fp_le_def)+
    have "1 \<le> \<lfloor>r\<rfloor>" using r(2) by (simp only: le_floor_iff of_int_1)
    then have n: "1 \<le> nat \<lfloor>r\<rfloor>" by linarith
    have n2: "nat \<lfloor>r\<rfloor> < 2 ^ 32"
      using r(2,3) by (simp add: nat_less_iff floor_less_iff)
    have "0 < (of_nat (nat \<lfloor>r\<rfloor>) :: u32)" 
      unfolding word_less_nat_alt unat_of_nat_u32 [OF n2] unsigned_0 using n by linarith
    moreover have "fp_trunc (2 ^ 32) ?f = Some (nat \<lfloor>r\<rfloor>)"
      using r(1,3) unfolding f by (simp add: floor_less_iff)
    ultimately show ?thesis by blast
  qed
  ultimately show ?thesis
    using ClampGain_value [OF assms]
    by (auto simp: SVCGainProcessorInit_def Let_def gain_ok_def SVCGainProcessorGetTarget_def)
qed

section \<open>One ramp step\<close>

lemma of_nat_f32:
  assumes "0 < n"
  obtains N where "fp_of_nat binary32 (unat (n :: u32)) = Fin False N" "1 \<le> N"
proof -
  define m where "m = unat n"
  have m: "m < 2 ^ 32" "1 \<le> m" using unat_u32_bound [of n] assms by (simp_all add: m_def word_less_nat_alt)
  have "real m < real (2 ^ 32)" using m(1) by (simp only: of_nat_less_iff)
  then have "real m \<le> 2 powi 32" by simp
  then have "rnd binary32 (real m) \<le> 2 powi 32" by (rule f32.rnd_le_rep) (rule rep_powi, simp)
  also have "\<dots> < (2 :: real) powi 128" by (simp only: powi2_less_iff)
  finally have "fp_of_nat binary32 m = Fin False (rnd binary32 (real m))"
    by (simp add: fp_of_nat_def fp_make_def Let_def)
  moreover have "1 \<le> rnd binary32 (real m)" using m(2) by (intro f32.rep_le_rnd) simp_all
  ultimately show ?thesis using that unfolding m_def by blast
qed

lemma rnd32_above_one: "rnd binary32 (1 + 1 / 2 ^ 25) = 1"
  by (simp add: rnd_def quantum_def ilog2_def rne_def Let_def)

lemma rep32_rnd_diff:
  assumes "rep binary32 x" "rep binary32 y" "0 \<le> x" "x \<le> y" "y \<le> 1"
  shows "rnd binary32 (y - x) \<le> y" "rnd binary32 (y - x) \<le> y - x + 1 / 2 ^ 25"
proof -
  show "rnd binary32 (y - x) \<le> y" using assms by (intro f32.rnd_le_rep) simp_all
  show "rnd binary32 (y - x) \<le> y - x + 1 / 2 ^ 25"
  proof (cases "y - x < 1")
    case True
    then have "\<bar>rnd binary32 (y - x) - (y - x)\<bar> \<le> 2 powi (0 - 24 - 1)"
      using f32.rnd_error_bound [of "y - x" 0] assms(4) by simp
    also have "\<dots> = 1 / 2 ^ 25" by (simp add: power_int_def power_divide)
    finally show ?thesis by linarith
  next
    case False
    then have "y = 1" "x = 0" using assms by simp_all
    then show ?thesis by simp
  qed
qed

text \<open>
  The gain of a frame that is still ramping: it moves from the current gain towards the target,
  by at most the distance over the frames left and a rounding, and stays in the unit interval.
\<close>

lemma ramp_step:
  assumes c: "gain_value c" and t: "gain_value t" and n: "0 < (n :: u32)"
  defines "g \<equiv> fp_add binary32 c (fp_div binary32 (fp_sub binary32 t c) (fp_of_nat binary32 (unat n)))"
  shows "gain_value g"
    "fp_val c \<le> fp_val t \<Longrightarrow> fp_val c \<le> fp_val g"
    "fp_val t \<le> fp_val c \<Longrightarrow> fp_val g \<le> fp_val c"
proof -
  obtain s x where cx: "c = Fin s x" "fp_isfinite c" "fp_val c = x" "0 \<le> x" "x \<le> 1" "rep binary32 x"
    using c by (rule gain_value_cases)
  obtain u y where ty: "t = Fin u y" "fp_isfinite t" "fp_val t = y" "0 \<le> y" "y \<le> 1" "rep binary32 y"
    using t by (rule gain_value_cases)
  obtain N where N: "fp_of_nat binary32 (unat n) = Fin False N" "1 \<le> N"
    using n by (rule of_nat_f32)
  define d where "d = srnd binary32 (y - x)"
  define e where "e = srnd binary32 (d / N)"
  have db: "\<bar>fp_val t - fp_val c\<bar> \<le> 1" using cx(3-5) ty(3-5) by linarith
  have "\<bar>fp_val t - fp_val c\<bar> \<le> 2 ^ prec binary32" using db by simp
  note ds = f32.fp_sub_small [OF ty(2) cx(2) this]
  have d: "fp_val (fp_sub binary32 t c) = d" using ds(2) cx(3) ty(3) by (simp add: d_def)
  have din: "fp_in binary32 (fp_sub binary32 t c)" using c t by (simp add: gain_value_def)
  have d1: "\<bar>d\<bar> \<le> 1"
  proof -
    have "d \<le> 1" using db cx(3) ty(3) unfolding d_def by (intro f32.srnd_le_rep) auto
    moreover have "- 1 \<le> d" using db cx(3) ty(3) unfolding d_def by (intro f32.srnd_ge_minus_rep) auto
    ultimately show ?thesis by linarith
  qed
  have dN: "\<bar>d / N\<bar> \<le> \<bar>d\<bar>" using N(2) by (simp add: divide_le_eq mult_le_cancel_left1)
  have "\<bar>fp_val (fp_sub binary32 t c)\<bar> / N \<le> 2 ^ prec binary32"
    using d d1 dN N(2) by simp
  with N(2) have es: "fp_isfinite (fp_div binary32 (fp_sub binary32 t c) (Fin False N))"
    "fp_val (fp_div binary32 (fp_sub binary32 t c) (Fin False N)) = e"
    using f32.fp_div_small [OF din ds(1) refl] d by (simp_all add: e_def)
  have up: "0 \<le> e \<and> x + e \<le> 1 + 1 / 2 ^ 25" if "x \<le> y"
  proof -
    have dr: "d = rnd binary32 (y - x)" using that by (simp add: d_def srnd_def)
    have d0: "0 \<le> d" unfolding dr by simp
    have "0 \<le> e" using d0 N(2) f32.rep_le_srnd [of 0 "d / N"] by (simp add: e_def)
    moreover have "e \<le> d" unfolding e_def
      using dN d0 N(2) f32.rep_rnd [of "y - x"] by (intro f32.srnd_le_rep) (auto simp: dr)
    moreover have "d \<le> y - x + 1 / 2 ^ 25"
      unfolding dr using rep32_rnd_diff(2) [OF cx(6) ty(6) cx(4) that ty(5)] .
    ultimately show ?thesis using ty(5) by linarith
  qed
  have down: "e \<le> 0 \<and> 0 \<le> x + e" if "y \<le> x"
  proof -
    have dr: "d = - rnd binary32 (x - y)"
      using that by (cases "x = y") (simp_all add: d_def srnd_def)
    have d0: "d \<le> 0" unfolding dr by simp
    have "d / N \<le> 0" using d0 N(2) by (simp add: divide_nonpos_pos)
    then have "e \<le> 0" unfolding e_def by (rule f32.srnd_le_rep) simp
    moreover have "- x \<le> e" unfolding e_def
    proof (rule f32.srnd_ge_minus_rep)
      have "- d \<le> x" unfolding dr using rep32_rnd_diff(1) [OF ty(6) cx(6) ty(4) that cx(5)] by simp
      then show "- x \<le> d / N" using dN d0 by linarith
    qed (rule cx(6))
    ultimately show ?thesis by linarith
  qed
  have xe: "0 \<le> x + e \<and> x + e \<le> 1 + 1 / 2 ^ 25" using up down cx(4,5) by (cases "x \<le> y") auto
  then have small: "\<bar>fp_val c + fp_val (fp_div binary32 (fp_sub binary32 t c) (Fin False N))\<bar> \<le> 2 ^ prec binary32"
    using cx(3) es(2) by simp
  have gs: "fp_isfinite g" "fp_val g = srnd binary32 (x + e)"
    using f32.fp_add_small [OF cx(2) es(1) small] cx(3) es(2) unfolding g_def N(1) by simp_all
  show "gain_value g"
  proof (rule gain_valueI [OF gs(1)])
    show "fp_in binary32 g" using c by (simp add: g_def gain_value_def)
    show "0 \<le> fp_val g" using xe gs(2) f32.rep_le_srnd [of 0 "x + e"] by simp
    have "srnd binary32 (x + e) \<le> srnd binary32 (1 + 1 / 2 ^ 25)" using xe by (intro f32.srnd_mono) simp
    also have "\<dots> = 1" using rnd32_above_one by (simp add: srnd_def)
    finally show "fp_val g \<le> 1" using gs(2) by simp
  qed
  show "fp_val c \<le> fp_val g" if "fp_val c \<le> fp_val t"
    using that up gs(2) cx(3,6) ty(3) f32.rep_le_srnd [of x "x + e"] by auto
  show "fp_val g \<le> fp_val c" if "fp_val t \<le> fp_val c"
    using that down gs(2) cx(3,6) ty(3) f32.srnd_le_rep [of "x + e" x] by auto
qed

section \<open>One frame\<close>

text \<open>What the frame's ramp starts from: a new target restarts the ramp.\<close>

definition retarget :: "SVCGainProcessor \<Rightarrow> SVCGainProcessor" where
  "retarget p =
     (if \<not> fp_eq (SVCGainProcessorGetTarget p) (rampTarget p)
      then p\<lparr>rampTarget := SVCGainProcessorGetTarget p, rampFramesRemaining := rampLengthFrames p\<rparr>
      else p)"

lemma get_target_update [simp]:
  "SVCGainProcessorGetTarget (p\<lparr>currentGain := x\<rparr>) = SVCGainProcessorGetTarget p"
  "SVCGainProcessorGetTarget (p\<lparr>rampTarget := x\<rparr>) = SVCGainProcessorGetTarget p"
  "SVCGainProcessorGetTarget (p\<lparr>rampFramesRemaining := n\<rparr>) = SVCGainProcessorGetTarget p"
  by (simp_all add: SVCGainProcessorGetTarget_def)

lemma retarget_ok: "gain_ok p \<Longrightarrow> gain_ok (retarget p)"
  by (simp add: retarget_def gain_ok_def)

lemma retarget_fields [simp]:
  "currentGain (retarget p) = currentGain p" "rampLengthFrames (retarget p) = rampLengthFrames p"
  "SVCGainProcessorGetTarget (retarget p) = SVCGainProcessorGetTarget p"
  by (simp_all add: retarget_def)

lemma gain_value_not_nan: "gain_value g \<Longrightarrow> \<not> fp_isnan g"
  by (cases g) (auto simp: gain_value_def)

lemma retarget_eq: "gain_ok p \<Longrightarrow> fp_eq (SVCGainProcessorGetTarget p) (rampTarget (retarget p))"
  using gain_value_not_nan fp_eq_refl by (auto simp: retarget_def gain_ok_def)

lemma GainForNextFrame_unfold:
  "GainForNextFrame p =
     (let q = retarget p;
          g = (if 0 < rampFramesRemaining q
               then fp_add binary32 (currentGain q)
                      (fp_div binary32 (fp_sub binary32 (rampTarget q) (currentGain q))
                        (fp_of_nat binary32 (unat (rampFramesRemaining q))))
               else rampTarget q);
          m = (if 0 < rampFramesRemaining q then rampFramesRemaining q - 1 else 0)
      in (q\<lparr>currentGain := g, rampFramesRemaining := m\<rparr>, g))"
  by (auto simp: GainForNextFrame_def retarget_def Let_def word_gt_0)

lemma next_gain_ok:
  assumes "gain_ok p"
  shows "gain_ok (fst (GainForNextFrame p))" "gain_value (snd (GainForNextFrame p))"
proof -
  have q: "gain_ok (retarget p)" using assms by (rule retarget_ok)
  have le: "rampFramesRemaining (retarget p) - 1 \<le> rampLengthFrames p" if "0 < rampFramesRemaining (retarget p)"
  proof -
    have "rampFramesRemaining (retarget p) - 1 \<le> rampFramesRemaining (retarget p)"
      using that by (simp add: word_le_nat_alt u32_dec)
    also have "\<dots> \<le> rampLengthFrames p" using q by (simp add: gain_ok_def)
    finally show ?thesis .
  qed
  show "gain_value (snd (GainForNextFrame p))"
    using q ramp_step(1) [of "currentGain (retarget p)" "rampTarget (retarget p)" "rampFramesRemaining (retarget p)"]
    by (simp add: GainForNextFrame_unfold Let_def gain_ok_def)
  then show "gain_ok (fst (GainForNextFrame p))"
    using q le by (auto simp: GainForNextFrame_unfold Let_def gain_ok_def)
qed

section \<open>Runs of the processor\<close>

text \<open>What the forwarder does with a processor: set targets and render frames, in any order.\<close>

datatype gain_op = SetTarget fp | NextFrame

fun run_ops :: "gain_op list \<Rightarrow> SVCGainProcessor \<Rightarrow> fp list" where
  "run_ops [] p = []"
| "run_ops (SetTarget g # ops) p = run_ops ops (SVCGainProcessorSetTarget p g)"
| "run_ops (NextFrame # ops) p =
     (case GainForNextFrame p of (p', g) \<Rightarrow> g # run_ops ops p')"

lemma run_ops_gains:
  "gain_ok p \<Longrightarrow> (\<And>g. SetTarget g \<in> set ops \<Longrightarrow> fp_in binary32 g) \<Longrightarrow>
    x \<in> set (run_ops ops p) \<Longrightarrow> gain_value x"
proof (induction ops p rule: run_ops.induct)
  case (3 ops p)
  then show ?case
    using next_gain_ok [OF 3(2)] by (cases "GainForNextFrame p") auto
qed (auto simp: set_target_ok)

text \<open>Property C13: the gain never leaves the unit interval. Whatever initial gain, sample rate
  and ramp time the processor is created with and whatever targets it is given, not-a-number and
  infinities included, every gain it ever applies is a finite 32-bit float between zero and one,
  with the rounding of every ramp step taken into account; creation itself always succeeds.\<close>

theorem gain_always_attenuates:
  assumes "fp_in binary32 initial" "\<And>g. SetTarget g \<in> set ops \<Longrightarrow> fp_in binary32 g"
  shows "\<exists>p. SVCGainProcessorInit initial rate ramp = Some p \<and>
    (\<forall>g \<in> set (run_ops ops p). fp_in binary32 g \<and> fp_isfinite g \<and> 0 \<le> fp_val g \<and> fp_val g \<le> 1)"
proof -
  obtain p where p: "SVCGainProcessorInit initial rate ramp = Some p" "gain_ok p"
    using init_total [OF assms(1)] by blast
  have "fp_in binary32 g \<and> fp_isfinite g \<and> 0 \<le> fp_val g \<and> fp_val g \<le> 1" if "g \<in> set (run_ops ops p)" for g
    using run_ops_gains [OF p(2) assms(2) that] gain_value_cases [of g] by (metis gain_value_def)
  with p show ?thesis by blast
qed

theorem gain_always_attenuates_witness:
  "\<exists>p. SVCGainProcessorInit (Inf False) (Fin False 48000) NaN = Some p \<and>
    (\<forall>g \<in> set (run_ops [NextFrame, SetTarget NaN, NextFrame] p). fp_val g \<le> 1)"
  using gain_always_attenuates [of "Inf False" "[NextFrame, SetTarget NaN, NextFrame]" "Fin False 48000" NaN]
  by auto

text \<open>A ramp moves the gain towards the target: from one frame to the next the gain
  never moves away from the target in force.\<close>

theorem gain_moves_towards_target:
  assumes "gain_ok p"
  shows "(fp_val (currentGain p) \<le> fp_val (SVCGainProcessorGetTarget p) \<longrightarrow>
      fp_val (currentGain p) \<le> fp_val (snd (GainForNextFrame p))) \<and>
    (fp_val (SVCGainProcessorGetTarget p) \<le> fp_val (currentGain p) \<longrightarrow>
      fp_val (snd (GainForNextFrame p)) \<le> fp_val (currentGain p))"
proof -
  have q: "gain_value (currentGain p)" "gain_value (rampTarget (retarget p))"
    using retarget_ok [OF assms] by (simp_all add: gain_ok_def)
  have "gain_value (SVCGainProcessorGetTarget p)" using assms by (simp add: gain_ok_def)
  then have "fp_val (rampTarget (retarget p)) = fp_val (SVCGainProcessorGetTarget p)"
    using retarget_eq [OF assms] q(2) by (metis fp_eq.simps(1) gain_value_cases)
  then show ?thesis
    using ramp_step(2,3) [OF q, of "rampFramesRemaining (retarget p)"]
    by (auto simp: GainForNextFrame_unfold Let_def)
qed

definition example_gain :: SVCGainProcessor where
  "example_gain = \<lparr>targetGainBits = 0x3F800000, currentGain = Fin False 0, rampTarget = Fin False 0,
     rampFramesRemaining = 0, rampLengthFrames = 480\<rparr>"

lemma example_gain_ok: "gain_ok example_gain"
  by (simp add: gain_ok_def example_gain_def SVCGainProcessorGetTarget_def BitsFloat_def f32_decode_def
      Let_def)

theorem gain_moves_towards_target_witness:
  "0 \<le> fp_val (snd (GainForNextFrame example_gain))"
  using gain_moves_towards_target [OF example_gain_ok]
  by (simp add: example_gain_def SVCGainProcessorGetTarget_def BitsFloat_def f32_decode_def Let_def)

section \<open>The end of a ramp\<close>

abbreviation frames_later :: "nat \<Rightarrow> SVCGainProcessor \<Rightarrow> SVCGainProcessor" where
  "frames_later k \<equiv> (\<lambda>p. fst (GainForNextFrame p)) ^^ k"

lemma frames_later_state:
  assumes "gain_ok p"
  shows "gain_ok (frames_later k p) \<and>
    SVCGainProcessorGetTarget (frames_later k p) = SVCGainProcessorGetTarget p \<and>
    unat (rampFramesRemaining (retarget (frames_later k p))) \<le> unat (rampLengthFrames p) - k"
proof (induction k)
  case 0
  have "rampFramesRemaining (retarget p) \<le> rampLengthFrames p"
    using retarget_ok [OF assms] by (simp add: gain_ok_def)
  with assms show ?case by (simp add: word_le_nat_alt)
next
  case (Suc k)
  let ?q = "frames_later k p"
  let ?q' = "fst (GainForNextFrame ?q)"
  have ok: "gain_ok ?q" using Suc by simp
  have t: "SVCGainProcessorGetTarget ?q' = SVCGainProcessorGetTarget ?q"
    "rampTarget ?q' = rampTarget (retarget ?q)"
    "rampFramesRemaining ?q' =
      (if 0 < rampFramesRemaining (retarget ?q) then rampFramesRemaining (retarget ?q) - 1 else 0)"
    by (simp_all add: GainForNextFrame_unfold Let_def)
  have "retarget ?q' = ?q'" using retarget_eq [OF ok] t by (simp add: retarget_def)
  moreover have "unat (rampFramesRemaining ?q') \<le> unat (rampLengthFrames p) - Suc k"
  proof (cases "0 < rampFramesRemaining (retarget ?q)")
    case True
    then have "unat (rampFramesRemaining ?q') = unat (rampFramesRemaining (retarget ?q)) - 1"
      using t(3) u32_dec by simp
    then show ?thesis using Suc by linarith
  qed (use t(3) in simp)
  ultimately show ?case using next_gain_ok(1) [OF ok] Suc t(1) by simp
qed

text \<open>Property C14: a ramp ends exactly at its target. Once the target has not changed for
  \<open>rampLengthFrames\<close> frames, every further frame is given the target itself, with nothing
  left of the rounding of the steps.\<close>

theorem gain_ramp_reaches_target:
  assumes "gain_ok p" "unat (rampLengthFrames p) \<le> k"
  shows "fp_eq (SVCGainProcessorGetTarget p) (snd (GainForNextFrame (frames_later k p)))"
proof -
  note s = frames_later_state [OF assms(1), of k]
  have "rampFramesRemaining (retarget (frames_later k p)) = 0"
    using s assms(2) by (simp add: unat_eq_0)
  then have "snd (GainForNextFrame (frames_later k p)) = rampTarget (retarget (frames_later k p))"
    by (simp add: GainForNextFrame_unfold Let_def)
  then show ?thesis using retarget_eq s by metis
qed

theorem gain_ramp_reaches_target_witness:
  "fp_val (snd (GainForNextFrame (frames_later 480 example_gain))) = 1"
proof -
  have "fp_eq (Fin False 1) (snd (GainForNextFrame (frames_later 480 example_gain)))"
    using gain_ramp_reaches_target [OF example_gain_ok, of 480]
    by (simp add: example_gain_def SVCGainProcessorGetTarget_def BitsFloat_def f32_decode_def Let_def)
  then show ?thesis by (cases "snd (GainForNextFrame (frames_later 480 example_gain))") auto
qed

end
