(* ===== verification/Gain_Process.thy ===== *)
theory Gain_Process
  imports Gain_Laws
begin

text \<open>
  What \<open>SVCGainProcessorProcess\<close> computes: the channel map as a flat list, the whole output
  as one formula per sample, with every access inside its buffer.
\<close>

section \<open>The channel map\<close>

definition buffer_channels :: "AudioBuffer \<Rightarrow> SVCInputChannel list" where
  "buffer_channels b =
     (case mData b of
        None \<Rightarrow> []
      | Some smp \<Rightarrow>
          map (\<lambda>i. \<lparr>samples = smp, source_channelCount = mNumberChannels b,
                 source_channelIndex = of_nat i, source_frameCount = buffer_frames b\<rparr>)
            [0..<unat (mNumberChannels b)])"

lemma u32_suc:
  fixes a b :: u32
  assumes "a < b"
  shows "unat (a + 1) = Suc (unat a)"
proof -
  have "unat a + 1 < 2 ^ 32" using assms unat_u32_bound [of b] by (simp add: word_less_nat_alt)
  then show ?thesis by (simp add: unat_word_ariths)
qed

lemma map_buffer_channels_spec:
  "map_buffer_channels smp count frames index channels capacity =
     channels @ take (capacity - length channels)
       (map (\<lambda>i. \<lparr>samples = smp, source_channelCount = count,
               source_channelIndex = of_nat i, source_frameCount = frames\<rparr>) [unat index..<unat count])"
proof (induction smp count frames index channels capacity rule: map_buffer_channels.induct)
  case (1 smp count frames index channels capacity)
  show ?case
  proof (cases "index < count \<and> length channels < capacity")
    case True
    then have "unat (index + 1) = Suc (unat index)" by (auto intro: u32_suc)
    with True have up: "[unat index..<unat count] = unat index # [unat (index + 1)..<unat count]"
      by (simp add: upt_conv_Cons word_less_nat_alt)
    obtain m where m: "capacity - length channels = Suc m" "capacity - Suc (length channels) = m"
      using True by (metis Suc_diff_Suc diff_Suc_Suc)
    from True 1 show ?thesis
      by (subst map_buffer_channels.simps) (simp add: up m)
  next
    case False
    then show ?thesis
      by (subst map_buffer_channels.simps) (auto simp: word_less_nat_alt)
  qed
qed

lemma map_buffers_spec:
  "map_buffers bs channels capacity =
    channels @ take (capacity - length channels) (concat (map buffer_channels bs))"
proof (induction bs channels capacity rule: map_buffers.induct)
  case (1 channels capacity)
  then show ?case by simp
next
  case (2 b bs channels capacity)
  then show ?case
    by (auto simp: buffer_channels_def map_buffer_channels_spec min_def split: option.splits)
qed

text \<open>The channel map is the first 64 channels of the input, in order.\<close>

lemma MapInputChannels_spec:
  "MapInputChannels (Some bs) capacity = take capacity (concat (map buffer_channels bs))"
  by (simp add: MapInputChannels_def map_buffers_spec)

section \<open>Well-formed buffers\<close>

definition wf_buffer :: "AudioBuffer \<Rightarrow> bool" where
  "wf_buffer b \<longleftrightarrow> (case mData b of None \<Rightarrow> True | Some d \<Rightarrow> length d = unat (mDataByteSize b) div 4)"

lemma buffer_frames_unat:
  "unat (buffer_frames b) = unat (mDataByteSize b) div 4 div unat (mNumberChannels b)"
proof -
  have "unat (mDataByteSize b) div (4 * unat (mNumberChannels b)) < 2 ^ 32"
    using unat_u32_bound [of "mDataByteSize b"] by (intro le_less_trans [OF div_le_dividend]) simp
  then show ?thesis by (simp add: buffer_frames_def div_mult2_eq)
qed

lemma wf_size:
  assumes "wf_buffer b" "mData b = Some d"
  shows "length d < 2 ^ 30" "unat (buffer_frames b) = length d div unat (mNumberChannels b)"
  using assms unat_u32_bound [of "mDataByteSize b"]
  by (simp_all add: wf_buffer_def buffer_frames_unat less_mult_imp_div_less)

text \<open>An index computed in 32 bits for a sample inside a buffer does not wrap.\<close>

lemma sample_index:
  fixes f n c :: u32
  assumes "unat f < L div unat n" "c < n" "L < 2 ^ 30"
  shows "unat (f * n + c) = unat f * unat n + unat c" "unat f * unat n + unat c < L"
proof -
  have c: "unat c < unat n" using assms(2) by (simp add: word_less_nat_alt)
  have "Suc (unat f) * unat n \<le> L div unat n * unat n" using assms(1) by (intro mult_right_mono) simp_all
  also have "\<dots> \<le> L" by simp
  finally have l: "unat f * unat n + unat n \<le> L" by simp
  then show lt: "unat f * unat n + unat c < L" using c by linarith
  then have "unat f * unat n < 2 ^ 32" "unat f * unat n + unat c < 2 ^ 32" using lt assms(3) by simp_all
  then show "unat (f * n + c) = unat f * unat n + unat c" by (simp add: unat_word_ariths)
qed

section \<open>The sample an output channel takes\<close>

definition source_sample :: "SVCInputChannel list \<Rightarrow> u32 \<Rightarrow> u32 \<Rightarrow> fp option" where
  "source_sample channels g frame =
     (if unat g < length channels
      then let s = channels ! unat g in
        if frame < source_frameCount s
        then Some (samples s ! (unat frame * unat (source_channelCount s) + unat (source_channelIndex s)))
        else None
      else None)"

definition wf_channel :: "SVCInputChannel \<Rightarrow> bool" where
  "wf_channel s \<longleftrightarrow> source_channelIndex s < source_channelCount s \<and> length (samples s) < 2 ^ 30 \<and>
     unat (source_frameCount s) = length (samples s) div unat (source_channelCount s)"

lemma channels_wf:
  assumes "\<And>b. b \<in> set bs \<Longrightarrow> wf_buffer b" "s \<in> set (MapInputChannels (Some bs) cap)"
  shows "wf_channel s"
proof -
  from assms(2) obtain b where b: "b \<in> set bs" "s \<in> set (buffer_channels b)"
    by (auto simp: MapInputChannels_spec dest!: in_set_takeD)
  then obtain d i where d: "mData b = Some d" "i < unat (mNumberChannels b)"
    "s = \<lparr>samples = d, source_channelCount = mNumberChannels b,
        source_channelIndex = of_nat i, source_frameCount = buffer_frames b\<rparr>"
    by (auto simp: buffer_channels_def split: option.splits)
  have "unat (of_nat i :: u32) = i"
    using d(2) unat_u32_bound [of "mNumberChannels b"] by (intro unat_of_nat_u32) simp
  then show ?thesis
    using d wf_size [OF assms(1) [OF b(1)] d(1)] by (simp add: wf_channel_def word_less_nat_alt)
qed

lemma fetch_source:
  assumes "wf_channel s" "frame < source_frameCount s"
  shows "fetch (samples s) (frame * source_channelCount s + source_channelIndex s) =
    Some (samples s ! (unat frame * unat (source_channelCount s) + unat (source_channelIndex s)))"
proof -
  have "unat frame < length (samples s) div unat (source_channelCount s)"
    using assms by (simp add: wf_channel_def word_less_nat_alt)
  from sample_index [OF this, of "source_channelIndex s"] assms(1) show ?thesis
    by (simp add: fetch_def wf_channel_def)
qed

section \<open>One row of an output buffer\<close>

lemma write_channels_spec:
  assumes "\<And>s. s \<in> set channels \<Longrightarrow> wf_channel s"
    and "unat frame < length data div unat oc" "length data < 2 ^ 30"
    and "unat channel + n = unat oc"
  shows "write_channels gain frame channels base oc channel n data =
    Some (map (\<lambda>i. if i div unat oc = unat frame \<and> unat channel \<le> i mod unat oc
                   then case source_sample channels (base + of_nat (i mod unat oc)) frame of
                          None \<Rightarrow> data ! i | Some x \<Rightarrow> fp_mul binary32 x gain
                   else data ! i) [0..<length data])"
  using assms(2-4)
proof (induction n arbitrary: channel data)
  case 0
  then have "\<not> unat channel \<le> i mod unat oc" if "i < length data" for i
    using that by (metis add.right_neutral div_by_0 less_nat_zero_code linorder_not_le mod_less_divisor neq0_conv)
  then show ?case by (auto intro: nth_equalityI)
next
  case (Suc n)
  have lt: "channel < oc" using Suc.prems(3) by (simp add: word_less_nat_alt)
  have ch: "unat (channel + 1) + n = unat oc" using u32_suc [OF lt] Suc.prems(3) by simp
  note idx = sample_index [OF Suc.prems(1) lt Suc.prems(2)]
  let ?k = "unat frame * unat oc + unat channel"
  have row: "i = ?k" if "i div unat oc = unat frame" "i mod unat oc = unat channel" for i
    using that div_mult_mod_eq [of i "unat oc"] by simp
  have kdm: "?k div unat oc = unat frame" "?k mod unat oc = unat channel"
    using lt by (simp_all add: word_less_nat_alt)
  let ?src = "source_sample channels (base + channel) frame"
  let ?data' = "case ?src of None \<Rightarrow> data | Some x \<Rightarrow> data[?k := fp_mul binary32 x gain]"
  have step: "write_channels gain frame channels base oc channel (Suc n) data =
      write_channels gain frame channels base oc (channel + 1) n ?data'"
  proof (cases ?src)
    case None
    then show ?thesis
      by (auto simp: source_sample_def Let_def not_less split: if_splits)
  next
    case (Some x)
    then have g: "unat (base + channel) < length channels"
      "frame < source_frameCount (channels ! unat (base + channel))"
      by (auto simp: source_sample_def Let_def split: if_splits)
    with Some fetch_source [OF assms(1) g(2)]
    have "fetch (samples (channels ! unat (base + channel)))
        (frame * source_channelCount (channels ! unat (base + channel))
          + source_channelIndex (channels ! unat (base + channel))) = Some x"
      by (simp add: source_sample_def Let_def)
    then show ?thesis
      using g(1) g(2) [THEN not_le [THEN iffD2]] idx Some by (simp add: Let_def store_at_def)
  qed
  have len: "length ?data' = length data" by (cases ?src) simp_all
  have nth: "?data' ! i = (if i = ?k then case ?src of None \<Rightarrow> data ! i | Some x \<Rightarrow> fp_mul binary32 x gain else data ! i)"
    if "i < length data" for i
    using that by (cases ?src) auto
  have d: "(i mod unat oc < Suc (unat channel)) = (i mod unat oc < unat channel \<or> i mod unat oc = unat channel)" for i
    by auto
  show ?case
    unfolding step using Suc.IH [of ?data' "channel + 1"] Suc.prems ch len u32_suc [OF lt] row kdm
    by (auto simp: nth Suc_le_eq le_less intro!: nth_equalityI split: option.splits)
qed

section \<open>All frames\<close>

text \<open>A buffer after the frames in \<open>lo .. lo + n - 1\<close>, with the gains those frames were given.\<close>

definition fill_sample ::
  "SVCInputChannel list \<Rightarrow> u32 \<Rightarrow> nat \<Rightarrow> fp list \<Rightarrow> AudioBuffer \<Rightarrow> nat \<Rightarrow> fp \<Rightarrow> fp" where
  "fill_sample channels base lo gains b i old =
     (let f = i div unat (mNumberChannels b); c = i mod unat (mNumberChannels b) in
      if mNumberChannels b \<noteq> 0 \<and> lo \<le> f \<and> f < lo + length gains \<and> f < unat (buffer_frames b)
      then case source_sample channels (base + of_nat c) (of_nat f) of
             None \<Rightarrow> old | Some x \<Rightarrow> fp_mul binary32 x (gains ! (f - lo))
      else old)"

definition fill ::
  "SVCInputChannel list \<Rightarrow> u32 \<Rightarrow> nat \<Rightarrow> fp list \<Rightarrow> AudioBuffer \<Rightarrow> AudioBuffer" where
  "fill channels base lo gains b =
     b\<lparr>mData := map_option (\<lambda>d. map (\<lambda>i. fill_sample channels base lo gains b i (d ! i)) [0..<length d])
         (mData b)\<rparr>"

fun fill_all ::
  "SVCInputChannel list \<Rightarrow> u32 \<Rightarrow> nat \<Rightarrow> fp list \<Rightarrow> AudioBuffer list \<Rightarrow> AudioBuffer list" where
  "fill_all channels base lo gains [] = []"
| "fill_all channels base lo gains (b # bs) =
     fill channels base lo gains b # fill_all channels (base + mNumberChannels b) lo gains bs"

lemma fill_fields [simp]:
  "mNumberChannels (fill channels base lo gains b) = mNumberChannels b"
  "mDataByteSize (fill channels base lo gains b) = mDataByteSize b"
  "buffer_frames (fill channels base lo gains b) = buffer_frames b"
  "wf_buffer (fill channels base lo gains b) = wf_buffer b"
  by (simp_all add: fill_def buffer_frames_def wf_buffer_def split: option.split)

lemma fill_same:
  assumes "\<And>i old. fill_sample channels base lo gains b i old = old"
  shows "fill channels base lo gains b = b"
proof (cases "mData b")
  case (Some d)
  have "map ((!) d) [0..<length d] = d" by (rule map_nth)
  with Some show ?thesis by (simp add: fill_def assms)
qed (simp add: fill_def)

lemma fill_nil [simp]: "fill channels base lo [] b = b"
  by (rule fill_same) (auto simp: fill_sample_def Let_def)

lemma fill_all_nil [simp]: "fill_all channels base lo [] bs = bs"
  by (induction bs arbitrary: base) simp_all

lemma fill_sample_mData [simp]:
  "fill_sample channels base lo gains (b\<lparr>mData := x\<rparr>) = fill_sample channels base lo gains b"
  by (simp add: fill_sample_def buffer_frames_def fun_eq_iff)

lemma fill_sample_cons:
  "fill_sample channels base (Suc lo) gs b i (fill_sample channels base lo [g] b i old) =
    fill_sample channels base lo (g # gs) b i old"
  by (auto simp: fill_sample_def Let_def nth_Cons' Suc_le_eq le_less split: option.split)

lemma fill_cons: "fill channels base (Suc lo) gs (fill channels base lo [g] b) = fill channels base lo (g # gs) b"
  by (cases "mData b") (simp_all add: fill_def fill_sample_cons cong: map_cong)

lemma fill_all_cons:
  "fill_all channels base (Suc lo) gs (fill_all channels base lo [g] bs) = fill_all channels base lo (g # gs) bs"
  by (induction bs arbitrary: base) (simp_all add: fill_cons)

lemma process_buffers_spec:
  assumes "\<And>s. s \<in> set channels \<Longrightarrow> wf_channel s" "\<And>b. b \<in> set bs \<Longrightarrow> wf_buffer b"
  shows "process_buffers gain frame channels base bs =
    Some (fill_all channels base (unat frame) [gain] bs)"
  using assms(2)
proof (induction bs arbitrary: base)
  case Nil
  then show ?case by simp
next
  case (Cons b bs)
  have wf: "wf_buffer b" using Cons.prems by simp
  have outside: "fill channels base (unat frame) [gain] b = b"
    if "mData b = None \<or> mNumberChannels b = 0 \<or> buffer_frames b \<le> frame"
  proof (cases "mData b")
    case None
    then show ?thesis by (simp add: fill_def)
  next
    case (Some d)
    with that show ?thesis
      by (intro fill_same) (auto simp: fill_sample_def Let_def word_le_nat_alt)
  qed
  show ?case
  proof (cases "mData b = None \<or> mNumberChannels b = 0 \<or> buffer_frames b \<le> frame")
    case True
    then show ?thesis using Cons outside by (auto simp: Let_def split: option.split)
  next
    case False
    then obtain d where d: "mData b = Some d" by auto
    have fr: "unat frame < length d div unat (mNumberChannels b)"
      using False wf_size(2) [OF wf d] by (simp add: word_le_nat_alt)
    have "write_channels gain frame channels base (mNumberChannels b) 0 (unat (mNumberChannels b)) d =
        mData (fill channels base (unat frame) [gain] b)"
      using write_channels_spec [where channel = 0, OF assms(1) fr wf_size(1) [OF wf d]] d False wf_size(2) [OF wf d] fr
      by (auto simp: fill_def fill_sample_def Let_def split: option.split)
    moreover obtain d' where "mData (fill channels base (unat frame) [gain] b) = Some d'"
      using d by (simp add: fill_def)
    moreover have "b\<lparr>mData := mData (fill channels base (unat frame) [gain] b)\<rparr> = fill channels base (unat frame) [gain] b"
      by (simp add: fill_def)
    ultimately show ?thesis using False d Cons by (simp add: Let_def)
  qed
qed

end
