(* ===== verification/Gain_Theorems.thy ===== *)
theory Gain_Theorems
  imports Gain_Process
begin

text \<open>
  The properties of \<open>SVCGainProcessorProcess\<close>: the value of every output sample, with all
  memory accesses in bounds, and that no block comes out louder than it went in.
\<close>

section \<open>The frames of a block\<close>

fun gain_sequence ::
  "(u32 \<Rightarrow> fp option) \<Rightarrow> u32 \<Rightarrow> nat \<Rightarrow> SVCGainProcessor \<Rightarrow> SVCGainProcessor \<times> fp list" where
  "gain_sequence updates frame 0 p = (p, [])"
| "gain_sequence updates frame (Suc n) p =
     (let seen = (case updates frame of None \<Rightarrow> p | Some g \<Rightarrow> SVCGainProcessorSetTarget p g);
          (p', g) = GainForNextFrame seen; (p'', gs) = gain_sequence updates (frame + 1) n p'
      in (p'', g # gs))"

lemma fill_all_wf: "\<forall>b \<in> set bs. wf_buffer b \<Longrightarrow> \<forall>b \<in> set (fill_all channels base lo gains bs). wf_buffer b"
  by (induction bs arbitrary: base) simp_all

lemma process_frames_spec:
  assumes "\<And>s. s \<in> set channels \<Longrightarrow> wf_channel s"
    and "\<forall>b \<in> set bs. wf_buffer b" "unat frame + n < 2 ^ 32"
  shows "process_frames updates channels frame n p bs =
    (case gain_sequence updates frame n p of (p', gains) \<Rightarrow>
       Some (p', fill_all channels 0 (unat frame) gains bs))"
  using assms(2,3)
proof (induction n arbitrary: frame p bs)
  case 0
  then show ?case by simp
next
  case (Suc n)
  define seen where "seen = (case updates frame of None \<Rightarrow> p | Some g \<Rightarrow> SVCGainProcessorSetTarget p g)"
  obtain p' g where g: "GainForNextFrame seen = (p', g)" by fastforce
  obtain p'' gs where gs: "gain_sequence updates (frame + 1) n p' = (p'', gs)" by fastforce
  have up: "unat (frame + 1) = Suc (unat frame)" using Suc.prems(2) by (simp add: unat_word_ariths)
  have "process_buffers g frame channels 0 bs = Some (fill_all channels 0 (unat frame) [g] bs)"
    using Suc.prems(1) by (intro process_buffers_spec assms(1)) auto
  with Suc.IH [OF fill_all_wf [OF Suc.prems(1)], of "frame + 1" p'] g gs up Suc.prems(2)
  show ?case by (simp add: Let_def seen_def [symmetric] fill_all_cons)
qed

lemma gain_sequence_length: "length (snd (gain_sequence updates frame n p)) = n"
  by (induction n arbitrary: frame p) (simp_all add: Let_def split: prod.split, metis snd_conv)

lemma gain_sequence_gains:
  "gain_ok p \<Longrightarrow> (\<And>f g. updates f = Some g \<Longrightarrow> fp_in binary32 g) \<Longrightarrow>
    length (snd (gain_sequence updates frame n p)) = n \<and>
    (\<forall>g \<in> set (snd (gain_sequence updates frame n p)). gain_value g) \<and>
    gain_ok (fst (gain_sequence updates frame n p))"
proof (induction n arbitrary: frame p)
  case 0
  then show ?case by simp
next
  case (Suc n)
  define seen where "seen = (case updates frame of None \<Rightarrow> p | Some g \<Rightarrow> SVCGainProcessorSetTarget p g)"
  have seen: "gain_ok seen" using Suc.prems by (auto simp: seen_def set_target_ok split: option.split)
  obtain p' g where g: "GainForNextFrame seen = (p', g)" by fastforce
  with next_gain_ok [OF seen] have "gain_ok p'" "gain_value g" by simp_all
  have "\<And>f h. updates f = Some h \<Longrightarrow> fp_in binary32 h" using Suc.prems(2) .
  note IH = Suc.IH [where frame = "frame + 1", OF \<open>gain_ok p'\<close> this, simplified]
  obtain p'' gs where gs: "gain_sequence updates (frame + 1) n p' = (p'', gs)" by fastforce
  with IH g \<open>gain_value g\<close> show ?case
    by (simp add: Let_def seen_def [symmetric])
qed

text \<open>The first channel of each output buffer, counted in 32 bits as the code does.\<close>

definition channel_base :: "AudioBuffer list \<Rightarrow> nat \<Rightarrow> u32" where
  "channel_base bs j = sum_list (map mNumberChannels (take j bs))"

lemma fill_all_nth:
  "j < length bs \<Longrightarrow> fill_all channels base lo gains bs ! j =
     fill channels (base + channel_base bs j) lo gains (bs ! j)"
proof (induction bs arbitrary: base j)
  case (Cons b bs)
  then show ?case
    by (cases j) (simp_all add: channel_base_def add.assoc)
qed simp

lemma fill_all_length [simp]: "length (fill_all channels base lo gains bs) = length bs"
  by (induction bs arbitrary: base) simp_all

definition silent :: "AudioBuffer \<Rightarrow> AudioBuffer" where
  "silent b = b\<lparr>mData := map_option (\<lambda>d. replicate (length d) (Fin False 0)) (mData b)\<rparr>"

lemma clear_wf: "wf_buffer b \<Longrightarrow> clear_buffer b = Some (silent b)"
  by (cases b) (auto simp: clear_buffer_def wf_buffer_def silent_def Let_def word_gt_0 split: option.splits)

lemma clear_all_wf: "\<forall>b \<in> set bs. wf_buffer b \<Longrightarrow> those (map clear_buffer bs) = Some (map silent bs)"
  by (induction bs) (simp_all add: clear_wf)

lemma silent_fields [simp]:
  "mNumberChannels (silent b) = mNumberChannels b" "mDataByteSize (silent b) = mDataByteSize b"
  "buffer_frames (silent b) = buffer_frames b" "wf_buffer (silent b) = wf_buffer b"
  "channel_base (map silent bs) j = channel_base bs j"
  by (simp_all add: silent_def buffer_frames_def wf_buffer_def channel_base_def take_map o_def split: option.split)

lemma maximum_frames_mono: "maximum \<le> maximum_frames bs maximum"
  by (induction bs maximum rule: maximum_frames.induct) (auto intro: order_trans split: if_splits)

lemma maximum_frames_ge:
  "b \<in> set bs \<Longrightarrow> mData b \<noteq> None \<Longrightarrow> mNumberChannels b \<noteq> 0 \<Longrightarrow> buffer_frames b \<le> maximum_frames bs maximum"
proof (induction bs maximum rule: maximum_frames.induct)
  case (2 a bs maximum)
  then show ?case using maximum_frames_mono [of "if maximum < buffer_frames a then buffer_frames a else maximum" bs]
    by (auto simp: not_less intro: order_trans split: if_splits)
qed simp

section \<open>Every output sample\<close>

definition expected_sample ::
  "SVCInputChannel list \<Rightarrow> fp list \<Rightarrow> AudioBuffer list \<Rightarrow> nat \<Rightarrow> nat \<Rightarrow> fp" where
  "expected_sample channels gains out j i =
     (let f = i div unat (mNumberChannels (out ! j)); c = i mod unat (mNumberChannels (out ! j)) in
      if mNumberChannels (out ! j) \<noteq> 0 \<and> f < unat (buffer_frames (out ! j))
      then case source_sample channels (channel_base out j + of_nat c) (of_nat f) of
             None \<Rightarrow> Fin False 0 | Some x \<Rightarrow> fp_mul binary32 x (gains ! f)
      else Fin False 0)"

lemma process_block:
  assumes "\<forall>b \<in> set (case input of None \<Rightarrow> [] | Some bs \<Rightarrow> bs). wf_buffer b" "\<forall>b \<in> set out. wf_buffer b"
    and "channels = MapInputChannels input kSVCMaximumMappedChannels"
    and "gains = snd (gain_sequence updates 0 (unat (MaximumOutputFrames out)) p)"
  shows "\<exists>p' out'. SVCGainProcessorProcess updates (Some p) input (Some out) = Some (Some p', Some out') \<and>
    length out' = length out \<and>
    (\<forall>j < length out. mNumberChannels (out' ! j) = mNumberChannels (out ! j) \<and>
       mDataByteSize (out' ! j) = mDataByteSize (out ! j) \<and>
       (case mData (out ! j) of
          None \<Rightarrow> mData (out' ! j) = None
        | Some d \<Rightarrow> \<exists>d'. mData (out' ! j) = Some d' \<and> length d' = length d \<and>
            (\<forall>i < length d. d' ! i =
               expected_sample channels gains out j i)))"
proof -
  let ?n = "unat (MaximumOutputFrames out)"
  obtain p' where gs: "gain_sequence updates 0 ?n p = (p', gains)" using assms(4) by (metis surjective_pairing)
  have wf: "wf_channel s" if "s \<in> set channels" for s
  proof (cases input)
    case None
    then show ?thesis using that assms(3) by (simp add: MapInputChannels_def)
  next
    case (Some bs)
    show ?thesis by (rule channels_wf [of bs s kSVCMaximumMappedChannels]) (use that assms(1,3) Some in auto)
  qed
  have swf: "\<forall>b \<in> set (map silent out). wf_buffer b" using assms(2) by simp
  have "process_frames updates channels 0 ?n p (map silent out)
      = Some (p', fill_all channels 0 0 gains (map silent out))"
    using process_frames_spec [where frame = 0 and n = ?n, OF wf swf] gs unat_u32_bound [of "MaximumOutputFrames out"]
    by simp
  then have proc: "SVCGainProcessorProcess updates (Some p) input (Some out) =
      Some (Some p', Some (fill_all channels 0 0 gains (map silent out)))"
    using clear_all_wf [OF assms(2)] assms(3) by (simp add: SVCGainProcessorProcess_def Let_def)
  have len: "length gains = ?n" using gs gain_sequence_length [of updates 0 ?n p] by simp
  have all: "unat (buffer_frames b) \<le> length gains" if "b \<in> set out" "mData b \<noteq> None" "mNumberChannels b \<noteq> 0" for b
    using maximum_frames_ge [OF that] len by (simp add: MaximumOutputFrames_def word_le_nat_alt)
  show ?thesis
  proof (intro exI conjI allI impI)
    show "SVCGainProcessorProcess updates (Some p) input (Some out) =
        Some (Some p', Some (fill_all channels 0 0 gains (map silent out)))" by (rule proc)
  next
    fix j
    assume j: "j < length out"
    let ?b = "out ! j"
    have out: "fill_all channels 0 0 gains (map silent out) ! j = fill channels (channel_base out j) 0 gains (silent ?b)"
      using j by (simp add: fill_all_nth)
    show "case mData ?b of
          None \<Rightarrow> mData (fill_all channels 0 0 gains (map silent out) ! j) = None
        | Some d \<Rightarrow> \<exists>d'. mData (fill_all channels 0 0 gains (map silent out) ! j) = Some d' \<and> length d' = length d \<and>
            (\<forall>i < length d. d' ! i =
               expected_sample channels gains out j i)"
    proof (cases "mData ?b")
      case None
      then show ?thesis by (simp add: out fill_def silent_def)
    next
      case (Some d)
      have "mNumberChannels ?b \<noteq> 0 \<Longrightarrow> f < unat (buffer_frames ?b) \<Longrightarrow> f < length gains" for f
        using all [of ?b] j Some by (simp add: order_less_le_trans)
      with Some show ?thesis
        unfolding out
        by (auto simp: expected_sample_def fill_def silent_def fill_sample_def Let_def buffer_frames_def
            cong: option.case_cong)
    qed
  qed (simp_all add: fill_all_nth)
qed

text \<open>Property C9: a block is processed without a single access outside a buffer, and every
  sample of every output buffer is the sample of the input channel with the same running number,
  times the gain of its frame; where there is no such channel or it has no such frame, or past
  the last whole frame, the output is silence.\<close>

theorem process_block_samples:
  assumes "\<forall>b \<in> set (case input of None \<Rightarrow> [] | Some bs \<Rightarrow> bs). wf_buffer b" "\<forall>b \<in> set out. wf_buffer b"
    and "channels = MapInputChannels input kSVCMaximumMappedChannels"
    and "gains = snd (gain_sequence updates 0 (unat (MaximumOutputFrames out)) p)"
  shows "\<exists>p' out'. SVCGainProcessorProcess updates (Some p) input (Some out) = Some (Some p', Some out') \<and>
    length out' = length out \<and>
    (\<forall>j < length out. mNumberChannels (out' ! j) = mNumberChannels (out ! j) \<and>
       mDataByteSize (out' ! j) = mDataByteSize (out ! j) \<and>
       (case mData (out ! j) of
          None \<Rightarrow> mData (out' ! j) = None
        | Some d \<Rightarrow> \<exists>d'. mData (out' ! j) = Some d' \<and> length d' = length d \<and>
            (\<forall>i < length d. d' ! i =
               expected_sample channels gains out j i)))"
  using assms by (rule process_block)

definition example_buffer :: "fp list \<Rightarrow> AudioBuffer" where
  "example_buffer d = \<lparr>mNumberChannels = 2, mDataByteSize = 4 * of_nat (length d), mData = Some d\<rparr>"

definition no_updates :: "u32 \<Rightarrow> fp option" where
  "no_updates frame = None"

theorem process_block_samples_witness:
  "\<exists>p' out'. SVCGainProcessorProcess no_updates (Some example_gain)
      (Some [example_buffer [Fin False 1, Fin True 1]]) (Some [example_buffer [NaN, NaN]])
      = Some (Some p', Some out') \<and> length out' = 1"
  using process_block_samples [of "Some [example_buffer [Fin False 1, Fin True 1]]" "[example_buffer [NaN, NaN]]"
      _ _ no_updates example_gain, OF _ _ refl refl]
  by (auto simp: wf_buffer_def example_buffer_def)

section \<open>Never louder\<close>

lemma mul_gain:
  assumes "fp_in binary32 x" "fp_isfinite x" "gain_value g"
  shows "fp_isfinite (fp_mul binary32 x g)" "\<bar>fp_val (fp_mul binary32 x g)\<bar> \<le> \<bar>fp_val x\<bar>"
proof -
  obtain s r where x: "x = Fin s r" using assms(2) by (rule fp_isfinite_cases)
  obtain t y where g: "g = Fin t y" "0 \<le> y" "y \<le> 1" using assms(3) by (rule gain_value_cases)
  have r: "rep binary32 r" "r < 2 powi 128" "0 \<le> r"
    using assms(1) x fp_in_nonneg [of binary32 s r] by (simp_all add: f32.rep_iff)
  have "r * y \<le> r" using r(3) g(2,3) mult_left_le [of y r] by simp
  then have le: "rnd binary32 (r * y) \<le> r" using r(1) by (rule f32.rnd_le_rep)
  then have "fp_mul binary32 x g = Fin (s \<noteq> t) (rnd binary32 (r * y))"
    using r(2) by (simp add: x g(1) fp_make_def Let_def)
  then show "fp_isfinite (fp_mul binary32 x g)" "\<bar>fp_val (fp_mul binary32 x g)\<bar> \<le> \<bar>fp_val x\<bar>"
    using le r(3) f32.rnd_nonneg [of "r * y"] x by simp_all
qed

lemma buffer_channels_data: "s \<in> set (buffer_channels b) \<Longrightarrow> mData b = Some (samples s)"
  by (auto simp: buffer_channels_def split: option.splits)

text \<open>A source sample is a sample of an input buffer.\<close>

lemma source_sample_from_input:
  assumes "\<forall>b \<in> set bs. wf_buffer b"
    and "source_sample (MapInputChannels (Some bs) cap) g frame = Some x"
  shows "\<exists>b \<in> set bs. \<exists>d. mData b = Some d \<and> x \<in> set d"
proof -
  let ?s = "MapInputChannels (Some bs) cap ! unat g"
  from assms(2) have g: "unat g < length (MapInputChannels (Some bs) cap)" "frame < source_frameCount ?s"
    "x = samples ?s ! (unat frame * unat (source_channelCount ?s) + unat (source_channelIndex ?s))"
    by (auto simp: source_sample_def Let_def split: if_splits)
  have mem: "?s \<in> set (MapInputChannels (Some bs) cap)" using g(1) by simp
  have wf: "wf_channel ?s" by (rule channels_wf [OF _ mem]) (use assms(1) in blast)
  have "unat frame < length (samples ?s) div unat (source_channelCount ?s)"
    using wf g(2) by (simp add: wf_channel_def word_less_nat_alt)
  then have "x \<in> set (samples ?s)"
    using sample_index(2) [of frame "length (samples ?s)" "source_channelCount ?s" "source_channelIndex ?s"]
      wf g(3) by (simp add: wf_channel_def)
  moreover obtain b where "b \<in> set bs" "?s \<in> set (buffer_channels b)"
    using mem by (auto simp: MapInputChannels_spec dest!: in_set_takeD)
  ultimately show ?thesis using buffer_channels_data by blast
qed

text \<open>Property C15: a block never comes out louder than it went in. When all input samples are
  finite and at most \<open>M\<close> in magnitude, so is every output sample, whatever targets are set while
  the block is processed.\<close>

theorem process_never_louder:
  assumes "gain_ok p" "\<And>f g. updates f = Some g \<Longrightarrow> fp_in binary32 g"
    and "\<forall>b \<in> set input. wf_buffer b" "\<forall>b \<in> set out. wf_buffer b" "0 \<le> M"
    and "\<And>b d x. b \<in> set input \<Longrightarrow> mData b = Some d \<Longrightarrow> x \<in> set d \<Longrightarrow>
      fp_in binary32 x \<and> fp_isfinite x \<and> \<bar>fp_val x\<bar> \<le> M"
  shows "\<exists>p' out'. SVCGainProcessorProcess updates (Some p) (Some input) (Some out) = Some (Some p', Some out') \<and>
    (\<forall>b \<in> set out'. \<forall>d. mData b = Some d \<longrightarrow> (\<forall>x \<in> set d. fp_isfinite x \<and> \<bar>fp_val x\<bar> \<le> M))"
proof -
  let ?ch = "MapInputChannels (Some input) kSVCMaximumMappedChannels"
  define gains where "gains = snd (gain_sequence updates 0 (unat (MaximumOutputFrames out)) p)"
  have gs: "length gains = unat (MaximumOutputFrames out)" "\<forall>g \<in> set gains. gain_value g"
    using gain_sequence_gains [OF assms(1), of updates 0 "unat (MaximumOutputFrames out)"] assms(2)
    by (auto simp: gains_def)
  obtain p' out' where o: "SVCGainProcessorProcess updates (Some p) (Some input) (Some out) = Some (Some p', Some out')"
      "length out' = length out"
    and data: "\<And>j. j < length out \<Longrightarrow> (case mData (out ! j) of None \<Rightarrow> mData (out' ! j) = None
        | Some d \<Rightarrow> \<exists>d'. mData (out' ! j) = Some d' \<and> length d' = length d \<and>
            (\<forall>i < length d. d' ! i = expected_sample ?ch gains out j i))"
    using process_block [of "Some input" out ?ch gains updates p] assms(3,4) gains_def by auto
  have exp: "fp_isfinite (expected_sample ?ch gains out j i) \<and> \<bar>fp_val (expected_sample ?ch gains out j i)\<bar> \<le> M"
    if "j < length out" "mData (out ! j) \<noteq> None" for j i
  proof -
    have "gain_value (gains ! f)" if "f < unat (buffer_frames (out ! j))" "mNumberChannels (out ! j) \<noteq> 0" for f
      using maximum_frames_ge [of "out ! j" out 0] that \<open>j < length out\<close> \<open>mData (out ! j) \<noteq> None\<close> gs
      by (auto simp: MaximumOutputFrames_def word_le_nat_alt intro!: nth_mem)
    moreover have "fp_in binary32 x \<and> fp_isfinite x \<and> \<bar>fp_val x\<bar> \<le> M" if "source_sample ?ch g f = Some x" for x g f
      using source_sample_from_input [OF assms(3) that] assms(6) by blast
    ultimately show ?thesis
      using assms(5) mul_gain by (fastforce simp: expected_sample_def Let_def split: option.split)
  qed
  have "fp_isfinite x \<and> \<bar>fp_val x\<bar> \<le> M"
    if b: "b \<in> set out'" and d': "mData b = Some d'" and x: "x \<in> set d'" for b d' x
  proof -
    obtain j where j: "j < length out" "b = out' ! j" using b o(2) by (metis in_set_conv_nth)
    with data [OF j(1)] d' obtain d where d: "mData (out ! j) = Some d" "length d' = length d"
      "\<forall>i < length d. d' ! i = expected_sample ?ch gains out j i"
      by (auto split: option.splits)
    obtain i where "i < length d" "x = d' ! i" using x d(2) by (metis in_set_conv_nth)
    then show ?thesis using d exp [OF j(1)] by simp
  qed
  with o(1) show ?thesis by blast
qed

theorem process_never_louder_witness:
  "\<exists>p' out'. SVCGainProcessorProcess no_updates (Some example_gain)
      (Some [example_buffer [Fin False 1, Fin True 1]]) (Some [example_buffer [NaN, NaN]])
      = Some (Some p', Some out') \<and>
    (\<forall>b \<in> set out'. \<forall>d. mData b = Some d \<longrightarrow> (\<forall>x \<in> set d. fp_isfinite x \<and> \<bar>fp_val x\<bar> \<le> 1))"
  by (rule process_never_louder [OF example_gain_ok])
    (auto simp: no_updates_def wf_buffer_def example_buffer_def)

end
