(* ===== verification/Driver_Objects.thy ===== *)
theory Driver_Objects
  imports Volume_Curve
begin

text \<open>
  \<open>driver/SoundVolumeControl.c\<close>, lines 138 to 445 and 575 to 630: the audio objects the driver
  publishes, the class hierarchy, which properties each object has at which address, and which
  of them can be set. The constants of the CoreAudio headers are constructors; a value the
  driver does not name is \<open>Other\<close> with its number.
\<close>

section \<open>Constants of CoreAudio\<close>

datatype OSStatus =
  noErr | kAudioHardwareUnspecifiedError | kAudioHardwareIllegalOperationError
| kAudioHardwareBadPropertySizeError | kAudioHardwareBadObjectError
| kAudioHardwareUnknownPropertyError | kAudioHardwareUnsupportedOperationError
| kAudioDeviceUnsupportedFormatError

datatype AudioClassID =
  kAudioObjectClassID | kAudioPlugInClassID | kAudioDeviceClassID | kAudioStreamClassID
| kAudioControlClassID | kAudioLevelControlClassID | kAudioVolumeControlClassID
| kAudioBooleanControlClassID | kAudioMuteControlClassID | OtherClassID u32

datatype AudioObjectPropertyScope =
  kAudioObjectPropertyScopeGlobal | kAudioObjectPropertyScopeInput
| kAudioObjectPropertyScopeOutput | OtherScope u32

text \<open>
  The header defines \<open>kAudioStreamPropertyLatency\<close> as \<open>kAudioDevicePropertyLatency\<close>, so it has
  no constructor of its own.
\<close>

datatype (plugins only: size) AudioObjectPropertySelector =
  kAudioObjectPropertyBaseClass | kAudioObjectPropertyClass | kAudioObjectPropertyOwner
| kAudioObjectPropertyName | kAudioObjectPropertyManufacturer | kAudioObjectPropertyOwnedObjects
| kAudioObjectPropertyCustomPropertyInfoList
| kAudioPlugInPropertyBundleID | kAudioPlugInPropertyDeviceList
| kAudioPlugInPropertyTranslateUIDToDevice | kAudioPlugInPropertyBoxList
| kAudioPlugInPropertyTranslateUIDToBox | kAudioPlugInPropertyClockDeviceList
| kAudioPlugInPropertyTranslateUIDToClockDevice | kAudioPlugInPropertyResourceBundle
| kAudioDevicePropertyDeviceUID | kAudioDevicePropertyModelUID | kAudioDevicePropertyTransportType
| kAudioDevicePropertyRelatedDevices | kAudioDevicePropertyClockDomain
| kAudioDevicePropertyDeviceIsAlive | kAudioDevicePropertyDeviceIsRunning
| kAudioDevicePropertyDeviceCanBeDefaultDevice | kAudioDevicePropertyDeviceCanBeDefaultSystemDevice
| kAudioDevicePropertyLatency | kAudioDevicePropertyStreams | kAudioObjectPropertyControlList
| kAudioDevicePropertySafetyOffset | kAudioDevicePropertyNominalSampleRate
| kAudioDevicePropertyActualSampleRate | kAudioDevicePropertyAvailableNominalSampleRates
| kAudioDevicePropertyIsHidden | kAudioDevicePropertyPreferredChannelsForStereo
| kAudioDevicePropertyHogMode | kAudioDevicePropertyBufferFrameSize
| kAudioDevicePropertyBufferFrameSizeRange | kAudioDevicePropertyIOCycleUsage
| kAudioDevicePropertyStreamConfiguration | kAudioDevicePropertyZeroTimeStampPeriod
| kAudioDevicePropertyClockAlgorithm | kAudioDevicePropertyClockIsStable
| kAudioStreamPropertyIsActive | kAudioStreamPropertyDirection | kAudioStreamPropertyTerminalType
| kAudioStreamPropertyStartingChannel | kAudioStreamPropertyVirtualFormat
| kAudioStreamPropertyAvailableVirtualFormats | kAudioStreamPropertyPhysicalFormat
| kAudioStreamPropertyAvailablePhysicalFormats
| kAudioControlPropertyScope | kAudioControlPropertyElement
| kAudioLevelControlPropertyScalarValue | kAudioLevelControlPropertyDecibelValue
| kAudioLevelControlPropertyDecibelRange | kAudioLevelControlPropertyConvertScalarToDecibels
| kAudioLevelControlPropertyConvertDecibelsToScalar | kAudioBooleanControlPropertyValue
| OtherSelector u32

abbreviation kAudioStreamPropertyLatency :: AudioObjectPropertySelector where
  "kAudioStreamPropertyLatency \<equiv> kAudioDevicePropertyLatency"

definition kAudioObjectPropertyElementMain :: u32 where
  "kAudioObjectPropertyElementMain = 0"

record AudioObjectPropertyAddress =
  mSelector :: AudioObjectPropertySelector
  mScope :: AudioObjectPropertyScope
  mElement :: u32

section \<open>Objects\<close>

definition kAudioObjectUnknown :: u32 where "kAudioObjectUnknown = 0"
definition kSVCObjectPlugin :: u32 where "kSVCObjectPlugin = 1"
definition kSVCObjectDevice :: u32 where "kSVCObjectDevice = 2"
definition kSVCObjectOutputStream :: u32 where "kSVCObjectOutputStream = 3"
definition kSVCObjectVolume :: u32 where "kSVCObjectVolume = 4"
definition kSVCObjectMute :: u32 where "kSVCObjectMute = 5"
definition kSVCObjectLast :: u32 where "kSVCObjectLast = kSVCObjectMute"

lemmas object_ids = kAudioObjectUnknown_def kSVCObjectPlugin_def kSVCObjectDevice_def
  kSVCObjectOutputStream_def kSVCObjectVolume_def kSVCObjectMute_def kSVCObjectLast_def

definition IsKnownObject :: "u32 \<Rightarrow> bool" where
  "IsKnownObject inObjectID \<longleftrightarrow> kSVCObjectPlugin \<le> inObjectID \<and> inObjectID \<le> kSVCObjectLast"

definition Address :: "AudioObjectPropertySelector \<Rightarrow> AudioObjectPropertyAddress" where
  "Address selector = \<lparr>mSelector = selector, mScope = kAudioObjectPropertyScopeGlobal,
     mElement = kAudioObjectPropertyElementMain\<rparr>"

definition BaseClassForObject :: "u32 \<Rightarrow> AudioClassID" where
  "BaseClassForObject objectID =
     (if objectID = kSVCObjectVolume then kAudioLevelControlClassID
      else if objectID = kSVCObjectMute then kAudioBooleanControlClassID
      else kAudioObjectClassID)"

definition ClassForObject :: "u32 \<Rightarrow> AudioClassID" where
  "ClassForObject objectID =
     (if objectID = kSVCObjectPlugin then kAudioPlugInClassID
      else if objectID = kSVCObjectDevice then kAudioDeviceClassID
      else if objectID = kSVCObjectOutputStream then kAudioStreamClassID
      else if objectID = kSVCObjectVolume then kAudioVolumeControlClassID
      else if objectID = kSVCObjectMute then kAudioMuteControlClassID
      else kAudioObjectClassID)"

definition OwnerForObject :: "u32 \<Rightarrow> u32" where
  "OwnerForObject objectID =
     (if objectID = kSVCObjectDevice then kSVCObjectPlugin
      else if objectID = kSVCObjectOutputStream \<or> objectID = kSVCObjectVolume
              \<or> objectID = kSVCObjectMute then kSVCObjectDevice
      else kAudioObjectUnknown)"

definition SVC_DEVICE_NAME :: string where "SVC_DEVICE_NAME = ''Sound Volume''"

definition CopyNameForObject :: "u32 \<Rightarrow> string option" where
  "CopyNameForObject objectID =
     (if objectID = kSVCObjectPlugin then Some ''SoundVolumeControl Driver''
      else if objectID = kSVCObjectDevice then Some SVC_DEVICE_NAME
      else if objectID = kSVCObjectOutputStream then Some ''Sound Volume Output''
      else if objectID = kSVCObjectVolume then Some ''Sound Volume Master Volume''
      else if objectID = kSVCObjectMute then Some ''Sound Volume Master Mute''
      else None)"

definition ObjectMatchesClass :: "u32 \<Rightarrow> AudioClassID \<Rightarrow> bool" where
  "ObjectMatchesClass objectID requestedClass =
     (if requestedClass = kAudioObjectClassID \<or> requestedClass = ClassForObject objectID then True
      else if objectID = kSVCObjectVolume
        then requestedClass = kAudioLevelControlClassID \<or> requestedClass = kAudioControlClassID
      else if objectID = kSVCObjectMute
        then requestedClass = kAudioBooleanControlClassID \<or> requestedClass = kAudioControlClassID
      else False)"

text \<open>
  The memory a qualifier pointer refers to: read as an array of class identifiers, or as one
  string reference, which may be null.
\<close>

record qualifier =
  as_classes :: "nat \<Rightarrow> AudioClassID"
  as_string :: "string option"

definition candidate_objects :: "u32 \<Rightarrow> AudioObjectPropertyScope \<Rightarrow> u32 list" where
  "candidate_objects objectID scope =
     (if objectID = kSVCObjectPlugin then [kSVCObjectDevice]
      else if objectID = kSVCObjectDevice then
        (if scope = kAudioObjectPropertyScopeGlobal \<or> scope = kAudioObjectPropertyScopeOutput
         then [kSVCObjectOutputStream, kSVCObjectVolume, kSVCObjectMute] else [])
      else [])"

fun matches_any :: "u32 \<Rightarrow> (nat \<Rightarrow> AudioClassID) \<Rightarrow> nat \<Rightarrow> nat \<Rightarrow> bool" where
  "matches_any candidate classes i 0 = False"
| "matches_any candidate classes i (Suc n) =
     (ObjectMatchesClass candidate (classes i) \<or> matches_any candidate classes (Suc i) n)"

text \<open>The status, and the objects written to \<open>output\<close>, whose number is \<open>*outCount\<close>.\<close>

definition FilteredOwnedObjects ::
  "u32 \<Rightarrow> AudioObjectPropertyScope \<Rightarrow> u32 \<Rightarrow> qualifier option \<Rightarrow> OSStatus \<times> u32 list option" where
  "FilteredOwnedObjects objectID scope qualifierDataSize qualifierData =
     (if unat qualifierDataSize mod 4 \<noteq> 0 \<or> (0 < qualifierDataSize \<and> qualifierData = None)
      then (kAudioHardwareBadPropertySizeError, None)
      else
        let requestedClassCount = unat qualifierDataSize div 4;
            matches = (\<lambda>candidate. requestedClassCount = 0 \<or>
              (case qualifierData of None \<Rightarrow> False
               | Some q \<Rightarrow> matches_any candidate (as_classes q) 0 requestedClassCount))
        in (noErr, Some (List.filter matches (candidate_objects objectID scope))))"

section \<open>Which object has which property\<close>

definition HasCommonProperty :: "AudioObjectPropertySelector \<Rightarrow> bool" where
  "HasCommonProperty selector \<longleftrightarrow> selector \<in>
     {kAudioObjectPropertyBaseClass, kAudioObjectPropertyClass, kAudioObjectPropertyOwner,
      kAudioObjectPropertyName, kAudioObjectPropertyManufacturer, kAudioObjectPropertyOwnedObjects,
      kAudioObjectPropertyCustomPropertyInfoList}"

definition HasPluginProperty :: "AudioObjectPropertySelector \<Rightarrow> bool" where
  "HasPluginProperty selector \<longleftrightarrow> selector \<in>
     {kAudioPlugInPropertyBundleID, kAudioPlugInPropertyDeviceList,
      kAudioPlugInPropertyTranslateUIDToDevice, kAudioPlugInPropertyBoxList,
      kAudioPlugInPropertyTranslateUIDToBox, kAudioPlugInPropertyClockDeviceList,
      kAudioPlugInPropertyTranslateUIDToClockDevice, kAudioPlugInPropertyResourceBundle}"

definition HasDeviceProperty :: "AudioObjectPropertySelector \<Rightarrow> bool" where
  "HasDeviceProperty selector \<longleftrightarrow> selector \<in>
     {kAudioDevicePropertyDeviceUID, kAudioDevicePropertyModelUID, kAudioDevicePropertyTransportType,
      kAudioDevicePropertyRelatedDevices, kAudioDevicePropertyClockDomain,
      kAudioDevicePropertyDeviceIsAlive, kAudioDevicePropertyDeviceIsRunning,
      kAudioDevicePropertyDeviceCanBeDefaultDevice, kAudioDevicePropertyDeviceCanBeDefaultSystemDevice,
      kAudioDevicePropertyLatency, kAudioDevicePropertyStreams, kAudioObjectPropertyControlList,
      kAudioDevicePropertySafetyOffset, kAudioDevicePropertyNominalSampleRate,
      kAudioDevicePropertyActualSampleRate, kAudioDevicePropertyAvailableNominalSampleRates,
      kAudioDevicePropertyIsHidden, kAudioDevicePropertyPreferredChannelsForStereo,
      kAudioDevicePropertyHogMode, kAudioDevicePropertyBufferFrameSize,
      kAudioDevicePropertyBufferFrameSizeRange, kAudioDevicePropertyIOCycleUsage,
      kAudioDevicePropertyStreamConfiguration, kAudioDevicePropertyZeroTimeStampPeriod,
      kAudioDevicePropertyClockAlgorithm, kAudioDevicePropertyClockIsStable}"

definition HasStreamProperty :: "AudioObjectPropertySelector \<Rightarrow> bool" where
  "HasStreamProperty selector \<longleftrightarrow> selector \<in>
     {kAudioStreamPropertyIsActive, kAudioStreamPropertyDirection, kAudioStreamPropertyTerminalType,
      kAudioStreamPropertyStartingChannel, kAudioStreamPropertyLatency,
      kAudioStreamPropertyVirtualFormat, kAudioStreamPropertyAvailableVirtualFormats,
      kAudioStreamPropertyPhysicalFormat, kAudioStreamPropertyAvailablePhysicalFormats}"

definition HasControlProperty :: "u32 \<Rightarrow> AudioObjectPropertySelector \<Rightarrow> bool" where
  "HasControlProperty objectID selector =
     (if selector = kAudioControlPropertyScope \<or> selector = kAudioControlPropertyElement then True
      else if objectID = kSVCObjectVolume then
        selector \<in> {kAudioLevelControlPropertyScalarValue, kAudioLevelControlPropertyDecibelValue,
          kAudioLevelControlPropertyDecibelRange, kAudioLevelControlPropertyConvertScalarToDecibels,
          kAudioLevelControlPropertyConvertDecibelsToScalar}
      else objectID = kSVCObjectMute \<and> selector = kAudioBooleanControlPropertyValue)"

definition IsValidAddress :: "u32 \<Rightarrow> AudioObjectPropertyAddress \<Rightarrow> bool" where
  "IsValidAddress objectID address =
     (let selector = mSelector address; scope = mScope address in
      if mElement address \<noteq> kAudioObjectPropertyElementMain then False
      else if objectID = kSVCObjectPlugin \<or> objectID = kSVCObjectOutputStream
              \<or> objectID = kSVCObjectVolume \<or> objectID = kSVCObjectMute
        then scope = kAudioObjectPropertyScopeGlobal
      else if objectID \<noteq> kSVCObjectDevice then False
      else if selector = kAudioDevicePropertyNominalSampleRate
        then scope = kAudioObjectPropertyScopeGlobal \<or> scope = kAudioObjectPropertyScopeOutput
      else if selector \<in> {kAudioObjectPropertyOwnedObjects, kAudioDevicePropertyLatency,
          kAudioDevicePropertyStreams, kAudioObjectPropertyControlList,
          kAudioDevicePropertySafetyOffset, kAudioDevicePropertyPreferredChannelsForStereo,
          kAudioDevicePropertyStreamConfiguration}
        then scope = kAudioObjectPropertyScopeGlobal \<or> scope = kAudioObjectPropertyScopeInput
          \<or> scope = kAudioObjectPropertyScopeOutput
      else if selector = kAudioDevicePropertyDeviceCanBeDefaultDevice
        then scope = kAudioObjectPropertyScopeInput \<or> scope = kAudioObjectPropertyScopeOutput
      else if selector = kAudioDevicePropertyDeviceCanBeDefaultSystemDevice
        then scope = kAudioObjectPropertyScopeOutput
      else scope = kAudioObjectPropertyScopeGlobal)"

text \<open>\<open>inDriver\<close> is the comparison with the driver's own reference, \<open>IsDriver\<close>.\<close>

definition DriverHasProperty ::
  "bool \<Rightarrow> u32 \<Rightarrow> AudioObjectPropertyAddress option \<Rightarrow> bool" where
  "DriverHasProperty inDriver inObjectID inAddress =
     (case inAddress of
        None \<Rightarrow> False
      | Some a \<Rightarrow>
          if \<not> inDriver \<or> \<not> IsKnownObject inObjectID \<or> \<not> IsValidAddress inObjectID a then False
          else if HasCommonProperty (mSelector a) then True
          else if inObjectID = kSVCObjectPlugin then HasPluginProperty (mSelector a)
          else if inObjectID = kSVCObjectDevice then HasDeviceProperty (mSelector a)
          else if inObjectID = kSVCObjectOutputStream then HasStreamProperty (mSelector a)
          else if inObjectID = kSVCObjectVolume \<or> inObjectID = kSVCObjectMute
            then HasControlProperty inObjectID (mSelector a)
          else False)"

text \<open>The status, and what is written through \<open>outIsSettable\<close> (null when \<open>hasOut\<close> is false).\<close>

definition DriverIsPropertySettable ::
  "bool \<Rightarrow> u32 \<Rightarrow> AudioObjectPropertyAddress option \<Rightarrow> bool \<Rightarrow> OSStatus \<times> bool option" where
  "DriverIsPropertySettable inDriver inObjectID inAddress hasOut =
     (case inAddress of
        None \<Rightarrow> (kAudioHardwareIllegalOperationError, None)
      | Some a \<Rightarrow>
          if \<not> hasOut then (kAudioHardwareIllegalOperationError, None)
          else if \<not> DriverHasProperty inDriver inObjectID inAddress
            then (if IsKnownObject inObjectID then kAudioHardwareUnknownPropertyError
                  else kAudioHardwareBadObjectError, None)
          else
            let selector = mSelector a; isStream = (inObjectID = kSVCObjectOutputStream) in
            (noErr, Some
              (isStream \<and> selector \<in> {kAudioStreamPropertyIsActive, kAudioStreamPropertyVirtualFormat,
                  kAudioStreamPropertyPhysicalFormat}
               \<or> inObjectID = kSVCObjectDevice \<and> selector = kAudioDevicePropertyNominalSampleRate
               \<or> inObjectID = kSVCObjectVolume \<and> selector \<in> {kAudioLevelControlPropertyScalarValue,
                  kAudioLevelControlPropertyDecibelValue}
               \<or> inObjectID = kSVCObjectMute \<and> selector = kAudioBooleanControlPropertyValue)))"

end
