(* ===== verification/Driver_Properties.thy ===== *)
theory Driver_Properties
  imports Driver_Objects Shared_Audio
begin

unbundle bit_operations_syntax

text \<open>
  \<open>driver/SoundVolumeControl.c\<close>, lines 632 to 1358: property sizes, reading and setting. A
  property value is a term of \<open>property_value\<close>, whose size in bytes is \<open>value_size\<close> on the
  64-bit platforms the driver runs on; a call returns its status and what it wrote through its
  two output pointers, \<open>None\<close> for nothing written.
\<close>

section \<open>Values\<close>

text \<open>Numbers of the CoreAudio headers that the driver only passes on.\<close>

datatype header_constant =
  kAudioDeviceTransportTypeVirtual | kAudioStreamTerminalTypeSpeaker
| kAudioDeviceClockAlgorithmRaw | kAudioFormatLinearPCM | OtherConstant u32

record AudioStreamBasicDescription =
  mSampleRate :: fp
  mFormatID :: header_constant
  mFormatFlags :: u32
  mBytesPerPacket :: u32
  mFramesPerPacket :: u32
  mBytesPerFrame :: u32
  mChannelsPerFrame :: u32
  mBitsPerChannel :: u32
  mReserved :: u32

datatype property_value =
  VUInt32 u32 | VUInt32s "u32 list" | VObject u32 | VObjects "u32 list" | VClass AudioClassID
| VConstant header_constant | VScope AudioObjectPropertyScope | VString string | VPid int
| VFloat32 fp | VFloat64 fp | VRange fp fp | VFormat AudioStreamBasicDescription
| VRangedFormat AudioStreamBasicDescription fp fp | VBufferList u32 u32 u32 | VEmpty

primrec value_size :: "property_value \<Rightarrow> u32" where
  "value_size (VUInt32 n) = 4"
| "value_size (VUInt32s ns) = 4 * of_nat (length ns)"
| "value_size (VObject n) = 4"
| "value_size (VObjects ns) = 4 * of_nat (length ns)"
| "value_size (VClass c) = 4"
| "value_size (VConstant c) = 4"
| "value_size (VScope s) = 4"
| "value_size (VString s) = 8"
| "value_size (VPid p) = 4"
| "value_size (VFloat32 x) = 4"
| "value_size (VFloat64 x) = 8"
| "value_size (VRange x y) = 16"
| "value_size (VFormat d) = 40"
| "value_size (VRangedFormat d x y) = 56"
| "value_size (VBufferList n c b) = 24"
| "value_size VEmpty = 0"

section \<open>The driver's configuration\<close>

definition SVC_BUNDLE_ID :: string where "SVC_BUNDLE_ID = ''org.soundvolumecontrol.driver''"
definition SVC_DEVICE_UID :: string where "SVC_DEVICE_UID = ''org.soundvolumecontrol.device''"
definition SVC_MODEL_UID :: string where "SVC_MODEL_UID = ''org.soundvolumecontrol.model''"
definition SVC_MANUFACTURER_NAME :: string where "SVC_MANUFACTURER_NAME = ''SoundVolumeControl''"
definition kSVCSampleRate :: nat where "kSVCSampleRate = 48000"
definition kSVCChannelCount :: nat where "kSVCChannelCount = 2"
definition kSVCBufferFrameSize :: u32 where "kSVCBufferFrameSize = 512"
definition kSVCZeroTimestampPeriod :: nat where "kSVCZeroTimestampPeriod = 16384"

text \<open>The flags float and packed; native endian is no flag on a little-endian machine.\<close>

definition StreamFormat :: AudioStreamBasicDescription where
  "StreamFormat = \<lparr>mSampleRate = Fin False (real kSVCSampleRate), mFormatID = kAudioFormatLinearPCM,
     mFormatFlags = 1 OR 0 OR 8,
     mBytesPerPacket = of_nat kSVCChannelCount * 4, mFramesPerPacket = 1,
     mBytesPerFrame = of_nat kSVCChannelCount * 4, mChannelsPerFrame = of_nat kSVCChannelCount,
     mBitsPerChannel = 8 * 4, mReserved = 0\<rparr>"

section \<open>Sizes\<close>

definition CommonPropertyDataSize ::
  "u32 \<Rightarrow> AudioObjectPropertyAddress \<Rightarrow> u32 \<Rightarrow> qualifier option \<Rightarrow> OSStatus \<times> u32 option" where
  "CommonPropertyDataSize objectID address qualifierDataSize qualifierData =
     (let selector = mSelector address in
      (case selector of
        kAudioObjectPropertyBaseClass \<Rightarrow> (noErr, Some 4)
      | kAudioObjectPropertyClass \<Rightarrow> (noErr, Some 4)
      | kAudioObjectPropertyOwner \<Rightarrow> (noErr, Some 4)
      | kAudioObjectPropertyName \<Rightarrow> (noErr, Some 8)
      | kAudioObjectPropertyManufacturer \<Rightarrow> (noErr, Some 8)
      | kAudioObjectPropertyOwnedObjects \<Rightarrow> (case FilteredOwnedObjects objectID (mScope address) qualifierDataSize qualifierData of (status, objects) \<Rightarrow> (status, Some (case objects of None \<Rightarrow> 0 | Some os \<Rightarrow> of_nat (length os) * 4)))
      | kAudioObjectPropertyCustomPropertyInfoList \<Rightarrow> (noErr, Some 0)
      | _ \<Rightarrow> (kAudioHardwareUnknownPropertyError, None)))"

definition PluginPropertyDataSize :: "AudioObjectPropertySelector \<Rightarrow> OSStatus \<times> u32 option" where
  "PluginPropertyDataSize selector =
     (case selector of
        kAudioPlugInPropertyBundleID \<Rightarrow> (noErr, Some 8)
      | kAudioPlugInPropertyResourceBundle \<Rightarrow> (noErr, Some 8)
      | kAudioPlugInPropertyDeviceList \<Rightarrow> (noErr, Some 4)
      | kAudioPlugInPropertyTranslateUIDToDevice \<Rightarrow> (noErr, Some 4)
      | kAudioPlugInPropertyTranslateUIDToBox \<Rightarrow> (noErr, Some 4)
      | kAudioPlugInPropertyTranslateUIDToClockDevice \<Rightarrow> (noErr, Some 4)
      | kAudioPlugInPropertyBoxList \<Rightarrow> (noErr, Some 0)
      | kAudioPlugInPropertyClockDeviceList \<Rightarrow> (noErr, Some 0)
      | _ \<Rightarrow> (kAudioHardwareUnknownPropertyError, None))"

definition DevicePropertyDataSize :: "AudioObjectPropertyAddress \<Rightarrow> OSStatus \<times> u32 option" where
  "DevicePropertyDataSize address =
     (let selector = mSelector address in
      (case selector of
        kAudioDevicePropertyDeviceUID \<Rightarrow> (noErr, Some 8)
      | kAudioDevicePropertyModelUID \<Rightarrow> (noErr, Some 8)
      | kAudioDevicePropertyTransportType \<Rightarrow> (noErr, Some 4)
      | kAudioDevicePropertyClockDomain \<Rightarrow> (noErr, Some 4)
      | kAudioDevicePropertyDeviceIsAlive \<Rightarrow> (noErr, Some 4)
      | kAudioDevicePropertyDeviceIsRunning \<Rightarrow> (noErr, Some 4)
      | kAudioDevicePropertyDeviceCanBeDefaultDevice \<Rightarrow> (noErr, Some 4)
      | kAudioDevicePropertyDeviceCanBeDefaultSystemDevice \<Rightarrow> (noErr, Some 4)
      | kAudioDevicePropertyLatency \<Rightarrow> (noErr, Some 4)
      | kAudioDevicePropertySafetyOffset \<Rightarrow> (noErr, Some 4)
      | kAudioDevicePropertyIsHidden \<Rightarrow> (noErr, Some 4)
      | kAudioDevicePropertyBufferFrameSize \<Rightarrow> (noErr, Some 4)
      | kAudioDevicePropertyZeroTimeStampPeriod \<Rightarrow> (noErr, Some 4)
      | kAudioDevicePropertyClockAlgorithm \<Rightarrow> (noErr, Some 4)
      | kAudioDevicePropertyClockIsStable \<Rightarrow> (noErr, Some 4)
      | kAudioDevicePropertyHogMode \<Rightarrow> (noErr, Some 4)
      | kAudioDevicePropertyRelatedDevices \<Rightarrow> (noErr, Some 4)
      | kAudioDevicePropertyStreams \<Rightarrow> (noErr, Some (if mScope address = kAudioObjectPropertyScopeInput then 0 else 4))
      | kAudioObjectPropertyControlList \<Rightarrow> (noErr, Some (if mScope address = kAudioObjectPropertyScopeInput then 0 else 2 * 4))
      | kAudioDevicePropertyNominalSampleRate \<Rightarrow> (noErr, Some 8)
      | kAudioDevicePropertyActualSampleRate \<Rightarrow> (noErr, Some 8)
      | kAudioDevicePropertyAvailableNominalSampleRates \<Rightarrow> (noErr, Some 16)
      | kAudioDevicePropertyPreferredChannelsForStereo \<Rightarrow> (noErr, Some (2 * 4))
      | kAudioDevicePropertyBufferFrameSizeRange \<Rightarrow> (noErr, Some 16)
      | kAudioDevicePropertyIOCycleUsage \<Rightarrow> (noErr, Some 4)
      | kAudioDevicePropertyStreamConfiguration \<Rightarrow> (noErr, Some 24)
      | _ \<Rightarrow> (kAudioHardwareUnknownPropertyError, None)))"

definition StreamPropertyDataSize :: "AudioObjectPropertySelector \<Rightarrow> OSStatus \<times> u32 option" where
  "StreamPropertyDataSize selector =
     (case selector of
        kAudioStreamPropertyIsActive \<Rightarrow> (noErr, Some 4)
      | kAudioStreamPropertyDirection \<Rightarrow> (noErr, Some 4)
      | kAudioStreamPropertyTerminalType \<Rightarrow> (noErr, Some 4)
      | kAudioStreamPropertyStartingChannel \<Rightarrow> (noErr, Some 4)
      | kAudioStreamPropertyLatency \<Rightarrow> (noErr, Some 4)
      | kAudioStreamPropertyVirtualFormat \<Rightarrow> (noErr, Some 40)
      | kAudioStreamPropertyPhysicalFormat \<Rightarrow> (noErr, Some 40)
      | kAudioStreamPropertyAvailableVirtualFormats \<Rightarrow> (noErr, Some 56)
      | kAudioStreamPropertyAvailablePhysicalFormats \<Rightarrow> (noErr, Some 56)
      | _ \<Rightarrow> (kAudioHardwareUnknownPropertyError, None))"

definition ControlPropertyDataSize ::
  "u32 \<Rightarrow> AudioObjectPropertySelector \<Rightarrow> OSStatus \<times> u32 option" where
  "ControlPropertyDataSize objectID selector =
     (if selector = kAudioControlPropertyScope \<or> selector = kAudioControlPropertyElement
        then (noErr, Some 4)
      else if objectID = kSVCObjectVolume then
        (if selector \<in> {kAudioLevelControlPropertyScalarValue, kAudioLevelControlPropertyDecibelValue,
            kAudioLevelControlPropertyConvertScalarToDecibels,
            kAudioLevelControlPropertyConvertDecibelsToScalar} then (noErr, Some 4)
         else if selector = kAudioLevelControlPropertyDecibelRange then (noErr, Some 16)
         else (kAudioHardwareUnknownPropertyError, None))
      else if objectID = kSVCObjectMute \<and> selector = kAudioBooleanControlPropertyValue
        then (noErr, Some 4)
      else (kAudioHardwareUnknownPropertyError, None))"

text \<open>\<open>hasSize\<close> says that \<open>outDataSize\<close> is not null.\<close>

definition DriverGetPropertyDataSize ::
  "bool \<Rightarrow> u32 \<Rightarrow> AudioObjectPropertyAddress option \<Rightarrow> u32 \<Rightarrow> qualifier option \<Rightarrow> bool
    \<Rightarrow> OSStatus \<times> u32 option" where
  "DriverGetPropertyDataSize inDriver inObjectID inAddress inQualifierDataSize inQualifierData hasSize =
     (case inAddress of
        None \<Rightarrow> (kAudioHardwareIllegalOperationError, None)
      | Some a \<Rightarrow>
          if \<not> hasSize \<or> \<not> inDriver then (kAudioHardwareIllegalOperationError, None)
          else if \<not> IsKnownObject inObjectID then (kAudioHardwareBadObjectError, None)
          else if \<not> DriverHasProperty inDriver inObjectID inAddress
            then (kAudioHardwareUnknownPropertyError, None)
          else if HasCommonProperty (mSelector a)
            then CommonPropertyDataSize inObjectID a inQualifierDataSize inQualifierData
          else if inObjectID = kSVCObjectPlugin then PluginPropertyDataSize (mSelector a)
          else if inObjectID = kSVCObjectDevice then DevicePropertyDataSize a
          else if inObjectID = kSVCObjectOutputStream then StreamPropertyDataSize (mSelector a)
          else if inObjectID = kSVCObjectVolume \<or> inObjectID = kSVCObjectMute
            then ControlPropertyDataSize inObjectID (mSelector a)
          else (kAudioHardwareBadObjectError, None))"

section \<open>The driver's state\<close>

text \<open>
  The globals of the file. \<open>gHost\<close> is null, or a host whose \<open>PropertiesChanged\<close> is present or
  not; \<open>sent\<close> lists the notifications it was given, in order. \<open>audio\<close> is the ring
  \<open>AcquireAudio\<close> returns, and \<open>leases\<close> counts the acquisitions not yet released. Each call
  holds \<open>gStateMutex\<close> while it touches the volume, the mute flag or the stream flag, so calls
  on them are atomic.
\<close>

record driver =
  gReferenceCount :: u32
  gRunningCount :: u32
  gTimestampAnchor :: u64
  gHost :: "bool option"
  gVolumeScalar :: fp
  gMute :: u32
  gOutputStreamActive :: u32
  gHostTicksPerFrame :: fp
  sent :: "(u32 \<times> AudioObjectPropertyAddress list) list"
  audio :: "SVCSharedAudio option"
  leases :: nat

definition driver_start :: driver where
  "driver_start = \<lparr>gReferenceCount = 1, gRunningCount = 0, gTimestampAnchor = 0, gHost = None,
     gVolumeScalar = Fin False 1, gMute = 0, gOutputStreamActive = 1,
     gHostTicksPerFrame = Fin False 0, sent = [], audio = None, leases = 0\<rparr>"

definition Notify :: "driver \<Rightarrow> u32 \<Rightarrow> AudioObjectPropertyAddress list \<Rightarrow> driver" where
  "Notify d objectID addresses =
     (if gHost d = Some True then d\<lparr>sent := sent d @ [(objectID, addresses)]\<rparr> else d)"

section \<open>Reading\<close>

type_synonym get_result = "OSStatus \<times> u32 option \<times> property_value option"

text \<open>
  \<open>outData\<close> is null or memory whose first four bytes read as the given float, which the two
  conversion properties use as their argument.
\<close>

definition CopyData :: "property_value \<Rightarrow> u32 \<Rightarrow> bool \<Rightarrow> fp option \<Rightarrow> get_result" where
  "CopyData source inDataSize hasSize outData =
     (let requiredSize = value_size source in
      if \<not> hasSize \<or> (0 < requiredSize \<and> outData = None)
        then (kAudioHardwareIllegalOperationError, None, None)
      else if inDataSize < requiredSize then (kAudioHardwareBadPropertySizeError, None, None)
      else (noErr, Some requiredSize, if 0 < requiredSize then Some source else None))"

definition get_error :: "OSStatus \<Rightarrow> get_result" where
  "get_error status = (status, None, None)"

definition GetCommonPropertyData ::
  "u32 \<Rightarrow> AudioObjectPropertyAddress \<Rightarrow> u32 \<Rightarrow> qualifier option \<Rightarrow> u32 \<Rightarrow> bool \<Rightarrow> fp option \<Rightarrow> get_result" where
  "GetCommonPropertyData objectID address qualifierDataSize qualifierData inDataSize hasSize outData =
     (let selector = mSelector address; copy = (\<lambda>v. CopyData v inDataSize hasSize outData) in
      (case selector of
        kAudioObjectPropertyBaseClass \<Rightarrow> copy (VClass (BaseClassForObject objectID))
      | kAudioObjectPropertyClass \<Rightarrow> copy (VClass (ClassForObject objectID))
      | kAudioObjectPropertyOwner \<Rightarrow> copy (VObject (OwnerForObject objectID))
      | kAudioObjectPropertyName \<Rightarrow> (case CopyNameForObject objectID of None \<Rightarrow> get_error kAudioHardwareUnspecifiedError | Some value \<Rightarrow> copy (VString value))
      | kAudioObjectPropertyManufacturer \<Rightarrow> copy (VString SVC_MANUFACTURER_NAME)
      | kAudioObjectPropertyOwnedObjects \<Rightarrow> (case FilteredOwnedObjects objectID (mScope address) qualifierDataSize qualifierData of (status, None) \<Rightarrow> get_error status | (status, Some objects) \<Rightarrow> if status \<noteq> noErr then get_error status else copy (VObjects objects))
      | kAudioObjectPropertyCustomPropertyInfoList \<Rightarrow> copy VEmpty
      | _ \<Rightarrow> get_error kAudioHardwareUnknownPropertyError))"

definition GetPluginPropertyData ::
  "AudioObjectPropertyAddress \<Rightarrow> u32 \<Rightarrow> qualifier option \<Rightarrow> u32 \<Rightarrow> bool \<Rightarrow> fp option \<Rightarrow> get_result" where
  "GetPluginPropertyData address inQualifierDataSize inQualifierData inDataSize hasSize outData =
     (let selector = mSelector address; copy = (\<lambda>v. CopyData v inDataSize hasSize outData) in
      (case selector of
        kAudioPlugInPropertyBundleID \<Rightarrow> copy (VString SVC_BUNDLE_ID)
      | kAudioPlugInPropertyDeviceList \<Rightarrow> copy (VObject kSVCObjectDevice)
      | kAudioPlugInPropertyTranslateUIDToDevice \<Rightarrow> (case inQualifierData of None \<Rightarrow> get_error kAudioHardwareBadPropertySizeError | Some q \<Rightarrow> if inQualifierDataSize \<noteq> 8 then get_error kAudioHardwareBadPropertySizeError else copy (VObject (if as_string q = Some SVC_DEVICE_UID then kSVCObjectDevice else kAudioObjectUnknown)))
      | kAudioPlugInPropertyBoxList \<Rightarrow> copy VEmpty
      | kAudioPlugInPropertyClockDeviceList \<Rightarrow> copy VEmpty
      | kAudioPlugInPropertyTranslateUIDToBox \<Rightarrow> copy (VObject kAudioObjectUnknown)
      | kAudioPlugInPropertyTranslateUIDToClockDevice \<Rightarrow> copy (VObject kAudioObjectUnknown)
      | kAudioPlugInPropertyResourceBundle \<Rightarrow> copy (VString [])
      | _ \<Rightarrow> get_error kAudioHardwareUnknownPropertyError))"

definition GetDevicePropertyData ::
  "driver \<Rightarrow> AudioObjectPropertyAddress \<Rightarrow> u32 \<Rightarrow> bool \<Rightarrow> fp option \<Rightarrow> get_result" where
  "GetDevicePropertyData d address inDataSize hasSize outData =
     (let selector = mSelector address; copy = (\<lambda>v. CopyData v inDataSize hasSize outData);
          isInput = (mScope address = kAudioObjectPropertyScopeInput);
          rate = Fin False (real kSVCSampleRate) in
      (case selector of
        kAudioDevicePropertyDeviceUID \<Rightarrow> copy (VString (if selector = kAudioDevicePropertyDeviceUID then SVC_DEVICE_UID else SVC_MODEL_UID))
      | kAudioDevicePropertyModelUID \<Rightarrow> copy (VString (if selector = kAudioDevicePropertyDeviceUID then SVC_DEVICE_UID else SVC_MODEL_UID))
      | kAudioDevicePropertyTransportType \<Rightarrow> copy (VConstant kAudioDeviceTransportTypeVirtual)
      | kAudioDevicePropertyRelatedDevices \<Rightarrow> copy (VObject kSVCObjectDevice)
      | kAudioDevicePropertyClockDomain \<Rightarrow> copy (VUInt32 0)
      | kAudioDevicePropertyLatency \<Rightarrow> copy (VUInt32 0)
      | kAudioDevicePropertySafetyOffset \<Rightarrow> copy (VUInt32 0)
      | kAudioDevicePropertyIsHidden \<Rightarrow> copy (VUInt32 0)
      | kAudioDevicePropertyDeviceIsAlive \<Rightarrow> copy (VUInt32 1)
      | kAudioDevicePropertyDeviceCanBeDefaultSystemDevice \<Rightarrow> copy (VUInt32 1)
      | kAudioDevicePropertyClockIsStable \<Rightarrow> copy (VUInt32 1)
      | kAudioDevicePropertyDeviceIsRunning \<Rightarrow> copy (VUInt32 (if 0 < gRunningCount d then 1 else 0))
      | kAudioDevicePropertyDeviceCanBeDefaultDevice \<Rightarrow> copy (VUInt32 (if isInput then 0 else 1))
      | kAudioDevicePropertyStreams \<Rightarrow> (if isInput then copy VEmpty else copy (VObject kSVCObjectOutputStream))
      | kAudioObjectPropertyControlList \<Rightarrow> copy (VObjects (if isInput then [] else [kSVCObjectVolume, kSVCObjectMute]))
      | kAudioDevicePropertyNominalSampleRate \<Rightarrow> copy (VFloat64 rate)
      | kAudioDevicePropertyActualSampleRate \<Rightarrow> copy (VFloat64 rate)
      | kAudioDevicePropertyAvailableNominalSampleRates \<Rightarrow> copy (VRange rate rate)
      | kAudioDevicePropertyPreferredChannelsForStereo \<Rightarrow> copy (VUInt32s [1, 2])
      | kAudioDevicePropertyHogMode \<Rightarrow> copy (VPid (- 1))
      | kAudioDevicePropertyBufferFrameSize \<Rightarrow> copy (VUInt32 kSVCBufferFrameSize)
      | kAudioDevicePropertyBufferFrameSizeRange \<Rightarrow> copy (VRange (Fin False 64) (Fin False 4096))
      | kAudioDevicePropertyIOCycleUsage \<Rightarrow> copy (VFloat32 (Fin False 0))
      | kAudioDevicePropertyStreamConfiguration \<Rightarrow> copy (VBufferList (if isInput then 0 else 1) (of_nat kSVCChannelCount) 0)
      | kAudioDevicePropertyZeroTimeStampPeriod \<Rightarrow> copy (VUInt32 (of_nat kSVCZeroTimestampPeriod))
      | kAudioDevicePropertyClockAlgorithm \<Rightarrow> copy (VConstant kAudioDeviceClockAlgorithmRaw)
      | _ \<Rightarrow> get_error kAudioHardwareUnknownPropertyError))"

definition GetStreamPropertyData ::
  "driver \<Rightarrow> AudioObjectPropertySelector \<Rightarrow> u32 \<Rightarrow> bool \<Rightarrow> fp option \<Rightarrow> get_result" where
  "GetStreamPropertyData d selector inDataSize hasSize outData =
     (let copy = (\<lambda>v. CopyData v inDataSize hasSize outData); rate = Fin False (real kSVCSampleRate) in
      (case selector of
        kAudioStreamPropertyIsActive \<Rightarrow> copy (VUInt32 (gOutputStreamActive d))
      | kAudioStreamPropertyDirection \<Rightarrow> copy (VUInt32 0)
      | kAudioStreamPropertyTerminalType \<Rightarrow> copy (VConstant kAudioStreamTerminalTypeSpeaker)
      | kAudioStreamPropertyStartingChannel \<Rightarrow> copy (VUInt32 1)
      | kAudioStreamPropertyLatency \<Rightarrow> copy (VUInt32 0)
      | kAudioStreamPropertyVirtualFormat \<Rightarrow> copy (VFormat StreamFormat)
      | kAudioStreamPropertyPhysicalFormat \<Rightarrow> copy (VFormat StreamFormat)
      | kAudioStreamPropertyAvailableVirtualFormats \<Rightarrow> copy (VRangedFormat StreamFormat rate rate)
      | kAudioStreamPropertyAvailablePhysicalFormats \<Rightarrow> copy (VRangedFormat StreamFormat rate rate)
      | _ \<Rightarrow> get_error kAudioHardwareUnknownPropertyError))"

definition GetControlPropertyData ::
  "libm \<Rightarrow> driver \<Rightarrow> u32 \<Rightarrow> AudioObjectPropertySelector \<Rightarrow> u32 \<Rightarrow> bool \<Rightarrow> fp option \<Rightarrow> get_result" where
  "GetControlPropertyData L d objectID selector inDataSize hasSize outData =
     (let copy = (\<lambda>v. CopyData v inDataSize hasSize outData) in
      if selector = kAudioControlPropertyScope then copy (VScope kAudioObjectPropertyScopeOutput)
      else if selector = kAudioControlPropertyElement then copy (VUInt32 kAudioObjectPropertyElementMain)
      else if objectID = kSVCObjectVolume then
        let scalar = gVolumeScalar d in
        (if selector = kAudioLevelControlPropertyScalarValue then copy (VFloat32 scalar)
         else if selector = kAudioLevelControlPropertyDecibelValue
           then copy (VFloat32 (SVCVolumeScalarToDecibels L scalar))
         else if selector = kAudioLevelControlPropertyDecibelRange
           then copy (VRange SVC_VOLUME_MINIMUM_DECIBELS SVC_VOLUME_MAXIMUM_DECIBELS)
         else if selector = kAudioLevelControlPropertyConvertScalarToDecibels then
           (case outData of
              None \<Rightarrow> get_error kAudioHardwareBadPropertySizeError
            | Some x \<Rightarrow>
                if inDataSize < 4 then get_error kAudioHardwareBadPropertySizeError
                else copy (VFloat32 (SVCVolumeScalarToDecibels L x)))
         else if selector = kAudioLevelControlPropertyConvertDecibelsToScalar then
           (case outData of
              None \<Rightarrow> get_error kAudioHardwareBadPropertySizeError
            | Some x \<Rightarrow>
                if inDataSize < 4 then get_error kAudioHardwareBadPropertySizeError
                else copy (VFloat32 (SVCVolumeDecibelsToScalar L x)))
         else get_error kAudioHardwareUnknownPropertyError)
      else if objectID = kSVCObjectMute \<and> selector = kAudioBooleanControlPropertyValue
        then copy (VUInt32 (gMute d))
      else get_error kAudioHardwareUnknownPropertyError)"

definition DriverGetPropertyData ::
  "libm \<Rightarrow> driver \<Rightarrow> bool \<Rightarrow> u32 \<Rightarrow> AudioObjectPropertyAddress option \<Rightarrow> u32 \<Rightarrow> qualifier option \<Rightarrow> u32
    \<Rightarrow> bool \<Rightarrow> fp option \<Rightarrow> get_result" where
  "DriverGetPropertyData L d inDriver inObjectID inAddress inQualifierDataSize inQualifierData inDataSize
       hasSize outData =
     (case inAddress of
        None \<Rightarrow> get_error kAudioHardwareIllegalOperationError
      | Some a \<Rightarrow>
          if \<not> hasSize \<or> \<not> inDriver then get_error kAudioHardwareIllegalOperationError
          else if \<not> IsKnownObject inObjectID then get_error kAudioHardwareBadObjectError
          else if \<not> DriverHasProperty inDriver inObjectID inAddress
            then get_error kAudioHardwareUnknownPropertyError
          else if HasCommonProperty (mSelector a)
            then GetCommonPropertyData inObjectID a inQualifierDataSize inQualifierData inDataSize hasSize outData
          else if inObjectID = kSVCObjectPlugin
            then GetPluginPropertyData a inQualifierDataSize inQualifierData inDataSize hasSize outData
          else if inObjectID = kSVCObjectDevice then GetDevicePropertyData d a inDataSize hasSize outData
          else if inObjectID = kSVCObjectOutputStream
            then GetStreamPropertyData d (mSelector a) inDataSize hasSize outData
          else if inObjectID = kSVCObjectVolume \<or> inObjectID = kSVCObjectMute
            then GetControlPropertyData L d inObjectID (mSelector a) inDataSize hasSize outData
          else get_error kAudioHardwareBadObjectError)"

section \<open>Setting\<close>

text \<open>
  The memory \<open>inData\<close> refers to, as the code reads it once the size has been checked: an
  integer, a float, a double, or a stream format.
\<close>

record in_data =
  as_uint32 :: u32
  as_float32 :: fp
  as_float64 :: fp
  as_format :: AudioStreamBasicDescription

definition DriverSetPropertyData ::
  "libm \<Rightarrow> driver \<Rightarrow> bool \<Rightarrow> u32 \<Rightarrow> AudioObjectPropertyAddress option \<Rightarrow> u32 \<Rightarrow> in_data option
    \<Rightarrow> driver \<times> OSStatus" where
  "DriverSetPropertyData L d inDriver inObjectID inAddress inDataSize inData =
     (case (inAddress, inData) of
        (Some a, Some data) \<Rightarrow>
          let selector = mSelector a in
          if \<not> inDriver then (d, kAudioHardwareIllegalOperationError)
          else if \<not> IsKnownObject inObjectID then (d, kAudioHardwareBadObjectError)
          else if inObjectID = kSVCObjectOutputStream \<and> selector = kAudioStreamPropertyIsActive then
            (if inDataSize \<noteq> 4 then (d, kAudioHardwareBadPropertySizeError)
             else
               let value = (if as_uint32 data \<noteq> 0 then 1 else 0);
                   changed = (gOutputStreamActive d \<noteq> value);
                   d' = d\<lparr>gOutputStreamActive := value\<rparr>
               in (if changed then Notify d' inObjectID [Address kAudioStreamPropertyIsActive] else d', noErr))
          else if inObjectID = kSVCObjectDevice \<and> selector = kAudioDevicePropertyNominalSampleRate then
            (if inDataSize \<noteq> 8 then (d, kAudioHardwareBadPropertySizeError)
             else (d, if fp_eq (as_float64 data) (Fin False (real kSVCSampleRate)) then noErr
                      else kAudioHardwareIllegalOperationError))
          else if inObjectID = kSVCObjectOutputStream
              \<and> (selector = kAudioStreamPropertyVirtualFormat \<or> selector = kAudioStreamPropertyPhysicalFormat) then
            (if inDataSize \<noteq> 40 then (d, kAudioHardwareBadPropertySizeError)
             else (d, if as_format data = StreamFormat then noErr else kAudioDeviceUnsupportedFormatError))
          else if inObjectID = kSVCObjectVolume
              \<and> (selector = kAudioLevelControlPropertyScalarValue
                  \<or> selector = kAudioLevelControlPropertyDecibelValue) then
            (if inDataSize \<noteq> 4 then (d, kAudioHardwareBadPropertySizeError)
             else
               let raw = as_float32 data;
                   value = (if selector = kAudioLevelControlPropertyScalarValue
                            then SVCVolumeClampScalar raw else SVCVolumeDecibelsToScalar L raw);
                   changed = (\<not> fp_eq (gVolumeScalar d) value);
                   d' = d\<lparr>gVolumeScalar := value\<rparr>
               in (if changed then Notify d' kSVCObjectVolume
                     [Address kAudioLevelControlPropertyScalarValue, Address kAudioLevelControlPropertyDecibelValue]
                   else d', noErr))
          else if inObjectID = kSVCObjectMute \<and> selector = kAudioBooleanControlPropertyValue then
            (if inDataSize \<noteq> 4 then (d, kAudioHardwareBadPropertySizeError)
             else
               let value = (if as_uint32 data \<noteq> 0 then 1 else 0);
                   changed = (gMute d \<noteq> value);
                   d' = d\<lparr>gMute := value\<rparr>
               in (if changed then Notify d' kSVCObjectMute [Address kAudioBooleanControlPropertyValue]
                   else d', noErr))
          else
            (case DriverIsPropertySettable inDriver inObjectID inAddress True of
               (status, settable) \<Rightarrow>
                 if status \<noteq> noErr then (d, status) else (d, kAudioHardwareUnsupportedOperationError))
      | _ \<Rightarrow> (d, kAudioHardwareIllegalOperationError))"

end
