(* ===== verification/Driver_Laws.thy ===== *)
theory Driver_Laws
  imports Driver_Properties Volume_Laws
begin

text \<open>
  The contract of the property layer: sizes announced are sizes delivered, every published
  property can be read, every write is checked before it changes anything, the state stays in
  range and the host is told of every change exactly once.
\<close>

section \<open>What a successful read delivers\<close>

text \<open>
  A read of a property of size \<open>n\<close> into a buffer of \<open>room\<close> bytes: an error that writes nothing
  when the buffer is too small, exactly \<open>n\<close> bytes otherwise.
\<close>

definition delivers :: "u32 \<Rightarrow> u32 \<Rightarrow> get_result \<Rightarrow> bool" where
  "delivers n room res \<longleftrightarrow>
     (if room < n then res = get_error kAudioHardwareBadPropertySizeError
      else \<exists>v. res = (noErr, Some n, v) \<and> (case v of None \<Rightarrow> n = 0 | Some x \<Rightarrow> value_size x = n \<and> 0 < n))"

lemma CopyData_delivers: "n = value_size v \<Longrightarrow> delivers n room (CopyData v room True (Some x))"
  by (auto simp: delivers_def CopyData_def get_error_def Let_def word_gt_0)

lemma FilteredOwnedObjects_status [simp]: "FilteredOwnedObjects obj scope qs q \<noteq> (noErr, None)"
  by (simp add: FilteredOwnedObjects_def Let_def)

lemma known_cases:
  assumes "IsKnownObject obj"
  obtains "obj = kSVCObjectPlugin" | "obj = kSVCObjectDevice" | "obj = kSVCObjectOutputStream"
    | "obj = kSVCObjectVolume" | "obj = kSVCObjectMute"
proof -
  have "1 \<le> unat obj" "unat obj \<le> 5"
    using assms by (simp_all add: IsKnownObject_def object_ids word_le_nat_alt)
  then have "unat obj = unat (1 :: u32) \<or> unat obj = unat (2 :: u32) \<or> unat obj = unat (3 :: u32) \<or>
      unat obj = unat (4 :: u32) \<or> unat obj = unat (5 :: u32)" by simp linarith
  then show thesis using that unfolding object_ids by (metis word_unat_eq_iff)
qed

lemma common_delivers:
  assumes "IsKnownObject obj" "HasCommonProperty (mSelector a)"
    "CommonPropertyDataSize obj a qs q = (noErr, Some n)"
  shows "delivers n room (GetCommonPropertyData obj a qs q room True (Some x))"
proof -
  obtain name where "CopyNameForObject obj = Some name"
    by (cases rule: known_cases [OF assms(1)]) (auto simp: CopyNameForObject_def object_ids)
  moreover obtain st os where "FilteredOwnedObjects obj (mScope a) qs q = (st, os)" by fastforce
  moreover from this have "os = None \<Longrightarrow> st \<noteq> noErr"
    using FilteredOwnedObjects_status by metis
  ultimately show ?thesis
    using assms(2,3) unfolding HasCommonProperty_def
    by (elim insertE emptyE)
      (auto simp: CommonPropertyDataSize_def GetCommonPropertyData_def Let_def CopyData_delivers
        split: option.splits)
qed

lemma plugin_delivers:
  assumes "HasPluginProperty (mSelector a)" "PluginPropertyDataSize (mSelector a) = (noErr, Some n)"
    and "mSelector a = kAudioPlugInPropertyTranslateUIDToDevice \<Longrightarrow> qs = 8 \<and> q \<noteq> None"
  shows "delivers n room (GetPluginPropertyData a qs q room True (Some x))"
  using assms unfolding HasPluginProperty_def
  by (elim insertE emptyE)
    (auto simp: PluginPropertyDataSize_def GetPluginPropertyData_def Let_def CopyData_delivers)

lemma device_delivers:
  assumes "HasDeviceProperty (mSelector a)" "DevicePropertyDataSize a = (noErr, Some n)"
  shows "delivers n room (GetDevicePropertyData d a room True (Some x))"
  using assms unfolding HasDeviceProperty_def
  by (elim insertE emptyE)
    (auto simp: DevicePropertyDataSize_def GetDevicePropertyData_def Let_def CopyData_delivers)

lemma stream_delivers:
  assumes "HasStreamProperty sel" "StreamPropertyDataSize sel = (noErr, Some n)"
  shows "delivers n room (GetStreamPropertyData d sel room True (Some x))"
  using assms unfolding HasStreamProperty_def
  by (elim insertE emptyE)
    (simp_all add: StreamPropertyDataSize_def GetStreamPropertyData_def Let_def CopyData_delivers)

lemma control_delivers:
  assumes "obj = kSVCObjectVolume \<or> obj = kSVCObjectMute" "HasControlProperty obj sel"
    "ControlPropertyDataSize obj sel = (noErr, Some n)"
  shows "delivers n room (GetControlPropertyData L d obj sel room True (Some x))"
  using assms
  by (auto simp: HasControlProperty_def ControlPropertyDataSize_def GetControlPropertyData_def Let_def
      object_ids CopyData_delivers delivers_def [of _ _ "get_error kAudioHardwareBadPropertySizeError"]
      split: if_splits)

text \<open>
  The qualifiers the two qualified properties accept: a whole number of classes, a string.
\<close>

definition qualifier_fits :: "AudioObjectPropertyAddress \<Rightarrow> u32 \<Rightarrow> qualifier option \<Rightarrow> bool" where
  "qualifier_fits a qs q \<longleftrightarrow>
     (mSelector a = kAudioObjectPropertyOwnedObjects \<longrightarrow>
        unat qs mod 4 = 0 \<and> (0 < qs \<longrightarrow> q \<noteq> None)) \<and>
     (mSelector a = kAudioPlugInPropertyTranslateUIDToDevice \<longrightarrow> qs = 8 \<and> q \<noteq> None)"

text \<open>Every property an object has gets a size.\<close>

lemma sizes_defined:
  "HasCommonProperty (mSelector a) \<Longrightarrow> qualifier_fits a qs q \<Longrightarrow>
    \<exists>n. CommonPropertyDataSize obj a qs q = (noErr, Some n)"
  "HasPluginProperty sel \<Longrightarrow> \<exists>n. PluginPropertyDataSize sel = (noErr, Some n)"
  "HasDeviceProperty (mSelector a) \<Longrightarrow> \<exists>n. DevicePropertyDataSize a = (noErr, Some n)"
  "HasStreamProperty sel \<Longrightarrow> \<exists>n. StreamPropertyDataSize sel = (noErr, Some n)"
  "obj = kSVCObjectVolume \<or> obj = kSVCObjectMute \<Longrightarrow> HasControlProperty obj sel \<Longrightarrow>
    \<exists>n. ControlPropertyDataSize obj sel = (noErr, Some n)"
proof -
  show "HasCommonProperty (mSelector a) \<Longrightarrow> qualifier_fits a qs q \<Longrightarrow>
    \<exists>n. CommonPropertyDataSize obj a qs q = (noErr, Some n)"
    by (auto simp: HasCommonProperty_def CommonPropertyDataSize_def FilteredOwnedObjects_def
        qualifier_fits_def Let_def)
  show "HasPluginProperty sel \<Longrightarrow> \<exists>n. PluginPropertyDataSize sel = (noErr, Some n)"
    by (auto simp: HasPluginProperty_def PluginPropertyDataSize_def)
  show "HasDeviceProperty (mSelector a) \<Longrightarrow> \<exists>n. DevicePropertyDataSize a = (noErr, Some n)"
    by (auto simp: HasDeviceProperty_def DevicePropertyDataSize_def Let_def)
  show "HasStreamProperty sel \<Longrightarrow> \<exists>n. StreamPropertyDataSize sel = (noErr, Some n)"
    by (auto simp: HasStreamProperty_def StreamPropertyDataSize_def)
  show "obj = kSVCObjectVolume \<or> obj = kSVCObjectMute \<Longrightarrow> HasControlProperty obj sel \<Longrightarrow>
    \<exists>n. ControlPropertyDataSize obj sel = (noErr, Some n)"
    by (auto simp: HasControlProperty_def ControlPropertyDataSize_def object_ids split: if_splits)
qed

text \<open>The two controls, whose properties share a layer.\<close>

lemma control_layer_delivers:
  assumes "DriverHasProperty True obj (Some a)" "\<not> HasCommonProperty (mSelector a)"
    and "obj = kSVCObjectVolume \<or> obj = kSVCObjectMute"
  shows "\<exists>n. DriverGetPropertyDataSize True obj (Some a) qs q True = (noErr, Some n) \<and>
    delivers n room (DriverGetPropertyData L d True obj (Some a) qs q room True (Some x))"
proof -
  have known: "IsKnownObject obj" using assms(3) by (auto simp: IsKnownObject_def object_ids)
  have h: "HasControlProperty obj (mSelector a)"
    using assms known by (auto simp: DriverHasProperty_def object_ids split: if_splits)
  from sizes_defined(5) [OF assms(3) h] control_delivers [OF assms(3) h] assms known show ?thesis
    by (fastforce simp: DriverGetPropertyDataSize_def DriverGetPropertyData_def object_ids)
qed

section \<open>The property contract\<close>

text \<open>Property C10: every property the driver says it has can be sized and read. Its size is
  announced with success, a buffer of at least that size receives exactly that many bytes of data,
  and a smaller one is refused with nothing written.\<close>

theorem driver_delivers_announced_size:
  assumes "DriverHasProperty inDriver obj (Some a)" "qualifier_fits a qs q"
  shows "\<exists>n. DriverGetPropertyDataSize inDriver obj (Some a) qs q True = (noErr, Some n) \<and>
    delivers n room (DriverGetPropertyData L d inDriver obj (Some a) qs q room True (Some x))"
proof -
  have drv: "inDriver" and known: "IsKnownObject obj"
    using assms(1) by (auto simp: DriverHasProperty_def split: if_splits)
  show ?thesis
  proof (cases "HasCommonProperty (mSelector a)")
    case True
    with sizes_defined(1) [OF True assms(2)] common_delivers [OF known True] assms(1) drv known show ?thesis
      by (fastforce simp: DriverGetPropertyDataSize_def DriverGetPropertyData_def)
  next
    case False
    have tr: "mSelector a = kAudioPlugInPropertyTranslateUIDToDevice \<Longrightarrow> qs = 8 \<and> q \<noteq> None"
      using assms(2) by (simp add: qualifier_fits_def)
    from known show ?thesis
    proof (cases rule: known_cases)
      case 1
      then have h: "HasPluginProperty (mSelector a)"
        using assms(1) False drv known by (auto simp: DriverHasProperty_def split: if_splits)
      with sizes_defined(2) [OF h] plugin_delivers [OF h _ tr] assms(1) False drv known 1 show ?thesis
        by (fastforce simp: DriverGetPropertyDataSize_def DriverGetPropertyData_def)
    next
      case 2
      then have h: "HasDeviceProperty (mSelector a)"
        using assms(1) False drv known by (auto simp: DriverHasProperty_def object_ids split: if_splits)
      with sizes_defined(3) [OF h] device_delivers [OF h] assms(1) False drv known 2 show ?thesis
        by (fastforce simp: DriverGetPropertyDataSize_def DriverGetPropertyData_def object_ids)
    next
      case 3
      then have h: "HasStreamProperty (mSelector a)"
        using assms(1) False drv known by (auto simp: DriverHasProperty_def object_ids split: if_splits)
      with sizes_defined(4) [OF h] stream_delivers [OF h] assms(1) False drv known 3 show ?thesis
        by (fastforce simp: DriverGetPropertyDataSize_def DriverGetPropertyData_def object_ids)
    next
      case 4
      then show ?thesis using control_layer_delivers assms(1) False drv by simp
    next
      case 5
      then show ?thesis using control_layer_delivers assms(1) False drv by simp
    qed
  qed
qed

theorem driver_delivers_announced_size_witness:
  "\<exists>n. DriverGetPropertyDataSize True 2
        (Some \<lparr>mSelector = kAudioDevicePropertyStreams, mScope = kAudioObjectPropertyScopeInput, mElement = 0\<rparr>)
        0 None True = (noErr, Some n) \<and>
    delivers n 3 (DriverGetPropertyData ideal_libm driver_start True 2
        (Some \<lparr>mSelector = kAudioDevicePropertyStreams, mScope = kAudioObjectPropertyScopeInput, mElement = 0\<rparr>)
        0 None 3 True (Some (Fin False 0)))"
  by (rule driver_delivers_announced_size)
    (simp_all add: DriverHasProperty_def IsKnownObject_def IsValidAddress_def HasCommonProperty_def
      HasDeviceProperty_def object_ids kAudioObjectPropertyElementMain_def qualifier_fits_def Let_def)

text \<open>A property the driver does not say it has is refused everywhere. Sizing it,
  reading it and asking whether it can be set all fail with the same error, the unknown property or
  the bad object, and write nothing.\<close>

theorem driver_refuses_unpublished_properties:
  assumes "\<not> DriverHasProperty True obj (Some a)"
  shows "DriverGetPropertyDataSize True obj (Some a) qs q True =
      (if IsKnownObject obj then kAudioHardwareUnknownPropertyError else kAudioHardwareBadObjectError, None) \<and>
    DriverGetPropertyData L d True obj (Some a) qs q room True out =
      get_error (if IsKnownObject obj then kAudioHardwareUnknownPropertyError else kAudioHardwareBadObjectError) \<and>
    DriverIsPropertySettable True obj (Some a) True =
      (if IsKnownObject obj then kAudioHardwareUnknownPropertyError else kAudioHardwareBadObjectError, None)"
  using assms
  by (simp add: DriverGetPropertyDataSize_def DriverGetPropertyData_def DriverIsPropertySettable_def)

theorem driver_refuses_unpublished_properties_witness:
  "DriverGetPropertyData ideal_libm driver_start True 9 (Some (Address kAudioObjectPropertyName)) 0 None 8 True
    (Some NaN) = get_error kAudioHardwareBadObjectError"
proof -
  have "\<not> DriverHasProperty True 9 (Some (Address kAudioObjectPropertyName))"
    by (simp add: DriverHasProperty_def IsKnownObject_def object_ids)
  from driver_refuses_unpublished_properties [OF this, where L = ideal_libm and d = driver_start]
  show ?thesis by (simp add: IsKnownObject_def object_ids)
qed

end
