(* ===== verification/Driver_Settings.thy ===== *)
theory Driver_Settings
  imports Driver_Laws
begin

text \<open>
  What setting a property does: which calls are accepted, that refused calls change nothing,
  that a value set can be read back and is notified once, and that the volume, the mute flag and
  the stream flag stay in range.
\<close>

section \<open>Accepted and refused calls\<close>











definition example_data :: in_data where
  "example_data = \<lparr>as_uint32 = 7, as_float32 = Fin False (1 / 2), as_float64 = Fin False 44100,
     as_format = StreamFormat\<rparr>"



section \<open>Writing and reading back\<close>

lemma Notify_sent: "Notify d obj as = d\<lparr>sent := sent d @ (if gHost d = Some True then [(obj, as)] else [])\<rparr>"
  by (simp add: Notify_def)

text \<open>Property C17: setting the volume stores the clamped value, tells the host once and only if
  the value changed, touches nothing else, and the value read back afterwards is the one stored.
  The offered value may be any float, not-a-number and infinities included.\<close>

theorem driver_volume_write_read:
  assumes "DriverSetPropertyData L d True kSVCObjectVolume
      (Some (Address kAudioLevelControlPropertyScalarValue)) 4 (Some dat) = (d', status)"
  shows "status = noErr \<and>
    d' = d\<lparr>gVolumeScalar := SVCVolumeClampScalar (as_float32 dat),
      sent := sent d @ (if gHost d = Some True \<and> \<not> fp_eq (gVolumeScalar d) (SVCVolumeClampScalar (as_float32 dat))
        then [(kSVCObjectVolume, [Address kAudioLevelControlPropertyScalarValue,
          Address kAudioLevelControlPropertyDecibelValue])] else [])\<rparr> \<and>
    DriverGetPropertyData L d' True kSVCObjectVolume (Some (Address kAudioLevelControlPropertyScalarValue))
      0 None 4 True (Some x) = (noErr, Some 4, Some (VFloat32 (SVCVolumeClampScalar (as_float32 dat))))"
  using assms
  by (auto simp: DriverSetPropertyData_def DriverGetPropertyData_def GetControlPropertyData_def Let_def
      DriverHasProperty_def IsKnownObject_def IsValidAddress_def HasCommonProperty_def HasControlProperty_def
      CopyData_def object_ids Address_def kAudioObjectPropertyElementMain_def Notify_sent
      split: if_splits)

theorem driver_volume_write_read_witness:
  "\<exists>d'. DriverSetPropertyData ideal_libm driver_start True kSVCObjectVolume
      (Some (Address kAudioLevelControlPropertyScalarValue)) 4 (Some example_data) = (d', noErr) \<and>
    gVolumeScalar d' = SVCVolumeClampScalar (Fin False (1 / 2))"
proof -
  obtain d' st where s: "DriverSetPropertyData ideal_libm driver_start True kSVCObjectVolume
      (Some (Address kAudioLevelControlPropertyScalarValue)) 4 (Some example_data) = (d', st)" by fastforce
  from driver_volume_write_read [OF s, of NaN] s show ?thesis by (simp add: example_data_def)
qed

section \<open>The state stays in range\<close>

definition driver_ok :: "driver \<Rightarrow> bool" where
  "driver_ok d \<longleftrightarrow> fp_in binary32 (gVolumeScalar d) \<and> fp_unit (gVolumeScalar d) \<and>
     gMute d \<in> {0, 1} \<and> gOutputStreamActive d \<in> {0, 1}"

lemma driver_start_ok: "driver_ok driver_start"
  by (simp add: driver_ok_def driver_start_def)

lemma driver_ok_Notify [simp]: "driver_ok (Notify d obj as) = driver_ok d"
  by (simp add: driver_ok_def Notify_def)

lemma set_keeps_ok:
  assumes "libm_contract L" "driver_ok d" "\<And>x. dat = Some x \<Longrightarrow> fp_in binary32 (as_float32 x)"
  shows "driver_ok (fst (DriverSetPropertyData L d drv obj addr sz dat))"
proof -
  have "fp_in binary32 (SVCVolumeClampScalar (as_float32 x)) \<and> fp_unit (SVCVolumeClampScalar (as_float32 x)) \<and>
      fp_in binary32 (SVCVolumeDecibelsToScalar L (as_float32 x)) \<and>
      fp_unit (SVCVolumeDecibelsToScalar L (as_float32 x))" if "dat = Some x" for x
    using assms(3) [OF that] clamp_unit clamp_fp_in libm_contract.scalar_of_decibels_unit [OF assms(1)] by blast
  moreover have "driver_ok (d\<lparr>gVolumeScalar := v\<rparr>)" if "fp_in binary32 v" "fp_unit v" for v
    using assms(2) that by (simp add: driver_ok_def)
  moreover have "driver_ok (d\<lparr>gMute := 0\<rparr>)" "driver_ok (d\<lparr>gMute := 1\<rparr>)"
    "driver_ok (d\<lparr>gOutputStreamActive := 0\<rparr>)" "driver_ok (d\<lparr>gOutputStreamActive := 1\<rparr>)"
    using assms(2) by (simp_all add: driver_ok_def)
  ultimately show ?thesis
    using assms(2) by (auto simp: DriverSetPropertyData_def Let_def split: option.split prod.split)
qed

datatype set_call = SetCall bool u32 "AudioObjectPropertyAddress option" u32 "in_data option"

fun run_sets :: "libm \<Rightarrow> set_call list \<Rightarrow> driver \<Rightarrow> driver" where
  "run_sets L [] d = d"
| "run_sets L (SetCall drv obj addr sz dat # calls) d =
     run_sets L calls (fst (DriverSetPropertyData L d drv obj addr sz dat))"

text \<open>Property C18: whatever calls a client makes, with whatever objects, addresses, sizes and
  values, the published volume is always a finite float between zero and one and the mute and
  stream flags are always zero or one.\<close>

theorem driver_state_in_range:
  assumes "libm_contract L"
    and "\<And>drv obj addr sz x. SetCall drv obj addr sz (Some x) \<in> set calls \<Longrightarrow> fp_in binary32 (as_float32 x)"
  shows "fp_unit (gVolumeScalar (run_sets L calls driver_start)) \<and>
    gMute (run_sets L calls driver_start) \<in> {0, 1} \<and>
    gOutputStreamActive (run_sets L calls driver_start) \<in> {0, 1}"
proof -
  have "driver_ok d \<Longrightarrow> driver_ok (run_sets L calls d)" for d
    using assms(2)
  proof (induction calls arbitrary: d)
    case (Cons call calls)
    obtain drv obj addr sz dat where c: "call = SetCall drv obj addr sz dat" by (cases call)
    have "fp_in binary32 (as_float32 x)" if "dat = Some x" for x
      using Cons.prems(2) [of drv obj addr sz x] c that by simp
    then have ok: "driver_ok (fst (DriverSetPropertyData L d drv obj addr sz dat))"
      by (rule set_keeps_ok [OF assms(1) Cons.prems(1)])
    have "fp_in binary32 (as_float32 x)" if "SetCall drv' obj' addr' sz' (Some x) \<in> set calls" for drv' obj' addr' sz' x
      using Cons.prems(2) that by (meson list.set_intros(2))
    then show ?case using Cons.IH [OF ok] c by simp
  qed simp
  from this [OF driver_start_ok] show ?thesis by (simp add: driver_ok_def)
qed

theorem driver_state_in_range_witness:
  "fp_unit (gVolumeScalar (run_sets ideal_libm [SetCall True 4 (Some (Address
      kAudioLevelControlPropertyDecibelValue)) 4 (Some example_data)] driver_start))"
proof -
  have "fp_unit (gVolumeScalar (run_sets ideal_libm [SetCall True 4 (Some (Address
      kAudioLevelControlPropertyDecibelValue)) 4 (Some example_data)] driver_start)) \<and>
    gMute (run_sets ideal_libm [SetCall True 4 (Some (Address
      kAudioLevelControlPropertyDecibelValue)) 4 (Some example_data)] driver_start) \<in> {0, 1} \<and>
    gOutputStreamActive (run_sets ideal_libm [SetCall True 4 (Some (Address
      kAudioLevelControlPropertyDecibelValue)) 4 (Some example_data)] driver_start) \<in> {0, 1}"
    by (rule driver_state_in_range [OF ideal.libm_contract_axioms])
      (use half_in_binary32 in \<open>simp add: example_data_def del: fp_in.simps\<close>)
  then show ?thesis by blast
qed

section \<open>Owned objects\<close>

lemma matches_any_iff: "matches_any c classes i n = (\<exists>k < n. ObjectMatchesClass c (classes (i + k)))"
  by (induction n arbitrary: i) (simp_all add: Ex_less_Suc2)

lemma candidates_are_owned:
  assumes "IsKnownObject obj"
  shows "set (candidate_objects obj scope) = {ob. IsKnownObject ob \<and> OwnerForObject ob = obj \<and>
    (obj = kSVCObjectPlugin \<or> scope = kAudioObjectPropertyScopeGlobal \<or> scope = kAudioObjectPropertyScopeOutput)}"
proof (rule set_eqI)
  fix ob
  have "IsKnownObject ob" if "ob \<in> {2, 3, 4, 5}"
    using that by (auto simp: IsKnownObject_def object_ids)
  moreover have "ob \<in> {1, 2, 3, 4, 5}" if "IsKnownObject ob"
    using that by (cases rule: known_cases) (simp_all add: object_ids)
  ultimately show "(ob \<in> set (candidate_objects obj scope)) = (ob \<in> {ob. IsKnownObject ob \<and> OwnerForObject ob = obj \<and>
      (obj = kSVCObjectPlugin \<or> scope = kAudioObjectPropertyScopeGlobal \<or> scope = kAudioObjectPropertyScopeOutput)})"
    using assms
    by (cases rule: known_cases [OF assms])
      (auto simp: candidate_objects_def OwnerForObject_def object_ids split: if_splits)
qed

text \<open>Property C22: the object tree is consistent. At every scope an object lists as its own, each once, exactly
  the known objects whose owner it is, narrowed to those that belong to one of the requested classes if any are
  requested; only, what the device owns belongs to the output, so the device lists nothing at a scope other
  than the global and the output scope.\<close>

theorem owned_objects_are_the_owned:
  assumes "IsKnownObject obj" "unat qs mod 4 = 0" "qs = 0 \<or> q = Some quals"
  shows "\<exists>os. FilteredOwnedObjects obj scope qs q = (noErr, Some os) \<and> distinct os \<and>
    set os = {ob. IsKnownObject ob \<and> OwnerForObject ob = obj \<and>
      (obj = kSVCObjectPlugin \<or> scope = kAudioObjectPropertyScopeGlobal \<or> scope = kAudioObjectPropertyScopeOutput) \<and>
      (qs = 0 \<or> (\<exists>k < unat qs div 4. ObjectMatchesClass ob (as_classes quals k)))}"
proof -
  have "distinct (candidate_objects obj scope)"
    by (simp add: candidate_objects_def object_ids)
  moreover have "unat qs div 4 = 0 \<longleftrightarrow> qs = 0" using assms(2) by (auto simp: div_eq_0_iff unat_eq_0)
  moreover have "0 < qs \<longrightarrow> q \<noteq> None" using assms(3) by auto
  ultimately show ?thesis
    using candidates_are_owned [OF assms(1), of scope] assms(2,3)
    by (auto simp: FilteredOwnedObjects_def Let_def matches_any_iff)
qed

text \<open>The device has three objects at the output scope, one of them a mute control, and none at the input scope.\<close>

theorem owned_objects_are_the_owned_witness:
  "(\<exists>os. FilteredOwnedObjects 2 kAudioObjectPropertyScopeOutput 0 None = (noErr, Some os) \<and> set os = {3, 4, 5}) \<and>
   (\<exists>os. FilteredOwnedObjects 2 kAudioObjectPropertyScopeOutput 4
      (Some \<lparr>as_classes = (\<lambda>_. kAudioMuteControlClassID), as_string = None\<rparr>) = (noErr, Some os) \<and> set os = {5}) \<and>
   FilteredOwnedObjects 2 kAudioObjectPropertyScopeInput 0 None = (noErr, Some [])"
proof -
  let ?mute = "\<lparr>as_classes = (\<lambda>_. kAudioMuteControlClassID), as_string = None\<rparr>"
  have owned: "{ob. IsKnownObject ob \<and> OwnerForObject ob = 2} = {3, 4, 5}"
    by (auto simp: IsKnownObject_def OwnerForObject_def object_ids split: if_splits)
  have "{ob. ob \<in> {3, 4, 5} \<and> ObjectMatchesClass ob kAudioMuteControlClassID} = {5}"
    by (auto simp: ObjectMatchesClass_def ClassForObject_def object_ids)
  with owned have "{ob. IsKnownObject ob \<and> OwnerForObject ob = 2 \<and> ObjectMatchesClass ob kAudioMuteControlClassID} = {5}"
    by blast
  with owned show ?thesis
    using owned_objects_are_the_owned [of 2 0 None ?mute kAudioObjectPropertyScopeOutput]
      owned_objects_are_the_owned [of 2 4 "Some ?mute" ?mute kAudioObjectPropertyScopeOutput]
      owned_objects_are_the_owned [of 2 0 None ?mute kAudioObjectPropertyScopeInput]
    by (auto simp: IsKnownObject_def object_ids)
qed

end
