(* ===== verification/Driver_IO.thy ===== *)
theory Driver_IO
  imports Driver_Properties
begin

text \<open>
  \<open>driver/SoundVolumeControl.c\<close>, the calls that are not about properties: reference counting,
  initialisation, starting and stopping IO, the zero time stamps, and the capture of the final
  mix into the shared ring. \<open>now\<close> is what \<open>mach_absolute_time\<close> returns in the call.
\<close>

section \<open>The ring behind \<open>AcquireAudio\<close>\<close>

definition AcquireAudio :: "driver \<Rightarrow> driver \<times> SVCSharedAudio option" where
  "AcquireAudio d = (d\<lparr>leases := leases d + 1\<rparr>, audio d)"

definition ReleaseAudio :: "driver \<Rightarrow> driver" where
  "ReleaseAudio d = d\<lparr>leases := leases d - 1\<rparr>"

primrec clear_tags :: "SVCSharedAudio \<Rightarrow> nat \<Rightarrow> SVCSharedAudio" where
  "clear_tags a 0 = a"
| "clear_tags a (Suc n) =
     (let b = clear_tags a n in b\<lparr>frames := (frames b)(n := (frames b n)\<lparr>tag := 0\<rparr>)\<rparr>)"

definition reset_stream :: "SVCSharedAudio \<Rightarrow> u64 \<Rightarrow> SVCSharedAudio" where
  "reset_stream a now =
     clear_tags (a\<lparr>writerActive := 0, streamEpoch := now, writeFrame := 0, streamStartFrame := 0,
                   processOutputCount := 0, writeMixCount := 0\<rparr>) kSVCSharedAudioCapacityFrames"

definition ResetSharedAudioStream :: "driver \<Rightarrow> u64 \<Rightarrow> driver" where
  "ResetSharedAudioStream d now =
     (case AcquireAudio d of
        (d1, ring) \<Rightarrow>
          if \<not> SVCSharedAudioIsValid ring then ReleaseAudio d1
          else ReleaseAudio (d1\<lparr>audio := map_option (\<lambda>a. reset_stream a now) ring\<rparr>))"

section \<open>Capturing a block\<close>

text \<open>The loop over the \<open>n\<close> frames of a block from \<open>frame\<close> on.\<close>

fun capture_frames ::
  "SVCSharedAudio \<Rightarrow> u64 \<Rightarrow> u32 \<Rightarrow> nat \<Rightarrow> stereo_bits list \<Rightarrow> SVCSharedAudio" where
  "capture_frames a sampleFrame frame 0 source = a"
| "capture_frames a sampleFrame frame (Suc n) source =
     capture_frames (SVCSharedAudioStoreFrame a (sampleFrame + ucast frame) (source ! unat frame))
       sampleFrame (frame + 1) n source"

text \<open>
  The source is the list of its stereo frames; reading past its end is undefined in C and
  \<open>None\<close> here.
\<close>

definition CaptureOutput ::
  "SVCSharedAudio option \<Rightarrow> stereo_bits list option \<Rightarrow> fp \<Rightarrow> u32 \<Rightarrow> SVCSharedAudio option option" where
  "CaptureOutput ring source rawSampleTime frameCount =
     (case (source, ring) of
        (Some src, Some a) \<Rightarrow>
          if \<not> fp_isfinite rawSampleTime \<or> fp_lt rawSampleTime (Fin False 0)
             \<or> fp_le (Fin False (2 ^ 53)) rawSampleTime \<or> frameCount = 0
             \<or> \<not> SVCSharedAudioIsValid ring
          then Some ring
          else
            (case fp_trunc (2 ^ 64) rawSampleTime of
               None \<Rightarrow> None
             | Some t \<Rightarrow>
                 let over = (of_nat kSVCSharedAudioCapacityFrames < frameCount);
                     skipped = (if over then frameCount - of_nat kSVCSharedAudioCapacityFrames else 0);
                     src' = drop (unat skipped) src;
                     sampleFrame = of_nat t + ucast skipped;
                     count = (if over then of_nat kSVCSharedAudioCapacityFrames else frameCount);
                     a1 = (if writerActive a = 0
                           then a\<lparr>streamStartFrame := sampleFrame, writeFrame := sampleFrame\<rparr> else a)
                 in if length src < unat frameCount then None
                    else Some (Some ((capture_frames a1 sampleFrame 0 (unat count) src')
                           \<lparr>writeFrame := sampleFrame + ucast count, writerActive := 1\<rparr>)))
      | _ \<Rightarrow> Some ring)"

section \<open>The life of the plug-in object\<close>

text \<open>
  \<open>DriverQueryInterface\<close>: \<open>outInterface\<close> null or not, the driver reference, and what the requested
  identifier is: none could be made, or one that is supported or not.
\<close>

datatype HRESULT = S_OK | E_POINTER | E_NOINTERFACE

definition DriverQueryInterface ::
  "driver \<Rightarrow> bool \<Rightarrow> bool option \<Rightarrow> bool \<Rightarrow> driver \<times> HRESULT \<times> bool option" where
  "DriverQueryInterface d inDriver uuid hasOut =
     (if \<not> hasOut then (d, E_POINTER, None)
      else if \<not> inDriver then (d, E_NOINTERFACE, Some False)
      else (case uuid of
              None \<Rightarrow> (d, E_NOINTERFACE, Some False)
            | Some supported \<Rightarrow>
                if \<not> supported then (d, E_NOINTERFACE, Some False)
                else (d\<lparr>gReferenceCount := gReferenceCount d + 1\<rparr>, S_OK, Some True)))"

definition DriverAddRef :: "driver \<Rightarrow> bool \<Rightarrow> driver \<times> u32" where
  "DriverAddRef d inDriver =
     (if \<not> inDriver then (d, 0)
      else (d\<lparr>gReferenceCount := gReferenceCount d + 1\<rparr>, gReferenceCount d + 1))"

text \<open>
  The two compare-and-exchange loops. \<open>seen\<close> lists what the counter holds when an attempt fails,
  changed by another thread or by a spurious failure; the attempt after the list succeeds. The
  result is the new value of the counter, or \<open>None\<close> when the loop ends without a decrement.
\<close>

fun decrement_above :: "u32 \<Rightarrow> u32 \<Rightarrow> u32 list \<Rightarrow> u32 option" where
  "decrement_above least current [] = (if least < current then Some (current - 1) else None)"
| "decrement_above least current (c # seen) =
     (if least < current then decrement_above least c seen else None)"

definition DriverRelease :: "driver \<Rightarrow> bool \<Rightarrow> u32 list \<Rightarrow> driver \<times> u32" where
  "DriverRelease d inDriver seen =
     (if \<not> inDriver then (d, 0)
      else (case decrement_above 1 (gReferenceCount d) seen of
              Some n \<Rightarrow> (d\<lparr>gReferenceCount := n\<rparr>, n)
            | None \<Rightarrow> (d, 1)))"

text \<open>
  Initialisation. \<open>host\<close> is null or a host; \<open>timebase\<close> is the numerator and the denominator the
  system reports, or a failure; \<open>isConnected\<close> says whether the broker connection was made.
\<close>

definition DriverInitialize ::
  "driver \<Rightarrow> bool \<Rightarrow> bool option \<Rightarrow> (u32 \<times> u32) option \<Rightarrow> u64 \<Rightarrow> bool \<Rightarrow> driver \<times> OSStatus" where
  "DriverInitialize d inDriver host timebase now isConnected =
     (if \<not> inDriver \<or> host = None then (d, kAudioHardwareIllegalOperationError)
      else
        let d1 = d\<lparr>gHost := host\<rparr> in
        (case timebase of
           None \<Rightarrow> (d1, kAudioHardwareUnspecifiedError)
         | Some (numer, denom) \<Rightarrow>
             if numer = 0 then (d1, kAudioHardwareUnspecifiedError)
             else
               let perFrame = fp_mul binary64
                     (fp_div binary64 (Fin False 1000000000) (fp_of_nat binary64 kSVCSampleRate))
                     (fp_div binary64 (fp_of_nat binary64 (unat denom)) (fp_of_nat binary64 (unat numer)));
                   d2 = d1\<lparr>gHostTicksPerFrame := perFrame, gTimestampAnchor := now\<rparr>
               in (d2, if isConnected then noErr else kAudioHardwareUnspecifiedError)))"

definition DriverCreateDevice :: "bool \<Rightarrow> OSStatus" where
  "DriverCreateDevice inDriver =
     (if inDriver then kAudioHardwareUnsupportedOperationError else kAudioHardwareIllegalOperationError)"

definition DriverDestroyDevice :: "bool \<Rightarrow> OSStatus" where
  "DriverDestroyDevice inDriver =
     (if inDriver then kAudioHardwareUnsupportedOperationError else kAudioHardwareIllegalOperationError)"

definition ValidateDeviceCall :: "bool \<Rightarrow> u32 \<Rightarrow> OSStatus" where
  "ValidateDeviceCall inDriver inDeviceObjectID =
     (if \<not> inDriver then kAudioHardwareIllegalOperationError
      else if inDeviceObjectID = kSVCObjectDevice then noErr else kAudioHardwareBadObjectError)"

text \<open>The calls that only validate the device.\<close>

definition DriverAddDeviceClient :: "bool \<Rightarrow> u32 \<Rightarrow> OSStatus" where
  "DriverAddDeviceClient inDriver inDeviceObjectID = ValidateDeviceCall inDriver inDeviceObjectID"

definition DriverRemoveDeviceClient :: "bool \<Rightarrow> u32 \<Rightarrow> OSStatus" where
  "DriverRemoveDeviceClient inDriver inDeviceObjectID = ValidateDeviceCall inDriver inDeviceObjectID"

definition DriverPerformDeviceConfigurationChange :: "bool \<Rightarrow> u32 \<Rightarrow> OSStatus" where
  "DriverPerformDeviceConfigurationChange inDriver inDeviceObjectID = ValidateDeviceCall inDriver inDeviceObjectID"

definition DriverAbortDeviceConfigurationChange :: "bool \<Rightarrow> u32 \<Rightarrow> OSStatus" where
  "DriverAbortDeviceConfigurationChange inDriver inDeviceObjectID = ValidateDeviceCall inDriver inDeviceObjectID"

definition DriverBeginIOOperation :: "bool \<Rightarrow> u32 \<Rightarrow> OSStatus" where
  "DriverBeginIOOperation inDriver inDeviceObjectID = ValidateDeviceCall inDriver inDeviceObjectID"

definition DriverEndIOOperation :: "bool \<Rightarrow> u32 \<Rightarrow> OSStatus" where
  "DriverEndIOOperation inDriver inDeviceObjectID = ValidateDeviceCall inDriver inDeviceObjectID"

section \<open>IO\<close>

definition DriverStartIO :: "driver \<Rightarrow> bool \<Rightarrow> u32 \<Rightarrow> u64 \<Rightarrow> u64 \<Rightarrow> driver \<times> OSStatus" where
  "DriverStartIO d inDriver inDeviceObjectID now now' =
     (let status = ValidateDeviceCall inDriver inDeviceObjectID in
      if status \<noteq> noErr then (d, status)
      else
        let previous = gRunningCount d; d1 = d\<lparr>gRunningCount := previous + 1\<rparr> in
        (if previous = 0
         then Notify (ResetSharedAudioStream (d1\<lparr>gTimestampAnchor := now\<rparr>) now') kSVCObjectDevice
                [Address kAudioDevicePropertyDeviceIsRunning]
         else d1, noErr))"

definition DriverStopIO :: "driver \<Rightarrow> bool \<Rightarrow> u32 \<Rightarrow> u32 list \<Rightarrow> driver \<times> OSStatus" where
  "DriverStopIO d inDriver inDeviceObjectID seen =
     (let status = ValidateDeviceCall inDriver inDeviceObjectID in
      if status \<noteq> noErr then (d, status)
      else
        (case decrement_above 0 (gRunningCount d) seen of
           None \<Rightarrow> (d, kAudioHardwareIllegalOperationError)
         | Some n \<Rightarrow>
             let d1 = d\<lparr>gRunningCount := n\<rparr> in
             (if n = 0
              then
                let (d2, ring) = AcquireAudio d1;
                    d3 = (if SVCSharedAudioIsValid ring
                          then d2\<lparr>audio := map_option (\<lambda>a. a\<lparr>writerActive := 0\<rparr>) ring\<rparr> else d2)
                in Notify (ReleaseAudio d3) kSVCObjectDevice [Address kAudioDevicePropertyDeviceIsRunning]
              else d1, noErr)))"

text \<open>The sample time, the host time and the seed; \<open>None\<close> inside when a conversion is undefined.\<close>

definition DriverGetZeroTimeStamp ::
  "driver \<Rightarrow> bool \<Rightarrow> u32 \<Rightarrow> bool \<Rightarrow> u64 \<Rightarrow> (OSStatus \<times> (fp \<times> u64 \<times> u64) option) option" where
  "DriverGetZeroTimeStamp d inDriver inDeviceObjectID hasOut now =
     (let status = ValidateDeviceCall inDriver inDeviceObjectID in
      if status \<noteq> noErr then Some (status, None)
      else if \<not> hasOut \<or> fp_le (gHostTicksPerFrame d) (Fin False 0)
        then Some (kAudioHardwareIllegalOperationError, None)
      else
        let anchor = gTimestampAnchor d;
            ticksPerPeriod = fp_mul binary64 (gHostTicksPerFrame d) (fp_of_nat binary64 kSVCZeroTimestampPeriod)
        in case (if anchor < now
                 then fp_trunc (2 ^ 64)
                        (fp_div binary64 (fp_of_nat binary64 (unat (now - anchor))) ticksPerPeriod)
                 else Some 0) of
             None \<Rightarrow> None
           | Some periodCount \<Rightarrow>
               (case fp_trunc (2 ^ 64) (fp_mul binary64 (fp_of_nat binary64 periodCount) ticksPerPeriod) of
                  None \<Rightarrow> None
                | Some ticks \<Rightarrow>
                    Some (noErr, Some
                      (fp_mul binary64 (fp_of_nat binary64 periodCount) (fp_of_nat binary64 kSVCZeroTimestampPeriod),
                       anchor + of_nat ticks, 1))))"

datatype io_operation =
  kAudioServerPlugInIOOperationProcessOutput | kAudioServerPlugInIOOperationWriteMix | OtherOperation u32

definition DriverWillDoIOOperation ::
  "bool \<Rightarrow> u32 \<Rightarrow> io_operation \<Rightarrow> OSStatus \<times> (bool \<times> bool) option" where
  "DriverWillDoIOOperation inDriver inDeviceObjectID inOperationID =
     (let status = ValidateDeviceCall inDriver inDeviceObjectID in
      if status \<noteq> noErr then (status, None)
      else (noErr, Some (inOperationID = kAudioServerPlugInIOOperationProcessOutput
                         \<or> inOperationID = kAudioServerPlugInIOOperationWriteMix, True)))"

text \<open>
  \<open>sampleTime\<close> is the output time of the cycle information, when it is not null; the main buffer
  is the list of its frames, when it is not null. \<open>None\<close> when the capture reads past the buffer.
\<close>

definition DriverDoIOOperation ::
  "driver \<Rightarrow> bool \<Rightarrow> u32 \<Rightarrow> u32 \<Rightarrow> io_operation \<Rightarrow> u32 \<Rightarrow> fp option \<Rightarrow> stereo_bits list option
    \<Rightarrow> (driver \<times> OSStatus) option" where
  "DriverDoIOOperation d inDriver inDeviceObjectID inStreamObjectID inOperationID inIOBufferFrameSize
       sampleTime ioMainBuffer =
     (let status = ValidateDeviceCall inDriver inDeviceObjectID in
      if status \<noteq> noErr then Some (d, status)
      else case sampleTime of
        None \<Rightarrow> Some (d, kAudioHardwareIllegalOperationError)
      | Some time \<Rightarrow>
          if inStreamObjectID \<noteq> kSVCObjectOutputStream then Some (d, kAudioHardwareBadObjectError)
          else if ioMainBuffer = None then Some (d, noErr)
          else if inOperationID = kAudioServerPlugInIOOperationProcessOutput then
            (case AcquireAudio d of
               (d1, ring) \<Rightarrow>
                 Some (ReleaseAudio (d1\<lparr>audio :=
                   map_option (\<lambda>a. a\<lparr>processOutputCount := processOutputCount a + 1\<rparr>) ring\<rparr>), noErr))
          else if inOperationID = kAudioServerPlugInIOOperationWriteMix then
            (case AcquireAudio d of
               (d1, ring) \<Rightarrow>
                 let ring' = map_option (\<lambda>a. a\<lparr>writeMixCount := writeMixCount a + 1\<rparr>) ring in
                 (case CaptureOutput ring' ioMainBuffer time inIOBufferFrameSize of
                    None \<Rightarrow> None
                  | Some captured \<Rightarrow> Some (ReleaseAudio (d1\<lparr>audio := captured\<rparr>), noErr)))
          else Some (d, kAudioHardwareUnsupportedOperationError))"

definition SoundVolumeControl_Create :: "bool option \<Rightarrow> bool" where
  "SoundVolumeControl_Create requestedType = (requestedType = Some True)"

end
