(* ===== verification/Driver_Capture.thy ===== *)
theory Driver_Capture
  imports Driver_IO
begin

text \<open>
  The capture of the mix: every block goes into the ring at its own sample time, the frame
  counter follows, a reset empties the ring and starts a new epoch, and no call keeps a lease.
\<close>

section \<open>The capture loop stores the block\<close>

lemma capture_frames_block:
  assumes "unat frame + n \<le> length source" "unat frame + n < 2 ^ 32"
  shows "capture_frames a t frame n source =
    store_block SVCSharedAudioStoreFrame a (t + ucast frame) (take n (drop (unat frame) source))"
  using assms
proof (induction n arbitrary: a frame)
  case 0
  then show ?case by simp
next
  case (Suc n)
  have up: "unat (frame + 1) = Suc (unat frame)" using Suc.prems(2) by (simp add: unat_word_ariths)
  have uc: "(ucast (frame + 1) :: u64) = ucast frame + 1"
  proof (rule word_unat_eq_iff [THEN iffD2])
    show "unat (ucast (frame + 1) :: u64) = unat (ucast frame + 1 :: u64)"
      using up Suc.prems(2) by (subst unat_plus_no_wrap) simp_all
  qed
  have "take (Suc n) (drop (unat frame) source) = source ! unat frame # take n (drop (unat (frame + 1)) source)"
    using Suc.prems(1) up by (simp add: Cons_nth_drop_Suc [symmetric])
  then show ?case
    using Suc.IH [of "frame + 1"] Suc.prems up uc by (simp add: add.assoc)
qed

section \<open>Header updates\<close>

text \<open>What the frames hold does not depend on the header.\<close>

lemma load_frames_only: "frames a = frames b \<Longrightarrow> SVCSharedAudioLoadFrame a = SVCSharedAudioLoadFrame b"
  by (simp add: SVCSharedAudioLoadFrame_def fun_eq_iff Let_def)

lemma implements_frames_only: "frames a = frames b \<Longrightarrow> ring.implements a H = ring.implements b H"
  by (simp add: ring.implements_def load_frames_only [of a b])

lemma valid_updates [simp]:
  "SVCSharedAudioIsValid (Some (a\<lparr>writeFrame := x\<rparr>)) = SVCSharedAudioIsValid (Some a)"
  "SVCSharedAudioIsValid (Some (a\<lparr>streamStartFrame := x\<rparr>)) = SVCSharedAudioIsValid (Some a)"
  "SVCSharedAudioIsValid (Some (a\<lparr>streamEpoch := x\<rparr>)) = SVCSharedAudioIsValid (Some a)"
  "SVCSharedAudioIsValid (Some (a\<lparr>writerActive := y\<rparr>)) = SVCSharedAudioIsValid (Some a)"
  "SVCSharedAudioIsValid (Some (a\<lparr>processOutputCount := y\<rparr>)) = SVCSharedAudioIsValid (Some a)"
  "SVCSharedAudioIsValid (Some (a\<lparr>writeMixCount := y\<rparr>)) = SVCSharedAudioIsValid (Some a)"
  "SVCSharedAudioIsValid (Some (a\<lparr>frames := z\<rparr>)) = SVCSharedAudioIsValid (Some a)"
  by (simp_all add: SVCSharedAudioIsValid_def)

section \<open>One captured block\<close>

text \<open>What a capture does to a valid ring, as one block of stores.\<close>

definition capture_result :: "SVCSharedAudio \<Rightarrow> nat \<Rightarrow> stereo_bits list \<Rightarrow> SVCSharedAudio" where
  "capture_result a t block =
     (let a1 = (if writerActive a = 0 then a\<lparr>streamStartFrame := of_nat t, writeFrame := of_nat t\<rparr> else a)
      in (store_block SVCSharedAudioStoreFrame a1 (of_nat t) block)
           \<lparr>writeFrame := of_nat (t + length block), writerActive := 1\<rparr>)"

lemma capture_result_fields [simp]:
  "SVCSharedAudioIsValid (Some (capture_result a t block)) = SVCSharedAudioIsValid (Some a)"
  "writeFrame (capture_result a t block) = of_nat (t + length block)"
  "writerActive (capture_result a t block) = 1"
  "streamEpoch (capture_result a t block) = streamEpoch a"
  "streamStartFrame (capture_result a t block) =
     (if writerActive a = 0 then of_nat t else streamStartFrame a)"
  by (simp_all add: capture_result_def Let_def)

lemma store_block_frames:
  "frames a = frames b \<Longrightarrow>
    frames (store_block SVCSharedAudioStoreFrame a f ss) = frames (store_block SVCSharedAudioStoreFrame b f ss)"
  by (induction ss arbitrary: a b f) (simp_all add: store_frames)

lemma capture_result_implements:
  assumes "ring.implements a H" "t + length block < 2 ^ 64"
  shows "ring.implements (capture_result a t block) (block_history t block H)"
proof -
  have "unat (of_nat t :: u64) = t" using assms(2) by (intro unat_of_nat_u64) simp
  then have "ring.implements (store_block SVCSharedAudioStoreFrame a (of_nat t) block) (block_history t block H)"
    using ring.implements_block [OF assms(1), of "of_nat t" block] assms(2) by simp
  moreover have "frames (capture_result a t block) =
      frames (store_block SVCSharedAudioStoreFrame a (of_nat t) block)"
    by (simp add: capture_result_def Let_def
        store_block_frames [of "a\<lparr>streamStartFrame := of_nat t, writeFrame := of_nat t\<rparr>" a])
  ultimately show ?thesis using implements_frames_only by blast
qed

text \<open>The frames kept of a block: all, or the last 32768.\<close>

definition skipped_frames :: "u32 \<Rightarrow> nat" where
  "skipped_frames count = unat count - kSVCSharedAudioCapacityFrames"

lemma CaptureOutput_spec:
  assumes "SVCSharedAudioIsValid (Some a)" "time = Fin s r" "fp_trunc (2 ^ 64) time = Some t" "fp_val time < 2 ^ 53"
    and "0 \<le> fp_val time" "0 < count" "unat count \<le> length source"
  shows "CaptureOutput (Some a) (Some source) time count =
    Some (Some (capture_result a (t + skipped_frames count)
      (take (unat count - skipped_frames count) (drop (skipped_frames count) source))))"
proof -
  let ?over = "of_nat kSVCSharedAudioCapacityFrames < count"
  let ?sk = "if ?over then count - of_nat kSVCSharedAudioCapacityFrames else 0"
  let ?n = "if ?over then of_nat kSVCSharedAudioCapacityFrames else count"
  have cap: "unat (of_nat kSVCSharedAudioCapacityFrames :: u32) = kSVCSharedAudioCapacityFrames"
    by (simp add: kSVCSharedAudioCapacityFrames_def)
  have ov: "?over = (kSVCSharedAudioCapacityFrames < unat count)" by (simp only: word_less_nat_alt cap)
  have sk: "unat ?sk = skipped_frames count"
  proof (cases ?over)
    case True
    then have "of_nat kSVCSharedAudioCapacityFrames \<le> count" by simp
    with True show ?thesis by (simp only: if_True unat_sub cap skipped_frames_def)
  next
    case False
    then show ?thesis using ov by (simp add: skipped_frames_def)
  qed
  have n: "unat ?n = unat count - skipped_frames count"
    using ov cap by (cases ?over) (simp_all add: skipped_frames_def)
  have "(ucast ?sk :: u64) = of_nat (skipped_frames count)"
    by (rule word_unat_eq_iff [THEN iffD2]) (use sk unat_u32_bound [of ?sk] in simp)
  then have f: "of_nat t + ucast ?sk = (of_nat (t + skipped_frames count) :: u64)" by simp
  let ?block = "take (unat count - skipped_frames count) (drop (skipped_frames count) source)"
  have len: "length ?block = unat count - skipped_frames count" using assms(7) by simp
  have "(ucast ?n :: u64) = of_nat (length ?block)"
    by (rule word_unat_eq_iff [THEN iffD2]) (use n len unat_u32_bound [of ?n] in simp)
  then have w: "of_nat (t + skipped_frames count) + ucast ?n = (of_nat (t + skipped_frames count + length ?block) :: u64)"
    by simp
  have loop: "capture_frames b x 0 (unat ?n) (drop (unat ?sk) source) = store_block SVCSharedAudioStoreFrame b x ?block" for b x
    using capture_frames_block [of 0 "unat ?n" "drop (unat ?sk) source" b x] sk n len assms(7)
      unat_u32_bound [of ?n] by simp
  have g: "fp_isfinite time" "\<not> fp_lt time (Fin False 0)" "\<not> fp_le (Fin False (2 ^ 53)) time"
    using assms(2,4,5) by (auto simp: fp_le_def)
  show ?thesis
    unfolding CaptureOutput_def capture_result_def option.case prod.case assms(3) Let_def f w loop
    using g assms(1,6,7) by (auto simp: w [symmetric])
qed

end
