(* ===== verification/Driver_Sessions.thy ===== *)
theory Driver_Sessions
  imports Driver_Capture
begin

text \<open>
  The properties of the IO calls: what a captured block leaves in the ring, what a start resets,
  when the host is notified, that the ring is never kept, and the clock the driver publishes.
\<close>

section \<open>Capture\<close>

definition example_ring :: SVCSharedAudio where
  "example_ring = SVCSharedAudioInitialize undefined 48000"

lemma example_ring_ok:
  "SVCSharedAudioIsValid (Some example_ring)" "ring.implements example_ring []"
  unfolding example_ring_def by (rule initialized_valid, simp) (rule initialized_implements)

lemma sample_time_bound:
  assumes "fp_trunc (2 ^ 64) (Fin s r) = Some t" "fp_val (Fin s r) < 2 ^ 53"
  shows "t < 2 ^ 53"
proof -
  have "s \<or> \<lfloor>r\<rfloor> < 2 ^ 53" using assms(2) by (cases s) (simp_all add: floor_less_iff)
  then have "s \<or> nat \<lfloor>r\<rfloor> < 2 ^ 53" by (cases "0 \<le> \<lfloor>r\<rfloor>") (auto simp: nat_less_iff)
  then show ?thesis using assms(1) by (auto split: if_splits)
qed

text \<open>A frame of the block stored last is found under its number.\<close>

lemma load_from_block:
  assumes "ring.implements a (block_history n block H)" "n \<le> f" "f < n + length block"
    and "length block \<le> f - n + kSVCSharedAudioCapacityFrames" "f < 2 ^ 64 - 1"
  shows "SVCSharedAudioLoadFrame a (of_nat f) = Some (block ! (f - n))"
proof -
  have u: "unat (of_nat f :: u64) = f" using assms(5) by (intro unat_of_nat_u64) simp
  then have "(of_nat f :: u64) \<noteq> - 1" using assms(5) unat_minus_one by (metis less_irrefl)
  then have "SVCSharedAudioLoadFrame a (of_nat f) =
      history_load kSVCSharedAudioCapacityFrames (block_history n block H) (n + (f - n))"
    using ring.implements_load [OF assms(1), of "of_nat f"] u assms(2) by simp
  also have "\<dots> = Some (block ! (f - n))"
    by (rule history_load_block) (use assms in \<open>simp_all add: kSVCSharedAudioCapacityFrames_def\<close>)
  finally show ?thesis .
qed

text \<open>Property C6: the final mix is captured whole. After a block of \<open>count\<close> frames at sample
  time \<open>t\<close>, each of its last 32768 frames is found in the ring under its own frame number, the
  frame counter is one past the block, the ring is active, and a ring that was inactive starts
  its stream at the first frame kept. Frames stored before are found as the history says.\<close>

theorem capture_stores_mix:
  assumes "SVCSharedAudioIsValid (Some a)" "ring.implements a H"
    and "fp_trunc (2 ^ 64) (Fin s r) = Some t" "0 \<le> fp_val (Fin s r)" "fp_val (Fin s r) < 2 ^ 53"
    and "0 < count" "unat count \<le> length source"
  shows "\<exists>a'. CaptureOutput (Some a) (Some source) (Fin s r) count = Some (Some a') \<and>
    SVCSharedAudioIsValid (Some a') \<and> writerActive a' = 1 \<and> unat (writeFrame a') = t + unat count \<and>
    (writerActive a = 0 \<longrightarrow> unat (streamStartFrame a') = t + skipped_frames count) \<and>
    (\<forall>k < unat count. unat count \<le> k + kSVCSharedAudioCapacityFrames \<longrightarrow>
       SVCSharedAudioLoadFrame a' (of_nat (t + k)) = Some (source ! k)) \<and>
    ring.implements a' (block_history (t + skipped_frames count)
      (take (unat count - skipped_frames count) (drop (skipped_frames count) source)) H)"
proof -
  let ?sk = "skipped_frames count"
  let ?block = "take (unat count - ?sk) (drop ?sk source)"
  let ?a' = "capture_result a (t + ?sk) ?block"
  have tb: "t < 2 ^ 53" by (rule sample_time_bound [OF assms(3,5)])
  have cb: "unat count < 2 ^ 32" using unat_u32_bound [of count] by simp
  have skc: "?sk \<le> unat count" by (simp add: skipped_frames_def)
  have len: "length ?block = unat count - ?sk" using assms(7) by simp
  have total: "t + ?sk + length ?block = t + unat count" using len skc by simp
  have cap: "CaptureOutput (Some a) (Some source) (Fin s r) count = Some (Some ?a')"
    by (rule CaptureOutput_spec [OF assms(1) refl assms(3,5,4,6,7)])
  have small: "t + ?sk + length ?block < 2 ^ 64" unfolding total using tb cb by simp
  have impl: "ring.implements ?a' (block_history (t + ?sk) ?block H)"
    by (rule capture_result_implements [OF assms(2) small])
  have load: "SVCSharedAudioLoadFrame ?a' (of_nat (t + k)) = Some (source ! k)"
    if k: "k < unat count" "unat count \<le> k + kSVCSharedAudioCapacityFrames" for k
  proof -
    have ks: "?sk \<le> k" using k(2) by (simp add: skipped_frames_def)
    have "SVCSharedAudioLoadFrame ?a' (of_nat (t + k)) = Some (?block ! (t + k - (t + ?sk)))"
    proof (rule load_from_block [OF impl])
      show "t + k < 2 ^ 64 - 1" using tb cb k(1) by simp
      show "t + k < t + ?sk + length ?block" unfolding total using k(1) by simp
      show "length ?block \<le> t + k - (t + ?sk) + kSVCSharedAudioCapacityFrames" unfolding len using k(2) ks by arith
    qed (use ks in simp)
    then show ?thesis using k ks assms(7) by simp
  qed
  have w: "unat (writeFrame ?a') = t + unat count"
    using total tb cb by (simp add: unat_of_nat_u64 del: of_nat_add)
  have st: "writerActive a = 0 \<longrightarrow> unat (streamStartFrame ?a') = t + ?sk"
    using small by (simp del: of_nat_add)
  show ?thesis using cap assms(1) w st load impl by (intro exI [of _ ?a']) simp
qed

theorem capture_stores_mix_witness:
  "\<exists>a'. CaptureOutput (Some example_ring) (Some [(1, 2), (3, 4)]) (Fin False 100) 2 = Some (Some a') \<and>
    unat (writeFrame a') = 102"
  using capture_stores_mix [OF example_ring_ok, of False 100 100 2 "[(1, 2), (3, 4)]"] by auto

section \<open>Starting\<close>

lemma clear_tags_frames:
  "frames (clear_tags a n) i = (if i < n then (frames a i)\<lparr>tag := 0\<rparr> else frames a i)"
  by (induction n) (auto simp: Let_def)

lemma clear_tags_fields [simp]:
  "SVCSharedAudioIsValid (Some (clear_tags a n)) = SVCSharedAudioIsValid (Some a)"
  "writeFrame (clear_tags a n) = writeFrame a" "streamStartFrame (clear_tags a n) = streamStartFrame a"
  "streamEpoch (clear_tags a n) = streamEpoch a" "writerActive (clear_tags a n) = writerActive a"
  "processOutputCount (clear_tags a n) = processOutputCount a" "writeMixCount (clear_tags a n) = writeMixCount a"
  by (induction n) (simp_all add: Let_def)

lemma reset_stream_fields [simp]:
  "SVCSharedAudioIsValid (Some (reset_stream a now)) = SVCSharedAudioIsValid (Some a)"
  "writeFrame (reset_stream a now) = 0" "streamStartFrame (reset_stream a now) = 0"
  "streamEpoch (reset_stream a now) = now" "writerActive (reset_stream a now) = 0"
  "processOutputCount (reset_stream a now) = 0" "writeMixCount (reset_stream a now) = 0"
  by (simp_all add: reset_stream_def)

lemma reset_stream_empty: "ring.implements (reset_stream a now) []"
  by (rule cleared_implements) (simp add: reset_stream_def clear_tags_frames)

lemma ResetSharedAudioStream_valid:
  "audio d = Some a \<Longrightarrow> SVCSharedAudioIsValid (Some a) \<Longrightarrow>
    ResetSharedAudioStream d now = d\<lparr>audio := Some (reset_stream a now)\<rparr>"
  by (simp add: ResetSharedAudioStream_def AcquireAudio_def ReleaseAudio_def)

text \<open>Property C19: the first start opens an empty stream. The ring holds no frame any more, its
  counters are zero, it is inactive and its epoch is the current time, so that a reader drops its
  position; the clock is anchored at the current time, the device runs, the host is told once and
  the lease on the ring is given back.\<close>

theorem first_start_opens_empty_stream:
  assumes "gRunningCount d = 0" "audio d = Some a" "SVCSharedAudioIsValid (Some a)"
    and "DriverStartIO d True kSVCObjectDevice now now' = (d', status)"
  shows "status = noErr \<and> gRunningCount d' = 1 \<and> gTimestampAnchor d' = now \<and> leases d' = leases d \<and>
    sent d' = sent d @ (if gHost d = Some True
      then [(kSVCObjectDevice, [Address kAudioDevicePropertyDeviceIsRunning])] else []) \<and>
    (\<exists>a'. audio d' = Some a' \<and> SVCSharedAudioIsValid (Some a') \<and> ring.implements a' [] \<and>
      writerActive a' = 0 \<and> streamEpoch a' = now' \<and> writeFrame a' = 0 \<and> streamStartFrame a' = 0 \<and>
      processOutputCount a' = 0 \<and> writeMixCount a' = 0)"
  using assms reset_stream_empty [of a now']
  by (auto simp: DriverStartIO_def ValidateDeviceCall_def Let_def ResetSharedAudioStream_valid Notify_def)

theorem first_start_opens_empty_stream_witness:
  "\<exists>a'. audio (fst (DriverStartIO (driver_start\<lparr>audio := Some example_ring\<rparr>) True kSVCObjectDevice 5 6)) = Some a' \<and>
    streamEpoch a' = 6"
proof -
  obtain d' st where s: "DriverStartIO (driver_start\<lparr>audio := Some example_ring\<rparr>) True kSVCObjectDevice 5 6 = (d', st)"
    by fastforce
  show ?thesis
    using first_start_opens_empty_stream [OF _ _ example_ring_ok(1) s] s by (auto simp: driver_start_def)
qed

section \<open>Starting and stopping\<close>

text \<open>
  The clients of the device start and stop IO in any order. \<open>Stop k\<close> is a stop whose
  compare-and-exchange fails \<open>k\<close> times for no reason, as the weak form may.
\<close>

datatype io_call = Start u64 u64 | Stop nat

primrec io_step :: "io_call \<Rightarrow> driver \<Rightarrow> driver \<times> OSStatus" where
  "io_step (Start now now') d = DriverStartIO d True kSVCObjectDevice now now'"
| "io_step (Stop k) d = DriverStopIO d True kSVCObjectDevice (replicate k (gRunningCount d))"

primrec run_io :: "io_call list \<Rightarrow> driver \<Rightarrow> driver" where
  "run_io [] d = d"
| "run_io (c # cs) d = run_io cs (fst (io_step c d))"

text \<open>The specification: a count of running clients, and a notification whenever it leaves or reaches zero.\<close>

primrec clients_step :: "io_call \<Rightarrow> nat \<Rightarrow> nat" where
  "clients_step (Start now now') n = n + 1"
| "clients_step (Stop k) n = n - 1"

primrec clients :: "io_call list \<Rightarrow> nat \<Rightarrow> nat" where
  "clients [] n = n"
| "clients (c # cs) n = clients cs (clients_step c n)"

primrec transitions :: "io_call list \<Rightarrow> nat \<Rightarrow> nat" where
  "transitions [] n = 0"
| "transitions (c # cs) n =
     (if (n = 0) \<noteq> (clients_step c n = 0) then 1 else 0) + transitions cs (clients_step c n)"

lemma decrement_above_spurious:
  "decrement_above least c (replicate k c) = (if least < c then Some (c - 1) else None)"
  by (induction k) auto

lemma ResetSharedAudioStream_fields [simp]:
  "gRunningCount (ResetSharedAudioStream d now) = gRunningCount d"
  "leases (ResetSharedAudioStream d now) = leases d"
  "sent (ResetSharedAudioStream d now) = sent d"
  "gHost (ResetSharedAudioStream d now) = gHost d"
  by (simp_all add: ResetSharedAudioStream_def AcquireAudio_def ReleaseAudio_def)

lemma io_step_fields:
  assumes "unat (gRunningCount d) + 1 < 2 ^ 32" "gHost d = Some True"
  shows "unat (gRunningCount (fst (io_step c d))) = clients_step c (unat (gRunningCount d))"
    "leases (fst (io_step c d)) = leases d" "gHost (fst (io_step c d)) = Some True"
    "length (sent (fst (io_step c d))) = length (sent d) +
      (if (unat (gRunningCount d) = 0) \<noteq> (clients_step c (unat (gRunningCount d)) = 0) then 1 else 0)"
proof -
  have up: "unat (gRunningCount d + 1) = unat (gRunningCount d) + 1"
    using assms(1) by (simp add: unat_word_ariths)
  have down: "0 < gRunningCount d \<Longrightarrow> unat (gRunningCount d - 1) = unat (gRunningCount d) - 1"
    by (rule u32_dec)
  have zero: "(gRunningCount d = 0) = (unat (gRunningCount d) = 0)" by (simp add: unat_eq_0)
  have last: "0 < gRunningCount d \<Longrightarrow> (gRunningCount d - 1 = 0) = (unat (gRunningCount d) = 1)"
    using down by (metis One_nat_def diff_eq_diff_eq Suc_pred bot_nat_0.not_eq_extremum diff_Suc_1
        unat_eq_0 unat_gt_0 word_gt_0)
  show "unat (gRunningCount (fst (io_step c d))) = clients_step c (unat (gRunningCount d))"
    "leases (fst (io_step c d)) = leases d" "gHost (fst (io_step c d)) = Some True"
    "length (sent (fst (io_step c d))) = length (sent d) +
      (if (unat (gRunningCount d) = 0) \<noteq> (clients_step c (unat (gRunningCount d)) = 0) then 1 else 0)"
    using assms up down zero last
    by (cases c; auto simp: DriverStartIO_def DriverStopIO_def ValidateDeviceCall_def Let_def Notify_def
        decrement_above_spurious AcquireAudio_def ReleaseAudio_def word_gt_0)+
qed

text \<open>Property C20: clients are counted and the host is told exactly of the changes between idle
  and running. For every sequence of starts and stops the running count is the number of clients
  the specification has, every transition sends one notification and no other call sends any, and
  no lease on the ring is kept.\<close>

theorem io_clients_counted:
  assumes "unat (gRunningCount d) + length calls < 2 ^ 32" "gHost d = Some True"
  shows "unat (gRunningCount (run_io calls d)) = clients calls (unat (gRunningCount d)) \<and>
    length (sent (run_io calls d)) = length (sent d) + transitions calls (unat (gRunningCount d)) \<and>
    leases (run_io calls d) = leases d"
  using assms
proof (induction calls arbitrary: d)
  case Nil
  then show ?case by simp
next
  case (Cons c calls)
  have "unat (gRunningCount d) + 1 < 2 ^ 32" using Cons.prems(1) by simp
  note f = io_step_fields [OF this Cons.prems(2), of c]
  have "clients_step c (unat (gRunningCount d)) \<le> unat (gRunningCount d) + 1" by (cases c) simp_all
  then have "unat (gRunningCount (fst (io_step c d))) + length calls < 2 ^ 32"
    using f(1) Cons.prems(1) by simp
  from Cons.IH [OF this f(3)] f show ?case by simp
qed

theorem io_clients_counted_witness:
  "length (sent (run_io [Start 1 2, Start 3 4, Stop 2, Stop 0] (driver_start\<lparr>gHost := Some True\<rparr>))) = 2"
  using io_clients_counted [of "driver_start\<lparr>gHost := Some True\<rparr>" "[Start 1 2, Start 3 4, Stop 2, Stop 0]"]
  by (simp add: driver_start_def)

end
