(* ===== verification/Driver_Clock.thy ===== *)
theory Driver_Clock
  imports Driver_IO Reader_Ratio
begin

text \<open>
  The zero time stamps of \<open>DriverGetZeroTimeStamp\<close>: always defined, on the grid of the period,
  and never going back.
\<close>

section \<open>Rounding\<close>

lemma rnd64_le_double:
  assumes "1 \<le> x"
  shows "rnd binary64 x \<le> 2 * x"
proof -
  have i: "2 powi ilog2 x \<le> x" "x < 2 powi (ilog2 x + 1)" using ilog2_bounds [of x] assms by simp_all
  have "1 < (2 :: real) powi (ilog2 x + 1)" using i(2) assms by linarith
  then have "(2 :: real) powi 0 < 2 powi (ilog2 x + 1)" by simp
  then have k: "0 < ilog2 x + 1" by (simp only: powi2_less_iff)
  have "rnd binary64 x \<le> 2 powi (ilog2 x + 1)"
    using i(2) k by (intro f64.rnd_le_rep rep_powi) simp_all
  also have "\<dots> = 2 * 2 powi ilog2 x" by (simp add: power_int_add)
  finally show ?thesis using i(1) by linarith
qed

text \<open>The number of whole periods, and the ticks they take.\<close>

definition periods :: "real \<Rightarrow> nat \<Rightarrow> nat" where
  "periods ticks elapsed = nat \<lfloor>rnd binary64 (rnd binary64 (real elapsed) / ticks)\<rfloor>"

definition period_ticks :: "real \<Rightarrow> nat \<Rightarrow> nat" where
  "period_ticks ticks k = nat \<lfloor>rnd binary64 (real k * ticks)\<rfloor>"

lemma periods_mono: "0 < ticks \<Longrightarrow> m \<le> n \<Longrightarrow> periods ticks m \<le> periods ticks n"
  unfolding periods_def
  by (intro nat_mono floor_mono f64.rnd_mono divide_right_mono) simp_all

lemma period_ticks_mono: "0 \<le> ticks \<Longrightarrow> m \<le> n \<Longrightarrow> period_ticks ticks m \<le> period_ticks ticks n"
  unfolding period_ticks_def
  by (intro nat_mono floor_mono f64.rnd_mono mult_right_mono) simp_all

lemma periods_bounds:
  assumes "16384 \<le> T" "e < 2 ^ 61"
  shows "periods T e < 2 ^ 49" "period_ticks T (periods T e) < 2 ^ 63"
    "rnd binary64 (rnd binary64 (real e) / T) < 2 ^ 49"
    "rnd binary64 (real (periods T e) * T) < 2 ^ 63"
proof -
  have "real e < real (2 ^ 61)" using assms(2) by (simp only: of_nat_less_iff)
  then have re: "rnd binary64 (real e) \<le> 2 powi 61" by (intro f64.rnd_le_rep rep_powi) simp_all
  let ?q = "rnd binary64 (real e) / T"
  have q0: "0 \<le> ?q" using assms(1) by simp
  have "rnd binary64 (real e) / T \<le> 2 powi 61 / 16384" using re assms(1) by (intro frac_le) simp_all
  also have "\<dots> = 2 powi 47" by (simp add: power_int_def)
  finally have "rnd binary64 ?q \<le> 2 powi 47" by (intro f64.rnd_le_rep rep_powi) simp_all
  then show k: "rnd binary64 ?q < 2 ^ 49" by simp
  then have kf: "real (periods T e) \<le> rnd binary64 ?q" by (simp add: periods_def)
  then have "real (periods T e) < real (2 ^ 49)" using k by simp
  then show "periods T e < 2 ^ 49" by (simp only: of_nat_less_iff)
  have "real (periods T e) * T \<le> 2 powi 62"
  proof (cases "periods T e = 0")
    case False
    then have "1 \<le> rnd binary64 ?q" using kf by linarith
    moreover have "rnd binary64 ?q \<le> 1 / 2" if "?q \<le> 1 / 2"
    proof -
      have "rep binary64 (2 powi (- 1))" by (rule rep_powi) simp
      then have "rep binary64 (1 / 2)" by (simp add: power_int_minus_divide)
      with that show ?thesis by (intro f64.rnd_le_rep)
    qed
    ultimately have half: "1 / 2 < ?q" by fastforce
    have "rnd binary64 ?q \<le> 2 * ?q"
    proof (cases "1 \<le> ?q")
      case True
      then show ?thesis by (rule rnd64_le_double)
    next
      case less: False
      then have "rnd binary64 ?q \<le> 1" by (intro f64.rnd_le_rep) simp_all
      with half show ?thesis by linarith
    qed
    with kf have "real (periods T e) \<le> 2 * ?q" by linarith
    then have "real (periods T e) * T \<le> 2 * ?q * T" using assms(1) by (intro mult_right_mono) simp_all
    also have "\<dots> = 2 * rnd binary64 (real e)" using assms(1) by simp
    also have "\<dots> \<le> 2 * 2 powi 61" using re by linarith
    also have "\<dots> = 2 powi 62" by simp
    finally show ?thesis .
  qed simp
  then have r: "rnd binary64 (real (periods T e) * T) \<le> 2 powi 62" by (intro f64.rnd_le_rep rep_powi) simp_all
  then show "rnd binary64 (real (periods T e) * T) < 2 ^ 63" by simp
  then show "period_ticks T (periods T e) < 2 ^ 63"
    unfolding period_ticks_def by (simp add: nat_less_iff floor_less_iff)
qed

section \<open>The published clock\<close>

lemma zero_time_stamp:
  assumes "gHostTicksPerFrame d = Fin False h" "rep binary64 h" "1 \<le> h" "h \<le> 2 ^ 30"
    and "gTimestampAnchor d \<le> now" "unat now < 2 ^ 61"
  defines "T \<equiv> rnd binary64 (h * 16384)"
  defines "e \<equiv> unat now - unat (gTimestampAnchor d)"
  shows "DriverGetZeroTimeStamp d True kSVCObjectDevice True now =
    Some (noErr, Some (Fin False (real (periods T e * 16384)),
      gTimestampAnchor d + of_nat (period_ticks T (periods T e)), 1))"
    "unat (gTimestampAnchor d + of_nat (period_ticks T (periods T e))) =
      unat (gTimestampAnchor d) + period_ticks T (periods T e)"
    "16384 \<le> T"
proof -
  let ?anchor = "gTimestampAnchor d"
  have e: "e < 2 ^ 61" using assms(6) by (simp add: e_def)
  have "rep binary64 (2 powi 14)" by (rule rep_powi) simp
  then have r14: "rep binary64 16384" by simp
  show T: "16384 \<le> T" unfolding T_def using assms(3) r14 by (intro f64.rep_le_rnd) simp_all
  note b = periods_bounds [OF T e]
  have "h * 16384 \<le> 2 powi 44" using assms(4) by simp
  then have T44: "T \<le> 2 powi 44" unfolding T_def by (intro f64.rnd_le_rep rep_powi) simp_all
  have tpp: "fp_mul binary64 (gHostTicksPerFrame d) (fp_of_nat binary64 kSVCZeroTimestampPeriod) = Fin False T"
    using assms(1,4) f64.fp_make_small [of "h * 16384" False]
    by (simp add: kSVCZeroTimestampPeriod_def T_def)
  have elapsed: "unat (now - ?anchor) = e" using unat_minus_le [OF assms(5)] by (simp add: e_def)
  have big: "(2 :: real) powi 64 < 2 powi emax binary64" by (simp only: powi2_less_iff binary64_sel)
  have finite: "fp_make binary64 s x = Fin s (rnd binary64 x)" if "x \<le> 2 powi 64" for s x
  proof -
    have "rnd binary64 x \<le> 2 powi 64" using that by (intro f64.rnd_le_rep rep_powi) simp_all
    then show ?thesis using big by (simp add: fp_make_def Let_def)
  qed
  have "real e < real (2 ^ 61)" using e by (simp only: of_nat_less_iff)
  then have of_e: "fp_of_nat binary64 e = Fin False (rnd binary64 (real e))"
    unfolding fp_of_nat_def by (intro finite) simp
  have re: "rnd binary64 (real e) \<le> 2 powi 61"
    using \<open>real e < real (2 ^ 61)\<close> by (intro f64.rnd_le_rep rep_powi) simp_all
  have "rnd binary64 (real e) / T \<le> rnd binary64 (real e) / 1"
    using T by (intro divide_left_mono f64.rnd_nonneg) simp_all
  then have quot: "fp_div binary64 (Fin False (rnd binary64 (real e))) (Fin False T)
      = Fin False (rnd binary64 (rnd binary64 (real e) / T))"
    using finite [of "rnd binary64 (real e) / T" False] re T by simp
  have count: "(if ?anchor < now
      then fp_trunc (2 ^ 64) (fp_div binary64 (fp_of_nat binary64 (unat (now - ?anchor))) (Fin False T))
      else Some 0) = Some (periods T e)"
  proof (cases "?anchor < now")
    case True
    then show ?thesis
      unfolding elapsed of_e quot using b(3) by (simp add: periods_def floor_less_iff)
  next
    case False
    then have "e = 0" using assms(5) by (simp add: e_def)
    then show ?thesis using False by (simp add: periods_def)
  qed
  have of_k: "fp_of_nat binary64 (periods T e) = Fin False (real (periods T e))"
    using b(1) by (intro f64_of_nat) simp
  have "real (periods T e) < real (2 ^ 49)" using b(1) by (simp only: of_nat_less_iff)
  then have k49: "real (periods T e) \<le> 2 powi 49" by simp
  have "real (periods T e) * T \<le> 2 powi 64"
  proof (rule ccontr)
    assume "\<not> real (periods T e) * T \<le> 2 powi 64"
    then have "2 powi 64 \<le> rnd binary64 (real (periods T e) * T)"
      by (intro f64.rep_le_rnd rep_powi) simp_all
    with b(4) show False by simp
  qed
  then have "fp_mul binary64 (Fin False (real (periods T e))) (Fin False T) =
      Fin False (rnd binary64 (real (periods T e) * T))"
    using finite [of "real (periods T e) * T" False] by simp
  then have ticks: "fp_trunc (2 ^ 64) (fp_mul binary64 (fp_of_nat binary64 (periods T e)) (Fin False T)) =
      Some (period_ticks T (periods T e))"
    using b(4) by (simp add: of_k period_ticks_def floor_less_iff)
  have "rep binary64 (real (periods T e * 16384))"
    by (rule repI [of "int (periods T e)" _ 14]) (use b(1) in simp_all)
  moreover have "real (periods T e * 16384) \<le> 2 powi 64" using k49 by simp
  ultimately have sample: "fp_mul binary64 (fp_of_nat binary64 (periods T e)) (fp_of_nat binary64 kSVCZeroTimestampPeriod)
      = Fin False (real (periods T e * 16384))"
    using finite [of "real (periods T e * 16384)" False] f64.rnd_rep
    by (simp add: of_k kSVCZeroTimestampPeriod_def)
  have pos: "\<not> fp_le (gHostTicksPerFrame d) (Fin False 0)" using assms(1,3) by (simp add: fp_le_def)
  show "DriverGetZeroTimeStamp d True kSVCObjectDevice True now =
    Some (noErr, Some (Fin False (real (periods T e * 16384)),
      ?anchor + of_nat (period_ticks T (periods T e)), 1))"
    unfolding DriverGetZeroTimeStamp_def ValidateDeviceCall_def Let_def tpp count option.case ticks sample
    using pos by simp
  have "unat (of_nat (period_ticks T (periods T e)) :: u64) = period_ticks T (periods T e)"
    using b(2) by (intro unat_of_nat_u64) simp
  then show "unat (?anchor + of_nat (period_ticks T (periods T e))) = unat ?anchor + period_ticks T (periods T e)"
    using b(2) assms(5,6) by (subst unat_plus_no_wrap) (simp_all add: word_le_nat_alt)
qed

text \<open>Property C21: the clock is well defined and monotone. For any sensible tick rate (at least
  one tick per frame) and times below \<open>2 ^ 61\<close>, every query returns: no conversion of the
  computation is undefined and no addition wraps; the sample time is an exact multiple of the period
  of 16384 frames; and of two queries the later one never returns an earlier sample time or host
  time.\<close>

theorem zero_time_stamps_monotone:
  assumes "gHostTicksPerFrame d = Fin False h" "rep binary64 h" "1 \<le> h" "h \<le> 2 ^ 30"
    and "gTimestampAnchor d \<le> now" "now \<le> later" "unat later < 2 ^ 61"
  shows "\<exists>k k' host host'.
    DriverGetZeroTimeStamp d True kSVCObjectDevice True now =
      Some (noErr, Some (Fin False (real (k * 16384)), host, 1)) \<and>
    DriverGetZeroTimeStamp d True kSVCObjectDevice True later =
      Some (noErr, Some (Fin False (real (k' * 16384)), host', 1)) \<and>
    k \<le> k' \<and> host \<le> host' \<and> gTimestampAnchor d \<le> host"
proof -
  let ?T = "rnd binary64 (h * 16384)"
  let ?e = "\<lambda>t. unat t - unat (gTimestampAnchor d)"
  have n: "unat now \<le> unat later" using assms(6) by (simp add: word_le_nat_alt)
  note z1 = zero_time_stamp [OF assms(1-5) le_less_trans [OF n assms(7)]]
  note z2 = zero_time_stamp [OF assms(1-4) order_trans [OF assms(5,6)] assms(7)]
  have k: "periods ?T (?e now) \<le> periods ?T (?e later)"
    using z1(3) n by (intro periods_mono) simp_all
  then have "period_ticks ?T (periods ?T (?e now)) \<le> period_ticks ?T (periods ?T (?e later))"
    using z1(3) by (intro period_ticks_mono) simp_all
  then have "gTimestampAnchor d + of_nat (period_ticks ?T (periods ?T (?e now))) \<le>
      gTimestampAnchor d + of_nat (period_ticks ?T (periods ?T (?e later)))"
    "gTimestampAnchor d \<le> gTimestampAnchor d + of_nat (period_ticks ?T (periods ?T (?e now)))"
    using z1(2) z2(2) by (simp_all only: word_le_nat_alt)
  with z1(1) z2(1) k show ?thesis by blast
qed

theorem zero_time_stamps_monotone_witness:
  "\<exists>k host. DriverGetZeroTimeStamp (driver_start\<lparr>gHostTicksPerFrame := Fin False 500\<rparr>) True kSVCObjectDevice True 10000000 =
    Some (noErr, Some (Fin False (real (k * 16384)), host, 1))"
proof -
  have "rep binary64 500" using rep64_of_nat [of 500] by simp
  from zero_time_stamps_monotone [OF _ this, of "driver_start\<lparr>gHostTicksPerFrame := Fin False 500\<rparr>" 10000000 10000000]
  show ?thesis by (auto simp: driver_start_def)
qed

end
