(* ===== verification/Signing_Policy.thy ===== *)
theory Signing_Policy
  imports SVC_Prelude "HOL-Library.Char_ord"
begin

text \<open>
  The code-signing requirement that pins the broker's clients: \<open>tools/signing-policy.c\<close> writes
  it from the 20-byte hash of a signed executable, \<open>ReadPolicy\<close> of \<open>broker/main.c\<close> accepts it
  from a file, and \<open>SVCCopyBrokerRequirement\<close> of \<open>common/SecureAudioMemory.c\<close> takes it from the
  driver's property list. A C string is a list of characters; a buffer is a list that may hold
  zero characters.
\<close>

section \<open>C strings\<close>

abbreviation NUL :: char where "NUL \<equiv> CHR 0x00"
abbreviation QUOTE :: char where "QUOTE \<equiv> CHR 0x22"

definition cdhash_prefix :: string where
  "cdhash_prefix = ''cdhash H'' @ [QUOTE]"

text \<open>The string a buffer holds: what \<open>strdup\<close> copies.\<close>

definition c_string :: "string \<Rightarrow> string" where
  "c_string buffer = takeWhile (\<lambda>c. c \<noteq> NUL) buffer"

text \<open>\<open>strncmp\<close> with the prefix, which holds no zero character, gives zero.\<close>

definition has_prefix :: "string \<Rightarrow> bool" where
  "has_prefix buffer \<longleftrightarrow> take 9 buffer = cdhash_prefix"

section \<open>Writing the requirement\<close>

definition hex_digit :: "nat \<Rightarrow> char" where
  "hex_digit n = ''0123456789abcdef'' ! n"

text \<open>\<open>snprintf (p, 3, "%02x", b)\<close>: two digits and the terminator.\<close>

definition put_hex :: "string \<Rightarrow> nat \<Rightarrow> u8 \<Rightarrow> string" where
  "put_hex buffer p b =
     buffer[p := hex_digit (unat b div 16), p + 1 := hex_digit (unat b mod 16), p + 2 := NUL]"

fun put_hash :: "string \<Rightarrow> nat \<Rightarrow> u8 list \<Rightarrow> string" where
  "put_hash buffer i [] = buffer"
| "put_hash buffer i (b # bs) = put_hash (put_hex buffer (9 + i * 2) b) (Suc i) bs"

text \<open>Lines 18 to 22 of the tool, for the hash the Security framework reports, if it does.\<close>

definition requirement_of :: "u8 list option \<Rightarrow> string option" where
  "requirement_of hash =
     (case hash of
        None \<Rightarrow> None
      | Some bytes \<Rightarrow>
          if length bytes \<noteq> 20 then None
          else let buffer = cdhash_prefix @ replicate 42 NUL
               in Some ((put_hash buffer 0 bytes)[49 := QUOTE, 50 := NUL]))"

text \<open>The 50 bytes the tool writes to the policy file.\<close>

definition policy_bytes :: "string \<Rightarrow> string" where
  "policy_bytes requirement = take 50 requirement"

section \<open>Reading the policy\<close>

text \<open>
  What the file system answers: \<open>None\<close> when the file cannot be opened (missing, or a symbolic
  link), otherwise its status and its contents.
\<close>

record policy_file =
  stat_ok :: bool
  is_regular :: bool
  st_uid :: u32
  st_mode :: u32
  st_size :: int
  contents :: "string option"

text \<open>\<open>read\<close> into the 255 bytes of the buffer; \<open>None\<close> for an error.\<close>

definition is_policy_digit :: "char \<Rightarrow> bool" where
  "is_policy_digit c \<longleftrightarrow> (CHR ''0'' \<le> c \<and> c \<le> CHR ''9'') \<or> (CHR ''a'' \<le> c \<and> c \<le> CHR ''f'')"

definition ReadPolicy :: "u32 \<Rightarrow> policy_file option \<Rightarrow> string option" where
  "ReadPolicy owner file =
     (case file of
        None \<Rightarrow> None
      | Some f \<Rightarrow>
          let valid = stat_ok f \<and> is_regular f \<and> st_uid f = owner \<and> and (st_mode f) 0x12 = 0
                \<and> 0 < st_size f \<and> st_size f < 256 in
          (case (if valid then map_option (take 255) (contents f) else None) of
             None \<Rightarrow> None
           | Some bytes \<Rightarrow>
               let buffer = bytes @ replicate (256 - length bytes) NUL; count = int (length bytes) in
               if count \<noteq> st_size f then None
               else if count \<noteq> 50 \<or> \<not> has_prefix buffer \<or> buffer ! 49 \<noteq> QUOTE then None
               else if \<exists>i \<in> {9..<49}. \<not> is_policy_digit (buffer ! i) then None
               else Some (c_string buffer)))"

text \<open>
  The bundle's string, if there is a bundle with a string value; \<open>CFStringGetCString\<close> fails when
  it does not fit in 256 bytes with its terminator.
\<close>

definition SVCCopyBrokerRequirement :: "string option \<Rightarrow> string option" where
  "SVCCopyBrokerRequirement value =
     (case value of
        None \<Rightarrow> None
      | Some s \<Rightarrow>
          if 256 \<le> length s then None
          else if \<not> has_prefix (s @ [NUL]) then None
          else Some (c_string (s @ [NUL])))"

section \<open>The format\<close>

definition hex_byte :: "u8 \<Rightarrow> string" where
  "hex_byte b = [hex_digit (unat b div 16), hex_digit (unat b mod 16)]"

definition requirement_text :: "u8 list \<Rightarrow> string" where
  "requirement_text bytes = cdhash_prefix @ concat (map hex_byte bytes) @ [QUOTE]"

lemma length_hex: "length (concat (map hex_byte bs)) = 2 * length bs"
  by (induction bs) (simp_all add: hex_byte_def)

lemma length_put_hash [simp]: "length (put_hash buffer i bs) = length buffer"
  by (induction buffer i bs rule: put_hash.induct) (simp_all add: put_hex_def)

lemma put_hash_text:
  assumes "length pre = 9 + i * 2" "2 * length bs < length post"
  shows "\<exists>rest. put_hash (pre @ post) i bs = pre @ concat (map hex_byte bs) @ rest \<and>
    length rest = length post - 2 * length bs"
  using assms
proof (induction bs arbitrary: i pre post)
  case Nil
  then show ?case by simp
next
  case (Cons b bs)
  then obtain x y z post' where post: "post = x # y # z # post'"
    by (cases post; cases "tl post"; cases "tl (tl post)") auto
  have "put_hex (pre @ post) (9 + i * 2) b = (pre @ hex_byte b) @ (NUL # post')"
    using Cons.prems(1) post by (simp add: put_hex_def hex_byte_def list_update_append)
  moreover have "\<exists>rest. put_hash ((pre @ hex_byte b) @ (NUL # post')) (Suc i) bs =
      (pre @ hex_byte b) @ concat (map hex_byte bs) @ rest \<and>
      length rest = length (NUL # post') - 2 * length bs"
    using Cons.prems post by (intro Cons.IH) (simp_all add: hex_byte_def)
  ultimately show ?case using post by auto
qed

lemma requirement_of_text:
  assumes "length bytes = 20"
  shows "requirement_of (Some bytes) = Some (requirement_text bytes @ [NUL])"
proof -
  obtain rest where r: "put_hash (cdhash_prefix @ replicate 42 NUL) 0 bytes =
      cdhash_prefix @ concat (map hex_byte bytes) @ rest" "length rest = 2"
    using put_hash_text [of cdhash_prefix 0 bytes "replicate 42 NUL"] assms
    by (auto simp: cdhash_prefix_def)
  define A where "A = cdhash_prefix @ concat (map hex_byte bytes)"
  have A: "length A = 49" using assms by (simp add: A_def length_hex cdhash_prefix_def)
  obtain x y where "rest = [x, y]" using r(2) by (metis length_0_conv length_Suc_conv numeral_2_eq_2)
  then have put: "put_hash (cdhash_prefix @ replicate 42 NUL) 0 bytes = A @ [x, y]"
    using r(1) by (simp add: A_def)
  have "(A @ [x, y])[49 := QUOTE, 50 := NUL] = A @ [QUOTE, NUL]"
    using A by (simp add: list_update_append)
  then have "(put_hash (cdhash_prefix @ replicate 42 NUL) 0 bytes)[49 := QUOTE, 50 := NUL] =
      requirement_text bytes @ [NUL]"
    unfolding put by (simp add: A_def requirement_text_def)
  then show ?thesis using assms by (simp add: requirement_of_def Let_def)
qed


section \<open>Digits\<close>

lemma hex_digit_policy: "n < 16 \<Longrightarrow> is_policy_digit (hex_digit n)"
proof -
  have "list_all (\<lambda>n. is_policy_digit (hex_digit n)) [0..<16]"
    by (simp add: upt_conv_Cons hex_digit_def is_policy_digit_def less_eq_char_def)
  then show "n < 16 \<Longrightarrow> is_policy_digit (hex_digit n)" by (simp add: list_all_iff)
qed

lemma hex_digit_inj: "m < 16 \<Longrightarrow> n < 16 \<Longrightarrow> hex_digit m = hex_digit n \<longleftrightarrow> m = n"
proof -
  have "distinct (''0123456789abcdef'')" by simp
  then show "m < 16 \<Longrightarrow> n < 16 \<Longrightarrow> hex_digit m = hex_digit n \<longleftrightarrow> m = n"
    unfolding hex_digit_def by (subst nth_eq_iff_index_eq) auto
qed

lemma hex_digit_code:
  assumes "n < 16"
  shows "(of_char (hex_digit n) :: nat) = (if n < 10 then n + 48 else n + 87)"
proof -
  have "list_all (\<lambda>n. (of_char (hex_digit n) :: nat) = (if n < 10 then n + 48 else n + 87)) [0..<16]"
    by (simp add: upt_conv_Cons hex_digit_def)
  then show ?thesis using assms by (simp only: list_all_iff) simp
qed

lemma policy_digit_hex:
  assumes "is_policy_digit c"
  shows "\<exists>n < 16. c = hex_digit n"
proof -
  define k :: nat where "k = of_char c"
  have range: "(48 \<le> k \<and> k \<le> 57) \<or> (97 \<le> k \<and> k \<le> 102)"
    using assms by (simp add: is_policy_digit_def less_eq_char_def k_def)
  define n where "n = (if k < 58 then k - 48 else k - 87)"
  have n: "n < 16" "k = (if n < 10 then n + 48 else n + 87)" using range by (auto simp: n_def)
  then have "(of_char (hex_digit n) :: nat) = of_char c" using hex_digit_code k_def by simp
  then have "c = hex_digit n" by (simp only: of_char_eq_iff)
  then show ?thesis using n(1) by blast
qed

lemma policy_digit_not_NUL: "is_policy_digit c \<Longrightarrow> c \<noteq> NUL \<and> c \<noteq> QUOTE"
  by (auto simp: is_policy_digit_def less_eq_char_def)

section \<open>The text of a hash\<close>

lemma hex_byte_policy: "c \<in> set (hex_byte b) \<Longrightarrow> is_policy_digit c"
  using unsigned_less [of b, where 'a = nat]
  by (auto simp: hex_byte_def intro!: hex_digit_policy)

lemma hex_byte_inj: "hex_byte a = hex_byte b \<longleftrightarrow> a = b"
proof
  assume "hex_byte a = hex_byte b"
  moreover have "unat a < 256" "unat b < 256"
    using unsigned_less [of a, where 'a = nat] unsigned_less [of b, where 'a = nat] by simp_all
  ultimately have "unat a div 16 = unat b div 16" "unat a mod 16 = unat b mod 16"
    by (simp_all add: hex_byte_def hex_digit_inj)
  then have "unat a = unat b" by (metis div_mult_mod_eq)
  then show "a = b" by (simp only: word_unat_eq_iff)
qed simp

lemma hex_bytes_inj:
  "length as = length bs \<Longrightarrow> concat (map hex_byte as) = concat (map hex_byte bs) \<longleftrightarrow> as = bs"
proof (induction as bs rule: list_induct2)
  case (Cons a as b bs)
  have "length (hex_byte a) = length (hex_byte b)" by (simp add: hex_byte_def)
  then show ?case using Cons by (simp add: append_eq_append_conv hex_byte_inj)
qed simp

lemma digits_are_hex:
  "\<lbrakk>length cs = 2 * n; \<forall>c \<in> set cs. is_policy_digit c\<rbrakk> \<Longrightarrow>
   \<exists>bytes. length bytes = n \<and> cs = concat (map hex_byte bytes)"
proof (induction n arbitrary: cs)
  case (Suc n)
  then obtain x y cs' where cs: "cs = x # y # cs'" by (cases cs; cases "tl cs") auto
  obtain bytes where bytes: "length bytes = n" "cs' = concat (map hex_byte bytes)"
    using Suc.IH [of cs'] Suc.prems cs by auto
  obtain m k where mk: "m < 16" "x = hex_digit m" "k < 16" "y = hex_digit k"
    using Suc.prems(2) cs policy_digit_hex by (metis list.set_intros)
  have "m * 16 + k < 2 ^ 8" using mk by simp
  then have "unat (of_nat (m * 16 + k) :: u8) = m * 16 + k"
    by (simp only: unat_of_nat) (simp add: mod_less)
  then have "[x, y] = hex_byte (of_nat (m * 16 + k))"
    using mk by (simp only: hex_byte_def) simp
  then show ?case using bytes cs
    by (intro exI [of _ "of_nat (m * 16 + k) # bytes"]) simp
qed simp

lemma length_requirement_text: "length (requirement_text bytes) = 10 + 2 * length bytes"
  by (simp add: requirement_text_def length_hex cdhash_prefix_def)

lemma requirement_text_no_NUL: "NUL \<notin> set (requirement_text bytes)"
  using hex_byte_policy policy_digit_not_NUL
  by (auto simp: requirement_text_def cdhash_prefix_def)

lemma requirement_text_inj:
  "length as = length bs \<Longrightarrow> requirement_text as = requirement_text bs \<longleftrightarrow> as = bs"
  by (simp add: requirement_text_def hex_bytes_inj)

lemma c_string_append_NUL: "NUL \<notin> set s \<Longrightarrow> c_string (s @ NUL # rest) = s"
  by (auto simp: c_string_def takeWhile_append)

section \<open>Acceptance\<close>

lemma policy_format:
  assumes "length bytes = 50"
  shows "take 9 bytes = cdhash_prefix \<and> bytes ! 49 = QUOTE \<and> (\<forall>i \<in> {9..<49}. is_policy_digit (bytes ! i))
     \<longleftrightarrow> (\<exists>hash. length hash = 20 \<and> bytes = requirement_text hash)" (is "?format \<longleftrightarrow> ?text")
proof
  assume f: ?format
  define cs where "cs = take 40 (drop 9 bytes)"
  have "length cs = 2 * 20" using assms by (simp add: cs_def)
  moreover have "\<forall>c \<in> set cs. is_policy_digit c"
  proof
    fix c assume "c \<in> set cs"
    then obtain j where "j < 40" "c = bytes ! (9 + j)"
      using assms by (auto simp: cs_def in_set_conv_nth)
    then show "is_policy_digit c" using f by simp
  qed
  ultimately obtain hash :: "u8 list" where hash: "length hash = 20" "cs = concat (map hex_byte hash)"
    using digits_are_hex by blast
  have "bytes = take 9 bytes @ cs @ drop 49 bytes"
    unfolding cs_def by (metis append.assoc append_take_drop_id take_add numeral_Bit0 numeral_Bit1
        add.commute drop_drop arith_special(3) take_drop numeral_plus_numeral add_num_simps)
  also have "drop 49 bytes = [QUOTE]"
    using assms f Cons_nth_drop_Suc [of 49 bytes] by simp
  finally have "bytes = requirement_text hash" using f hash(2) by (simp add: requirement_text_def)
  then show ?text using hash(1) by blast
next
  assume ?text
  then obtain hash where hash: "length hash = 20" "bytes = requirement_text hash" by blast
  define cs where "cs = concat (map hex_byte hash)"
  have cs: "length cs = 40" using hash(1) by (simp add: cs_def length_hex)
  have pre: "length cdhash_prefix = 9" by (simp add: cdhash_prefix_def)
  have b: "bytes = cdhash_prefix @ cs @ [QUOTE]" using hash(2) by (simp add: requirement_text_def cs_def)
  have "is_policy_digit (bytes ! i)" if "i \<in> {9..<49}" for i
  proof -
    have "i - 9 < 40" using that by auto
    then have "bytes ! i = cs ! (i - 9)" using that pre cs by (simp add: b nth_append)
    moreover have "cs ! (i - 9) \<in> set cs" using that cs by (intro nth_mem) auto
    ultimately show ?thesis using hex_byte_policy by (auto simp: cs_def)
  qed
  then show ?format using pre cs by (simp add: b nth_append)
qed

lemma read_policy_iff:
  "ReadPolicy owner (Some f) = Some r \<longleftrightarrow>
     stat_ok f \<and> is_regular f \<and> st_uid f = owner \<and> and (st_mode f) 0x12 = 0 \<and> st_size f = 50 \<and>
     contents f = Some r \<and> (\<exists>hash. length hash = 20 \<and> r = requirement_text hash)"
proof (cases "stat_ok f \<and> is_regular f \<and> st_uid f = owner \<and> and (st_mode f) 0x12 = 0 \<and>
    st_size f = 50 \<and> (\<exists>bytes. contents f = Some bytes \<and> length bytes = 50)")
  case True
  then obtain bytes where f: "contents f = Some bytes" "length bytes = 50" by blast
  have pre: "has_prefix (bytes @ replicate 206 NUL) \<longleftrightarrow> take 9 bytes = cdhash_prefix"
    using f(2) by (simp add: has_prefix_def)
  have nth: "(bytes @ replicate 206 NUL) ! i = bytes ! i" if "i < 50" for i
    using that f(2) by (simp add: nth_append)
  have digits: "(\<exists>i\<in>{9..<49}. \<not> is_policy_digit ((bytes @ replicate 206 NUL) ! i)) \<longleftrightarrow>
      \<not> (\<forall>i\<in>{9..<49}. is_policy_digit (bytes ! i))"
    using nth by auto
  have string: "c_string (bytes @ replicate 206 NUL) = bytes" if "bytes = requirement_text hash" for hash
    using c_string_append_NUL [OF requirement_text_no_NUL, of hash "replicate 205 NUL"] that
    by (simp add: numeral_eq_Suc)
  have "ReadPolicy owner (Some f) = (if take 9 bytes = cdhash_prefix \<and> bytes ! 49 = QUOTE \<and>
      (\<forall>i \<in> {9..<49}. is_policy_digit (bytes ! i)) then Some (c_string (bytes @ replicate 206 NUL)) else None)"
    using True f by (simp add: ReadPolicy_def Let_def pre digits nth)
  then have "ReadPolicy owner (Some f) = (if \<exists>hash. length hash = 20 \<and> bytes = requirement_text hash
      then Some (c_string (bytes @ replicate 206 NUL)) else None)"
    by (simp only: policy_format [OF f(2)])
  then show ?thesis using True f string by auto
next
  case False
  then have "ReadPolicy owner (Some f) = None"
    by (auto simp: ReadPolicy_def Let_def split: option.split)
  then show ?thesis using False length_requirement_text by force
qed

section \<open>Properties\<close>

text \<open>
  The policy \<open>ReadPolicy\<close> accepts is, character for character, the requirement
  text of one 20-byte code hash, held by a regular file of the expected owner that neither its
  group nor others may write; so a policy pins exactly one build, and no other text passes.
\<close>
theorem policy_pins_one_build:
  "ReadPolicy owner (Some f) = Some r \<longleftrightarrow>
     stat_ok f \<and> is_regular f \<and> st_uid f = owner \<and> and (st_mode f) 0x12 = 0 \<and> st_size f = 50 \<and>
     contents f = Some r \<and> (\<exists>!hash. length hash = 20 \<and> r = requirement_text hash)"
proof -
  have "(\<exists>hash. length hash = 20 \<and> r = requirement_text hash) \<longleftrightarrow>
      (\<exists>!hash. length hash = 20 \<and> r = requirement_text hash)"
    using requirement_text_inj by metis
  then show ?thesis by (simp only: read_policy_iff)
qed

text \<open>
  What the signing tool writes for a code hash is what both readers take back: the
  broker reads the policy file it wrote, and the driver the value it put in its property list,
  as the same requirement text of that hash.
\<close>
theorem requirement_round_trip:
  assumes "length hash = 20" and "and mode 0x12 = 0"
  shows "\<exists>r. requirement_of (Some hash) = Some r \<and>
     ReadPolicy owner (Some \<lparr>stat_ok = True, is_regular = True, st_uid = owner, st_mode = mode,
       st_size = int (length (policy_bytes r)), contents = Some (policy_bytes r)\<rparr>) =
       Some (requirement_text hash) \<and>
     SVCCopyBrokerRequirement (Some (c_string r)) = Some (requirement_text hash)"
proof (intro exI conjI)
  define t where "t = requirement_text hash"
  have len: "length t = 50" using assms(1) by (simp add: t_def length_requirement_text)
  have NUL: "NUL \<notin> set t" by (simp add: t_def requirement_text_no_NUL)
  have string: "c_string (t @ [NUL]) = t" using c_string_append_NUL [OF NUL, of "[]"] by simp
  show "requirement_of (Some hash) = Some (t @ [NUL])"
    using requirement_of_text [OF assms(1)] by (simp add: t_def)
  show "ReadPolicy owner (Some \<lparr>stat_ok = True, is_regular = True, st_uid = owner, st_mode = mode,
       st_size = int (length (policy_bytes (t @ [NUL]))), contents = Some (policy_bytes (t @ [NUL]))\<rparr>) =
       Some (requirement_text hash)"
    using assms len by (auto simp: read_policy_iff policy_bytes_def t_def)
  have "has_prefix (t @ [NUL])" by (simp add: has_prefix_def t_def requirement_text_def cdhash_prefix_def)
  then have "SVCCopyBrokerRequirement (Some (c_string (t @ [NUL]))) = Some t"
    using len by (simp add: SVCCopyBrokerRequirement_def string)
  then show "SVCCopyBrokerRequirement (Some (c_string (t @ [NUL]))) = Some (requirement_text hash)"
    by (simp only: t_def)
qed

lemma requirement_round_trip_witness:
  "\<exists>r. requirement_of (Some (replicate 20 0xA7)) = Some r \<and>
     ReadPolicy 0 (Some \<lparr>stat_ok = True, is_regular = True, st_uid = 0, st_mode = 0x81A4,
       st_size = int (length (policy_bytes r)), contents = Some (policy_bytes r)\<rparr>) =
       Some (requirement_text (replicate 20 0xA7)) \<and>
     SVCCopyBrokerRequirement (Some (c_string r)) = Some (requirement_text (replicate 20 0xA7))"
  by (rule requirement_round_trip) simp_all

end
