(* ===== verification/Build_Pinning.thy ===== *)
theory Build_Pinning
  imports Signing_Policy Driver_IO
begin

text \<open>
  How a build is pinned, from the signing tool to the processes that check it: the whole of
  \<open>tools/signing-policy.c\<close>, the start-up in \<open>main\<close> of \<open>broker/main.c\<close>, and \<open>InitializeSharedAudio\<close> of
  \<open>driver/SoundVolumeControl.c\<close>.
\<close>

section \<open>The signing tool\<close>

text \<open>
  What the tool gets from the system: the code hash, if the executable has a valid signature; whether
  the destination can be opened for writing, how many bytes of a text \<open>fwrite\<close> takes and whether
  \<open>fclose\<close> succeeds; and CoreFoundation's property lists, as values of type \<open>'p\<close>.
\<close>

record 'p build_system =
  code_hash :: "u8 list option"
  can_open :: bool
  bytes_taken :: "string \<Rightarrow> nat"
  closes :: bool
  parse_plist :: "string \<Rightarrow> 'p option"
  set_value :: "'p \<Rightarrow> string \<Rightarrow> string \<Rightarrow> 'p"
  write_xml :: "'p \<Rightarrow> string option"

text \<open>Opening truncates the destination; the exit status, and its contents, \<open>None\<close> for no file.\<close>

definition store_text :: "'p build_system \<Rightarrow> string \<Rightarrow> string option \<Rightarrow> int \<times> string option" where
  "store_text B content file =
     (if \<not> can_open B then (1, file)
      else let n = bytes_taken B content
           in (if n = length content \<and> closes B then 0 else 1, Some (take n content)))"

definition plist_key :: string where "plist_key = ''SVCBrokerRequirement''"

definition signing_main :: "'p build_system \<Rightarrow> string list \<Rightarrow> string option \<Rightarrow> int \<times> string option" where
  "signing_main B arguments file =
     (case arguments of
        [binary, destination, kind] \<Rightarrow>
          (case requirement_of (code_hash B) of
             None \<Rightarrow> (1, file)
           | Some requirement \<Rightarrow>
               if kind = ''plist'' then
                 (case file of
                    None \<Rightarrow> (1, file)
                  | Some input \<Rightarrow>
                      if 16384 \<le> length input then (1, file)
                      else (case parse_plist B input of
                              None \<Rightarrow> (1, file)
                            | Some plist \<Rightarrow>
                                (case write_xml B (set_value B plist plist_key (c_string requirement)) of
                                   None \<Rightarrow> (1, if can_open B then Some [] else file)
                                 | Some xml \<Rightarrow> store_text B xml file)))
               else if kind = ''policy'' then store_text B (policy_bytes requirement) file
               else (64, file))
      | _ \<Rightarrow> (64, file))"

section \<open>The broker's start\<close>

text \<open>\<open>common/SecureAudio.h\<close>, line 13.\<close>

definition SVC_DRIVER_REQUIREMENT :: string where
  "SVC_DRIVER_REQUIREMENT =
     ''anchor apple and (identifier '' @ [QUOTE] @ ''com.apple.audio.coreaudiod'' @ [QUOTE] @
     '' or identifier '' @ [QUOTE] @ ''com.apple.audio.Core-Audio-Driver-Service'' @ [QUOTE] @
     '' or identifier '' @ [QUOTE] @ ''com.apple.audio.Core-Audio-Driver-Service.helper'' @ [QUOTE] @
     '' or identifier '' @ [QUOTE] @ ''com.apple.audio.DriverHelper'' @ [QUOTE] @ '')''"

text \<open>The process ends with a status, or serves with the requirements its two listeners put on their peers.\<close>

datatype startup = Exited int | Serving string string

text \<open>
  \<open>listens\<close> is whether a listener can be made for the writer and for the reader, \<open>watches\<close> whether the
  changes of the console user can be observed.
\<close>

definition broker_main :: "int \<Rightarrow> u32 \<Rightarrow> policy_file option \<Rightarrow> (bool \<Rightarrow> bool) \<Rightarrow> bool \<Rightarrow> startup" where
  "broker_main argc euid policy listens watches =
     (if argc \<noteq> 1 \<or> euid \<noteq> 0 then Exited 64
      else (case ReadPolicy 0 policy of
              None \<Rightarrow> Exited 1
            | Some readerRequirement \<Rightarrow>
                if \<not> listens True \<or> \<not> listens False then Exited 1
                else if \<not> watches then Exited 1
                else Serving SVC_DRIVER_REQUIREMENT readerRequirement))"

section \<open>The driver's connection\<close>

text \<open>The value of the bundle's property list, and \<open>SVCWriterConnect\<close> for a requirement on the broker.\<close>

definition InitializeSharedAudio :: "string option \<Rightarrow> (string \<Rightarrow> bool) \<Rightarrow> OSStatus" where
  "InitializeSharedAudio bundle_value connect =
     (case SVCCopyBrokerRequirement bundle_value of
        None \<Rightarrow> kAudioHardwareUnspecifiedError
      | Some requirement \<Rightarrow>
          if \<not> connect requirement then kAudioHardwareUnspecifiedError else noErr)"

section \<open>The text between the parties\<close>

lemma requirement_text_c_string: "c_string (requirement_text hash @ [NUL]) = requirement_text hash"
  using c_string_append_NUL [OF requirement_text_no_NUL, of hash "[]"] by simp

lemma broker_copy_text:
  assumes "length hash = 20"
  shows "SVCCopyBrokerRequirement (Some (requirement_text hash)) = Some (requirement_text hash)"
proof -
  have "has_prefix (requirement_text hash @ [NUL])"
    by (simp add: has_prefix_def requirement_text_def cdhash_prefix_def)
  then show ?thesis
    using assms length_requirement_text [of hash] by (simp add: SVCCopyBrokerRequirement_def requirement_text_c_string)
qed

lemma stored: "store_text B content file = (0, file') \<Longrightarrow> file' = Some content"
  by (auto simp: store_text_def Let_def split: if_splits)

lemma signing_outcome:
  assumes "signing_main B [binary, destination, kind] file = (0, file')"
  obtains hash where "code_hash B = Some hash" "length hash = 20"
    "kind = ''policy'' \<and> file' = Some (requirement_text hash) \<or>
     kind = ''plist'' \<and> (\<exists>input plist xml. file = Some input \<and> parse_plist B input = Some plist \<and>
       write_xml B (set_value B plist plist_key (requirement_text hash)) = Some xml \<and> file' = Some xml)"
proof -
  obtain hash where hash: "code_hash B = Some hash" "length hash = 20"
    using assms by (auto simp: signing_main_def requirement_of_def split: option.splits if_splits)
  have len: "length (requirement_text hash) = 50" using hash(2) by (simp add: length_requirement_text)
  then have "policy_bytes (requirement_text hash @ [NUL]) = requirement_text hash" by (simp add: policy_bytes_def)
  then show thesis
    using assms that [OF hash] hash
    by (auto simp: signing_main_def requirement_of_text requirement_text_c_string
        split: option.splits if_splits dest!: stored)
qed

section \<open>Properties\<close>

text \<open>Property C34: the broker serves only pinned peers. It serves exactly when it was started without arguments
  as root, the policy is a regular file of root that neither its group nor others may write, its text is the
  requirement of one 20-byte code hash, character for character, and the listeners and the observation of the
  session could be set up; then the reader's listener demands exactly that build and the writer's demands Apple's
  audio services.\<close>

theorem broker_serves_one_build:
  "broker_main argc euid policy listens watches = Serving w r \<longleftrightarrow>
     argc = 1 \<and> euid = 0 \<and> listens True \<and> listens False \<and> watches \<and> w = SVC_DRIVER_REQUIREMENT \<and>
     (\<exists>f. policy = Some f \<and> stat_ok f \<and> is_regular f \<and> st_uid f = 0 \<and> and (st_mode f) 0x12 = 0 \<and>
        st_size f = 50 \<and> contents f = Some r) \<and>
     (\<exists>!hash. length hash = 20 \<and> r = requirement_text hash)"
proof -
  have unique: "(\<exists>hash. length hash = 20 \<and> r = requirement_text hash) \<longleftrightarrow>
      (\<exists>!hash. length hash = 20 \<and> r = requirement_text hash)"
    using requirement_text_inj by metis
  have "ReadPolicy 0 None = None" by (simp add: ReadPolicy_def)
  then have "ReadPolicy 0 policy = Some r \<longleftrightarrow>
      (\<exists>f. policy = Some f \<and> stat_ok f \<and> is_regular f \<and> st_uid f = 0 \<and> and (st_mode f) 0x12 = 0 \<and>
        st_size f = 50 \<and> contents f = Some r) \<and> (\<exists>!hash. length hash = 20 \<and> r = requirement_text hash)"
    unfolding unique [symmetric] by (cases policy) (auto simp: read_policy_iff)
  moreover have "broker_main argc euid policy listens watches = Serving w r \<longleftrightarrow>
      argc = 1 \<and> euid = 0 \<and> listens True \<and> listens False \<and> watches \<and> w = SVC_DRIVER_REQUIREMENT \<and>
      ReadPolicy 0 policy = Some r"
    by (auto simp: broker_main_def split: option.split)
  ultimately show ?thesis by simp
qed

text \<open>Property C35: what is signed is what is let in. If the signing tool succeeds, the executable had a valid
  20-byte code hash; the policy file it wrote, installed for root and protected, makes the broker demand exactly
  that hash of its readers; and the property list it wrote, as long as the bundle gives back the value stored
  in it, makes the driver connect with exactly that hash demanded of the broker.\<close>

theorem signed_build_is_let_in:
  assumes "signing_main B [binary, destination, kind] file = (0, file')"
    and "\<And>plist v xml. write_xml B (set_value B plist plist_key v) = Some xml \<Longrightarrow> bundle_value xml = Some v"
    and "and mode 0x12 = 0"
  shows "\<exists>hash. code_hash B = Some hash \<and> length hash = 20 \<and>
    (kind = ''policy'' \<longrightarrow>
       broker_main 1 0 (Some \<lparr>stat_ok = True, is_regular = True, st_uid = 0, st_mode = mode,
         st_size = int (length (the file')), contents = file'\<rparr>) (\<lambda>_. True) True =
       Serving SVC_DRIVER_REQUIREMENT (requirement_text hash)) \<and>
    (kind = ''plist'' \<longrightarrow>
       InitializeSharedAudio (bundle_value (the file')) connect =
         (if connect (requirement_text hash) then noErr else kAudioHardwareUnspecifiedError)) \<and>
    (kind = ''policy'' \<or> kind = ''plist'')"
proof -
  obtain hash where hash: "code_hash B = Some hash" "length hash = 20"
    and outcome: "kind = ''policy'' \<and> file' = Some (requirement_text hash) \<or>
     kind = ''plist'' \<and> (\<exists>input plist xml. file = Some input \<and> parse_plist B input = Some plist \<and>
       write_xml B (set_value B plist plist_key (requirement_text hash)) = Some xml \<and> file' = Some xml)"
    by (rule signing_outcome [OF assms(1)])
  have "ReadPolicy 0 (Some \<lparr>stat_ok = True, is_regular = True, st_uid = 0, st_mode = mode,
      st_size = int (length (requirement_text hash)), contents = Some (requirement_text hash)\<rparr>) =
      Some (requirement_text hash)"
    using hash(2) assms(3) by (auto simp: read_policy_iff length_requirement_text)
  then show ?thesis
    using hash outcome assms(2) broker_copy_text [OF hash(2)]
    by (auto simp: broker_main_def InitializeSharedAudio_def)
qed

text \<open>A system whose property lists hold only this value.\<close>

definition example_build :: "string build_system" where
  "example_build = \<lparr>code_hash = Some (replicate 20 0xA7), can_open = True, bytes_taken = length, closes = True,
     parse_plist = Some, set_value = (\<lambda>p k v. v), write_xml = Some\<rparr>"

theorem signed_build_is_let_in_witness:
  "\<exists>file'. signing_main example_build [''binary'', ''Info.plist'', ''plist''] (Some []) = (0, file') \<and>
    InitializeSharedAudio file' (\<lambda>r. r = requirement_text (replicate 20 0xA7)) = noErr"
proof -
  have run: "signing_main example_build [''binary'', ''Info.plist'', ''plist''] (Some []) =
      (0, Some (requirement_text (replicate 20 0xA7)))"
    by (simp add: signing_main_def example_build_def requirement_of_text requirement_text_c_string store_text_def)
  have law: "write_xml example_build (set_value example_build plist plist_key v) = Some xml \<Longrightarrow> Some xml = Some v"
    for plist v xml
    by (simp add: example_build_def)
  have mode: "and 0 (0x12 :: u32) = 0" by simp
  have hash: "code_hash example_build = Some (replicate 20 0xA7)" by (simp add: example_build_def)
  from signed_build_is_let_in [OF run law mode, where connect = "\<lambda>r. r = requirement_text (replicate 20 0xA7)"] hash
  show ?thesis using run by auto
qed

section \<open>A property list that cannot be written\<close>

text \<open>
  The destination is opened, and so emptied, before the tool looks at whether there is anything to write.
\<close>

lemma failed_output_empties_plist:
  assumes "code_hash B = Some hash" "length hash = 20" "length input < 16384" "parse_plist B input = Some plist"
    and "write_xml B (set_value B plist plist_key (requirement_text hash)) = None" "can_open B"
  shows "signing_main B [binary, destination, ''plist''] (Some input) = (1, Some [])"
  using assms by (simp add: signing_main_def requirement_of_text requirement_text_c_string)

end
