(* ===== verification/Secure_Memory.thy ===== *)
theory Secure_Memory
  imports Shared_Audio
begin

text \<open>
  \<open>common/SecureAudioMemory.c\<close>: the anonymous memory of a ring, the read-only capability that is
  made of it, and the reader's mapping of that capability. The kernel keeps memory objects,
  regions that show an object at an address, and port names that stand for a right to an object;
  what it answers to each call is a parameter, and what it does to this state is the documented
  effect of the call.
\<close>

section \<open>The state of the two tasks\<close>

text \<open>
  The protections the code names; execution plays no part. A region has its current protection and
  the maximum it can be raised to, a right the most a mapping of it may ask for. The addresses of the
  two tasks are numbered apart, and so are their ports.
\<close>

datatype access = Reading | Writing

definition VM_PROT_READ :: "access set" where "VM_PROT_READ = {Reading}"
definition VM_PROT_WRITE :: "access set" where "VM_PROT_WRITE = {Writing}"

record region =
  shown :: nat
  protection :: "access set"
  maximum_protection :: "access set"

record memory =
  objects :: "nat \<Rightarrow> SVCSharedAudio"
  regions :: "nat \<Rightarrow> region option"
  rights :: "nat \<Rightarrow> (nat \<times> access set) option"

section \<open>Sizes\<close>

text \<open>Sixteen bytes for each frame after a header of 64, as the static assertion demands.\<close>

definition sizeof_SVCSharedAudio :: u64 where
  "sizeof_SVCSharedAudio = 64 + 16 * of_nat kSVCSharedAudioCapacityFrames"

definition SVCAudioAllocationSize :: "u64 \<Rightarrow> u64" where
  "SVCAudioAllocationSize vm_page_size =
     (sizeof_SVCSharedAudio + vm_page_size - 1) div vm_page_size * vm_page_size"

section \<open>The calls\<close>

definition mach_vm_deallocate :: "nat \<Rightarrow> memory \<Rightarrow> memory" where
  "mach_vm_deallocate address m = m\<lparr>regions := (regions m)(address := None)\<rparr>"

text \<open>A new object, shown with every access at the address the call chooses.\<close>

definition mach_vm_allocate :: "nat \<Rightarrow> nat \<Rightarrow> memory \<Rightarrow> memory" where
  "mach_vm_allocate address object m = m\<lparr>regions := (regions m)(address \<mapsto>
     \<lparr>shown = object, protection = VM_PROT_READ \<union> VM_PROT_WRITE,
      maximum_protection = VM_PROT_READ \<union> VM_PROT_WRITE\<rparr>)\<rparr>"

text \<open>
  A mapping of the object behind a right, at \<open>mapped_at\<close> unless the call fails for reasons of its own.
  It fails for a name that is no right, and when it asks for more than the right permits.
\<close>

definition mach_vm_map ::
    "nat option \<Rightarrow> nat \<Rightarrow> access set \<Rightarrow> access set \<Rightarrow> memory \<Rightarrow> nat option \<times> memory" where
  "mach_vm_map mapped_at port current maximum m =
     (case (mapped_at, rights m port) of
        (Some address, Some (object, permitted)) \<Rightarrow>
          if current \<subseteq> permitted \<and> maximum \<subseteq> permitted then
            (Some address, m\<lparr>regions := (regions m)(address \<mapsto>
               \<lparr>shown = object, protection = current, maximum_protection = maximum\<rparr>)\<rparr>)
          else (None, m)
      | _ \<Rightarrow> (None, m))"

text \<open>A change of the protection of a region, which stays as it was when more than the maximum is asked for.\<close>

definition mach_vm_protect :: "nat \<Rightarrow> access set \<Rightarrow> memory \<Rightarrow> memory" where
  "mach_vm_protect address current m =
     (case regions m address of
        Some r \<Rightarrow>
          if current \<subseteq> maximum_protection r
          then m\<lparr>regions := (regions m)(address \<mapsto> r\<lparr>protection := current\<rparr>)\<rparr> else m
      | None \<Rightarrow> m)"

definition mach_port_deallocate :: "nat \<Rightarrow> memory \<Rightarrow> memory" where
  "mach_port_deallocate port m = m\<lparr>rights := (rights m)(port := None)\<rparr>"

definition SVCAudioDeallocate :: "nat option \<Rightarrow> memory \<Rightarrow> memory" where
  "SVCAudioDeallocate audio m =
     (case audio of None \<Rightarrow> m | Some address \<Rightarrow> mach_vm_deallocate address m)"

text \<open>
  The answers: the address and the new object of \<open>mach_vm_allocate\<close>, unless it fails; of
  \<open>mach_make_memory_entry_64\<close> whether it succeeds, the name it stores, if it stores one, and the
  length it stores.
\<close>

record entry_answer =
  entry_ok :: bool
  entry_name :: "nat option"
  entry_length :: u64

text \<open>Returns the ring, the value left in \<open>*readPort\<close> and the state.\<close>

definition SVCAudioAllocate ::
    "u64 \<Rightarrow> (nat \<times> nat) option \<Rightarrow> entry_answer \<Rightarrow> memory \<Rightarrow> nat option \<times> nat option \<times> memory" where
  "SVCAudioAllocate vm_page_size allocated entry m =
     (case allocated of
        None \<Rightarrow> (None, None, m)
      | Some (address, object) \<Rightarrow>
          let size = SVCAudioAllocationSize vm_page_size;
              m = mach_vm_allocate address object m;
              readPort = entry_name entry;
              m = (case readPort of None \<Rightarrow> m
                   | Some name \<Rightarrow> m\<lparr>rights := (rights m)(name \<mapsto> (object, VM_PROT_READ))\<rparr>)
          in if \<not> entry_ok entry \<or> entry_length entry \<noteq> size then
               let m = (case readPort of None \<Rightarrow> m | Some name \<Rightarrow> mach_port_deallocate name m)
               in (None, readPort, mach_vm_deallocate address m)
             else (Some address, readPort,
               m\<lparr>objects := (objects m)(object := SVCSharedAudioInitialize (objects m object) 48000)\<rparr>))"

text \<open>The ring a pointer shows, in a given state.\<close>

definition ring_at :: "memory \<Rightarrow> nat option \<Rightarrow> SVCSharedAudio option" where
  "ring_at m audio =
     (case audio of None \<Rightarrow> None
      | Some address \<Rightarrow> map_option (\<lambda>r. objects m (shown r)) (regions m address))"

text \<open>Storing a ring through a pointer; \<open>None\<close> is the fault of a store the protection forbids.\<close>

definition store_at :: "memory \<Rightarrow> nat option \<Rightarrow> SVCSharedAudio \<Rightarrow> memory option" where
  "store_at m audio a =
     (case audio of None \<Rightarrow> None
      | Some address \<Rightarrow>
          (case regions m address of
             None \<Rightarrow> None
           | Some r \<Rightarrow>
               if Writing \<in> protection r then Some (m\<lparr>objects := (objects m)(shown r := a)\<rparr>) else None))"

text \<open>\<open>mapped_at\<close> is the address \<open>mach_vm_map\<close> chooses, unless it fails.\<close>

definition SVCAudioMapReadPort :: "nat option \<Rightarrow> nat \<Rightarrow> memory \<Rightarrow> nat option \<times> memory" where
  "SVCAudioMapReadPort mapped_at port m =
     (case mach_vm_map mapped_at port VM_PROT_READ VM_PROT_READ m of
        (None, m) \<Rightarrow> (None, m)
      | (audio, m) \<Rightarrow>
          if \<not> SVCSharedAudioIsValid (ring_at m audio) then (None, SVCAudioDeallocate audio m)
          else (audio, m))"

section \<open>What the holder of a right can do\<close>

text \<open>Any calls on a right and on the holder's own addresses, with any protections.\<close>

datatype holder_request =
    MapRight "nat option" nat "access set" "access set"
  | Protect nat "access set"
  | Unmap nat

fun holder_call :: "holder_request \<Rightarrow> memory \<Rightarrow> memory" where
  "holder_call (MapRight mapped_at port current maximum) m = snd (mach_vm_map mapped_at port current maximum m)"
| "holder_call (Protect address current) m = mach_vm_protect address current m"
| "holder_call (Unmap address) m = mach_vm_deallocate address m"

fun own_address :: "holder_request \<Rightarrow> nat option" where
  "own_address (MapRight mapped_at port current maximum) = mapped_at"
| "own_address (Protect address current) = Some address"
| "own_address (Unmap address) = Some address"

text \<open>
  Nobody but the region at \<open>address\<close> can write the object: no other region shows it with writing in its
  protection or its maximum, and no right to it permits writing.
\<close>

definition read_only_beside :: "nat \<Rightarrow> nat \<Rightarrow> memory \<Rightarrow> bool" where
  "read_only_beside address object m \<longleftrightarrow>
     (\<forall>b r. b \<noteq> address \<and> regions m b = Some r \<and> shown r = object \<longrightarrow>
        Writing \<notin> protection r \<and> Writing \<notin> maximum_protection r) \<and>
     (\<forall>port permitted. rights m port = Some (object, permitted) \<longrightarrow> Writing \<notin> permitted)"

text \<open>An object no region shows and no right stands for, as that of a new allocation is.\<close>

definition new_object :: "nat \<Rightarrow> memory \<Rightarrow> bool" where
  "new_object object m \<longleftrightarrow>
     (\<forall>b r. regions m b = Some r \<longrightarrow> shown r \<noteq> object) \<and>
     (\<forall>port permitted. rights m port \<noteq> Some (object, permitted))"

lemma map_keeps_read_only:
  assumes "read_only_beside address object m"
  shows "read_only_beside address object (snd (mach_vm_map mapped_at port current maximum m))"
proof (cases "mapped_at = None \<or> rights m port = None")
  case True
  then show ?thesis using assms by (auto simp: mach_vm_map_def split: option.splits)
next
  case False
  then obtain b ob permitted where "mapped_at = Some b" "rights m port = Some (ob, permitted)" by auto
  moreover have "ob = object \<Longrightarrow> Writing \<notin> permitted"
    using assms calculation(2) by (auto simp: read_only_beside_def)
  ultimately show ?thesis using assms by (auto simp: mach_vm_map_def read_only_beside_def)
qed

lemma protect_keeps_read_only:
  "read_only_beside address object m \<Longrightarrow> read_only_beside address object (mach_vm_protect b current m)"
  by (auto simp: mach_vm_protect_def read_only_beside_def split: option.splits)

lemma unmap_keeps_read_only:
  "read_only_beside address object m \<Longrightarrow> read_only_beside address object (mach_vm_deallocate b m)"
  by (auto simp: mach_vm_deallocate_def read_only_beside_def)

lemma calls_keep_read_only:
  "read_only_beside address object m \<Longrightarrow> read_only_beside address object (fold holder_call calls m)"
proof (induction calls arbitrary: m)
  case (Cons c calls)
  then show ?case
    by (cases c) (simp_all add: map_keeps_read_only protect_keeps_read_only unmap_keeps_read_only)
qed simp

lemma calls_keep_region:
  "\<forall>c \<in> set calls. own_address c \<noteq> Some address \<Longrightarrow> regions (fold holder_call calls m) address = regions m address"
proof (induction calls arbitrary: m)
  case (Cons c calls)
  then have "regions (holder_call c m) address = regions m address"
    by (cases c) (auto simp: mach_vm_map_def mach_vm_protect_def mach_vm_deallocate_def split: option.splits prod.splits)
  with Cons show ?case by simp
qed simp

lemma read_only_store:
  assumes "read_only_beside address object m" "b \<noteq> address" "store_at m (Some b) a = Some m'"
  shows "objects m' object = objects m object"
  using assms by (auto simp: read_only_beside_def store_at_def split: option.splits if_splits)

section \<open>Properties\<close>

text \<open>
  The allocation holds a whole ring, in whole pages, and wastes less than one page, for
  every page size a machine can have.
\<close>
theorem allocation_size_fits:
  assumes "0 < page" "unat page < 2 ^ 63"
  shows "unat sizeof_SVCSharedAudio \<le> unat (SVCAudioAllocationSize page) \<and>
    unat (SVCAudioAllocationSize page) < unat sizeof_SVCSharedAudio + unat page \<and>
    unat page dvd unat (SVCAudioAllocationSize page)"
proof -
  define p where "p = unat page"
  have p: "0 < p" "p < 2 ^ 63" using assms by (simp_all add: p_def word_less_nat_alt)
  have s: "unat sizeof_SVCSharedAudio = 524352"
    by (simp add: sizeof_SVCSharedAudio_def kSVCSharedAudioCapacityFrames_def)
  have sp: "unat (sizeof_SVCSharedAudio + page) = 524352 + p"
    using p s by (subst unat_plus_no_wrap) (simp_all add: p_def)
  have up: "unat (sizeof_SVCSharedAudio + page - 1) = 524351 + p"
    using sp by (subst unat_minus_le) (simp_all add: word_le_nat_alt)
  define q where "q = (524351 + p) div p"
  have q: "q * p \<le> 524351 + p" "524351 + p < (q + 1) * p"
    using p by (simp_all add: q_def) (metis dividend_less_div_times add.commute mult.commute mult_Suc)
  have d: "unat ((sizeof_SVCSharedAudio + page - 1) div page) = q"
    using up by (simp add: unat_div p_def q_def)
  have "unat (SVCAudioAllocationSize page) = q * p"
    using q(1) p d unfolding SVCAudioAllocationSize_def
    by (simp add: unat_word_ariths p_def [symmetric])
  then show ?thesis using q s by (simp add: p_def [symmetric])
qed

text \<open>The two outcomes of an allocation.\<close>

definition fresh_answers :: "(nat \<times> nat) option \<Rightarrow> entry_answer \<Rightarrow> memory \<Rightarrow> bool" where
  "fresh_answers allocated entry m \<longleftrightarrow>
     (\<forall>address object. allocated = Some (address, object) \<longrightarrow> regions m address = None) \<and>
     (\<forall>name. entry_name entry = Some name \<longrightarrow> rights m name = None)"

definition entry_good :: "u64 \<Rightarrow> entry_answer \<Rightarrow> bool" where
  "entry_good page entry \<longleftrightarrow> entry_ok entry \<and> entry_length entry = SVCAudioAllocationSize page"

lemma allocate_fails:
  assumes "fresh_answers allocated entry m" "allocated = None \<or> \<not> entry_good page entry"
  shows "\<exists>name. SVCAudioAllocate page allocated entry m = (None, name, m)"
proof (cases allocated)
  case (Some a)
  obtain address object where a: "a = (address, object)" by (cases a)
  have old: "regions m address = None" "\<And>name. entry_name entry = Some name \<Longrightarrow> rights m name = None"
    using assms(1) Some a by (auto simp: fresh_answers_def)
  have undo: "f(x := None) = f" if "f x = None" for f :: "nat \<Rightarrow> 'b option" and x
    using that by auto
  show ?thesis using Some a assms(2) old
    by (cases "entry_name entry")
      (auto simp: SVCAudioAllocate_def entry_good_def Let_def mach_vm_deallocate_def
        mach_vm_allocate_def mach_port_deallocate_def undo)
qed (simp add: SVCAudioAllocate_def)

lemma allocate_succeeds:
  assumes "entry_good page entry" "entry_name entry = Some name"
  shows "SVCAudioAllocate page (Some (address, object)) entry m =
    (Some address, Some name,
     m\<lparr>regions := (regions m)(address \<mapsto> \<lparr>shown = object, protection = {Reading, Writing},
         maximum_protection = {Reading, Writing}\<rparr>),
       rights := (rights m)(name \<mapsto> (object, {Reading})),
       objects := (objects m)(object := SVCSharedAudioInitialize (objects m object) 48000)\<rparr>)"
  using assms
  by (simp add: SVCAudioAllocate_def entry_good_def Let_def mach_vm_allocate_def VM_PROT_READ_def VM_PROT_WRITE_def
      insert_commute)

text \<open>
  An allocation that fails at any call leaves the task as it was: no region, no right
  and no object changed.
\<close>
theorem failed_allocation_leaves_nothing:
  assumes "fresh_answers allocated entry m"
    and "fst (SVCAudioAllocate page allocated entry m) = None"
  shows "snd (snd (SVCAudioAllocate page allocated entry m)) = m"
proof -
  have "allocated = None \<or> \<not> entry_good page entry"
    using assms(2) by (auto simp: SVCAudioAllocate_def entry_good_def Let_def)
  from allocate_fails [OF assms(1) this] show ?thesis by auto
qed

text \<open>
  The name in \<open>*readPort\<close> after a failure can be one that was already given back: the caller
  cannot tell it from a right of its own.
\<close>

lemma failed_allocation_keeps_stale_name:
  assumes "entry_name entry = Some name" "entry_length entry \<noteq> SVCAudioAllocationSize page"
  shows "fst (snd (SVCAudioAllocate page (Some (address, object)) entry m)) = Some name \<and>
    rights (snd (snd (SVCAudioAllocate page (Some (address, object)) entry m))) name = None"
  using assms
  by (simp add: SVCAudioAllocate_def Let_def mach_vm_allocate_def mach_vm_deallocate_def mach_port_deallocate_def)

lemma allocated_read_only:
  assumes "entry_good page entry" "entry_name entry = Some name" "new_object object m"
  shows "read_only_beside address object (snd (snd (SVCAudioAllocate page (Some (address, object)) entry m)))"
  using assms(3) unfolding allocate_succeeds [OF assms(1,2)]
  by (auto simp: read_only_beside_def new_object_def)

text \<open>
  Property C39. The capability of a new ring lets its holder see the writer's ring and nothing else. What the
  reader maps of it is a valid ring that shows whatever the writer stores into its own; and whatever mappings and
  changes of protection the holder then asks for, on the capability or on its own addresses, the writer can
  still store and no store through an address of the holder changes the ring.
\<close>
theorem capability_shares_ring_read_only:
  assumes "entry_good page entry" "entry_name entry = Some name" "address \<noteq> address'" "new_object object m"
    and "(result, port, m1) = SVCAudioAllocate page (Some (address, object)) entry m"
    and "(result', m2) = SVCAudioMapReadPort (Some address') name m1"
    and "m3 = fold holder_call calls m2" "\<forall>c \<in> set calls. own_address c \<noteq> Some address"
  shows "result = Some address \<and> port = Some name \<and> result' = Some address' \<and>
    SVCSharedAudioIsValid (ring_at m2 result') \<and>
    (\<exists>m'. store_at m2 result a = Some m' \<and> ring_at m' result' = Some a) \<and>
    (\<exists>m'. store_at m3 result a = Some m' \<and> ring_at m' result = Some a) \<and>
    (\<forall>b m'. b \<noteq> address \<and> store_at m3 (Some b) a = Some m' \<longrightarrow> ring_at m' result = ring_at m3 result)"
proof -
  let ?own = "\<lparr>shown = object, protection = {Reading, Writing}, maximum_protection = {Reading, Writing}\<rparr>"
  have one: "result = Some address" "port = Some name"
    "m1 = m\<lparr>regions := (regions m)(address \<mapsto> ?own), rights := (rights m)(name \<mapsto> (object, {Reading})),
       objects := (objects m)(object := SVCSharedAudioInitialize (objects m object) 48000)\<rparr>"
    using assms(5) allocate_succeeds [OF assms(1,2)] by simp_all
  have m1: "read_only_beside address object m1"
    using allocated_read_only [OF assms(1,2,4), of address] assms(5) by (metis snd_conv)
  have valid: "SVCSharedAudioIsValid (Some (SVCSharedAudioInitialize (objects m object) 48000))"
    by (rule initialized_valid) simp
  have map: "mach_vm_map (Some address') name VM_PROT_READ VM_PROT_READ m1 =
      (Some address', m1\<lparr>regions := (regions m1)(address' \<mapsto> \<lparr>shown = object, protection = VM_PROT_READ,
        maximum_protection = VM_PROT_READ\<rparr>)\<rparr>)"
    by (simp add: mach_vm_map_def one(3) VM_PROT_READ_def)
  with assms(6) valid one(3) have two: "result' = Some address'"
    "(Some address', m2) = mach_vm_map (Some address') name VM_PROT_READ VM_PROT_READ m1"
    "m2 = m1\<lparr>regions := (regions m1)(address' \<mapsto> \<lparr>shown = object, protection = VM_PROT_READ,
        maximum_protection = VM_PROT_READ\<rparr>)\<rparr>"
    by (simp_all add: SVCAudioMapReadPort_def ring_at_def)
  have "read_only_beside address object m2"
    using map_keeps_read_only [OF m1, of "Some address'" name VM_PROT_READ VM_PROT_READ]
    unfolding two(2) [symmetric] by simp
  then have m3: "read_only_beside address object m3" "regions m3 address = Some ?own"
    using calls_keep_read_only calls_keep_region [OF assms(8), of m2] two(3) one(3) assms(3,7) by simp_all
  have "ring_at m' result = ring_at m3 result" if "b \<noteq> address" "store_at m3 (Some b) a = Some m'" for b m'
    using read_only_store [OF m3(1) that] that(2) m3(2) one(1)
    by (auto simp: ring_at_def store_at_def split: option.splits if_splits)
  moreover have "\<exists>m'. store_at m2 result a = Some m' \<and> ring_at m' result' = Some a"
    "SVCSharedAudioIsValid (ring_at m2 result')"
    using one two valid assms(3) by (simp_all add: ring_at_def store_at_def)
  moreover have "\<exists>m'. store_at m3 result a = Some m' \<and> ring_at m' result = Some a"
    using m3(2) one(1) by (simp add: ring_at_def store_at_def)
  ultimately show ?thesis using one(1,2) two(1) by blast
qed

definition blank_ring :: SVCSharedAudio where
  "blank_ring = \<lparr>magic = 0, version = 0, channelCount = 0, capacityFrames = 0, sampleRate = 0,
     processOutputCount = 0, writeFrame = 0, streamStartFrame = 0, streamEpoch = 0, writerActive = 0,
     writeMixCount = 0, reserved1 = (0, 0), frames = (\<lambda>_. zero_frame)\<rparr>"

definition empty_memory :: memory where
  "empty_memory = \<lparr>objects = (\<lambda>_. blank_ring), regions = (\<lambda>_. None),
     rights = (\<lambda>_. None)\<rparr>"

definition good_entry :: entry_answer where
  "good_entry = \<lparr>entry_ok = True, entry_name = Some 3, entry_length = SVCAudioAllocationSize 16384\<rparr>"

lemma allocation_size_fits_witness: "unat (SVCAudioAllocationSize 16384) = 540672"
  using allocation_size_fits [of 16384]
  by (simp add: SVCAudioAllocationSize_def sizeof_SVCSharedAudio_def kSVCSharedAudioCapacityFrames_def)

lemma failed_allocation_leaves_nothing_witness:
  "snd (snd (SVCAudioAllocate 16384 (Some (1, 2)) (good_entry\<lparr>entry_ok := False\<rparr>) empty_memory)) = empty_memory"
  by (rule failed_allocation_leaves_nothing)
    (simp_all add: fresh_answers_def empty_memory_def SVCAudioAllocate_def good_entry_def Let_def)

text \<open>A holder that maps the capability again and asks for writing, both ways.\<close>

lemma capability_shares_ring_read_only_witness:
  "let (result, port, m1) = SVCAudioAllocate 16384 (Some (1, 2)) good_entry empty_memory;
       (result', m2) = SVCAudioMapReadPort (Some 9) 3 m1;
       m3 = fold holder_call [MapRight (Some 10) 3 {Reading, Writing} {Reading, Writing}, Protect 9 {Reading, Writing}] m2
   in result' = Some 9 \<and> SVCSharedAudioIsValid (ring_at m2 result') \<and>
     (\<forall>b m'. b \<noteq> 1 \<and> store_at m3 (Some b) blank_ring = Some m' \<longrightarrow> ring_at m' result = ring_at m3 result)"
proof -
  obtain result port m1 where one: "SVCAudioAllocate 16384 (Some (1, 2)) good_entry empty_memory = (result, port, m1)"
    by (cases "SVCAudioAllocate 16384 (Some (1, 2)) good_entry empty_memory")
  obtain result' m2 where two: "SVCAudioMapReadPort (Some 9) 3 m1 = (result', m2)"
    by (cases "SVCAudioMapReadPort (Some 9) 3 m1")
  have good: "entry_good 16384 good_entry" "entry_name good_entry = Some 3" "(1::nat) \<noteq> 9" "new_object 2 empty_memory"
    by (simp_all add: entry_good_def good_entry_def new_object_def empty_memory_def)
  let ?calls = "[MapRight (Some 10) 3 {Reading, Writing} {Reading, Writing}, Protect 9 {Reading, Writing}]"
  have "\<forall>c \<in> set ?calls. own_address c \<noteq> Some 1" by simp
  from capability_shares_ring_read_only [OF good one [symmetric] two [symmetric] refl this, of blank_ring]
  show ?thesis unfolding one two Let_def prod.case by blast
qed

end
