(* ===== verification/Broker.thy ===== *)
theory Broker
  imports SVC_Prelude
begin

text \<open>
  \<open>broker/main.c\<close>: the daemon that pairs one writer (the driver) with one reader (the
  forwarder of the user at the console) and hands the reader a read capability of a fresh ring.
  All handlers run on one serial queue, so one handler is one step. The connections, the
  capabilities and the reply objects are identified by numbers; what the broker sends is recorded
  in the order of the calls. The effective user of a connection and the answer of \<open>ConsoleUID\<close>
  come from the system and are parameters.
\<close>

section \<open>State\<close>

type_synonym peer = nat
type_synonym port = nat
type_synonym request = nat

datatype action =
    SendRotate peer u64 bool
  | SendGrant peer request port
  | SendError peer request int
  | CancelPeer peer

record broker =
  writer_peer :: "peer option"
  reader_peer :: "peer option"
  pendingGrant :: "request option"
  generation :: u64
  opened :: bool
  sent :: "action list"
  handlers :: "peer \<Rightarrow> bool option"

text \<open>
  The field \<open>handlers\<close> holds the closure variable \<open>isWriter\<close> of the event handler set for a
  peer, if one was set.
\<close>

definition broker_start :: broker where
  "broker_start = \<lparr>writer_peer = None, reader_peer = None, pendingGrant = None, generation = 0,
     opened = False, sent = [], handlers = (\<lambda>_. None)\<rparr>"

definition send :: "action \<Rightarrow> broker \<Rightarrow> broker" where
  "send a b = b\<lparr>sent := sent b @ [a]\<rparr>"

section \<open>The operations\<close>

definition Rotate :: "bool \<Rightarrow> broker \<Rightarrow> broker" where
  "Rotate enabled b =
     (let b = b\<lparr>generation := generation b + 1\<rparr> in
      case writer_peer b of
        None \<Rightarrow> b
      | Some w \<Rightarrow> send (SendRotate w (generation b) enabled) b)"

definition DropReader :: "broker \<Rightarrow> broker" where
  "DropReader b =
     (let b = b\<lparr>pendingGrant := None\<rparr>;
          b = (case reader_peer b of
                 None \<Rightarrow> b
               | Some r \<Rightarrow> (send (CancelPeer r) b)\<lparr>reader_peer := None\<rparr>)
      in Rotate False (b\<lparr>opened := False\<rparr>))"

definition SessionChanged :: "broker \<Rightarrow> broker" where
  "SessionChanged b = DropReader b"

text \<open>
  The messages of a peer. A dictionary carries the string \<open>op\<close> if it has one, the generation
  (zero when there is none), the capability \<open>memory\<close> if there is one, and the reply object that
  \<open>xpc_dictionary_create_reply\<close> makes of it, if it does.
\<close>

datatype event =
    ErrorEvent
  | OtherEvent
  | Dictionary "string option" u64 "port option" "request option"

definition HandleHello :: "peer \<Rightarrow> broker \<Rightarrow> broker" where
  "HandleHello peer b =
     (if writer_peer b \<noteq> None \<and> writer_peer b \<noteq> Some peer then send (CancelPeer peer) b
      else let b = (if writer_peer b = None then b\<lparr>writer_peer := Some peer\<rparr> else b)
           in Rotate (reader_peer b \<noteq> None \<and> opened b) b)"

definition HandlePublish ::
    "(peer \<Rightarrow> u32) \<Rightarrow> u32 \<Rightarrow> u64 \<Rightarrow> port option \<Rightarrow> broker \<Rightarrow> broker" where
  "HandlePublish euid ConsoleUID g memory b =
     (case (reader_peer b, pendingGrant b) of
        (Some r, Some grant) \<Rightarrow>
          if \<not> opened b \<or> g \<noteq> generation b then b
          else if euid r \<noteq> ConsoleUID then DropReader b
          else (case memory of
                  None \<Rightarrow> DropReader b
                | Some port \<Rightarrow> send (SendGrant r grant port) (b\<lparr>pendingGrant := None\<rparr>))
      | _ \<Rightarrow> b)"

definition HandleOpen ::
    "(peer \<Rightarrow> u32) \<Rightarrow> u32 \<Rightarrow> peer \<Rightarrow> request option \<Rightarrow> broker \<Rightarrow> broker" where
  "HandleOpen euid ConsoleUID peer reply b =
     (case reply of
        None \<Rightarrow> send (CancelPeer peer) b
      | Some reply \<Rightarrow>
          let uid = euid peer in
          if uid = 0 \<or> uid = - 1 \<or> uid \<noteq> ConsoleUID \<or> reader_peer b \<noteq> None then
            send (SendError peer reply
              (if uid \<noteq> 0 \<and> uid = ConsoleUID \<and> reader_peer b \<noteq> None then EBUSY else EACCES)) b
          else Rotate True
            (b\<lparr>pendingGrant := Some reply, reader_peer := Some peer, opened := True\<rparr>))"

definition HandleError :: "peer \<Rightarrow> broker \<Rightarrow> broker" where
  "HandleError peer b =
     (let b = (if reader_peer b = Some peer then DropReader b else b)
      in if writer_peer b = Some peer then DropReader (b\<lparr>writer_peer := None\<rparr>) else b)"

definition HandleEvent ::
    "(peer \<Rightarrow> u32) \<Rightarrow> u32 \<Rightarrow> bool \<Rightarrow> peer \<Rightarrow> event \<Rightarrow> broker \<Rightarrow> broker" where
  "HandleEvent euid ConsoleUID isWriter peer event b =
     (case event of
        ErrorEvent \<Rightarrow> HandleError peer b
      | OtherEvent \<Rightarrow> send (CancelPeer peer) b
      | Dictionary None _ _ _ \<Rightarrow> send (CancelPeer peer) b
      | Dictionary (Some operation) g memory reply \<Rightarrow>
          if isWriter \<and> operation = ''hello'' then HandleHello peer b
          else if isWriter \<and> writer_peer b = Some peer \<and> operation = ''publish'' then
            HandlePublish euid ConsoleUID g memory b
          else if \<not> isWriter \<and> operation = ''open'' then
            HandleOpen euid ConsoleUID peer reply b
          else send (CancelPeer peer) b)"

text \<open>
  A listener gets a peer: the handler is set when the code-signing requirement could be, and
  the peer is cancelled otherwise.
\<close>

definition Accept :: "bool \<Rightarrow> bool \<Rightarrow> peer \<Rightarrow> broker \<Rightarrow> broker" where
  "Accept isWriter requirement_set peer b =
     (if requirement_set then b\<lparr>handlers := (handlers b)(peer \<mapsto> isWriter)\<rparr>
      else send (CancelPeer peer) b)"

section \<open>Runs\<close>

datatype input =
    Arrive bool bool peer
  | Deliver peer event u32
  | ConsoleChange

text \<open>One call of a handler; \<open>Deliver\<close> carries what \<open>ConsoleUID\<close> answers during it.\<close>

definition broker_step :: "(peer \<Rightarrow> u32) \<Rightarrow> input \<Rightarrow> broker \<Rightarrow> broker" where
  "broker_step euid i b =
     (case i of
        Arrive isWriter requirement_set peer \<Rightarrow> Accept isWriter requirement_set peer b
      | Deliver peer event uid \<Rightarrow>
          (case handlers b peer of
             None \<Rightarrow> b
           | Some isWriter \<Rightarrow> HandleEvent euid uid isWriter peer event b)
      | ConsoleChange \<Rightarrow> SessionChanged b)"

text \<open>
  A connection that arrives is a new object: the two connections the broker retains keep their
  identity. Reply objects are new as well.
\<close>

fun made_reply :: "input \<Rightarrow> request option" where
  "made_reply (Deliver _ (Dictionary _ _ _ reply) _) = reply"
| "made_reply _ = None"

definition fresh_input :: "request set \<Rightarrow> broker \<Rightarrow> input \<Rightarrow> bool" where
  "fresh_input used b i =
     (case i of
        Arrive _ _ peer \<Rightarrow> writer_peer b \<noteq> Some peer \<and> reader_peer b \<noteq> Some peer
      | _ \<Rightarrow> (case made_reply i of None \<Rightarrow> True | Some r \<Rightarrow> r \<notin> used))"

inductive broker_run :: "(peer \<Rightarrow> u32) \<Rightarrow> input list \<Rightarrow> broker \<Rightarrow> bool" for euid where
  run_start: "broker_run euid [] broker_start"
| run_step: "\<lbrakk>broker_run euid ins b; fresh_input (set (List.map_filter made_reply ins)) b i\<rbrakk> \<Longrightarrow>
    broker_run euid (ins @ [i]) (broker_step euid i b)"

inductive_cases broker_run_snocE: "broker_run euid (ins @ [i]) b"

lemmas broker_defs = Rotate_def DropReader_def SessionChanged_def HandleHello_def
  HandlePublish_def HandleOpen_def HandleError_def HandleEvent_def Accept_def send_def Let_def

section \<open>The invariant\<close>

definition broker_inv :: "(peer \<Rightarrow> u32) \<Rightarrow> broker \<Rightarrow> bool" where
  "broker_inv euid b \<longleftrightarrow>
     (opened b \<longleftrightarrow> reader_peer b \<noteq> None) \<and>
     (pendingGrant b \<noteq> None \<longrightarrow> reader_peer b \<noteq> None) \<and>
     (\<forall>r. reader_peer b = Some r \<longrightarrow> handlers b r = Some False \<and> euid r \<noteq> 0 \<and> euid r \<noteq> - 1) \<and>
     (\<forall>w. writer_peer b = Some w \<longrightarrow> handlers b w = Some True)"

lemma Rotate_fields [simp]:
  "writer_peer (Rotate e b) = writer_peer b" "reader_peer (Rotate e b) = reader_peer b"
  "pendingGrant (Rotate e b) = pendingGrant b" "generation (Rotate e b) = generation b + 1"
  "opened (Rotate e b) = opened b" "handlers (Rotate e b) = handlers b"
  by (simp_all add: broker_defs split: option.split)

lemma Rotate_sent:
  "sent (Rotate e b) = sent b @ (case writer_peer b of None \<Rightarrow> []
     | Some w \<Rightarrow> [SendRotate w (generation b + 1) e])"
  by (simp add: broker_defs split: option.split)

lemma DropReader_fields [simp]:
  "writer_peer (DropReader b) = writer_peer b" "reader_peer (DropReader b) = None"
  "pendingGrant (DropReader b) = None" "generation (DropReader b) = generation b + 1"
  "opened (DropReader b) = False" "handlers (DropReader b) = handlers b"
  by (simp_all add: broker_defs split: option.split)

lemma DropReader_sent:
  "sent (DropReader b) = sent b @ (case reader_peer b of None \<Rightarrow> [] | Some r \<Rightarrow> [CancelPeer r]) @
     (case writer_peer b of None \<Rightarrow> [] | Some w \<Rightarrow> [SendRotate w (generation b + 1) False])"
  by (simp add: broker_defs split: option.split)

lemma send_fields [simp]:
  "writer_peer (send a b) = writer_peer b" "reader_peer (send a b) = reader_peer b"
  "pendingGrant (send a b) = pendingGrant b" "generation (send a b) = generation b"
  "opened (send a b) = opened b" "handlers (send a b) = handlers b" "sent (send a b) = sent b @ [a]"
  by (simp_all add: send_def)

lemma inv_Rotate [step_invs]: "broker_inv euid b \<Longrightarrow> broker_inv euid (Rotate e b)"
  by (simp add: broker_inv_def)

lemma inv_DropReader [step_invs]: "broker_inv euid b \<Longrightarrow> broker_inv euid (DropReader b)"
  by (simp add: broker_inv_def)

lemma inv_send [step_invs]: "broker_inv euid b \<Longrightarrow> broker_inv euid (send a b)"
  by (simp add: broker_inv_def)

lemma inv_HandleHello [step_invs]:
  "broker_inv euid b \<Longrightarrow> handlers b peer = Some True \<Longrightarrow> broker_inv euid (HandleHello peer b)"
  by (auto simp: HandleHello_def Let_def broker_inv_def)

lemma inv_HandlePublish [step_invs]:
  "broker_inv euid b \<Longrightarrow> broker_inv euid (HandlePublish euid uid g m b)"
  by (auto simp: HandlePublish_def broker_inv_def split: option.split)

lemma inv_HandleOpen [step_invs]:
  "broker_inv euid b \<Longrightarrow> handlers b peer = Some False \<Longrightarrow>
   broker_inv euid (HandleOpen euid uid peer reply b)"
  by (auto simp: HandleOpen_def Let_def broker_inv_def split: option.split)

lemma inv_HandleError [step_invs]: "broker_inv euid b \<Longrightarrow> broker_inv euid (HandleError peer b)"
  by (auto simp: HandleError_def Let_def broker_inv_def)

lemma inv_HandleEvent [step_invs]:
  "broker_inv euid b \<Longrightarrow> handlers b peer = Some isWriter \<Longrightarrow>
   broker_inv euid (HandleEvent euid uid isWriter peer event b)"
  unfolding HandleEvent_def
  by (auto intro: step_invs split: event.split option.split)

lemma inv_step [step_invs]:
  "broker_inv euid b \<Longrightarrow> fresh_input used b i \<Longrightarrow> broker_inv euid (broker_step euid i b)"
  by (auto simp: broker_step_def SessionChanged_def fresh_input_def intro: step_invs
      split: input.splits option.splits)
    (auto simp: broker_inv_def Accept_def)

lemma inv_start [step_invs]: "broker_inv euid broker_start"
  by (simp add: broker_inv_def broker_start_def)

lemma run_inv: "broker_run euid ins b \<Longrightarrow> broker_inv euid b"
  by (induction rule: broker_run.induct) (auto intro: step_invs)

section \<open>One step\<close>

definition broker_after :: "(peer \<Rightarrow> u32) \<Rightarrow> input list \<Rightarrow> broker" where
  "broker_after euid ins = fold (broker_step euid) ins broker_start"

lemma broker_after_snoc [simp]:
  "broker_after euid (ins @ [i]) = broker_step euid i (broker_after euid ins)"
  by (simp add: broker_after_def)

lemma run_after: "broker_run euid ins b \<Longrightarrow> b = broker_after euid ins"
  by (induction rule: broker_run.induct) (auto simp: broker_after_def)

text \<open>What each handler leaves of the pending reply, and what grants it sends.\<close>

lemma hello_pending [simp]:
  "pendingGrant (HandleHello peer b) = pendingGrant b" "reader_peer (HandleHello peer b) = reader_peer b"
  by (simp_all add: HandleHello_def Let_def)

lemma publish_pending:
  "pendingGrant (HandlePublish euid uid g m b) = Some q \<Longrightarrow>
   pendingGrant b = Some q \<and> reader_peer (HandlePublish euid uid g m b) = reader_peer b"
  by (auto simp: HandlePublish_def split: option.splits if_splits)

lemma open_pending:
  "pendingGrant (HandleOpen euid uid peer reply b) = Some q \<Longrightarrow>
   (pendingGrant b = Some q \<and> reader_peer (HandleOpen euid uid peer reply b) = reader_peer b) \<or>
   (reply = Some q \<and> uid = euid peer \<and> reader_peer (HandleOpen euid uid peer reply b) = Some peer)"
  by (auto simp: HandleOpen_def Let_def split: option.splits if_splits)

lemma error_pending:
  "pendingGrant (HandleError peer b) = Some q \<Longrightarrow>
   pendingGrant b = Some q \<and> reader_peer (HandleError peer b) = reader_peer b"
  by (auto simp: HandleError_def Let_def split: if_splits)

lemma accept_fields [simp]:
  "pendingGrant (Accept w s peer b) = pendingGrant b" "reader_peer (Accept w s peer b) = reader_peer b"
  "writer_peer (Accept w s peer b) = writer_peer b" "opened (Accept w s peer b) = opened b"
  "generation (Accept w s peer b) = generation b"
  by (simp_all add: Accept_def)

lemma hello_grants [simp]:
  "SendGrant r q p \<in> set (sent (HandleHello peer b)) \<longleftrightarrow> SendGrant r q p \<in> set (sent b)"
  by (auto simp: HandleHello_def Let_def Rotate_sent split: option.splits)

lemma drop_grants [simp]:
  "SendGrant r q p \<in> set (sent (DropReader b)) \<longleftrightarrow> SendGrant r q p \<in> set (sent b)"
  by (auto simp: DropReader_sent split: option.splits)

lemma open_grants [simp]:
  "SendGrant r q p \<in> set (sent (HandleOpen euid uid peer reply b)) \<longleftrightarrow> SendGrant r q p \<in> set (sent b)"
  by (auto simp: HandleOpen_def Let_def Rotate_sent split: option.splits)

lemma error_grants [simp]:
  "SendGrant r q p \<in> set (sent (HandleError peer b)) \<longleftrightarrow> SendGrant r q p \<in> set (sent b)"
  by (simp add: HandleError_def Let_def DropReader_sent split: option.splits)

lemma accept_grants [simp]:
  "SendGrant r q p \<in> set (sent (Accept w s peer b)) \<longleftrightarrow> SendGrant r q p \<in> set (sent b)"
  by (auto simp: Accept_def)

lemma publish_grants:
  "SendGrant r q p \<in> set (sent (HandlePublish euid uid g m b)) \<Longrightarrow>
   SendGrant r q p \<in> set (sent b) \<or>
   (m = Some p \<and> uid = euid r \<and> g = generation b \<and> reader_peer b = Some r \<and> pendingGrant b = Some q)"
  by (auto simp: HandlePublish_def split: option.splits if_splits)

text \<open>Where a pending reply and a grant come from.\<close>

lemma event_pending:
  assumes "pendingGrant (HandleEvent euid uid isWriter peer event b) = Some q"
  shows "(pendingGrant b = Some q \<and>
      reader_peer (HandleEvent euid uid isWriter peer event b) = reader_peer b) \<or>
    (\<exists>g m. event = Dictionary (Some ''open'') g m (Some q) \<and> uid = euid peer \<and>
      reader_peer (HandleEvent euid uid isWriter peer event b) = Some peer)"
  using assms
  by (auto simp: HandleEvent_def split: option.splits event.splits if_splits
      dest: publish_pending open_pending error_pending)

lemma step_pending:
  assumes "pendingGrant (broker_step euid i b) = Some q"
  shows "(pendingGrant b = Some q \<and> i \<noteq> ConsoleChange \<and>
      reader_peer (broker_step euid i b) = reader_peer b) \<or>
    (\<exists>r g m. i = Deliver r (Dictionary (Some ''open'') g m (Some q)) (euid r) \<and>
      reader_peer (broker_step euid i b) = Some r)"
  using assms event_pending
  by (cases i) (fastforce simp: broker_step_def SessionChanged_def split: option.splits)+

lemma event_grant:
  assumes "SendGrant r q p \<in> set (sent (HandleEvent euid uid isWriter peer event b))"
  shows "SendGrant r q p \<in> set (sent b) \<or>
    (\<exists>g m. event = Dictionary (Some ''publish'') g (Some p) m \<and> uid = euid r \<and>
      writer_peer b = Some peer \<and> g = generation b \<and> reader_peer b = Some r \<and> pendingGrant b = Some q)"
  using assms
  by (auto simp: HandleEvent_def split: option.splits event.splits if_splits dest: publish_grants)

lemma step_grant:
  assumes "SendGrant r q p \<in> set (sent (broker_step euid i b))"
  shows "SendGrant r q p \<in> set (sent b) \<or>
    (\<exists>w g m. i = Deliver w (Dictionary (Some ''publish'') g (Some p) m) (euid r) \<and>
      writer_peer b = Some w \<and> g = generation b \<and> reader_peer b = Some r \<and> pendingGrant b = Some q)"
  using assms event_grant
  by (cases i) (fastforce simp: broker_step_def SessionChanged_def split: option.splits)+

section \<open>Replies\<close>

fun answered :: "action \<Rightarrow> request option" where
  "answered (SendGrant _ q _) = Some q"
| "answered (SendError _ q _) = Some q"
| "answered _ = None"

fun rotated :: "action \<Rightarrow> u64 option" where
  "rotated (SendRotate _ g _) = Some g"
| "rotated _ = None"

definition answers :: "broker \<Rightarrow> request list" where
  "answers b = List.map_filter answered (sent b)"

definition rotations :: "broker \<Rightarrow> u64 list" where
  "rotations b = List.map_filter rotated (sent b)"

lemma map_filter_snoc:
  "List.map_filter f (xs @ ys) = List.map_filter f xs @ List.map_filter f ys"
  by (simp add: List.map_filter_def)

lemmas map_filter_list = map_filter_snoc List.map_filter_simps

text \<open>A handler keeps the answers, gives one to the pending reply, or gives one to its own.\<close>

definition answer_step :: "request option \<Rightarrow> broker \<Rightarrow> broker \<Rightarrow> bool" where
  "answer_step own b b' \<longleftrightarrow>
     (answers b' = answers b \<and>
        (pendingGrant b' = None \<or> pendingGrant b' = pendingGrant b \<or>
         (pendingGrant b' = own))) \<or>
     (pendingGrant b' = None \<and> (\<exists>q. pendingGrant b = Some q \<and> answers b' = answers b @ [q])) \<or>
     (pendingGrant b' = pendingGrant b \<and> (\<exists>q. own = Some q \<and> answers b' = answers b @ [q]))"

lemma answers_simps [simp]:
  "answers (Rotate e b) = answers b"
  "answers (DropReader b) = answers b"
  "answers (send (CancelPeer p) b) = answers b"
  "answers (send (SendGrant r q m) b) = answers b @ [q]"
  "answers (send (SendError r q k) b) = answers b @ [q]"
  "answers (Accept w s peer b) = answers b"
  by (auto simp: answers_def Rotate_sent DropReader_sent Accept_def map_filter_list split: option.split)

lemma answers_update [simp]:
  "answers (b\<lparr>pendingGrant := x\<rparr>) = answers b" "answers (b\<lparr>reader_peer := y\<rparr>) = answers b"
  "answers (b\<lparr>writer_peer := y\<rparr>) = answers b" "answers (b\<lparr>opened := e\<rparr>) = answers b"
  by (simp_all add: answers_def)

lemma hello_answers: "answer_step own b (HandleHello peer b)"
  by (simp add: HandleHello_def Let_def answer_step_def)

lemma publish_answers: "answer_step own b (HandlePublish euid uid g m b)"
  by (auto simp: HandlePublish_def answer_step_def split: option.split)

lemma open_answers: "answer_step reply b (HandleOpen euid uid peer reply b)"
  by (auto simp: HandleOpen_def answer_step_def Let_def split: option.split)

lemma error_answers: "answer_step own b (HandleError peer b)"
  by (simp add: HandleError_def answer_step_def Let_def)

lemma same_answers: "answers b' = answers b \<Longrightarrow> pendingGrant b' = pendingGrant b \<Longrightarrow> answer_step own b b'"
  by (simp add: answer_step_def)

lemma step_answers: "answer_step (made_reply i) b (broker_step euid i b)"
proof (cases i)
  case (Deliver peer event uid)
  then show ?thesis
    by (cases event)
      (auto simp: broker_step_def HandleEvent_def hello_answers publish_answers open_answers
        error_answers same_answers split: option.split)
qed (simp_all add: broker_step_def SessionChanged_def answer_step_def)

lemma run_answers:
  "broker_run euid ins b \<Longrightarrow>
   distinct (answers b) \<and> set (answers b) \<subseteq> set (List.map_filter made_reply ins) \<and>
   (\<forall>q. pendingGrant b = Some q \<longrightarrow> q \<in> set (List.map_filter made_reply ins) \<and> q \<notin> set (answers b))"
proof (induction rule: broker_run.induct)
  case run_start
  then show ?case by (simp add: answers_def broker_start_def List.map_filter_def)
next
  case (run_step ins b i)
  have used: "set (List.map_filter made_reply (ins @ [i])) =
      set (List.map_filter made_reply ins) \<union> set_option (made_reply i)"
    by (auto simp: map_filter_list split: option.splits)
  have "made_reply i = Some q \<Longrightarrow> q \<notin> set (List.map_filter made_reply ins)" for q
    using run_step.hyps(2) by (cases i) (auto simp: fresh_input_def)
  then show ?case
    using run_step.IH step_answers [of i b euid] unfolding used answer_step_def by fastforce
qed

section \<open>Rotations\<close>

definition rotation_step :: "broker \<Rightarrow> broker \<Rightarrow> bool" where
  "rotation_step b b' \<longleftrightarrow>
     (generation b' = generation b \<and> rotations b' = rotations b) \<or>
     (generation b' = generation b + 1 \<and>
        (rotations b' = rotations b \<or> rotations b' = rotations b @ [generation b + 1]))"

lemma rotations_send [simp]:
  "rotated a = None \<Longrightarrow> rotations (send a b) = rotations b"
  by (simp add: rotations_def map_filter_list)

lemma rotations_update [simp]:
  "rotations (b\<lparr>pendingGrant := x\<rparr>) = rotations b" "rotations (b\<lparr>reader_peer := y\<rparr>) = rotations b"
  "rotations (b\<lparr>writer_peer := y\<rparr>) = rotations b" "rotations (b\<lparr>opened := e\<rparr>) = rotations b"
  "rotations (b\<lparr>handlers := h\<rparr>) = rotations b"
  by (simp_all add: rotations_def)

lemma rotations_Rotate:
  "rotations (Rotate e b) = rotations b @ (if writer_peer b = None then [] else [generation b + 1])"
  by (auto simp: rotations_def Rotate_sent map_filter_list split: option.split)

lemma rotations_DropReader:
  "rotations (DropReader b) = rotations b @ (if writer_peer b = None then [] else [generation b + 1])"
  by (auto simp: rotations_def DropReader_sent map_filter_list split: option.split)

lemmas rotation_simps = rotation_step_def rotations_Rotate rotations_DropReader

lemma hello_rotations: "rotation_step b (HandleHello peer b)"
  by (simp add: HandleHello_def Let_def rotation_simps)

lemma publish_rotations: "rotation_step b (HandlePublish euid uid g m b)"
  by (auto simp: HandlePublish_def rotation_simps split: option.split)

lemma open_rotations: "rotation_step b (HandleOpen euid uid peer reply b)"
  by (simp add: HandleOpen_def Let_def rotation_simps split: option.split)

lemma error_rotations: "broker_inv euid b \<Longrightarrow> rotation_step b (HandleError peer b)"
  by (auto simp: HandleError_def Let_def rotation_simps broker_inv_def)

lemma step_rotations:
  assumes "broker_inv euid b"
  shows "rotation_step b (broker_step euid i b)"
proof (cases i)
  case (Deliver peer event uid)
  have "rotation_step b (send (CancelPeer p) b)" for p by (simp add: rotation_step_def)
  then show ?thesis using Deliver assms
    by (cases event)
      (auto simp: broker_step_def HandleEvent_def hello_rotations publish_rotations open_rotations
        error_rotations rotation_step_def [of b b] split: option.split)
qed (simp_all add: broker_step_def SessionChanged_def Accept_def rotation_simps)

lemma run_rotations:
  assumes "broker_run euid ins b" "length ins < 2 ^ 64"
  shows "\<exists>n. n \<le> length ins \<and> generation b = of_nat n \<and> sorted_wrt (<) (rotations b) \<and>
    (\<forall>g \<in> set (rotations b). g \<le> generation b)"
  using assms
proof (induction rule: broker_run.induct)
  case run_start
  then show ?case by (simp add: broker_start_def rotations_def List.map_filter_def)
next
  case (run_step ins b i)
  then obtain n where n: "n \<le> length ins" "generation b = of_nat n" "sorted_wrt (<) (rotations b)"
    "\<forall>g \<in> set (rotations b). g \<le> generation b" by auto
  have "unat (generation b) = n" using n run_step.prems by simp
  then have "generation b < generation b + 1"
    using n run_step.prems by (simp add: word_less_nat_alt unat_plus_no_wrap)
  moreover from this have "g \<le> generation b \<Longrightarrow> g < generation b + 1" for g by simp
  moreover have "generation b + 1 = of_nat (Suc n)" using n(2) by simp
  ultimately show ?case
    using step_rotations [OF run_inv [OF run_step.hyps(1)], of i] n unfolding rotation_step_def
    by (elim disjE conjE; intro exI [of _ n] exI [of _ "Suc n"])
      (auto simp: sorted_wrt_append intro: less_imp_le order.trans)
qed

section \<open>Properties\<close>

lemma pending_origin:
  assumes "broker_run euid ins b" "pendingGrant b = Some q"
  shows "\<exists>xs r g m ys. ins = xs @ Deliver r (Dictionary (Some ''open'') g m (Some q)) (euid r) # ys \<and>
    reader_peer b = Some r \<and> ConsoleChange \<notin> set ys"
  using assms
proof (induction rule: broker_run.induct)
  case run_start
  then show ?case by (simp add: broker_start_def)
next
  case (run_step ins b i)
  from step_pending [OF run_step.prems] show ?case
  proof (elim disjE conjE exE)
    assume old: "pendingGrant b = Some q" "i \<noteq> ConsoleChange"
      "reader_peer (broker_step euid i b) = reader_peer b"
    from run_step.IH [OF old(1)] obtain xs r g m ys where
      "ins = xs @ Deliver r (Dictionary (Some ''open'') g m (Some q)) (euid r) # ys"
      "reader_peer b = Some r" "ConsoleChange \<notin> set ys" by blast
    with old show ?thesis
      by (intro exI [of _ xs] exI [of _ r] exI [of _ g] exI [of _ m] exI [of _ "ys @ [i]"]) simp
  qed (fastforce intro: exI [of _ "[]"])
qed

text \<open>
  Property C27. Every capability the broker grants is granted to a reader that asked to open while
  its user, who is neither root nor nobody, was at the console, on the reply to that request; it was
  published by the registered writer for the generation current at that moment, with the same user
  still at the console and no change of session since the request.
\<close>
theorem broker_grants_justified:
  assumes "broker_run euid ins b" and "SendGrant r q p \<in> set (sent b)"
  shows "\<exists>xs ys zs w g m g' m'.
    ins = xs @ Deliver r (Dictionary (Some ''open'') g m (Some q)) (euid r) # ys @
      Deliver w (Dictionary (Some ''publish'') g' (Some p) m') (euid r) # zs \<and>
    euid r \<noteq> 0 \<and> euid r \<noteq> - 1 \<and> ConsoleChange \<notin> set ys \<and>
    (let before = broker_after euid (xs @ Deliver r (Dictionary (Some ''open'') g m (Some q)) (euid r) # ys)
     in writer_peer before = Some w \<and> handlers before w = Some True \<and> handlers before r = Some False \<and>
        g' = generation before)"
  using assms
proof (induction rule: broker_run.induct)
  case run_start
  then show ?case by (simp add: broker_start_def)
next
  case (run_step ins b i)
  from step_grant [OF run_step.prems] show ?case
  proof (elim disjE exE conjE)
    assume "SendGrant r q p \<in> set (sent b)"
    from run_step.IH [OF this] show ?thesis by (elim exE conjE) (intro exI conjI, simp_all)
  next
    fix w g' m'
    assume i: "i = Deliver w (Dictionary (Some ''publish'') g' (Some p) m') (euid r)"
      and b: "writer_peer b = Some w" "g' = generation b" "reader_peer b = Some r" "pendingGrant b = Some q"
    obtain xs g m ys where origin:
      "ins = xs @ Deliver r (Dictionary (Some ''open'') g m (Some q)) (euid r) # ys"
      "ConsoleChange \<notin> set ys"
      using pending_origin [OF run_step.hyps(1) b(4)] b(3) by auto
    then show ?thesis
      using i b run_after [OF run_step.hyps(1)] run_inv [OF run_step.hyps(1)]
      by (intro exI [of _ xs] exI [of _ ys] exI [of _ "[]"] exI [of _ w] exI [of _ g] exI [of _ m]
          exI [of _ g'] exI [of _ m']) (simp add: Let_def broker_inv_def)
  qed
qed

text \<open>A run from a list of inputs, checked by evaluation.\<close>

fun fresh_inputs :: "(peer \<Rightarrow> u32) \<Rightarrow> request set \<Rightarrow> broker \<Rightarrow> input list \<Rightarrow> bool" where
  "fresh_inputs euid used b [] = True"
| "fresh_inputs euid used b (i # js) =
     (fresh_input used b i \<and> fresh_inputs euid (used \<union> set_option (made_reply i)) (broker_step euid i b) js)"

lemma run_extend:
  "\<lbrakk>broker_run euid ins b; fresh_inputs euid (set (List.map_filter made_reply ins)) b js\<rbrakk> \<Longrightarrow>
   broker_run euid (ins @ js) (fold (broker_step euid) js b)"
proof (induction js arbitrary: ins b)
  case (Cons i js)
  have "set (List.map_filter made_reply (ins @ [i])) =
      set (List.map_filter made_reply ins) \<union> set_option (made_reply i)"
    by (auto simp: map_filter_list split: option.splits)
  then show ?case
    using Cons.IH [OF broker_run.run_step [OF Cons.prems(1)], of i] Cons.prems(2) by simp
qed simp

definition example_inputs :: "input list" where
  "example_inputs =
     [Arrive True True 1, Arrive False True 2,
      Deliver 1 (Dictionary (Some ''hello'') 0 None None) 501,
      Deliver 2 (Dictionary (Some ''open'') 0 None (Some 7)) 501,
      Deliver 1 (Dictionary (Some ''publish'') 2 (Some 9) None) 501]"

lemma example_run: "broker_run (\<lambda>_. 501) example_inputs (broker_after (\<lambda>_. 501) example_inputs)"
proof -
  have "fresh_inputs (\<lambda>_. 501) {} broker_start example_inputs"
    by (simp add: example_inputs_def fresh_input_def broker_step_def broker_start_def Accept_def
        HandleEvent_def HandleHello_def HandleOpen_def Rotate_def send_def Let_def)
  then show ?thesis
    using run_extend [OF broker_run.run_start, of "\<lambda>_. 501" example_inputs]
    by (simp add: broker_after_def List.map_filter_def)
qed

lemma example_sent:
  "sent (broker_after (\<lambda>_. 501) example_inputs) =
     [SendRotate 1 1 False, SendRotate 1 2 True, SendGrant 2 7 9]"
  by (simp add: example_inputs_def broker_after_def broker_step_def broker_start_def Accept_def
      HandleEvent_def HandleHello_def HandleOpen_def HandlePublish_def Rotate_def send_def Let_def)

lemma example_rotations: "rotations (broker_after (\<lambda>_. 501) example_inputs) = [1, 2]"
  by (simp add: rotations_def example_sent List.map_filter_def)

lemma broker_grants_justified_witness:
  "\<exists>xs ys zs w g m g' m'.
    example_inputs = xs @ Deliver 2 (Dictionary (Some ''open'') g m (Some 7)) 501 # ys @
      Deliver w (Dictionary (Some ''publish'') g' (Some 9) m') 501 # zs \<and>
    ConsoleChange \<notin> set ys"
  using broker_grants_justified [OF example_run, of 2 7 9] by (force simp: example_sent)

lemma example_pair:
  "writer_peer (broker_after (\<lambda>_. 501) example_inputs) = Some 1 \<and>
   reader_peer (broker_after (\<lambda>_. 501) example_inputs) = Some 2"
  by (simp add: example_inputs_def broker_after_def broker_step_def broker_start_def Accept_def
      HandleEvent_def HandleHello_def HandleOpen_def HandlePublish_def Rotate_def send_def Let_def)

text \<open>
  The broker answers no request twice, neither with a grant nor with an error, and
  the reply it keeps for a grant is unanswered.
\<close>
theorem broker_answers_once:
  assumes "broker_run euid ins b"
  shows "distinct (answers b) \<and> set (answers b) \<subseteq> set (List.map_filter made_reply ins) \<and>
    (\<forall>q. pendingGrant b = Some q \<longrightarrow> q \<notin> set (answers b))"
  using run_answers [OF assms] by blast

lemma broker_answers_once_witness:
  "distinct (answers (broker_after (\<lambda>_. 501) example_inputs)) \<and>
   answers (broker_after (\<lambda>_. 501) example_inputs) = [7]"
  using broker_answers_once [OF example_run]
  by (simp add: answers_def example_sent List.map_filter_def)

text \<open>
  Each rotation the writer is told of has a generation above all earlier ones (for
  fewer than \<open>2 ^ 64\<close> events), so a publish can never be taken for that of another rotation.
\<close>
theorem broker_generations_increase:
  assumes "broker_run euid ins b" and "length ins < 2 ^ 64"
  shows "sorted_wrt (<) (rotations b) \<and> (\<forall>g \<in> set (rotations b). g \<le> generation b)"
  using run_rotations [OF assms] by blast

lemma broker_generations_increase_witness:
  "sorted_wrt (<) (rotations (broker_after (\<lambda>_. 501) example_inputs)) \<and>
   rotations (broker_after (\<lambda>_. 501) example_inputs) = [1, 2]"
  using broker_generations_increase [OF example_run] example_rotations
  by (simp add: example_inputs_def)

text \<open>
  Property C28. A reader of the console user is served: when no reader is registered and the writer
  is there or says hello after the request, the writer is told to rotate, and as soon as it
  publishes a ring for the generation it was told, the reader gets that ring on its request.
\<close>
theorem broker_serves_reader:
  assumes "broker_run euid ins b" and "reader_peer b = None"
    and "handlers b r = Some False" "handlers b w = Some True"
    and "writer_peer b = None \<or> writer_peer b = Some w"
    and "euid r \<noteq> 0" "euid r \<noteq> - 1"
  shows "\<exists>g. let b1 = fold (broker_step euid)
        (Deliver r (Dictionary (Some ''open'') g0 m0 (Some q)) (euid r) #
         (if writer_peer b = None then [Deliver w (Dictionary (Some ''hello'') g1 m1 q1) u1] else [])) b;
      b2 = broker_step euid (Deliver w (Dictionary (Some ''publish'') g (Some p) q2) (euid r)) b1
    in sent b1 = sent b @ [SendRotate w g True] \<and> sent b2 = sent b1 @ [SendGrant r q p]"
proof (cases "writer_peer b")
  case None
  with assms show ?thesis
    by (intro exI [of _ "generation b + 1 + 1"])
      (simp add: broker_step_def HandleEvent_def HandleOpen_def HandleHello_def HandlePublish_def
        Let_def Rotate_sent)
next
  case (Some w')
  with assms show ?thesis
    by (intro exI [of _ "generation b + 1"])
      (simp add: broker_step_def HandleEvent_def HandleOpen_def HandlePublish_def Let_def Rotate_sent)
qed


definition waiting_inputs :: "input list" where
  "waiting_inputs = [Arrive True True 1, Arrive False True 2]"

lemma waiting_run: "broker_run (\<lambda>_. 501) waiting_inputs (broker_after (\<lambda>_. 501) waiting_inputs)"
  using run_extend [OF broker_run.run_start, of "\<lambda>_. 501" waiting_inputs]
  by (simp add: broker_after_def List.map_filter_def waiting_inputs_def fresh_input_def broker_start_def
      broker_step_def Accept_def)

lemma waiting_state:
  "broker_after (\<lambda>_. 501) waiting_inputs =
     broker_start\<lparr>handlers := (\<lambda>_. None)(1 \<mapsto> True, 2 \<mapsto> False)\<rparr>"
  by (simp add: broker_after_def waiting_inputs_def broker_start_def broker_step_def Accept_def)

lemma broker_serves_reader_witness:
  "\<exists>g. let b = broker_after (\<lambda>_. 501) waiting_inputs;
      b1 = fold (broker_step (\<lambda>_. 501))
        [Deliver 2 (Dictionary (Some ''open'') 0 None (Some 7)) 501,
         Deliver 1 (Dictionary (Some ''hello'') 0 None None) 501] b;
      b2 = broker_step (\<lambda>_. 501) (Deliver 1 (Dictionary (Some ''publish'') g (Some 9) None) 501) b1
    in sent b1 = sent b @ [SendRotate 1 g True] \<and> sent b2 = sent b1 @ [SendGrant 2 7 9]"
  using broker_serves_reader [OF waiting_run, of 2 1 0 None 7 0 None None 501 9 None]
  by (simp add: waiting_state broker_start_def Let_def)

lemma stranger_event:
  assumes "writer_peer b \<noteq> Some p" "writer_peer b \<noteq> None" "reader_peer b \<noteq> Some p" "reader_peer b \<noteq> None"
  shows "\<exists>answer. HandleEvent euid uid isWriter p event b = b\<lparr>sent := sent b @ answer\<rparr> \<and>
    answer \<in> {[], [CancelPeer p]} \<union> {[SendError p q k] | q k. k = EBUSY \<or> k = EACCES}"
proof (cases event)
  case ErrorEvent
  then show ?thesis using assms by (intro exI [of _ "[]"]) (simp add: HandleEvent_def HandleError_def)
next
  case OtherEvent
  then show ?thesis by (intro exI [of _ "[CancelPeer p]"]) (simp add: HandleEvent_def send_def)
next
  case (Dictionary op g m q)
  show ?thesis
  proof (cases "op = Some ''open'' \<and> \<not> isWriter \<and> q \<noteq> None")
    case True
    then obtain reply where "q = Some reply" by blast
    then show ?thesis using True Dictionary assms
      by (intro exI [of _ "[SendError p reply (if euid p \<noteq> 0 \<and> euid p = uid then EBUSY else EACCES)]"])
        (simp add: HandleEvent_def HandleOpen_def send_def Let_def)
  next
    case False
    then have "HandleEvent euid uid isWriter p event b = send (CancelPeer p) b"
      using Dictionary assms
      by (auto simp: HandleEvent_def HandleOpen_def HandleHello_def split: option.split)
    then show ?thesis by (intro exI [of _ "[CancelPeer p]"]) (simp add: send_def)
  qed
qed

text \<open>
  Property C29. A paired session cannot be disturbed by anyone else: whatever any other peer sends,
  or if its connection breaks, the writer, the reader, the pending grant and the generation stay,
  nothing is sent to the pair, and the stranger gets an error or is cancelled, if anything.
\<close>
theorem broker_session_undisturbed:
  assumes "broker_run euid ins b"
    and "writer_peer b = Some w" "reader_peer b = Some r" "stranger \<noteq> w" "stranger \<noteq> r"
  shows "\<exists>answer. broker_step euid (Deliver stranger event uid) b = b\<lparr>sent := sent b @ answer\<rparr> \<and>
    answer \<in> {[], [CancelPeer stranger]} \<union> {[SendError stranger q k] | q k. k = EBUSY \<or> k = EACCES}"
proof -
  have pair: "writer_peer b \<noteq> Some stranger" "writer_peer b \<noteq> None"
    "reader_peer b \<noteq> Some stranger" "reader_peer b \<noteq> None" using assms by auto
  show ?thesis
  proof (cases "handlers b stranger")
    case None
    then show ?thesis by (intro exI [of _ "[]"]) (simp add: broker_step_def)
  next
    case (Some isWriter)
    then have step: "broker_step euid (Deliver stranger event uid) b = HandleEvent euid uid isWriter stranger event b"
      by (simp add: broker_step_def)
    show ?thesis unfolding step by (rule stranger_event [OF pair])
  qed
qed

lemma broker_session_undisturbed_witness:
  "\<exists>answer. broker_step (\<lambda>_. 501) (Deliver 3 (Dictionary (Some ''hello'') 0 None None) 501)
      (broker_after (\<lambda>_. 501) example_inputs) =
      (broker_after (\<lambda>_. 501) example_inputs)
        \<lparr>sent := sent (broker_after (\<lambda>_. 501) example_inputs) @ answer\<rparr>"
  using broker_session_undisturbed [OF example_run, of 1 2 3 "Dictionary (Some ''hello'') 0 None None" 501]
    example_pair by auto

end
