(* ===== verification/Transition_Systems.thy ===== *)
theory Transition_Systems
  imports SVC_Prelude
begin

text \<open>
  The contract of an inductive invariant: it holds in the start state and every step keeps it.
  The components whose threads interleave are step relations; each proves the contract for its
  own relation and gets the invariant of every reachable state.
\<close>

section \<open>Reachable states\<close>

inductive reachable :: "('s \<Rightarrow> 's \<Rightarrow> bool) \<Rightarrow> 's \<Rightarrow> 's \<Rightarrow> bool" for step start where
  reachable_start: "reachable step start start"
| reachable_step: "\<lbrakk>reachable step start s; step s t\<rbrakk> \<Longrightarrow> reachable step start t"

lemma reachable_trans:
  assumes "reachable step start s" "reachable step s t"
  shows "reachable step start t"
  using assms(2,1) by (induction rule: reachable.induct) (auto intro: reachable_step)

lemma reachable_converse_step:
  "step s t \<Longrightarrow> reachable step t u \<Longrightarrow> reachable step s u"
  by (rule reachable_trans [of step s t]) (auto intro: reachable.intros)

locale inductive_invariant =
  fixes step :: "'s \<Rightarrow> 's \<Rightarrow> bool" and start :: "'s \<Rightarrow> bool" and inv :: "'s \<Rightarrow> bool"
  assumes start_inv: "start s \<Longrightarrow> inv s"
    and step_inv: "inv s \<Longrightarrow> step s t \<Longrightarrow> inv t"
begin

lemma reachable_inv:
  assumes "start s" "reachable step s t"
  shows "inv t"
  using assms(2) by (induction rule: reachable.induct) (auto intro: step_inv start_inv [OF assms(1)])

lemma reachable_from_inv:
  assumes "inv s" "reachable step s t"
  shows "inv t"
  using assms(2) by (induction rule: reachable.induct) (auto intro: step_inv assms(1))

end

end
