(* ===== verification/Secure_Writer.thy ===== *)
theory Secure_Writer
  imports Transition_Systems
begin

text \<open>
  \<open>common/SecureAudioWriter.c\<close>: the driver's side of the broker connection. The control queue
  replaces the current ring on every rotation and retires the old one; the driver's real-time
  callbacks take a lease around each use of the ring. The callbacks run on threads of their own,
  so every atomic access is a step; the blocks of the serial control queue run one at a time. A
  ring is identified by its address.
\<close>

section \<open>State\<close>

type_synonym ring = nat

text \<open>Where a callback is between \<open>SVCWriterAcquire\<close> and \<open>SVCWriterRelease\<close>.\<close>

datatype callback =
    Outside
  | Acquiring
  | Using "ring option"

text \<open>What the writer sends; the port of a publish stands for the ring it gives access to.\<close>

datatype message =
    HelloMessage
  | PublishMessage u64 "ring option"

text \<open>The next access of the block that runs on the control queue, with the reply to send after.\<close>

datatype control =
    Waiting
  | Exchange "ring option" "message option"
  | Retire "ring option" "message option"
  | StopWriter ring "message option"
  | Deallocate ring "message option"
  | Reply "message option"

record writer =
  currentAudio :: "ring option"
  leases :: u32
  callbacks :: "callback list"
  mapped :: "ring set"
  active :: "ring \<Rightarrow> bool"
  retired :: "ring list"
  control :: control
  writerConnection :: bool
  hellos :: nat
  sent_messages :: "message list"

text \<open>
  \<open>mapped\<close> are the rings that are allocated, \<open>active\<close> their \<open>writerActive\<close> words, \<open>retired\<close> and
  \<open>hellos\<close> the blocks that \<open>dispatch_after\<close> has put off.
\<close>

definition writer_start :: "nat \<Rightarrow> writer" where
  "writer_start n = \<lparr>currentAudio = None, leases = 0, callbacks = replicate n Outside, mapped = {},
     active = (\<lambda>_. False), retired = [], control = Waiting, writerConnection = False, hellos = 0,
     sent_messages = []\<rparr>"

section \<open>The callbacks\<close>

definition acquire_count :: "nat \<Rightarrow> writer \<Rightarrow> writer" where
  "acquire_count i w = w\<lparr>leases := leases w + 1, callbacks := (callbacks w)[i := Acquiring]\<rparr>"

definition acquire_load :: "nat \<Rightarrow> writer \<Rightarrow> writer" where
  "acquire_load i w = w\<lparr>callbacks := (callbacks w)[i := Using (currentAudio w)]\<rparr>"

definition SVCWriterRelease :: "nat \<Rightarrow> writer \<Rightarrow> writer" where
  "SVCWriterRelease i w = w\<lparr>leases := leases w - 1, callbacks := (callbacks w)[i := Outside]\<rparr>"

definition callback_access :: "nat \<Rightarrow> writer \<Rightarrow> writer" where
  "callback_access i w =
     (case callbacks w ! i of
        Outside \<Rightarrow> acquire_count i w
      | Acquiring \<Rightarrow> acquire_load i w
      | Using r \<Rightarrow> SVCWriterRelease i w)"

section \<open>The control queue\<close>

definition Hello :: "writer \<Rightarrow> writer" where
  "Hello w = w\<lparr>sent_messages := sent_messages w @ [HelloMessage]\<rparr>"

text \<open>One access of \<open>Retire\<close>, of the exchange that precedes it and of the reply that follows.\<close>

definition control_access :: "writer \<Rightarrow> writer" where
  "control_access w =
     (case control w of
        Waiting \<Rightarrow> w
      | Exchange fresh reply \<Rightarrow> w\<lparr>currentAudio := fresh, control := Retire (currentAudio w) reply\<rparr>
      | Retire None reply \<Rightarrow> w\<lparr>control := Reply reply\<rparr>
      | Retire (Some audio) reply \<Rightarrow>
          if leases w = 0 then w\<lparr>control := StopWriter audio reply\<rparr>
          else w\<lparr>retired := retired w @ [audio], control := Reply reply\<rparr>
      | StopWriter audio reply \<Rightarrow>
          w\<lparr>active := (active w)(audio := False), control := Deallocate audio reply\<rparr>
      | Deallocate audio reply \<Rightarrow> w\<lparr>mapped := mapped w - {audio}, control := Reply reply\<rparr>
      | Reply None \<Rightarrow> w\<lparr>control := Waiting\<rparr>
      | Reply (Some m) \<Rightarrow> w\<lparr>sent_messages := sent_messages w @ [m], control := Waiting\<rparr>)"

text \<open>
  The events of the connection: an error (interrupted or not), a rotation with its generation,
  any other message. \<open>allocated\<close> is what \<open>SVCAudioAllocate\<close> returns if the handler calls it.
\<close>

datatype writer_event =
    BrokenConnection bool
  | RotateMessage u64 bool
  | OtherMessage

definition handle_event :: "writer_event \<Rightarrow> ring option \<Rightarrow> writer \<Rightarrow> writer" where
  "handle_event event allocated w =
     (case event of
        BrokenConnection interrupted \<Rightarrow>
          w\<lparr>control := Exchange None None, hellos := (if interrupted then Suc (hellos w) else hellos w)\<rparr>
      | RotateMessage generation enabled \<Rightarrow>
          let fresh = (if enabled then allocated else None) in
          w\<lparr>mapped := mapped w \<union> set_option fresh,
            control := Exchange fresh (if enabled then Some (PublishMessage generation fresh) else None)\<rparr>
      | OtherMessage \<Rightarrow> w)"

text \<open>The put-off blocks: another attempt to retire, another hello.\<close>

definition retry_retire :: "ring \<Rightarrow> writer \<Rightarrow> writer" where
  "retry_retire audio w = w\<lparr>retired := remove1 audio (retired w), control := Retire (Some audio) None\<rparr>"

definition retry_hello :: "writer \<Rightarrow> writer" where
  "retry_hello w = Hello (w\<lparr>hellos := hellos w - 1\<rparr>)"

text \<open>
  \<open>created\<close> and \<open>requirement_set\<close> are whether the two calls of XPC succeed. Returns the result
  and the state.
\<close>

definition SVCWriterConnect :: "bool \<Rightarrow> bool \<Rightarrow> writer \<Rightarrow> bool \<times> writer" where
  "SVCWriterConnect created requirement_set w =
     (if writerConnection w then (True, w)
      else if \<not> created then (False, w)
      else if \<not> requirement_set then (False, w)
      else (True, Hello (w\<lparr>writerConnection := True\<rparr>)))"

section \<open>Steps\<close>

text \<open>An allocated ring is at an address where nothing is mapped.\<close>

inductive writer_step :: "writer \<Rightarrow> writer \<Rightarrow> bool" where
  connect: "writer_step w (snd (SVCWriterConnect created requirement_set w))"
| callback_moves: "i < length (callbacks w) \<Longrightarrow> writer_step w (callback_access i w)"
| event_arrives: "\<lbrakk>writerConnection w; control w = Waiting; set_option allocated \<inter> mapped w = {}\<rbrakk> \<Longrightarrow>
    writer_step w (handle_event event allocated w)"
| retire_again: "\<lbrakk>control w = Waiting; audio \<in> set (retired w)\<rbrakk> \<Longrightarrow> writer_step w (retry_retire audio w)"
| hello_again: "\<lbrakk>control w = Waiting; 0 < hellos w\<rbrakk> \<Longrightarrow> writer_step w (retry_hello w)"
| block_moves: "control w \<noteq> Waiting \<Longrightarrow> writer_step w (control_access w)"

inductive_cases writer_stepE: "writer_step w w'"

section \<open>The invariant\<close>

definition option_list :: "'a option \<Rightarrow> 'a list" where
  "option_list x = (case x of None \<Rightarrow> [] | Some y \<Rightarrow> [y])"

lemma option_list_simps [simp]: "option_list None = []" "option_list (Some x) = [x]"
  by (simp_all add: option_list_def)

lemma set_option_list [simp]: "set (option_list x) = set_option x"
  by (cases x) simp_all

text \<open>The ring the control queue has in hand, and whether callbacks may still hold it.\<close>

primrec in_hand :: "control \<Rightarrow> ring list" where
  "in_hand Waiting = []"
| "in_hand (Exchange fresh m) = option_list fresh"
| "in_hand (Retire old m) = option_list old"
| "in_hand (StopWriter r m) = [r]"
| "in_hand (Deallocate r m) = [r]"
| "in_hand (Reply m) = []"

primrec leasable :: "control \<Rightarrow> ring list" where
  "leasable Waiting = []"
| "leasable (Exchange fresh m) = []"
| "leasable (Retire old m) = option_list old"
| "leasable (StopWriter r m) = []"
| "leasable (Deallocate r m) = []"
| "leasable (Reply m) = []"

definition owned :: "writer \<Rightarrow> ring list" where
  "owned w = option_list (currentAudio w) @ retired w @ in_hand (control w)"

definition held :: "writer \<Rightarrow> ring set" where
  "held w = {r. Using (Some r) \<in> set (callbacks w)}"

definition counted :: "callback list \<Rightarrow> nat" where
  "counted cs = length (filter (\<lambda>c. c \<noteq> Outside) cs)"

definition writer_inv :: "writer \<Rightarrow> bool" where
  "writer_inv w \<longleftrightarrow>
     length (callbacks w) < 2 ^ 32 \<and> leases w = of_nat (counted (callbacks w)) \<and>
     distinct (owned w) \<and> mapped w = set (owned w) \<and>
     held w \<subseteq> set_option (currentAudio w) \<union> set (retired w) \<union> set (leasable (control w))"

lemma counted_update:
  assumes "i < length cs"
  shows "counted (cs[i := c]) + (if cs ! i = Outside then 0 else 1) = counted cs + (if c = Outside then 0 else 1)"
  using assms
proof (induction cs arbitrary: i)
  case (Cons d ds)
  show ?case
  proof (cases i)
    case (Suc j)
    then show ?thesis using Cons.IH [of j] Cons.prems
      by (simp add: counted_def split: if_split_asm)
  qed (simp add: counted_def)
qed simp

lemma counted_le: "counted cs \<le> length cs"
  by (simp add: counted_def)

lemma no_lease_no_holder:
  assumes "writer_inv w" "leases w = 0"
  shows "held w = {}"
proof -
  have "counted (callbacks w) < 2 ^ 32"
    using assms(1) counted_le [of "callbacks w"] by (simp add: writer_inv_def)
  then have "counted (callbacks w) = 0"
    using assms by (metis unat_0 unat_of_nat_u32 writer_inv_def)
  then show ?thesis by (force simp: counted_def held_def filter_empty_conv)
qed

lemma inv_callback [step_invs]:
  assumes "writer_inv w" "i < length (callbacks w)"
  shows "writer_inv (callback_access i w)"
proof (cases "callbacks w ! i")
  case Outside
  then have "counted ((callbacks w)[i := Acquiring]) = Suc (counted (callbacks w))"
    using counted_update [OF assms(2), of Acquiring] by simp
  moreover have "held (acquire_count i w) \<subseteq> held w"
    by (auto simp: held_def acquire_count_def dest!: subsetD [OF set_update_subset_insert])
  ultimately show ?thesis using assms Outside
    by (auto simp: writer_inv_def callback_access_def acquire_count_def owned_def add.commute)
next
  case Acquiring
  then have "counted ((callbacks w)[i := Using (currentAudio w)]) = counted (callbacks w)"
    using counted_update [OF assms(2), of "Using (currentAudio w)"] by simp
  moreover have "held (acquire_load i w) \<subseteq> held w \<union> set_option (currentAudio w)"
    by (auto simp: held_def acquire_load_def dest!: subsetD [OF set_update_subset_insert])
  ultimately show ?thesis using assms Acquiring
    by (auto simp: writer_inv_def callback_access_def acquire_load_def owned_def)
next
  case (Using r)
  then have "Suc (counted ((callbacks w)[i := Outside])) = counted (callbacks w)"
    using counted_update [OF assms(2), of Outside] by simp
  then have "of_nat (counted (callbacks w)) - 1 = (of_nat (counted ((callbacks w)[i := Outside])) :: u32)"
    by (metis add_diff_cancel_left' of_nat_Suc)
  moreover have "held (SVCWriterRelease i w) \<subseteq> held w"
    by (auto simp: held_def SVCWriterRelease_def dest!: subsetD [OF set_update_subset_insert])
  ultimately show ?thesis using assms Using
    by (auto simp: writer_inv_def callback_access_def SVCWriterRelease_def owned_def)
qed

lemma inv_block [step_invs]:
  assumes "writer_inv w"
  shows "writer_inv (control_access w)"
proof (cases "control w")
  case (Retire old reply)
  show ?thesis
  proof (cases old)
    case (Some audio)
    show ?thesis
    proof (cases "leases w = 0")
      case True
      then show ?thesis using assms Retire Some no_lease_no_holder [OF assms True]
        by (auto simp: writer_inv_def control_access_def owned_def held_def)
    next
      case False
      then show ?thesis using assms Retire Some
        by (auto simp: writer_inv_def control_access_def owned_def held_def)
    qed
  qed (use assms Retire in \<open>auto simp: writer_inv_def control_access_def owned_def held_def\<close>)
next
  case (Reply m)
  then show ?thesis using assms
    by (cases m) (auto simp: writer_inv_def control_access_def owned_def held_def)
qed (use assms in \<open>auto simp: writer_inv_def control_access_def owned_def held_def\<close>)

lemma inv_event [step_invs]:
  assumes "writer_inv w" "control w = Waiting" "set_option allocated \<inter> mapped w = {}"
  shows "writer_inv (handle_event event allocated w)"
proof (cases event)
  case (RotateMessage g enabled)
  then show ?thesis using assms
    by (cases allocated) (auto simp: writer_inv_def handle_event_def owned_def held_def Let_def)
qed (use assms in \<open>auto simp: writer_inv_def handle_event_def owned_def held_def\<close>)

lemma inv_retry [step_invs]:
  assumes "writer_inv w" "control w = Waiting" "audio \<in> set (retired w)"
  shows "writer_inv (retry_retire audio w)"
proof -
  have "distinct (retired w)" using assms(1) by (simp add: writer_inv_def owned_def)
  then have "set (remove1 audio (retired w)) = set (retired w) - {audio}" by (rule set_remove1_eq)
  then show ?thesis using assms
    by (auto simp: writer_inv_def retry_retire_def owned_def held_def)
qed

lemma inv_hello [step_invs]: "writer_inv w \<Longrightarrow> writer_inv (retry_hello w)"
  by (simp add: writer_inv_def retry_hello_def Hello_def owned_def held_def)

lemma inv_connect [step_invs]: "writer_inv w \<Longrightarrow> writer_inv (snd (SVCWriterConnect c r w))"
  by (simp add: writer_inv_def SVCWriterConnect_def Hello_def owned_def held_def)

lemma inv_writer_start: "n < 2 ^ 32 \<Longrightarrow> writer_inv (writer_start n)"
  by (simp add: writer_inv_def writer_start_def owned_def held_def counted_def)

interpretation writer: inductive_invariant writer_step
  "\<lambda>w. \<exists>n < 2 ^ 32. w = writer_start n" writer_inv
proof unfold_locales
  show "writer_inv w" if "\<exists>n < 2 ^ 32. w = writer_start n" for w
    using that inv_writer_start by blast
  show "writer_inv w'" if "writer_inv w" "writer_step w w'" for w w'
    using that(2,1) by cases (auto intro: step_invs)
qed

lemma writer_reachable_inv:
  "n < 2 ^ 32 \<Longrightarrow> reachable writer_step (writer_start n) w \<Longrightarrow> writer_inv w"
  using writer.reachable_inv by blast

section \<open>Blocks\<close>

text \<open>A block of the control queue has at most five accesses.\<close>

definition run_block :: "writer \<Rightarrow> writer" where
  "run_block w = (control_access ^^ 5) w"

lemma run_block_simps:
  "run_block w = control_access (control_access (control_access (control_access (control_access w))))"
  by (simp add: run_block_def numeral_eq_Suc)

lemma reachable_run_block: "reachable writer_step s w \<Longrightarrow> reachable writer_step s (run_block w)"
proof -
  have one: "reachable writer_step s (control_access v)" if "reachable writer_step s v" for v
  proof (cases "control v = Waiting")
    case True
    then have "control_access v = v" by (simp add: control_access_def)
    then show ?thesis using that by simp
  qed (auto intro: reachable_step [OF that] block_moves)
  then show "reachable writer_step s w \<Longrightarrow> reachable writer_step s (run_block w)"
    by (simp add: run_block_simps)
qed

lemma block_retry:
  assumes "control w = Waiting" "leases w = 0"
  shows "run_block (retry_retire r w) =
    w\<lparr>retired := remove1 r (retired w), active := (active w)(r := False), mapped := mapped w - {r}\<rparr>"
  using assms by (cases w) (simp add: run_block_simps retry_retire_def control_access_def)

lemma blocks_retry:
  assumes "control w = Waiting" "leases w = 0"
  shows "fold (\<lambda>r v. run_block (retry_retire r v)) rs w =
    w\<lparr>retired := fold remove1 rs (retired w), active := (\<lambda>r. r \<notin> set rs \<and> active w r),
      mapped := mapped w - set rs\<rparr>"
  using assms
proof (induction rs arbitrary: w)
  case (Cons r rs)
  have act: "(\<lambda>q. q \<notin> set rs \<and> ((active w)(r := False)) q) = (\<lambda>q. q \<notin> set (r # rs) \<and> active w q)"
    by auto
  show ?case using Cons.prems
    by (simp add: block_retry Cons.IH act Diff_insert2 [symmetric] del: fun_upd_apply)
qed simp

lemma fold_remove1_set: "distinct xs \<Longrightarrow> set (fold remove1 rs xs) = set xs - set rs"
  by (induction rs arbitrary: xs) auto

section \<open>Properties\<close>

text \<open>
  Property C2. A real-time callback never uses a ring that has been deallocated: however the
  callbacks and the control queue interleave, the ring a callback got from \<open>SVCWriterAcquire\<close> is
  allocated until its \<open>SVCWriterRelease\<close>, and the control queue is not about to stop or free it.
\<close>
theorem writer_lease_keeps_ring:
  assumes "n < 2 ^ 32" and "reachable writer_step (writer_start n) w"
    and "Using (Some r) \<in> set (callbacks w)"
  shows "r \<in> mapped w \<and> (\<forall>m. control w \<noteq> StopWriter r m \<and> control w \<noteq> Deallocate r m)"
proof -
  have inv: "writer_inv w" using writer_reachable_inv [OF assms(1,2)] .
  then have "r \<in> set_option (currentAudio w) \<union> set (retired w) \<union> set (leasable (control w))"
    using assms(3) by (auto simp: writer_inv_def held_def)
  then show ?thesis using inv
    by (cases "control w") (auto simp: writer_inv_def owned_def)
qed

text \<open>
  Property C37. No ring leaks and none is freed twice: at any moment the allocated rings are the
  current one, the retired ones that wait for another attempt, and the one the control queue has in
  hand, each of them in one of these places only.
\<close>
theorem writer_rings_owned_once:
  assumes "n < 2 ^ 32" and "reachable writer_step (writer_start n) w"
  shows "mapped w = set_option (currentAudio w) \<union> set (retired w) \<union> set (in_hand (control w)) \<and>
    distinct (option_list (currentAudio w) @ retired w @ in_hand (control w))"
  using writer_reachable_inv [OF assms] by (auto simp: writer_inv_def owned_def)

text \<open>
  Property C38. Every retired ring is freed: once no callback is inside, one more attempt for each of
  them, in whatever order the timers fire, leaves only the current ring allocated.
\<close>
theorem writer_retired_rings_freed:
  assumes "n < 2 ^ 32" and "reachable writer_step (writer_start n) w"
    and "control w = Waiting" and "set (callbacks w) \<subseteq> {Outside}"
    and "distinct rs" and "set rs = set (retired w)"
  shows "let w' = fold (\<lambda>r v. run_block (retry_retire r v)) rs w
    in mapped w' = set_option (currentAudio w) \<and> retired w' = [] \<and> control w' = Waiting \<and>
       currentAudio w' = currentAudio w \<and> (\<forall>r \<in> set rs. \<not> active w' r)"
proof -
  have inv: "writer_inv w" using writer_reachable_inv [OF assms(1,2)] .
  have "filter (\<lambda>c. c \<noteq> Outside) (callbacks w) = []" using assms(4) by (auto simp: filter_empty_conv)
  then have idle: "leases w = 0" using inv by (simp add: writer_inv_def counted_def)
  have "set (fold remove1 rs (retired w)) = {}"
    using inv assms(6) by (simp add: fold_remove1_set writer_inv_def owned_def)
  moreover have "mapped w - set rs = set_option (currentAudio w)"
    using inv assms(3,6) by (auto simp: writer_inv_def owned_def)
  ultimately show ?thesis
    using assms(3) by (simp add: blocks_retry [OF assms(3) idle] Let_def)
qed

section \<open>An example\<close>

text \<open>
  Two callbacks. The broker has the ring rotated twice while the first callback uses the ring of
  the first rotation.
\<close>

lemma block_rotate:
  assumes "control w = Waiting"
  shows "run_block (handle_event (RotateMessage g True) (Some r) w) =
    (case currentAudio w of
       None \<Rightarrow> w\<lparr>currentAudio := Some r, mapped := insert r (mapped w),
         sent_messages := sent_messages w @ [PublishMessage g (Some r)]\<rparr>
     | Some old \<Rightarrow>
         if leases w = 0 then w\<lparr>currentAudio := Some r, active := (active w)(old := False),
           mapped := insert r (mapped w) - {old},
           sent_messages := sent_messages w @ [PublishMessage g (Some r)]\<rparr>
         else w\<lparr>currentAudio := Some r, mapped := insert r (mapped w), retired := retired w @ [old],
           sent_messages := sent_messages w @ [PublishMessage g (Some r)]\<rparr>)"
  using assms
  by (cases w; cases "currentAudio w"; cases "leases w = 0")
    (simp_all add: run_block_simps handle_event_def control_access_def Let_def)

definition example_writer_1 :: writer where
  "example_writer_1 = run_block (handle_event (RotateMessage 1 True) (Some 7)
     (snd (SVCWriterConnect True True (writer_start 2))))"

definition example_writer :: writer where
  "example_writer = run_block (handle_event (RotateMessage 2 True) (Some 8)
     (callback_access 0 (callback_access 0 example_writer_1)))"

lemmas writer_eval = callback_access_def acquire_count_def acquire_load_def SVCWriterRelease_def
  SVCWriterConnect_def Hello_def writer_start_def numeral_2_eq_2

lemma example_writer_1_eq:
  "example_writer_1 = \<lparr>currentAudio = Some 7, leases = 0, callbacks = [Outside, Outside], mapped = {7},
     active = (\<lambda>_. False), retired = [], control = Waiting, writerConnection = True, hellos = 0,
     sent_messages = [HelloMessage, PublishMessage 1 (Some 7)]\<rparr>"
  unfolding example_writer_1_def by (subst block_rotate) (simp_all add: writer_eval)

lemma example_writer_eq:
  "example_writer = \<lparr>currentAudio = Some 8, leases = 1, callbacks = [Using (Some 7), Outside],
     mapped = {7, 8}, active = (\<lambda>_. False), retired = [7], control = Waiting, writerConnection = True,
     hellos = 0, sent_messages = [HelloMessage, PublishMessage 1 (Some 7), PublishMessage 2 (Some 8)]\<rparr>"
  unfolding example_writer_def example_writer_1_eq
  by (subst block_rotate) (auto simp: writer_eval)

lemma example_writer_reachable: "reachable writer_step (writer_start 2) example_writer"
proof -
  define w0 where "w0 = snd (SVCWriterConnect True True (writer_start 2))"
  have w0: "reachable writer_step (writer_start 2) w0"
    unfolding w0_def by (rule reachable_step [OF reachable_start]) (rule connect)
  have fields: "writerConnection w0" "control w0 = Waiting" "mapped w0 = {}"
    by (simp_all add: w0_def writer_eval)
  have "reachable writer_step (writer_start 2) (handle_event (RotateMessage 1 True) (Some 7) w0)"
    by (rule reachable_step [OF w0]) (rule event_arrives, simp_all add: fields)
  then have w1: "reachable writer_step (writer_start 2) example_writer_1"
    unfolding example_writer_1_def w0_def [symmetric] by (rule reachable_run_block)
  define w2 where "w2 = callback_access 0 (callback_access 0 example_writer_1)"
  have "reachable writer_step (writer_start 2) (callback_access 0 example_writer_1)"
    by (rule reachable_step [OF w1]) (rule callback_moves, simp add: example_writer_1_eq)
  then have "reachable writer_step (writer_start 2) w2"
    unfolding w2_def by (rule reachable_step) (rule callback_moves, simp add: example_writer_1_eq writer_eval)
  moreover have "writerConnection w2" "control w2 = Waiting" "8 \<notin> mapped w2"
    by (simp_all add: w2_def example_writer_1_eq writer_eval)
  ultimately have "reachable writer_step (writer_start 2) (handle_event (RotateMessage 2 True) (Some 8) w2)"
    by (elim reachable_step) (rule event_arrives, simp_all)
  then show ?thesis unfolding example_writer_def w2_def [symmetric] by (rule reachable_run_block)
qed

lemma writer_lease_keeps_ring_witness:
  "7 \<in> mapped example_writer \<and> currentAudio example_writer = Some 8"
  using writer_lease_keeps_ring [OF _ example_writer_reachable, of 7] by (simp add: example_writer_eq)

lemma writer_rings_owned_once_witness:
  "mapped example_writer = {7, 8} \<and>
   distinct (option_list (currentAudio example_writer) @ retired example_writer @ in_hand (control example_writer))"
  using writer_rings_owned_once [OF _ example_writer_reachable] by (simp add: example_writer_eq)

lemma writer_retired_rings_freed_witness:
  "let w = callback_access 0 example_writer; w' = fold (\<lambda>r v. run_block (retry_retire r v)) [7] w
    in retired w = [7] \<and> mapped w' = {8}"
proof -
  have reach: "reachable writer_step (writer_start 2) (callback_access 0 example_writer)"
    by (rule reachable_step [OF example_writer_reachable]) (rule callback_moves, simp add: example_writer_eq)
  have "(2::nat) < 2 ^ 32" by simp
  from writer_retired_rings_freed [OF this reach, of "[7]"] show ?thesis
    by (simp add: Let_def example_writer_eq callback_access_def SVCWriterRelease_def)
qed

end
