(* ===== verification/Secure_Reader.thy ===== *)
theory Secure_Reader
  imports Transition_Systems
begin

text \<open>
  \<open>common/SecureAudioReader.c\<close>: the forwarder's side of the broker connection. One connection
  object is shared by the caller of \<open>SVCReaderOpen\<close> and \<open>SVCReaderClose\<close>, by the handlers on the
  connection's queue and by the connection's finalizer. Every access to the object is a step; what
  XPC guarantees about the order of its callbacks are the guards of the steps that begin one.
\<close>

section \<open>Connection errors\<close>

text \<open>The errors of XPC, told apart only by the code-signing one.\<close>

definition ConnectionError :: "bool \<Rightarrow> int" where
  "ConnectionError signing = (if signing then EACCES else ECONNRESET)"

section \<open>State\<close>

text \<open>
  A reply: an error, an object that is no dictionary, or a dictionary with its string \<open>op\<close>, its
  number \<open>error\<close> and the address \<open>SVCAudioMapReadPort\<close> returns for its port (none when there is no
  port or it cannot be mapped).
\<close>

datatype reply =
    ReplyError bool
  | ReplyOther
  | ReplyDictionary "string option" int "nat option"

text \<open>
  The next access of a handler on the queue. The flag tells the reply handler, which goes on to
  release its reference, from the event handler.
\<close>

datatype queue_pc =
    QIdle
  | QEvent bool
  | QReply reply
  | QReplyAlive reply
  | QFailError int bool
  | QFailAlive bool
  | QFailSignal bool
  | QMap "nat option"
  | QSignal
  | QRelease
  | QFree

text \<open>The next access of the caller, with the error number \<open>SVCReaderOpen\<close> will report.\<close>

datatype caller_pc =
    CWait
  | CCheckAlive
  | CLoadError
  | CReturned
  | CClose "int option"
  | CCloseAlive "int option"
  | CCancel "int option"
  | CRelease "int option"
  | CDone "int option"

datatype finalizer_pc =
    FNotYet
  | FRelease
  | FFree
  | FDone

record reader_connection =
  references :: u32
  alive :: bool
  closed :: bool
  error :: int
  audio :: "nat option"
  ready :: nat
  reply_pending :: bool
  queue_at :: queue_pc
  caller_at :: caller_pc
  finalizer_at :: finalizer_pc
  cancelled :: bool
  unmapped :: "nat option list"
  freed :: nat

text \<open>
  The object once the request is sent: two references, the semaphore at zero. \<open>unmapped\<close> and
  \<open>freed\<close> record what \<open>ReleaseReader\<close> gives back.
\<close>

definition reader_start :: reader_connection where
  "reader_start = \<lparr>references = 2, alive = True, closed = False, error = 0, audio = None, ready = 0,
     reply_pending = True, queue_at = QIdle, caller_at = CWait, finalizer_at = FNotYet, cancelled = False,
     unmapped = [], freed = 0\<rparr>"

section \<open>The queue\<close>

text \<open>What the reply handler does with a reply once it found the connection open and alive.\<close>

definition reply_action :: "reply \<Rightarrow> queue_pc" where
  "reply_action r =
     (case r of
        ReplyError signing \<Rightarrow> QFailError (ConnectionError signing) True
      | ReplyOther \<Rightarrow> QFailError EPROTO True
      | ReplyDictionary operation error_number ring \<Rightarrow>
          if operation = Some ''error'' then
            QFailError (if error_number = EBUSY then EBUSY else EACCES) True
          else if operation \<noteq> Some ''grant'' then QFailError EPROTO True
          else QMap ring)"

definition ReleaseReader :: "reader_connection \<Rightarrow> bool \<times> reader_connection" where
  "ReleaseReader c = (references c = 1, c\<lparr>references := references c - 1\<rparr>)"

definition FreeReader :: "reader_connection \<Rightarrow> reader_connection" where
  "FreeReader c = c\<lparr>unmapped := unmapped c @ [audio c], freed := Suc (freed c)\<rparr>"

text \<open>
  \<open>SVCReaderOpen\<close> up to its request: whether there is memory for the object, whether the connection could be
  made and its requirement set. Until the request the object has one reference, the finalizer's; on a failure
  it is released, by the function itself or by the finalizer of the released connection. The error number is
  the allocator's when there is no object.
\<close>

datatype reader_setup = NoObject | SetupFailed int reader_connection | Requested reader_connection

definition last_release :: "reader_connection \<Rightarrow> reader_connection" where
  "last_release c = (case ReleaseReader c of (last_one, c) \<Rightarrow> if last_one then FreeReader c else c)"

definition SVCReaderOpen_setup :: "bool \<Rightarrow> bool \<Rightarrow> bool \<Rightarrow> reader_setup" where
  "SVCReaderOpen_setup allocated created requirement_set =
     (let reader = reader_start\<lparr>references := 1, reply_pending := False\<rparr> in
      if \<not> allocated then NoObject
      else if \<not> created then SetupFailed ECONNREFUSED (last_release reader)
      else if \<not> requirement_set then SetupFailed EACCES (last_release reader)
      else Requested (reader\<lparr>references := references reader + 1, reply_pending := True\<rparr>))"

text \<open>A failed setup frees the object once and unmaps nothing; otherwise the run starts in \<open>reader_start\<close>.\<close>

lemma setup_outcome:
  "SVCReaderOpen_setup a c r = SetupFailed e reader \<Longrightarrow> freed reader = 1 \<and> unmapped reader = [None] \<and> e \<noteq> 0"
  "SVCReaderOpen_setup a c r = Requested reader \<Longrightarrow> reader = reader_start"
  by (auto simp: SVCReaderOpen_setup_def last_release_def ReleaseReader_def FreeReader_def reader_start_def Let_def
      errno_defs split: if_splits)

definition queue_access :: "reader_connection \<Rightarrow> reader_connection" where
  "queue_access c =
     (case queue_at c of
        QIdle \<Rightarrow> c
      | QEvent signing \<Rightarrow>
          c\<lparr>queue_at := (if closed c then QIdle else QFailError (ConnectionError signing) False)\<rparr>
      | QReply r \<Rightarrow> c\<lparr>queue_at := (if closed c then QRelease else QReplyAlive r)\<rparr>
      | QReplyAlive r \<Rightarrow> c\<lparr>queue_at := (if alive c then reply_action r else QRelease)\<rparr>
      | QFailError e in_reply \<Rightarrow>
          c\<lparr>error := (if error c = 0 then e else error c), queue_at := QFailAlive in_reply\<rparr>
      | QFailAlive in_reply \<Rightarrow> c\<lparr>alive := False, queue_at := QFailSignal in_reply\<rparr>
      | QFailSignal in_reply \<Rightarrow>
          c\<lparr>ready := Suc (ready c), queue_at := (if in_reply then QRelease else QIdle)\<rparr>
      | QMap ring \<Rightarrow>
          c\<lparr>audio := ring, queue_at := (if ring = None then QFailError EPROTO True else QSignal)\<rparr>
      | QSignal \<Rightarrow> c\<lparr>ready := Suc (ready c), queue_at := QRelease\<rparr>
      | QRelease \<Rightarrow> (case ReleaseReader c of (last_one, c) \<Rightarrow> c\<lparr>queue_at := (if last_one then QFree else QIdle)\<rparr>)
      | QFree \<Rightarrow> (FreeReader c)\<lparr>queue_at := QIdle\<rparr>)"

section \<open>The caller\<close>

text \<open>
  \<open>SVCReaderOpen\<close> from its wait on, and \<open>SVCReaderClose\<close>. \<open>timeout\<close> is whether the wait gives up;
  it does not give up once it got the semaphore.
\<close>

definition caller_access :: "bool \<Rightarrow> reader_connection \<Rightarrow> reader_connection" where
  "caller_access timeout c =
     (case caller_at c of
        CWait \<Rightarrow>
          if 0 < ready c then c\<lparr>ready := ready c - 1, caller_at := CCheckAlive\<rparr>
          else if timeout then c\<lparr>caller_at := CClose (Some ETIMEDOUT)\<rparr>
          else c
      | CCheckAlive \<Rightarrow> c\<lparr>caller_at := (if alive c then CReturned else CLoadError)\<rparr>
      | CLoadError \<Rightarrow> c\<lparr>caller_at := CClose (Some (error c))\<rparr>
      | CReturned \<Rightarrow> c
      | CClose e \<Rightarrow> c\<lparr>closed := True, caller_at := CCloseAlive e\<rparr>
      | CCloseAlive e \<Rightarrow> c\<lparr>alive := False, caller_at := CCancel e\<rparr>
      | CCancel e \<Rightarrow> c\<lparr>cancelled := True, caller_at := CRelease e\<rparr>
      | CRelease e \<Rightarrow> c\<lparr>caller_at := CDone e\<rparr>
      | CDone e \<Rightarrow> c)"

definition SVCReaderClose :: "reader_connection \<Rightarrow> reader_connection" where
  "SVCReaderClose c = c\<lparr>caller_at := CClose None\<rparr>"

definition SVCReaderAudio :: "reader_connection \<Rightarrow> nat option" where
  "SVCReaderAudio c = audio c"

definition SVCReaderIsAlive :: "reader_connection option \<Rightarrow> bool" where
  "SVCReaderIsAlive c = (case c of None \<Rightarrow> False | Some c \<Rightarrow> alive c)"

section \<open>The finalizer\<close>

definition finalizer_access :: "reader_connection \<Rightarrow> reader_connection" where
  "finalizer_access c =
     (case finalizer_at c of
        FNotYet \<Rightarrow> c
      | FRelease \<Rightarrow>
          (case ReleaseReader c of (last_one, c) \<Rightarrow> c\<lparr>finalizer_at := (if last_one then FFree else FDone)\<rparr>)
      | FFree \<Rightarrow> (FreeReader c)\<lparr>finalizer_at := FDone\<rparr>
      | FDone \<Rightarrow> c)"

section \<open>Steps\<close>

primrec in_event_handler :: "queue_pc \<Rightarrow> bool" where
  "in_event_handler QIdle = False"
| "in_event_handler (QEvent s) = True"
| "in_event_handler (QReply r) = False"
| "in_event_handler (QReplyAlive r) = False"
| "in_event_handler (QFailError e in_reply) = (\<not> in_reply)"
| "in_event_handler (QFailAlive in_reply) = (\<not> in_reply)"
| "in_event_handler (QFailSignal in_reply) = (\<not> in_reply)"
| "in_event_handler (QMap ring) = False"
| "in_event_handler QSignal = False"
| "in_event_handler QRelease = False"
| "in_event_handler QFree = False"

text \<open>
  The queue is serial; the reply handler runs once, the finalizer once and after the caller's
  release, and the event handler never during or after the finalizer. The caller closes a
  connection it was given, once.
\<close>

inductive reader_step :: "reader_connection \<Rightarrow> reader_connection \<Rightarrow> bool" where
  reply_arrives: "\<lbrakk>queue_at c = QIdle; reply_pending c\<rbrakk> \<Longrightarrow>
    reader_step c (c\<lparr>queue_at := QReply r, reply_pending := False\<rparr>)"
| error_arrives: "\<lbrakk>queue_at c = QIdle; finalizer_at c = FNotYet\<rbrakk> \<Longrightarrow>
    reader_step c (c\<lparr>queue_at := QEvent signing\<rparr>)"
| queue_moves: "queue_at c \<noteq> QIdle \<Longrightarrow> reader_step c (queue_access c)"
| caller_moves: "reader_step c (caller_access timeout c)"
| caller_closes: "caller_at c = CReturned \<Longrightarrow> reader_step c (SVCReaderClose c)"
| finalizer_starts: "\<lbrakk>finalizer_at c = FNotYet; caller_at c = CDone e; \<not> in_event_handler (queue_at c)\<rbrakk> \<Longrightarrow>
    reader_step c (c\<lparr>finalizer_at := FRelease\<rparr>)"
| finalizer_moves: "finalizer_at c \<noteq> FNotYet \<Longrightarrow> reader_step c (finalizer_access c)"

section \<open>The invariant\<close>

text \<open>Whether the reply handler and the finalizer still have their references.\<close>

definition reply_reference :: "bool \<Rightarrow> queue_pc \<Rightarrow> bool" where
  "reply_reference pending q \<longleftrightarrow>
     pending \<or> (\<not> in_event_handler q \<and> q \<noteq> QIdle \<and> q \<noteq> QFree)"

definition finalizer_reference :: "finalizer_pc \<Rightarrow> bool" where
  "finalizer_reference f \<longleftrightarrow> f = FNotYet \<or> f = FRelease"

text \<open>
  \<open>counts\<close> relates the reference count and what was given back to where the threads are; the
  other facts are about the order of the callbacks.
\<close>

definition counts :: "u32 \<Rightarrow> bool \<Rightarrow> queue_pc \<Rightarrow> finalizer_pc \<Rightarrow> nat \<Rightarrow> bool" where
  "counts n pending q f k \<longleftrightarrow>
     n = of_bool (reply_reference pending q) + of_bool (finalizer_reference f) \<and>
     (q = QFree \<longrightarrow> f = FDone) \<and> (f = FFree \<longrightarrow> n = 0) \<and>
     k = (if n = 0 \<and> q \<noteq> QFree \<and> f \<noteq> FFree then 1 else 0)"

definition reference_inv :: "reader_connection \<Rightarrow> bool" where
  "reference_inv c \<longleftrightarrow>
     counts (references c) (reply_pending c) (queue_at c) (finalizer_at c) (freed c) \<and>
     (reply_pending c \<longrightarrow> in_event_handler (queue_at c) \<or> queue_at c = QIdle) \<and>
     (in_event_handler (queue_at c) \<longrightarrow> finalizer_at c = FNotYet) \<and>
     (finalizer_at c \<noteq> FNotYet \<longrightarrow> (\<exists>e. caller_at c = CDone e)) \<and>
     unmapped c = replicate (freed c) (audio c)"

lemma of_bool_references [simp]:
  "(of_bool a + of_bool b :: u32) = 1 \<longleftrightarrow> a \<noteq> b" "(of_bool a + of_bool b :: u32) = 0 \<longleftrightarrow> \<not> a \<and> \<not> b"
  by (cases a; cases b; simp)+

lemma in_event_reply_action [simp]: "\<not> in_event_handler (reply_action r)"
  by (cases r) (simp_all add: reply_action_def)

lemma reply_action_busy [simp]: "reply_action r \<noteq> QIdle" "reply_action r \<noteq> QFree"
  by (cases r; simp add: reply_action_def)+

lemmas count_defs = counts_def reply_reference_def finalizer_reference_def
lemmas reference_defs = reference_inv_def count_defs

lemma reference_queue [step_invs]:
  assumes "reference_inv c" "queue_at c \<noteq> QIdle"
  shows "reference_inv (queue_access c)"
  using assms
  by (cases "queue_at c"; cases "finalizer_at c")
    (auto simp: reference_defs queue_access_def ReleaseReader_def FreeReader_def split: if_splits)

lemma caller_fields [simp]:
  "references (caller_access t c) = references c" "reply_pending (caller_access t c) = reply_pending c"
  "queue_at (caller_access t c) = queue_at c" "finalizer_at (caller_access t c) = finalizer_at c"
  "audio (caller_access t c) = audio c" "freed (caller_access t c) = freed c"
  "unmapped (caller_access t c) = unmapped c" "error (caller_access t c) = error c"
  by (simp_all add: caller_access_def split: caller_pc.split)

lemma caller_done: "caller_at c = CDone e \<Longrightarrow> caller_access t c = c"
  by (simp add: caller_access_def)

lemma reference_caller [step_invs]:
  assumes "reference_inv c"
  shows "reference_inv (caller_access t c)"
proof -
  have "finalizer_at c \<noteq> FNotYet \<longrightarrow> (\<exists>e. caller_at (caller_access t c) = CDone e)"
    using assms caller_done by (metis reference_inv_def)
  with assms show ?thesis unfolding reference_inv_def caller_fields by blast
qed

lemma reference_close [step_invs]:
  "reference_inv c \<Longrightarrow> caller_at c = CReturned \<Longrightarrow> reference_inv (SVCReaderClose c)"
  by (auto simp: reference_inv_def SVCReaderClose_def)

lemma reference_finalizer [step_invs]:
  assumes "reference_inv c"
  shows "reference_inv (finalizer_access c)"
  using assms
  by (cases "finalizer_at c")
    (auto simp: reference_defs finalizer_access_def ReleaseReader_def FreeReader_def split: if_splits)

lemma reference_reply [step_invs]:
  assumes "reference_inv c" "queue_at c = QIdle" "reply_pending c"
  shows "reference_inv (c\<lparr>queue_at := QReply r, reply_pending := False\<rparr>)"
  using assms by (cases "finalizer_at c") (auto simp: reference_defs)

lemma reference_event [step_invs]:
  assumes "reference_inv c" "queue_at c = QIdle" "finalizer_at c = FNotYet"
  shows "reference_inv (c\<lparr>queue_at := QEvent s\<rparr>)"
  using assms by (auto simp: reference_defs)

lemma reference_finalizer_starts [step_invs]:
  assumes "reference_inv c" "finalizer_at c = FNotYet" "caller_at c = CDone e"
    "\<not> in_event_handler (queue_at c)"
  shows "reference_inv (c\<lparr>finalizer_at := FRelease\<rparr>)"
  using assms by (auto simp: reference_defs)

lemma reference_step:
  assumes "reference_inv c" "reader_step c c'"
  shows "reference_inv c'"
  using assms(2,1) by cases (simp_all add: step_invs)

lemma reference_start: "reference_inv reader_start"
  by (simp add: reference_defs reader_start_def)

section \<open>The outcome\<close>

definition open_errors :: "int set" where
  "open_errors = {EACCES, EBUSY, EPROTO, ECONNRESET}"

primrec caller_error :: "caller_pc \<Rightarrow> int option" where
  "caller_error CWait = None"
| "caller_error CCheckAlive = None"
| "caller_error CLoadError = None"
| "caller_error CReturned = None"
| "caller_error (CClose e) = e"
| "caller_error (CCloseAlive e) = e"
| "caller_error (CCancel e) = e"
| "caller_error (CRelease e) = e"
| "caller_error (CDone e) = e"

primrec queue_inv :: "reader_connection \<Rightarrow> queue_pc \<Rightarrow> bool" where
  "queue_inv c QIdle = True"
| "queue_inv c (QEvent s) = True"
| "queue_inv c (QReply r) = (audio c = None)"
| "queue_inv c (QReplyAlive r) = (audio c = None)"
| "queue_inv c (QFailError e in_reply) = (e \<in> open_errors)"
| "queue_inv c (QFailAlive in_reply) = (error c \<noteq> 0)"
| "queue_inv c (QFailSignal in_reply) = (\<not> alive c)"
| "queue_inv c (QMap ring) = (audio c = None)"
| "queue_inv c QSignal = (audio c \<noteq> None)"
| "queue_inv c QRelease = True"
| "queue_inv c QFree = True"

primrec caller_inv :: "reader_connection \<Rightarrow> caller_pc \<Rightarrow> bool" where
  "caller_inv c CWait = (\<not> closed c)"
| "caller_inv c CCheckAlive = (\<not> closed c \<and> (audio c \<noteq> None \<or> \<not> alive c))"
| "caller_inv c CLoadError = (\<not> closed c \<and> error c \<noteq> 0)"
| "caller_inv c CReturned = (\<not> closed c \<and> audio c \<noteq> None)"
| "caller_inv c (CClose e) = (\<not> closed c)"
| "caller_inv c (CCloseAlive e) = closed c"
| "caller_inv c (CCancel e) = closed c"
| "caller_inv c (CRelease e) = closed c"
| "caller_inv c (CDone e) = closed c"

definition outcome_inv :: "reader_connection \<Rightarrow> bool" where
  "outcome_inv c \<longleftrightarrow>
     error c \<in> insert 0 open_errors \<and>
     (alive c \<or> error c \<noteq> 0 \<or> closed c) \<and>
     (reply_pending c \<longrightarrow> audio c = None) \<and>
     (0 < ready c \<longrightarrow> audio c \<noteq> None \<or> \<not> alive c) \<and>
     (\<forall>e. caller_error (caller_at c) = Some e \<longrightarrow> e \<in> insert ETIMEDOUT open_errors) \<and>
     queue_inv c (queue_at c) \<and> caller_inv c (caller_at c)"

lemma open_errors_nonzero: "e \<in> open_errors \<Longrightarrow> e \<noteq> 0"
  by (auto simp: open_errors_def errno_defs)

lemma reply_action_inv:
  "audio c = None \<Longrightarrow> queue_inv c (reply_action r)"
  by (cases r) (auto simp: reply_action_def open_errors_def ConnectionError_def)

lemma queue_inv_frame:
  "queue_inv c q \<Longrightarrow> audio d = audio c \<Longrightarrow> error d = error c \<Longrightarrow> alive d = alive c \<Longrightarrow> queue_inv d q"
  by (cases q) simp_all

lemma caller_inv_frame:
  "caller_inv c q \<Longrightarrow> audio d = audio c \<Longrightarrow> error d = error c \<Longrightarrow> alive d = alive c \<Longrightarrow>
   closed d = closed c \<Longrightarrow> caller_inv d q"
  by (cases q) simp_all

lemma connection_error: "ConnectionError s \<in> open_errors" "EPROTO \<in> open_errors"
  by (simp_all add: ConnectionError_def open_errors_def)

lemma outcome_queue:
  assumes "outcome_inv c" "queue_at c \<noteq> QIdle" "reply_pending c \<longrightarrow> in_event_handler (queue_at c)"
  shows "outcome_inv (queue_access c)"
proof (cases "queue_at c")
  case (QReplyAlive r)
  then have "queue_inv c (reply_action r)" using assms reply_action_inv by (simp add: outcome_inv_def)
  then show ?thesis using assms QReplyAlive
    by (auto simp: outcome_inv_def queue_access_def intro: queue_inv_frame caller_inv_frame)
qed (use assms connection_error open_errors_nonzero in
  \<open>cases "caller_at c"; auto simp: outcome_inv_def queue_access_def ReleaseReader_def FreeReader_def\<close>)+

lemma outcome_caller:
  assumes "outcome_inv c"
  shows "outcome_inv (caller_access t c)"
  using assms open_errors_nonzero
  by (cases "caller_at c"; cases "queue_at c") (auto simp: outcome_inv_def caller_access_def)

lemma outcome_frame:
  assumes "outcome_inv c" "error d = error c" "alive d = alive c" "closed d = closed c" "audio d = audio c"
    "ready d = ready c" "caller_at d = caller_at c" "reply_pending d \<longrightarrow> reply_pending c"
    "queue_inv c (queue_at c) \<longrightarrow> queue_inv c (queue_at d)"
  shows "outcome_inv d"
  using assms queue_inv_frame [of c "queue_at d" d] caller_inv_frame [of c "caller_at c" d]
  by (simp add: outcome_inv_def)

lemma outcome_finalizer: "outcome_inv c \<Longrightarrow> outcome_inv (finalizer_access c)"
  by (erule outcome_frame)
    (simp_all add: finalizer_access_def ReleaseReader_def FreeReader_def split: finalizer_pc.split)

lemma outcome_close: "outcome_inv c \<Longrightarrow> caller_at c = CReturned \<Longrightarrow> outcome_inv (SVCReaderClose c)"
  using queue_inv_frame [of c "queue_at c" "SVCReaderClose c"]
  by (auto simp: outcome_inv_def SVCReaderClose_def)

lemma outcome_step:
  assumes "outcome_inv c" "reference_inv c" "reader_step c c'"
  shows "outcome_inv c'"
  using assms(3)
proof cases
  case (reply_arrives r)
  then show ?thesis using assms(1)
    by (intro outcome_frame [of c c']) (auto simp: outcome_inv_def)
next
  case (error_arrives s)
  then show ?thesis using assms(1) by (intro outcome_frame [of c c']) simp_all
next
  case queue_moves
  then show ?thesis using assms(1,2) outcome_queue by (auto simp: reference_inv_def)
next
  case (finalizer_starts e)
  then show ?thesis using assms(1) by (intro outcome_frame [of c c']) simp_all
qed (use assms(1) outcome_caller outcome_close outcome_finalizer in auto)

lemma outcome_start: "outcome_inv reader_start"
  by (simp add: outcome_inv_def reader_start_def open_errors_def)

interpretation connection: inductive_invariant reader_step "\<lambda>c. c = reader_start"
  "\<lambda>c. reference_inv c \<and> outcome_inv c"
  by unfold_locales (auto intro: reference_start outcome_start reference_step outcome_step)

section \<open>Properties\<close>

text \<open>Whether some thread may still access the object.\<close>

definition in_use :: "reader_connection \<Rightarrow> bool" where
  "in_use c \<longleftrightarrow> (\<forall>e. caller_at c \<noteq> CDone e) \<or> queue_at c \<noteq> QIdle \<or>
     finalizer_at c = FRelease \<or> finalizer_at c = FFree \<or> reply_pending c"

definition finished :: "reader_connection \<Rightarrow> bool" where
  "finished c \<longleftrightarrow> finalizer_at c = FDone \<and> queue_at c = QIdle \<and> \<not> reply_pending c"

text \<open>
  Property C3. The connection object lives exactly as long as it is needed: while the caller, a
  handler or the finalizer may access it, it is not freed; it is never freed twice; once the
  finalizer and the reply handler are through it has been freed, and its mapping, if it got one, has
  been given back with it.
\<close>
theorem reader_object_lifetime:
  assumes "reachable reader_step reader_start c"
  shows "freed c \<le> 1 \<and> (in_use c \<longrightarrow> freed c = 0) \<and>
    (finished c \<longrightarrow> freed c = 1 \<and> unmapped c = [audio c])"
proof -
  have inv: "reference_inv c" using connection.reachable_inv [OF refl assms] by simp
  then have k: "freed c = (if references c = 0 \<and> queue_at c \<noteq> QFree \<and> finalizer_at c \<noteq> FFree then 1 else 0)"
    by (simp add: reference_inv_def counts_def)
  have zero: "references c = 0 \<longleftrightarrow>
      \<not> reply_reference (reply_pending c) (queue_at c) \<and> \<not> finalizer_reference (finalizer_at c)"
    using inv by (simp add: reference_inv_def counts_def)
  have "freed c = 0" if "in_use c"
    using that inv unfolding k zero in_use_def
    by (auto simp: reply_reference_def finalizer_reference_def reference_inv_def)
  moreover have "freed c = 1 \<and> unmapped c = [audio c]" if "finished c"
    using that inv k zero
    by (simp add: finished_def reference_inv_def reply_reference_def finalizer_reference_def)
  ultimately show ?thesis using k by auto
qed

text \<open>
  Property C36. What \<open>SVCReaderOpen\<close> reports is right whatever the handlers do meanwhile: a
  connection it returns has its ring mapped and is not freed, and a failure has an error number that
  tells a timeout, a refusal, a busy broker, a broken protocol and a lost connection apart, never
  zero.
\<close>
theorem reader_open_outcome:
  assumes "reachable reader_step reader_start c"
  shows "(caller_at c = CReturned \<longrightarrow> SVCReaderAudio c \<noteq> None \<and> freed c = 0) \<and>
    (\<forall>e. caller_at c = CDone (Some e) \<longrightarrow> e \<in> {ETIMEDOUT, EACCES, EBUSY, EPROTO, ECONNRESET} \<and> e \<noteq> 0)"
proof -
  have inv: "reference_inv c" "outcome_inv c" using connection.reachable_inv [OF refl assms] by simp_all
  have "freed c = 0" if "caller_at c = CReturned"
    using that inv(1) by (auto simp: reference_inv_def counts_def finalizer_reference_def)
  moreover have "e \<in> {ETIMEDOUT, EACCES, EBUSY, EPROTO, ECONNRESET}" if "caller_at c = CDone (Some e)" for e
    using that inv(2) by (auto simp: outcome_inv_def open_errors_def)
  moreover have "audio c \<noteq> None" if "caller_at c = CReturned"
    using that inv(2) by (simp add: outcome_inv_def)
  ultimately show ?thesis by (auto simp: SVCReaderAudio_def errno_defs)
qed

section \<open>A connection that is granted a ring and closed\<close>

lemma queue_access_idle: "queue_at c = QIdle \<Longrightarrow> queue_access c = c"
  by (simp add: queue_access_def)

lemma finalizer_access_idle: "finalizer_at c = FNotYet \<Longrightarrow> finalizer_access c = c"
  by (simp add: finalizer_access_def)

lemma reachable_queue: "reachable reader_step s c \<Longrightarrow> reachable reader_step s (queue_access c)"
  by (metis queue_access_idle queue_moves reachable_step)

lemma reachable_caller: "reachable reader_step s c \<Longrightarrow> reachable reader_step s (caller_access t c)"
  by (erule reachable_step) (rule caller_moves)

lemma reachable_finalizer: "reachable reader_step s c \<Longrightarrow> reachable reader_step s (finalizer_access c)"
  by (metis finalizer_access_idle finalizer_moves reachable_step)

text \<open>The reply handler, run to its end on the reply the broker sends with a grant.\<close>

definition receive_grant :: "nat option \<Rightarrow> reader_connection \<Rightarrow> reader_connection" where
  "receive_grant ring c = (queue_access ^^ 5)
     (c\<lparr>queue_at := QReply (ReplyDictionary (Some ''grant'') 0 ring), reply_pending := False\<rparr>)"

lemma receive_grant_start:
  "receive_grant (Some r) reader_start =
     \<lparr>references = 1, alive = True, closed = False, error = 0, audio = Some r, ready = 1,
      reply_pending = False, queue_at = QIdle, caller_at = CWait, finalizer_at = FNotYet,
      cancelled = False, unmapped = [], freed = 0\<rparr>"
  by (simp add: receive_grant_def reader_start_def numeral_eq_Suc queue_access_def reply_action_def
      ReleaseReader_def)

definition example_open :: reader_connection where
  "example_open = caller_access False (caller_access False (receive_grant (Some 5) reader_start))"

lemma example_open_eq:
  "example_open =
     \<lparr>references = 1, alive = True, closed = False, error = 0, audio = Some 5, ready = 0,
      reply_pending = False, queue_at = QIdle, caller_at = CReturned, finalizer_at = FNotYet,
      cancelled = False, unmapped = [], freed = 0\<rparr>"
  by (simp add: example_open_def receive_grant_start caller_access_def)

lemma example_open_reachable: "reachable reader_step reader_start example_open"
proof -
  have "reachable reader_step reader_start (reader_start\<lparr>queue_at :=
      QReply (ReplyDictionary (Some ''grant'') 0 (Some 5)), reply_pending := False\<rparr>)"
    by (rule reachable_step [OF reachable_start]) (rule reply_arrives, simp_all add: reader_start_def)
  then have "reachable reader_step reader_start (receive_grant (Some 5) reader_start)"
    unfolding receive_grant_def by (simp add: numeral_eq_Suc reachable_queue)
  then show ?thesis unfolding example_open_def by (intro reachable_caller)
qed

definition example_closed :: reader_connection where
  "example_closed = (let c = (caller_access False ^^ 4) (SVCReaderClose example_open)
     in (finalizer_access ^^ 2) (c\<lparr>finalizer_at := FRelease\<rparr>))"

lemma example_closed_eq:
  "example_closed =
     \<lparr>references = 0, alive = False, closed = True, error = 0, audio = Some 5, ready = 0,
      reply_pending = False, queue_at = QIdle, caller_at = CDone None, finalizer_at = FDone,
      cancelled = True, unmapped = [Some 5], freed = 1\<rparr>"
  by (simp add: example_closed_def example_open_eq SVCReaderClose_def caller_access_def
      finalizer_access_def ReleaseReader_def FreeReader_def numeral_eq_Suc Let_def)

lemma example_closed_reachable: "reachable reader_step reader_start example_closed"
proof -
  define c where "c = (caller_access False ^^ 4) (SVCReaderClose example_open)"
  have "reachable reader_step reader_start (SVCReaderClose example_open)"
    by (rule reachable_step [OF example_open_reachable]) (rule caller_closes, simp add: example_open_eq)
  then have "reachable reader_step reader_start c"
    unfolding c_def by (simp add: numeral_eq_Suc reachable_caller)
  moreover have "finalizer_at c = FNotYet" "caller_at c = CDone None" "queue_at c = QIdle"
    by (simp_all add: c_def example_open_eq SVCReaderClose_def caller_access_def numeral_eq_Suc)
  ultimately have "reachable reader_step reader_start (c\<lparr>finalizer_at := FRelease\<rparr>)"
    by (elim reachable_step) (rule finalizer_starts, auto)
  then show ?thesis
    unfolding example_closed_def c_def Let_def by (simp add: numeral_eq_Suc reachable_finalizer)
qed

lemma reader_object_lifetime_witness:
  "finished example_closed \<and> freed example_closed = 1 \<and> unmapped example_closed = [Some 5]"
  using reader_object_lifetime [OF example_closed_reachable]
  by (simp add: finished_def example_closed_eq)

lemma reader_open_outcome_witness:
  "caller_at example_open = CReturned \<and> SVCReaderAudio example_open \<noteq> None \<and> freed example_open = 0"
  using reader_open_outcome [OF example_open_reachable] by (simp add: example_open_eq)

end
