(* ===== verification/Secure_Session.thy ===== *)
theory Secure_Session
  imports Broker Secure_Writer Secure_Reader
begin

text \<open>
  The three parties of the secure transport together: what the broker sends arrives at the writer
  and the reader as the events of their models, and what they send arrives at the broker. A port is
  identified with the ring it gives access to.
\<close>

section \<open>Messages between the parties\<close>

text \<open>A message of the writer, as the broker's handler gets it.\<close>

fun to_broker :: "message \<Rightarrow> event" where
  "to_broker HelloMessage = Dictionary (Some ''hello'') 0 None None"
| "to_broker (PublishMessage g port) = Dictionary (Some ''publish'') g port None"

text \<open>The reader's request; XPC makes the reply object \<open>q\<close> of it.\<close>

definition open_request :: "request \<Rightarrow> event" where
  "open_request q = Dictionary (Some ''open'') 0 None (Some q)"

text \<open>What the writer and the reader get of the broker's actions.\<close>

fun to_writer :: "action \<Rightarrow> writer_event option" where
  "to_writer (SendRotate w g enabled) = Some (RotateMessage g enabled)"
| "to_writer (CancelPeer w) = Some (BrokenConnection False)"
| "to_writer _ = None"

fun to_reader :: "(port \<Rightarrow> nat option) \<Rightarrow> action \<Rightarrow> reply option" where
  "to_reader map_port (SendGrant r q port) = Some (ReplyDictionary (Some ''grant'') 0 (map_port port))"
| "to_reader map_port (SendError r q e) = Some (ReplyDictionary (Some ''error'') e None)"
| "to_reader map_port (CancelPeer r) = Some (ReplyError False)"
| "to_reader map_port _ = None"

text \<open>The reply handler run to its end on a reply.\<close>

definition receive_reply :: "reply \<Rightarrow> reader_connection \<Rightarrow> reader_connection" where
  "receive_reply r c = (queue_access ^^ 6) (c\<lparr>queue_at := QReply r, reply_pending := False\<rparr>)"

text \<open>The caller, from its wait to the return of \<open>SVCReaderOpen\<close>.\<close>

definition finish_open :: "reader_connection \<Rightarrow> reader_connection" where
  "finish_open c = (caller_access False ^^ 7) c"

lemma receive_reply_simps:
  "receive_reply r c = queue_access (queue_access (queue_access (queue_access (queue_access (queue_access
     (c\<lparr>queue_at := QReply r, reply_pending := False\<rparr>))))))"
  by (simp add: receive_reply_def numeral_eq_Suc)

lemma granted_open:
  "caller_at (finish_open (receive_reply (ReplyDictionary (Some ''grant'') 0 (Some a)) reader_start)) = CReturned \<and>
   audio (finish_open (receive_reply (ReplyDictionary (Some ''grant'') 0 (Some a)) reader_start)) = Some a \<and>
   alive (finish_open (receive_reply (ReplyDictionary (Some ''grant'') 0 (Some a)) reader_start))"
  by (simp add: receive_reply_simps finish_open_def reader_start_def numeral_eq_Suc queue_access_def
      reply_action_def ReleaseReader_def caller_access_def)

lemma refused_open:
  assumes "e = EBUSY \<or> e = EACCES"
  shows "caller_at (finish_open (receive_reply (ReplyDictionary (Some ''error'') e None) reader_start)) = CDone (Some e)"
proof -
  have "(if e = EBUSY then EBUSY else EACCES) = e" using assms by auto
  moreover have "e \<noteq> 0" using assms by (auto simp: errno_defs)
  ultimately show ?thesis
    by (simp add: receive_reply_simps finish_open_def reader_start_def numeral_eq_Suc queue_access_def
        reply_action_def ReleaseReader_def caller_access_def)
qed

section \<open>Properties\<close>

text \<open>
  Property C4. A session opens end to end: when the console user's forwarder asks a broker that has
  a writer and no reader, the broker's rotation reaches the writer, whose publish reaches the broker,
  whose grant reaches the forwarder; \<open>SVCReaderOpen\<close> then returns a live connection, and the ring it
  maps is the one the driver's callbacks write from now on, allocated in this session and for no one
  else before.
\<close>
theorem session_opens:
  assumes "broker_run euid ins b" "reader_peer b = None" "writer_peer b = Some wp"
    and "handlers b rp = Some False" "euid rp \<noteq> 0" "euid rp \<noteq> - 1"
    and "n < 2 ^ 32" "reachable writer_step (writer_start n) w" "control w = Waiting" "fresh \<notin> mapped w"
    and "map_port fresh = Some address"
  shows "\<exists>rotation publish grant b1 w1 b2 c.
    b1 = broker_step euid (Deliver rp (open_request q) (euid rp)) b \<and>
    sent b1 = sent b @ [rotation] \<and>
    w1 = run_block (handle_event (the (to_writer rotation)) (Some fresh) w) \<and>
    sent_messages w1 = sent_messages w @ [publish] \<and>
    b2 = broker_step euid (Deliver wp (to_broker publish) (euid rp)) b1 \<and>
    sent b2 = sent b1 @ [grant] \<and>
    c = finish_open (receive_reply (the (to_reader map_port grant)) reader_start) \<and>
    caller_at c = CReturned \<and> alive c \<and> SVCReaderAudio c = map_port fresh \<and>
    currentAudio w1 = Some fresh \<and> fresh \<in> mapped w1 \<and>
    (\<forall>i < length (callbacks w1). callbacks w1 ! i \<noteq> Using (Some fresh))"
proof -
  define g where "g = generation b + 1"
  define b1 where "b1 = broker_step euid (Deliver rp (open_request q) (euid rp)) b"
  define w1 where "w1 = run_block (handle_event (RotateMessage g True) (Some fresh) w)"
  define b2 where "b2 = broker_step euid (Deliver wp (to_broker (PublishMessage g (Some fresh))) (euid rp)) b1"
  have hw: "handlers b wp = Some True" using run_inv [OF assms(1)] assms(3) by (simp add: broker_inv_def)
  have b1: "sent b1 = sent b @ [SendRotate wp g True]" "reader_peer b1 = Some rp" "pendingGrant b1 = Some q"
    "opened b1" "generation b1 = g" "handlers b1 wp = Some True" "writer_peer b1 = Some wp"
    using assms(2-6) hw
    by (simp_all add: b1_def open_request_def broker_step_def HandleEvent_def HandleOpen_def Let_def
        Rotate_sent g_def)
  have b2: "sent b2 = sent b1 @ [SendGrant rp q fresh]"
    using b1 by (simp add: b2_def broker_step_def HandleEvent_def HandlePublish_def)
  have b2_eq: "broker_step euid (Deliver wp (Dictionary (Some ''publish'') g (Some fresh) None) (euid rp)) b1 = b2"
    by (simp add: b2_def)
  have inv: "writer_inv w" using writer_reachable_inv [OF assms(7,8)] .
  have cur: "currentAudio w \<noteq> Some fresh" using inv assms(10) by (auto simp: writer_inv_def owned_def)
  have w1: "sent_messages w1 = sent_messages w @ [PublishMessage g (Some fresh)]"
    "currentAudio w1 = Some fresh" "fresh \<in> mapped w1" "callbacks w1 = callbacks w"
    using cur by (auto simp: w1_def block_rotate [OF assms(9)] split: option.split)
  have "held w \<subseteq> mapped w"
    using inv assms(9) by (auto simp: writer_inv_def owned_def)
  then have unused: "\<forall>i < length (callbacks w1). callbacks w1 ! i \<noteq> Using (Some fresh)"
    using assms(10) w1(4) by (metis held_def mem_Collect_eq nth_mem subsetD)
  show ?thesis
    by (rule exI [of _ "SendRotate wp g True"], rule exI [of _ "PublishMessage g (Some fresh)"],
        rule exI [of _ "SendGrant rp q fresh"], rule exI [of _ b1], rule exI [of _ w1], rule exI [of _ b2])
      (use b1(1) b2 w1 unused granted_open [of address] assms(11) in
        \<open>simp add: b1_def [symmetric] w1_def [symmetric] b2_eq SVCReaderAudio_def\<close>)
qed

text \<open>
  Property C40. A forwarder that is refused learns why: unless its user is at the console and the
  broker has no reader, \<open>SVCReaderOpen\<close> fails, with \<open>EBUSY\<close> exactly when the user is at the console and
  is not root but another reader is registered, and with \<open>EACCES\<close> otherwise.
\<close>
theorem refused_reader_learns_why:
  assumes "broker_run euid ins b" "handlers b rp = Some False"
    and "euid rp = 0 \<or> euid rp = - 1 \<or> euid rp \<noteq> console \<or> reader_peer b \<noteq> None"
  shows "\<exists>answer. sent (broker_step euid (Deliver rp (open_request q) console) b) = sent b @ [answer] \<and>
    caller_at (finish_open (receive_reply (the (to_reader map_port answer)) reader_start)) =
      CDone (Some (if euid rp \<noteq> 0 \<and> euid rp = console \<and> reader_peer b \<noteq> None then EBUSY else EACCES))"
proof -
  define e where "e = (if euid rp \<noteq> 0 \<and> euid rp = console \<and> reader_peer b \<noteq> None then EBUSY else EACCES)"
  have "sent (broker_step euid (Deliver rp (open_request q) console) b) = sent b @ [SendError rp q e]"
    using assms(2,3)
    by (auto simp: open_request_def broker_step_def HandleEvent_def HandleOpen_def Let_def e_def)
  moreover have "e = EBUSY \<or> e = EACCES" by (simp add: e_def)
  ultimately show ?thesis unfolding e_def [symmetric] using refused_open [of e]
    by (intro exI [of _ "SendError rp q e"]) simp
qed

section \<open>Examples\<close>

definition ready_inputs :: "input list" where
  "ready_inputs = [Arrive True True 1, Arrive False True 2,
     Deliver 1 (to_broker HelloMessage) 501]"

lemma ready_run: "broker_run (\<lambda>_. 501) ready_inputs (broker_after (\<lambda>_. 501) ready_inputs)"
  using run_extend [OF broker_run.run_start, of "\<lambda>_. 501" ready_inputs]
  by (simp add: broker_after_def List.map_filter_def ready_inputs_def fresh_input_def broker_start_def
      broker_step_def Accept_def)

lemma ready_state:
  "reader_peer (broker_after (\<lambda>_. 501) ready_inputs) = None \<and>
   writer_peer (broker_after (\<lambda>_. 501) ready_inputs) = Some 1 \<and>
   handlers (broker_after (\<lambda>_. 501) ready_inputs) 2 = Some False"
  by (simp add: broker_after_def ready_inputs_def broker_start_def broker_step_def Accept_def
      HandleEvent_def HandleHello_def Rotate_def send_def Let_def)

lemma session_opens_witness:
  "\<exists>rotation c.
    sent (broker_step (\<lambda>_. 501) (Deliver 2 (open_request 7) 501) (broker_after (\<lambda>_. 501) ready_inputs)) =
      sent (broker_after (\<lambda>_. 501) ready_inputs) @ [rotation] \<and>
    caller_at c = CReturned \<and> alive c \<and> SVCReaderAudio c = Some 40"
proof -
  define w where "w = snd (SVCWriterConnect True True (writer_start 2))"
  have reach: "reachable writer_step (writer_start 2) w"
    unfolding w_def by (rule reachable_step [OF reachable_start]) (rule writer_step.connect)
  have w: "control w = Waiting" "4 \<notin> mapped w" by (simp_all add: w_def writer_eval)
  from session_opens [OF ready_run _ _ _ _ _ _ reach w, of 1 2 "\<lambda>p. Some (10 * p)" 40 7]
  show ?thesis using ready_state by simp blast
qed

lemma refused_reader_learns_why_witness:
  "\<exists>answer. sent (broker_step (\<lambda>_. 501) (Deliver 2 (open_request 8) 501) (broker_after (\<lambda>_. 501) example_inputs)) =
      sent (broker_after (\<lambda>_. 501) example_inputs) @ [answer] \<and>
    caller_at (finish_open (receive_reply (the (to_reader Some answer)) reader_start)) = CDone (Some EBUSY)"
proof -
  have "handlers (broker_after (\<lambda>_. 501) example_inputs) 2 = Some False"
    using run_inv [OF example_run] example_pair by (simp add: broker_inv_def)
  then show ?thesis
    using refused_reader_learns_why [OF example_run, of 2 501 8 Some] example_pair by simp
qed

section \<open>A second greeting\<close>

text \<open>
  A writer greets the broker again after every interruption, a second later; two interruptions in
  that second give two greetings to the same broker. If a reader was granted its ring between them, the
  second makes the writer move to another ring, whose publish the broker ignores, as no request waits for
  it: the reader stays registered, alive and with a ring nobody writes any more.
\<close>

lemma two_interruptions_two_greetings:
  "control w = Waiting \<Longrightarrow>
    hellos (run_block (handle_event (BrokenConnection True) None
      (run_block (handle_event (BrokenConnection True) None w)))) = hellos w + 2"
  by (cases w; cases "currentAudio w"; cases "leases w = 0")
    (simp_all add: run_block_simps handle_event_def control_access_def)

lemma second_greeting_strands_reader:
  assumes "writer_peer b = Some wp" "handlers b wp = Some True" "reader_peer b = Some rp" "opened b" "pendingGrant b = None"
    and "control w = Waiting" "currentAudio w = Some old" "old \<noteq> fresh"
  shows "\<exists>b1 b2 w1. b1 = broker_step euid (Deliver wp (to_broker HelloMessage) console) b \<and>
    sent b1 = sent b @ [SendRotate wp (generation b + 1) True] \<and>
    w1 = run_block (handle_event (RotateMessage (generation b + 1) True) (Some fresh) w) \<and>
    currentAudio w1 = Some fresh \<and> sent_messages w1 = sent_messages w @ [PublishMessage (generation b + 1) (Some fresh)] \<and>
    b2 = broker_step euid (Deliver wp (to_broker (PublishMessage (generation b + 1) (Some fresh))) console) b1 \<and>
    sent b2 = sent b1 \<and> reader_peer b2 = Some rp \<and> opened b2"
proof -
  define b1 where "b1 = broker_step euid (Deliver wp (to_broker HelloMessage) console) b"
  have b1: "sent b1 = sent b @ [SendRotate wp (generation b + 1) True]" "pendingGrant b1 = None" "reader_peer b1 = Some rp"
    "opened b1" "handlers b1 wp = Some True" "writer_peer b1 = Some wp"
    using assms(1-5) by (simp_all add: b1_def broker_step_def HandleEvent_def HandleHello_def Rotate_def send_def Let_def)
  have b2: "broker_step euid (Deliver wp (to_broker (PublishMessage (generation b + 1) (Some fresh))) console) b1 = b1"
    using b1 by (simp add: broker_step_def HandleEvent_def HandlePublish_def)
  have w1: "currentAudio (run_block (handle_event (RotateMessage (generation b + 1) True) (Some fresh) w)) = Some fresh"
    "sent_messages (run_block (handle_event (RotateMessage (generation b + 1) True) (Some fresh) w)) =
      sent_messages w @ [PublishMessage (generation b + 1) (Some fresh)]"
    using assms(7) by (simp_all add: block_rotate [OF assms(6)])
  show ?thesis
    by (intro exI conjI) (rule b1_def | rule refl | use b1 b2 w1 in \<open>simp add: b1_def [symmetric]\<close>)+
qed

end
