(* ===== verification/Audio_Path.thy ===== *)
theory Audio_Path
  imports Driver_Sessions Reader_Theorems
begin

text \<open>
  The audio path from the driver to the forwarder: the driver's IO is started, the host hands it
  the mixed blocks one after the other, and the forwarder reads the ring it was granted.
\<close>

section \<open>The driver's side\<close>

text \<open>The write-mix calls of consecutive IO cycles, from sample time \<open>t\<close> on.\<close>

fun write_mixes :: "driver \<Rightarrow> nat \<Rightarrow> stereo_bits list list \<Rightarrow> driver option" where
  "write_mixes d t [] = Some d"
| "write_mixes d t (b # bs) =
     (case DriverDoIOOperation d True kSVCObjectDevice kSVCObjectOutputStream
             kAudioServerPlugInIOOperationWriteMix (of_nat (length b)) (Some (Fin False (real t))) (Some b) of
        None \<Rightarrow> None
      | Some (d', status) \<Rightarrow> write_mixes d' (t + length b) bs)"

text \<open>The ring of a stream that began at \<open>t\<close> and got the frames \<open>ss\<close> since.\<close>

definition stream_state :: "SVCSharedAudio \<Rightarrow> nat \<Rightarrow> stereo_bits list \<Rightarrow> bool" where
  "stream_state a t ss \<longleftrightarrow>
     SVCSharedAudioIsValid (Some a) \<and> ring.implements a (block_history t ss []) \<and>
     (if ss = [] then writerActive a = 0
      else writerActive a = 1 \<and> writeFrame a = of_nat (t + length ss) \<and> streamStartFrame a = of_nat t)"

lemma write_mix_step:
  assumes "audio d = Some a" "stream_state a t ss"
    and "b \<noteq> []" "length b \<le> kSVCSharedAudioCapacityFrames" "t + length ss + length b \<le> 2 ^ 52"
  shows "\<exists>d' a'. DriverDoIOOperation d True kSVCObjectDevice kSVCObjectOutputStream
      kAudioServerPlugInIOOperationWriteMix (of_nat (length b)) (Some (Fin False (real (t + length ss)))) (Some b) =
        Some (d', noErr) \<and> audio d' = Some a' \<and> stream_state a' t (ss @ b)"
proof -
  define a1 where "a1 = a\<lparr>writeMixCount := writeMixCount a + 1\<rparr>"
  define t1 where "t1 = t + length ss"
  define a' where "a' = capture_result a1 t1 b"
  have n: "unat (of_nat (length b) :: u32) = length b"
    using assms(4) by (intro unat_of_nat_u32) (simp add: kSVCSharedAudioCapacityFrames_def)
  have valid: "SVCSharedAudioIsValid (Some a1)" using assms(2) by (simp add: a1_def stream_state_def)
  have "frames a1 = frames a" by (simp add: a1_def)
  then have impl: "ring.implements a1 (block_history t ss [])"
    using assms(2) implements_frames_only [of a1 a] by (simp add: stream_state_def)
  have sk: "skipped_frames (of_nat (length b)) = 0" using assms(4) by (simp add: skipped_frames_def n)
  have cap: "CaptureOutput (Some a1) (Some b) (Fin False (real t1)) (of_nat (length b)) = Some (Some a')"
    using CaptureOutput_spec [OF valid refl, of False "real t1" t1 "of_nat (length b)" b] assms(3,5)
    by (simp add: sk n a'_def t1_def word_less_nat_alt del: of_nat_add)
  have "t1 + length b < 2 ^ 64" using assms(5) by (simp add: t1_def)
  from capture_result_implements [OF impl this]
  have impl': "ring.implements a' (block_history t (ss @ b) [])"
    by (simp add: a'_def t1_def block_history_append)
  have st: "stream_state a' t (ss @ b)"
    using assms(2,3) valid impl'
    by (cases "ss = []") (simp_all add: stream_state_def a'_def t1_def a1_def add.assoc)
  have "DriverDoIOOperation d True kSVCObjectDevice kSVCObjectOutputStream
      kAudioServerPlugInIOOperationWriteMix (of_nat (length b)) (Some (Fin False (real t1))) (Some b) =
      Some (ReleaseAudio ((fst (AcquireAudio d))\<lparr>audio := Some a'\<rparr>), noErr)"
    using assms(1) cap
    by (simp add: DriverDoIOOperation_def ValidateDeviceCall_def AcquireAudio_def Let_def a1_def
        del: of_nat_add)
  then show ?thesis using st
    by (intro exI [of _ "ReleaseAudio ((fst (AcquireAudio d))\<lparr>audio := Some a'\<rparr>)"] exI [of _ a'])
      (simp add: t1_def ReleaseAudio_def del: of_nat_add)
qed

lemma write_mixes_stream:
  assumes "audio d = Some a" "stream_state a t ss"
    and "\<And>b. b \<in> set bs \<Longrightarrow> b \<noteq> [] \<and> length b \<le> kSVCSharedAudioCapacityFrames"
    and "t + length ss + length (concat bs) \<le> 2 ^ 52"
  shows "\<exists>d' a'. write_mixes d (t + length ss) bs = Some d' \<and> audio d' = Some a' \<and>
    stream_state a' t (ss @ concat bs)"
  using assms
proof (induction bs arbitrary: d a ss)
  case Nil
  then show ?case by simp
next
  case (Cons b bs)
  have len: "t + length ss + length b \<le> 2 ^ 52" using Cons.prems(4) by simp
  obtain d' a' where s: "DriverDoIOOperation d True kSVCObjectDevice kSVCObjectOutputStream
      kAudioServerPlugInIOOperationWriteMix (of_nat (length b)) (Some (Fin False (real (t + length ss)))) (Some b) =
        Some (d', noErr)" "audio d' = Some a'" "stream_state a' t (ss @ b)"
    using write_mix_step [OF Cons.prems(1,2) _ _ len] Cons.prems(3) [of b] by auto
  show ?case
    using Cons.IH [OF s(2,3)] Cons.prems(3,4) s(1) by (simp add: add.assoc del: of_nat_add)
qed

section \<open>End to end\<close>

lemma stream_read:
  assumes "stream_state a t ss" "ss \<noteq> []" "t + length ss \<le> 2 ^ 52"
    and "reader_ok r" "\<not> synchronized r" "unat (targetLatencyFrames r) \<le> length ss"
    and "count \<noteq> 0" "unat count + 2 \<le> unat (targetLatencyFrames r)" "2 * unat count \<le> length buf"
    and "\<And>s w. s \<in> set ss \<Longrightarrow> w \<in> {fst s, snd s} \<Longrightarrow>
      fp_isfinite (f32_decode w) \<and> \<bar>fp_val (f32_decode w)\<bar> \<le> 2 ^ 20"
  shows "\<exists>r' b. SVCSharedAudioReaderRead c (Some r) (still_view a) (Some buf) count = Some (Some r', Some b, count) \<and>
    (\<forall>i < unat count.
       fp_val (b ! (2 * i)) = fp_val (f32_decode (fst (ss ! (length ss - unat (targetLatencyFrames r) + i)))) \<and>
       fp_val (b ! (2 * i + 1)) = fp_val (f32_decode (snd (ss ! (length ss - unat (targetLatencyFrames r) + i)))))"
proof -
  let ?v = "still_view a" and ?L = "unat (targetLatencyFrames r)"
  define captured where "captured f = (if f - t < length ss then ss ! (f - t) else (0, 0))" for f
  define n where "n = t + length ss"
  have st: "SVCSharedAudioIsValid (Some a)" "ring.implements a (block_history t ss [])"
    "writerActive a = 1" "writeFrame a = of_nat n" "streamStartFrame a = of_nat t"
    using assms(1,2) by (simp_all add: stream_state_def n_def)
  have n: "unat (of_nat n :: u64) = n" "unat (of_nat t :: u64) = t"
    using assms(3) by (simp_all add: n_def unat_of_nat_u64 del: of_nat_add)
  have L: "?L \<le> 8192" using assms(4) by (simp add: reader_ok_def)
  have view: "view_write ?v = of_nat n" "view_start ?v = of_nat t" "view_valid ?v" "view_active ?v = 1"
    "view_epoch_end ?v = view_epoch ?v" "view_active_end ?v = 1"
    "view_capacity ?v = of_nat kSVCSharedAudioCapacityFrames"
    using st by (simp_all add: still_view_def SVCSharedAudioIsValid_def)
  have ok: "view_ok ?v" using assms(3) by (simp add: view_ok_def view n) (simp add: n_def)
  have le: "(of_nat t :: u64) \<le> of_nat n" by (simp add: word_le_nat_alt n) (simp add: n_def)
  have "unat (of_nat n - of_nat t :: u64) = length ss" using unat_minus_le [OF le] n by (simp add: n_def)
  then have render: "reaches_render r ?v count"
    using assms(6,7) le by (simp add: reaches_render_def view not_less word_le_nat_alt)
  have load: "SVCSharedAudioLoadFrame a f = Some (captured (unat f))"
    if f: "n - ?L \<le> unat f" "unat f < n" for f
  proof -
    define k where "k = unat f - t"
    have k: "unat f = t + k" "k < length ss" "length ss \<le> k + kSVCSharedAudioCapacityFrames"
      using f assms(6) L by (simp_all add: k_def n_def kSVCSharedAudioCapacityFrames_def)
    have "f \<noteq> - 1" using f(2) assms(3) unat_minus_one by (auto simp: n_def)
    then have "SVCSharedAudioLoadFrame a f =
        history_load kSVCSharedAudioCapacityFrames (block_history t ss []) (t + k)"
      using ring.implements_load [OF st(2)] k(1) by simp
    also have "\<dots> = Some (ss ! k)"
      by (rule history_load_block [OF k(2,3)]) (simp add: kSVCSharedAudioCapacityFrames_def)
    finally show ?thesis using k by (simp add: captured_def)
  qed
  have finite: "fp_isfinite (f32_decode w) \<and> \<bar>fp_val (f32_decode w)\<bar> \<le> 2 ^ 20"
    if "w \<in> {fst (captured f), snd (captured f)}" for f w
  proof (cases "f - t < length ss")
    case True
    then show ?thesis using that assms(10) [of "ss ! (f - t)" w] by (simp add: captured_def)
  next
    case False
    then show ?thesis using that by (auto simp: captured_def f32_decode_def)
  qed
  have "\<exists>r' b. SVCSharedAudioReaderRead c (Some r) ?v (Some buf) count = Some (Some r', Some b, count) \<and>
      readFrame r' = Fin False (real (n - ?L + unat count)) \<and>
      (\<forall>i < unat count. fp_val (b ! (2 * i)) = fp_val (f32_decode (fst (captured (n - ?L + i)))) \<and>
       fp_val (b ! (2 * i + 1)) = fp_val (f32_decode (snd (captured (n - ?L + i)))))"
  proof (rule copies_captured_samples [OF assms(4) ok _ render _ assms(8,9)])
    show "unat (view_write ?v) \<le> 2 ^ 52" using assms(3) by (simp add: view n) (simp add: n_def)
    show "resyncs r ?v" using assms(5) by (simp add: resyncs_def)
    show "n - ?L = unat (view_write ?v) - ?L" by (simp add: view n)
    show "view_load ?v k f = Some (captured (unat f))"
      if "n - ?L \<le> unat f" "unat f < unat (view_write ?v)" for k f
      using load [OF that(1)] that(2) by (simp only: view n) (simp add: still_view_def)
  qed (use view finite in auto)
  moreover have "captured (n - ?L + i) = ss ! (length ss - ?L + i)" if "i < unat count" for i
  proof -
    have "n - ?L + i - t = length ss - ?L + i" "length ss - ?L + i < length ss"
      using that assms(6,8) by (simp_all add: n_def)
    then show ?thesis by (simp add: captured_def)
  qed
  ultimately show ?thesis by auto
qed

text \<open>
  Property C1. What the host mixes is what the forwarder hears: after the first start of IO, when
  the host has written any sequence of blocks, the first read of a forwarder that was given the ring
  delivers the very samples of the mix, those that lie its target latency behind the newest.
\<close>
theorem captured_audio_is_heard:
  assumes "gRunningCount d = 0" "audio d = Some a" "SVCSharedAudioIsValid (Some a)"
    and "r = SVCSharedAudioReaderInit (Some a) target" "L = unat (targetLatencyFrames r)"
    and "\<And>b. b \<in> set mix \<Longrightarrow> b \<noteq> [] \<and> length b \<le> kSVCSharedAudioCapacityFrames"
    and "\<And>s w. s \<in> set (concat mix) \<Longrightarrow> w \<in> {fst s, snd s} \<Longrightarrow>
      fp_isfinite (f32_decode w) \<and> \<bar>fp_val (f32_decode w)\<bar> \<le> 2 ^ 20"
    and "t + length (concat mix) \<le> 2 ^ 52" "L \<le> length (concat mix)"
    and "count \<noteq> 0" "unat count + 2 \<le> L" "2 * unat count \<le> length buf"
  shows "\<exists>d1 d2 a2 r' b. DriverStartIO d True kSVCObjectDevice now now' = (d1, noErr) \<and>
    write_mixes d1 t mix = Some d2 \<and> audio d2 = Some a2 \<and>
    SVCSharedAudioReaderRead c (Some r) (still_view a2) (Some buf) count = Some (Some r', Some b, count) \<and>
    (\<forall>i < unat count.
       fp_val (b ! (2 * i)) = fp_val (f32_decode (fst (concat mix ! (length (concat mix) - L + i)))) \<and>
       fp_val (b ! (2 * i + 1)) = fp_val (f32_decode (snd (concat mix ! (length (concat mix) - L + i)))))"
proof -
  define d1 where "d1 = fst (DriverStartIO d True kSVCObjectDevice now now')"
  have start: "DriverStartIO d True kSVCObjectDevice now now' = (d1, noErr)" "audio d1 = Some (reset_stream a now')"
    using assms(1-3) by (auto simp: d1_def DriverStartIO_def ValidateDeviceCall_def Let_def
        ResetSharedAudioStream_valid Notify_def)
  have "stream_state (reset_stream a now') t []"
    using reset_stream_empty [of a now'] assms(3) by (simp add: stream_state_def)
  from write_mixes_stream [OF start(2) this, of mix] assms(6,8)
  obtain d2 a2 where mix: "write_mixes d1 t mix = Some d2" "audio d2 = Some a2"
    "stream_state a2 t (concat mix)" by auto
  have r: "reader_ok r" "\<not> synchronized r"
    using init_reader_ok [OF assms(3), of target] assms(3,4) by (simp_all add: SVCSharedAudioReaderInit_def)
  have "0 < length (concat mix)" using assms(9) r(1) unfolding reader_ok_def assms(5) by linarith
  then have "concat mix \<noteq> []" by (rule length_greater_0_conv [THEN iffD1])
  from stream_read [OF mix(3) this assms(8) r _ assms(10) _ assms(12) assms(7), where c = c]
  show ?thesis using start(1) mix(1,2) assms(5,9,11) by auto
qed

lemma captured_audio_is_heard_witness:
  "\<exists>d1 d2 a2 r' b.
    DriverStartIO (driver_start\<lparr>audio := Some example_ring\<rparr>) True kSVCObjectDevice 5 6 = (d1, noErr) \<and>
    write_mixes d1 1000 [replicate 512 (0, 0), replicate 100 (0x3F800000, 0)] = Some d2 \<and> audio d2 = Some a2 \<and>
    SVCSharedAudioReaderRead False (Some (SVCSharedAudioReaderInit (Some example_ring) 256)) (still_view a2)
      (Some (replicate 400 NaN)) 200 = Some (Some r', Some b, 200) \<and>
    fp_val (b ! 0) = 0 \<and> fp_val (b ! 398) = 1"
proof -
  let ?mix = "[replicate 512 (0, 0), replicate 100 (0x3F800000, 0)] :: stereo_bits list list"
  have valid: "SVCSharedAudioIsValid (Some example_ring)" by (rule example_ring_ok(1))
  have L: "unat (targetLatencyFrames (SVCSharedAudioReaderInit (Some example_ring) 256)) = 256"
    using valid by (simp add: SVCSharedAudioReaderInit_def ClampTargetLatency_def SVCSharedAudioIsValid_def
        kSVCSharedAudioCapacityFrames_def Let_def word_less_nat_alt)
  have one: "f32_decode 0x3F800000 = Fin False 1" by (simp add: f32_decode_def power_int_def power_divide)
  have zero: "f32_decode 0 = Fin False 0" by (simp add: f32_decode_def)
  have "fp_isfinite (f32_decode w) \<and> \<bar>fp_val (f32_decode w)\<bar> \<le> 2 ^ 20"
    if "s \<in> set (concat ?mix)" "w \<in> {fst s, snd s}" for s w
    using that one zero by auto
  moreover have "b \<noteq> [] \<and> length b \<le> kSVCSharedAudioCapacityFrames" if "b \<in> set ?mix" for b
    using that by (auto simp: kSVCSharedAudioCapacityFrames_def)
  ultimately obtain d1 d2 a2 r' b where h:
    "DriverStartIO (driver_start\<lparr>audio := Some example_ring\<rparr>) True kSVCObjectDevice 5 6 = (d1, noErr)"
    "write_mixes d1 1000 ?mix = Some d2" "audio d2 = Some a2"
    "SVCSharedAudioReaderRead False (Some (SVCSharedAudioReaderInit (Some example_ring) 256)) (still_view a2)
      (Some (replicate 400 NaN)) 200 = Some (Some r', Some b, 200)"
    "\<forall>i < unat (200 :: u32).
       fp_val (b ! (2 * i)) = fp_val (f32_decode (fst (concat ?mix ! (length (concat ?mix) - 256 + i)))) \<and>
       fp_val (b ! (2 * i + 1)) = fp_val (f32_decode (snd (concat ?mix ! (length (concat ?mix) - 256 + i))))"
    using captured_audio_is_heard [of "driver_start\<lparr>audio := Some example_ring\<rparr>" example_ring
      "SVCSharedAudioReaderInit (Some example_ring) 256" 256 256 ?mix 1000 200 "replicate 400 NaN" 5 6 False,
      OF _ _ valid refl L [symmetric]]
    by (auto simp: driver_start_def)
  have "fp_val (b ! 0) = 0 \<and> fp_val (b ! 398) = 1"
    using h(5) [rule_format, of 0] h(5) [rule_format, of 199] zero one by (simp add: nth_append)
  then show ?thesis using h(1-4) by blast
qed

end
