(* ===== verification/Audio_Client.thy ===== *)
theory Audio_Client
  imports Driver_Properties
begin

text \<open>
  The client side of CoreAudio, as the command line tools use it: \<open>hal\<close> holds what the calls of the
  library return and do in a state of the system, and the helpers are the ones the tools define over
  these calls. The constants the driver does not name are \<open>OtherSelector\<close> with their codes.
\<close>

section \<open>The calls\<close>

text \<open>
  \<open>hal_get\<close> has the size the caller offers and the float its memory holds on entry; a stream
  configuration is read with \<open>hal_buffers\<close>, the channel counts of its buffers. \<open>hal_delivered\<close> are the
  addresses with which the listener has been called so far, \<open>hal_sleep\<close> is what happens while the tool
  sleeps, and \<open>hal_memory\<close> whether \<open>malloc\<close> has memory.
\<close>

record 's hal =
  hal_has :: "'s \<Rightarrow> u32 \<Rightarrow> AudioObjectPropertyAddress \<Rightarrow> bool"
  hal_settable :: "'s \<Rightarrow> u32 \<Rightarrow> AudioObjectPropertyAddress \<Rightarrow> OSStatus \<times> bool"
  hal_size :: "'s \<Rightarrow> u32 \<Rightarrow> AudioObjectPropertyAddress \<Rightarrow> OSStatus \<times> u32"
  hal_get :: "'s \<Rightarrow> u32 \<Rightarrow> AudioObjectPropertyAddress \<Rightarrow> qualifier option \<Rightarrow> u32 \<Rightarrow> fp \<Rightarrow> get_result"
  hal_buffers :: "'s \<Rightarrow> u32 \<Rightarrow> AudioObjectPropertyScope \<Rightarrow> OSStatus \<times> u32 list"
  hal_legacy_rate :: "'s \<Rightarrow> u32 \<Rightarrow> OSStatus \<times> u32 \<times> fp"
  hal_set :: "u32 \<Rightarrow> AudioObjectPropertyAddress \<Rightarrow> property_value \<Rightarrow> 's \<Rightarrow> OSStatus \<times> 's"
  hal_listen :: "u32 \<Rightarrow> AudioObjectPropertyAddress \<Rightarrow> 's \<Rightarrow> OSStatus \<times> 's"
  hal_unlisten :: "u32 \<Rightarrow> AudioObjectPropertyAddress \<Rightarrow> 's \<Rightarrow> 's"
  hal_delivered :: "'s \<Rightarrow> AudioObjectPropertyAddress list"
  hal_sleep :: "'s \<Rightarrow> 's"
  hal_memory :: "'s \<Rightarrow> bool"

section \<open>Constants\<close>

definition kAudioObjectSystemObject :: u32 where "kAudioObjectSystemObject = 1"

definition kAudioDevicePropertyVolumeScalar :: AudioObjectPropertySelector where
  "kAudioDevicePropertyVolumeScalar = OtherSelector 0x766F6C6D"
definition kAudioDevicePropertyVolumeDecibels :: AudioObjectPropertySelector where
  "kAudioDevicePropertyVolumeDecibels = OtherSelector 0x766F6C64"
definition kAudioDevicePropertyMute :: AudioObjectPropertySelector where
  "kAudioDevicePropertyMute = OtherSelector 0x6D757465"
definition kAudioDevicePropertyVolumeRangeDecibels :: AudioObjectPropertySelector where
  "kAudioDevicePropertyVolumeRangeDecibels = OtherSelector 0x76646223"
definition kAudioDevicePropertyVolumeScalarToDecibels :: AudioObjectPropertySelector where
  "kAudioDevicePropertyVolumeScalarToDecibels = OtherSelector 0x76326462"
definition kAudioDevicePropertyVolumeDecibelsToScalar :: AudioObjectPropertySelector where
  "kAudioDevicePropertyVolumeDecibelsToScalar = OtherSelector 0x64623276"
definition kAudioHardwarePropertyTranslateUIDToDevice :: AudioObjectPropertySelector where
  "kAudioHardwarePropertyTranslateUIDToDevice = kAudioPlugInPropertyTranslateUIDToDevice"
definition kAudioHardwarePropertyDefaultOutputDevice :: AudioObjectPropertySelector where
  "kAudioHardwarePropertyDefaultOutputDevice = OtherSelector 0x644F7574"
definition kAudioHardwarePropertyDefaultSystemOutputDevice :: AudioObjectPropertySelector where
  "kAudioHardwarePropertyDefaultSystemOutputDevice = OtherSelector 0x734F7574"

lemmas client_consts = kAudioDevicePropertyVolumeScalar_def kAudioDevicePropertyVolumeDecibels_def
  kAudioDevicePropertyMute_def kAudioDevicePropertyVolumeRangeDecibels_def
  kAudioDevicePropertyVolumeScalarToDecibels_def kAudioDevicePropertyVolumeDecibelsToScalar_def
  kAudioHardwarePropertyTranslateUIDToDevice_def kAudioHardwarePropertyDefaultOutputDevice_def
  kAudioHardwarePropertyDefaultSystemOutputDevice_def kAudioObjectSystemObject_def

text \<open>The codes behind the names, for values that are read as numbers.\<close>

fun class_code :: "AudioClassID \<Rightarrow> u32" where
  "class_code kAudioObjectClassID = 0x616F626A"
| "class_code kAudioPlugInClassID = 0x61706C67"
| "class_code kAudioDeviceClassID = 0x61646576"
| "class_code kAudioStreamClassID = 0x61737472"
| "class_code kAudioControlClassID = 0x6163746C"
| "class_code kAudioLevelControlClassID = 0x6C65766C"
| "class_code kAudioVolumeControlClassID = 0x766C6D65"
| "class_code kAudioBooleanControlClassID = 0x746F676C"
| "class_code kAudioMuteControlClassID = 0x6D757465"
| "class_code (OtherClassID n) = n"

fun constant_code :: "header_constant \<Rightarrow> u32" where
  "constant_code kAudioDeviceTransportTypeVirtual = 0x76697274"
| "constant_code kAudioStreamTerminalTypeSpeaker = 0x73706B72"
| "constant_code kAudioDeviceClockAlgorithmRaw = 0x72617777"
| "constant_code kAudioFormatLinearPCM = 0x6C70636D"
| "constant_code (OtherConstant n) = n"

section \<open>The helpers\<close>

definition MakeAddress ::
    "AudioObjectPropertySelector \<Rightarrow> AudioObjectPropertyScope \<Rightarrow> AudioObjectPropertyAddress" where
  "MakeAddress selector scope =
     \<lparr>mSelector = selector, mScope = scope, mElement = kAudioObjectPropertyElementMain\<rparr>"

text \<open>What a variable holds after the library has written a value over it.\<close>

definition over_u32 :: "property_value option \<Rightarrow> u32 \<Rightarrow> u32" where
  "over_u32 written old =
     (case written of
        Some (VUInt32 n) \<Rightarrow> n | Some (VObject n) \<Rightarrow> n | Some (VClass c) \<Rightarrow> class_code c
      | Some (VConstant c) \<Rightarrow> constant_code c | Some (VObjects (n # ns)) \<Rightarrow> n
      | Some (VUInt32s (n # ns)) \<Rightarrow> n | _ \<Rightarrow> old)"

definition over_float :: "property_value option \<Rightarrow> fp \<Rightarrow> fp" where
  "over_float written old = (case written of Some (VFloat32 x) \<Rightarrow> x | _ \<Rightarrow> old)"

definition over_range :: "property_value option \<Rightarrow> fp \<times> fp \<Rightarrow> fp \<times> fp" where
  "over_range written old = (case written of Some (VRange x y) \<Rightarrow> (x, y) | _ \<Rightarrow> old)"

text \<open>The identifiers in a list the library has written.\<close>

definition over_objects :: "property_value option \<Rightarrow> u32 list" where
  "over_objects written =
     (case written of Some (VObjects ns) \<Rightarrow> ns | Some (VObject n) \<Rightarrow> [n] | _ \<Rightarrow> [])"

text \<open>The results: whether the call succeeded, and the variable after it.\<close>

definition ReadUInt32 ::
    "'s hal \<Rightarrow> 's \<Rightarrow> u32 \<Rightarrow> AudioObjectPropertyAddress \<Rightarrow> u32 \<Rightarrow> bool \<times> u32" where
  "ReadUInt32 H s objectID address old =
     (case hal_get H s objectID address None 4 (f32_decode old) of
        (status, _, written) \<Rightarrow> (status = noErr, over_u32 written old))"

definition ReadFloat32 ::
    "'s hal \<Rightarrow> 's \<Rightarrow> u32 \<Rightarrow> AudioObjectPropertyAddress \<Rightarrow> fp \<Rightarrow> bool \<times> fp" where
  "ReadFloat32 H s objectID address old =
     (case hal_get H s objectID address None 4 old of
        (status, _, written) \<Rightarrow> (status = noErr, over_float written old))"

definition ReadRange ::
    "'s hal \<Rightarrow> 's \<Rightarrow> u32 \<Rightarrow> AudioObjectPropertyAddress \<Rightarrow> fp \<times> fp \<Rightarrow> bool \<times> fp \<times> fp" where
  "ReadRange H s objectID address old =
     (case hal_get H s objectID address None 16 (Fin False 0) of
        (status, _, written) \<Rightarrow> (status = noErr, over_range written old))"

definition IsWritable :: "'s hal \<Rightarrow> 's \<Rightarrow> u32 \<Rightarrow> AudioObjectPropertyAddress \<Rightarrow> bool" where
  "IsWritable H s objectID address =
     (case hal_settable H s objectID address of (status, settable) \<Rightarrow> status = noErr \<and> settable)"

text \<open>The sum of the channels as a C \<open>int\<close>, added with wrap-around.\<close>

fun channel_sum :: "32 word \<Rightarrow> u32 list \<Rightarrow> 32 word" where
  "channel_sum count [] = count"
| "channel_sum count (n # ns) = channel_sum (count + n) ns"

text \<open>\<open>None\<close> for the failure the verifier reports through \<open>ok\<close>; the header of the list is 8 bytes.\<close>

definition ChannelCount :: "'s hal \<Rightarrow> 's \<Rightarrow> u32 \<Rightarrow> AudioObjectPropertyScope \<Rightarrow> int option" where
  "ChannelCount H s device scope =
     (case hal_size H s device (MakeAddress kAudioDevicePropertyStreamConfiguration scope) of
        (status, bytes) \<Rightarrow>
          if status \<noteq> noErr \<or> bytes < 8 then None
          else if \<not> hal_memory H s then None
          else (case hal_buffers H s device scope of
                  (status, channels) \<Rightarrow>
                    if status \<noteq> noErr then None else Some (sint (channel_sum 0 channels))))"

text \<open>The four characters of a status or a type code, the most significant byte first.\<close>

definition code_bytes :: "u32 \<Rightarrow> nat list" where
  "code_bytes raw = [unat (drop_bit 24 raw AND 0xFF), unat (drop_bit 16 raw AND 0xFF),
     unat (drop_bit 8 raw AND 0xFF), unat (raw AND 0xFF)]"

definition printable :: "nat \<Rightarrow> bool" where
  "printable c \<longleftrightarrow> 32 \<le> c \<and> c \<le> 126"

text \<open>The characters \<open>PrintStatus\<close> adds after the number, if all four can be printed.\<close>

definition PrintStatus :: "u32 \<Rightarrow> string option" where
  "PrintStatus raw =
     (if \<forall>c \<in> set (code_bytes raw). printable c then Some (map char_of (code_bytes raw)) else None)"

end
