(* ===== verification/Route_Verify.thy ===== *)
theory Route_Verify
  imports Audio_Client
begin

text \<open>
  \<open>tools/audio-route-verify.c\<close>: the verifier of the installed device. Every function is given the
  library \<open>H\<close> and the state of the system, and returns what the C function returns, with the state
  after it where it changes the system. What the tool prints is left out.
\<close>

section \<open>Notifications\<close>

text \<open>The three counters, after the listener has been called with a list of addresses.\<close>

type_synonym counts = "u32 \<times> u32 \<times> u32"

fun Listener :: "counts \<Rightarrow> AudioObjectPropertyAddress list \<Rightarrow> counts" where
  "Listener c [] = c"
| "Listener (v, d, m) (a # addresses) =
     Listener
       (if mSelector a = kAudioDevicePropertyVolumeScalar then (v + 1, d, m)
        else if mSelector a = kAudioDevicePropertyVolumeDecibels then (v, d + 1, m)
        else if mSelector a = kAudioDevicePropertyMute then (v, d, m + 1)
        else (v, d, m)) addresses"

definition notification_counts :: "'s hal \<Rightarrow> 's \<Rightarrow> counts" where
  "notification_counts H s = Listener (0, 0, 0) (hal_delivered H s)"

section \<open>The read-only checks\<close>

definition FindDevice :: "'s hal \<Rightarrow> 's \<Rightarrow> u32" where
  "FindDevice H s =
     (case hal_get H s kAudioObjectSystemObject
             (MakeAddress kAudioHardwarePropertyTranslateUIDToDevice kAudioObjectPropertyScopeGlobal)
             (Some \<lparr>as_classes = (\<lambda>_. OtherClassID 0), as_string = Some SVC_DEVICE_UID\<rparr>) 4 (Fin False 0) of
        (status, _, written) \<Rightarrow>
          if status \<noteq> noErr then kAudioObjectUnknown else over_u32 written kAudioObjectUnknown)"

definition CheckUInt32 :: "'s hal \<Rightarrow> 's \<Rightarrow> u32 \<Rightarrow> AudioObjectPropertyAddress \<Rightarrow> u32 \<Rightarrow> bool" where
  "CheckUInt32 H s device address expected =
     (case ReadUInt32 H s device address 0 of
        (ok, value) \<Rightarrow> if \<not> ok then False else value = expected)"

text \<open>Lines 184 to 218.\<close>

definition check_format :: "'s hal \<Rightarrow> 's \<Rightarrow> u32 \<Rightarrow> bool" where
  "check_format H s device =
     ((case hal_legacy_rate H s device of
         (status, bytes, rate) \<Rightarrow>
           \<not> (status \<noteq> noErr \<or> bytes \<noteq> 8 \<or> \<not> fp_eq rate (Fin False (real kSVCSampleRate)))) \<and>
      ChannelCount H s device kAudioObjectPropertyScopeOutput = Some (int kSVCChannelCount) \<and>
      ChannelCount H s device kAudioObjectPropertyScopeInput = Some 0)"

text \<open>Lines 220 to 235.\<close>

definition check_flags :: "'s hal \<Rightarrow> 's \<Rightarrow> u32 \<Rightarrow> bool" where
  "check_flags H s device =
     (CheckUInt32 H s device (MakeAddress kAudioDevicePropertyDeviceIsAlive kAudioObjectPropertyScopeGlobal) 1 \<and>
      CheckUInt32 H s device (MakeAddress kAudioDevicePropertyIsHidden kAudioObjectPropertyScopeGlobal) 0 \<and>
      CheckUInt32 H s device (MakeAddress kAudioDevicePropertyTransportType kAudioObjectPropertyScopeGlobal)
        (constant_code kAudioDeviceTransportTypeVirtual) \<and>
      CheckUInt32 H s device
        (MakeAddress kAudioDevicePropertyDeviceCanBeDefaultDevice kAudioObjectPropertyScopeOutput) 1 \<and>
      CheckUInt32 H s device
        (MakeAddress kAudioDevicePropertyDeviceCanBeDefaultSystemDevice kAudioObjectPropertyScopeOutput) 1)"

text \<open>Lines 237 to 270.\<close>

definition check_streams :: "'s hal \<Rightarrow> 's \<Rightarrow> u32 \<Rightarrow> bool" where
  "check_streams H s device =
     ((case hal_get H s device (MakeAddress kAudioDevicePropertyStreams kAudioObjectPropertyScopeOutput)
              None 4 (Fin False 0) of
         (status, bytes, written) \<Rightarrow>
           let outputStream = over_u32 written kAudioObjectUnknown in
           if status \<noteq> noErr \<or> bytes \<noteq> Some 4 \<or> outputStream = kAudioObjectUnknown then False
           else CheckUInt32 H s outputStream
                  (MakeAddress kAudioStreamPropertyIsActive kAudioObjectPropertyScopeGlobal) 1 \<and>
                CheckUInt32 H s outputStream
                  (MakeAddress kAudioStreamPropertyDirection kAudioObjectPropertyScopeGlobal) 0) \<and>
      (case hal_size H s device (MakeAddress kAudioDevicePropertyStreams kAudioObjectPropertyScopeInput) of
         (status, bytes) \<Rightarrow> \<not> (status \<noteq> noErr \<or> bytes \<noteq> 0)))"

text \<open>Lines 272 to 298.\<close>

definition check_controls :: "'s hal \<Rightarrow> 's \<Rightarrow> u32 \<Rightarrow> bool" where
  "check_controls H s device =
     (let present = (\<lambda>selector. let a = MakeAddress selector kAudioObjectPropertyScopeOutput
                                in hal_has H s device a \<and> IsWritable H s device a)
      in present kAudioDevicePropertyVolumeScalar \<and> present kAudioDevicePropertyVolumeDecibels \<and>
         present kAudioDevicePropertyMute)"

definition CheckStaticProperties :: "'s hal \<Rightarrow> 's \<Rightarrow> u32 \<Rightarrow> bool" where
  "CheckStaticProperties H s device =
     (check_format H s device \<and> check_flags H s device \<and> check_streams H s device \<and>
      check_controls H s device)"

fun fabsf :: "fp \<Rightarrow> fp" where
  "fabsf (Fin s x) = Fin False x"
| "fabsf (Inf s) = Inf False"
| "fabsf NaN = NaN"

definition NearlyEqual :: "fp \<Rightarrow> fp \<Rightarrow> bool" where
  "NearlyEqual lhs rhs = fp_le (fabsf (fp_sub binary32 lhs rhs)) (fp_lit binary32 False (5 / 10000))"

section \<open>Conversions\<close>

text \<open>The first control of the list whose class is the volume control's.\<close>

fun first_volume_control :: "'s hal \<Rightarrow> 's \<Rightarrow> u32 list \<Rightarrow> u32" where
  "first_volume_control H s [] = kAudioObjectUnknown"
| "first_volume_control H s (c # controls) =
     (case ReadUInt32 H s c (MakeAddress kAudioObjectPropertyClass kAudioObjectPropertyScopeGlobal) 0 of
        (ok, classID) \<Rightarrow>
          if ok \<and> classID = class_code kAudioVolumeControlClassID then c
          else first_volume_control H s controls)"

definition FindVolumeControl :: "'s hal \<Rightarrow> 's \<Rightarrow> u32 \<Rightarrow> u32" where
  "FindVolumeControl H s device =
     (let listAddress = MakeAddress kAudioObjectPropertyControlList kAudioObjectPropertyScopeOutput in
      case hal_size H s device listAddress of
        (status, bytes) \<Rightarrow>
          if status \<noteq> noErr \<or> bytes = 0 \<or> bytes mod 4 \<noteq> 0 then kAudioObjectUnknown
          else if \<not> hal_memory H s then kAudioObjectUnknown
          else (case hal_get H s device listAddress None bytes (Fin False 0) of
                  (status, _, written) \<Rightarrow>
                    if status \<noteq> noErr then kAudioObjectUnknown
                    else first_volume_control H s (over_objects written)))"

definition TryDirectConversion ::
    "'s hal \<Rightarrow> 's \<Rightarrow> u32 \<Rightarrow> AudioObjectPropertySelector \<Rightarrow> fp \<Rightarrow> fp \<Rightarrow> OSStatus \<times> bool" where
  "TryDirectConversion H s control_object selector x expected =
     (case hal_get H s control_object (MakeAddress selector kAudioObjectPropertyScopeGlobal) None 4 x of
        (status, _, written) \<Rightarrow> (status, status = noErr \<and> NearlyEqual (over_float written x) expected))"

definition CheckConversions :: "'s hal \<Rightarrow> 's \<Rightarrow> u32 \<Rightarrow> bool" where
  "CheckConversions H s device =
     (case ReadRange H s device
             (MakeAddress kAudioDevicePropertyVolumeRangeDecibels kAudioObjectPropertyScopeOutput)
             (Fin False 0, Fin False 0) of
        (ok, minimum, maximum) \<Rightarrow>
          if \<not> ok then False
          else if \<not> NearlyEqual (fp_conv binary32 minimum) (fp_lit binary32 True 96)
               \<or> \<not> NearlyEqual (fp_conv binary32 maximum) (Fin False 0) then False
          else
            (case hal_get H s device
                    (MakeAddress kAudioDevicePropertyVolumeScalarToDecibels kAudioObjectPropertyScopeOutput)
                    None 4 (fp_lit binary32 False (1 / 4)) of
               (status, _, written) \<Rightarrow>
                 if status \<noteq> noErr
                    \<or> \<not> NearlyEqual (over_float written (fp_lit binary32 False (1 / 4)))
                         (fp_lit binary32 True (240824 / 10000)) then
                   let control_object = FindVolumeControl H s device;
                       (directStatus, directMatches) =
                         (if control_object = kAudioObjectUnknown then (kAudioHardwareBadObjectError, False)
                          else TryDirectConversion H s control_object
                                 kAudioLevelControlPropertyConvertScalarToDecibels
                                 (fp_lit binary32 False (1 / 4)) (fp_lit binary32 True (240824 / 10000)))
                   in status = kAudioHardwareUnspecifiedError \<and> directStatus = kAudioHardwareUnspecifiedError
                 else
                   (case hal_get H s device
                           (MakeAddress kAudioDevicePropertyVolumeDecibelsToScalar kAudioObjectPropertyScopeOutput)
                           None 4 (fp_lit binary32 True 48) of
                      (status, _, written) \<Rightarrow>
                        \<not> (status \<noteq> noErr
                           \<or> \<not> NearlyEqual (over_float written (fp_lit binary32 True 48))
                                (fp_lit binary32 False (630957 / 10000000))))))"

section \<open>Exercising the controls\<close>

definition scalar_address :: AudioObjectPropertyAddress where
  "scalar_address = MakeAddress kAudioDevicePropertyVolumeScalar kAudioObjectPropertyScopeOutput"
definition decibel_address :: AudioObjectPropertyAddress where
  "decibel_address = MakeAddress kAudioDevicePropertyVolumeDecibels kAudioObjectPropertyScopeOutput"
definition mute_address :: AudioObjectPropertyAddress where
  "mute_address = MakeAddress kAudioDevicePropertyMute kAudioObjectPropertyScopeOutput"

text \<open>The three listeners, each added only when the one before was; the status of the last call.\<close>

definition add_listeners :: "'s hal \<Rightarrow> u32 \<Rightarrow> 's \<Rightarrow> OSStatus \<times> 's" where
  "add_listeners H device s =
     (case hal_listen H device scalar_address s of
        (status, s) \<Rightarrow>
          if status \<noteq> noErr then (status, s)
          else (case hal_listen H device decibel_address s of
                  (status, s) \<Rightarrow>
                    if status \<noteq> noErr then (status, s) else hal_listen H device mute_address s))"

definition remove_listeners :: "'s hal \<Rightarrow> u32 \<Rightarrow> 's \<Rightarrow> 's" where
  "remove_listeners H device s =
     hal_unlisten H device mute_address
       (hal_unlisten H device decibel_address (hal_unlisten H device scalar_address s))"

text \<open>
  One write of the scalar that must read back as \<open>expected\<close>. The variable the value is read into
  holds \<open>old\<close> before, which the failed comparison may see.
\<close>

definition write_scalar :: "'s hal \<Rightarrow> u32 \<Rightarrow> fp \<Rightarrow> fp \<Rightarrow> fp \<Rightarrow> 's \<Rightarrow> bool \<times> fp \<times> 's" where
  "write_scalar H device value expected old s =
     (case hal_set H device scalar_address (VFloat32 value) s of
        (status, s) \<Rightarrow>
          if status \<noteq> noErr then (False, old, s)
          else (case ReadFloat32 H s device scalar_address old of
                  (ok, readBack) \<Rightarrow> (ok \<and> NearlyEqual readBack expected, readBack, s)))"

text \<open>The loop over the values: it stops at the first that does not read back.\<close>

fun write_scalars :: "'s hal \<Rightarrow> u32 \<Rightarrow> fp list \<Rightarrow> 's \<Rightarrow> bool \<times> 's" where
  "write_scalars H device [] s = (True, s)"
| "write_scalars H device (value # vals) s =
     (case write_scalar H device value value (fp_lit binary32 True 1) s of
        (ok, _, s) \<Rightarrow> if \<not> ok then (False, s) else write_scalars H device vals s)"

definition test_values :: "fp list" where
  "test_values = map (fp_lit binary32 False) [0, 1 / 4, 1 / 2, 7 / 8, 1]"

text \<open>Lines 460 to 502: the writes and their checks.\<close>

definition exercise_writes :: "'s hal \<Rightarrow> u32 \<Rightarrow> u32 \<Rightarrow> 's \<Rightarrow> bool \<times> 's" where
  "exercise_writes H device originalMute s =
     (let (passed1, s) = write_scalars H device test_values s;
          (passed2, clamped, s) =
            write_scalar H device (fp_lit binary32 True 1) (Fin False 0) (fp_lit binary32 True 1) s;
          (passed3, _, s) = write_scalar H device (fp_lit binary32 False 2) (fp_lit binary32 False 1) clamped s;
          mute = (if originalMute = 0 then 1 else 0);
          (status, s) = hal_set H device mute_address (VUInt32 mute) s;
          (ok, readMute) = ReadUInt32 H s device mute_address originalMute;
          passed4 = (status = noErr \<and> ok \<and> readMute = mute)
      in (passed1 \<and> passed2 \<and> passed3 \<and> passed4, s))"

definition ExerciseControls :: "'s hal \<Rightarrow> u32 \<Rightarrow> 's \<Rightarrow> bool \<times> 's" where
  "ExerciseControls H device s =
     (let (readScalar, originalScalar) = ReadFloat32 H s device scalar_address (Fin False 0);
          (readMute, originalMute) = ReadUInt32 H s device mute_address 0
      in if \<not> readScalar \<or> \<not> readMute then (False, s)
         else (case add_listeners H device s of
                 (status, s) \<Rightarrow>
                   if status \<noteq> noErr then (False, s)
                   else
                     let (passed, s) = exercise_writes H device originalMute s;
                         s = hal_sleep H s;
                         s = snd (hal_set H device scalar_address (VFloat32 originalScalar) s);
                         s = snd (hal_set H device mute_address (VUInt32 originalMute) s);
                         s = remove_listeners H device (hal_sleep H s);
                         (volumes, decibels, mutes) = notification_counts H s
                     in (passed \<and> volumes \<noteq> 0 \<and> decibels \<noteq> 0 \<and> mutes \<noteq> 0, s)))"

section \<open>Watching\<close>

text \<open>The loop of lines 577 to 600; the last counts it saw.\<close>

fun watch_loop :: "'s hal \<Rightarrow> nat \<Rightarrow> counts \<Rightarrow> 's \<Rightarrow> counts \<times> 's" where
  "watch_loop H 0 last_counts s = (last_counts, s)"
| "watch_loop H (Suc n) last_counts s =
     (let s = hal_sleep H s in watch_loop H n (notification_counts H s) s)"

definition WatchNativeControls :: "'s hal \<Rightarrow> u32 \<Rightarrow> 's \<Rightarrow> bool \<times> 's" where
  "WatchNativeControls H device s =
     (case add_listeners H device s of
        (status, s) \<Rightarrow>
          if status \<noteq> noErr then (False, s)
          else (case watch_loop H 180 (0, 0, 0) s of
                  ((volumes, decibels, mutes), s) \<Rightarrow>
                    (0 < volumes \<and> 0 < decibels \<and> 0 < mutes, remove_listeners H device s)))"

section \<open>The default devices\<close>

definition default_address :: "AudioObjectPropertySelector \<Rightarrow> AudioObjectPropertyAddress" where
  "default_address selector = MakeAddress selector kAudioObjectPropertyScopeGlobal"

definition SetSystemDevice :: "'s hal \<Rightarrow> AudioObjectPropertySelector \<Rightarrow> u32 \<Rightarrow> 's \<Rightarrow> bool \<times> 's" where
  "SetSystemDevice H selector device s =
     (case hal_set H kAudioObjectSystemObject (default_address selector) (VObject device) s of
        (status, s) \<Rightarrow> (status = noErr, s))"

definition ReadDefault :: "'s hal \<Rightarrow> AudioObjectPropertySelector \<Rightarrow> 's \<Rightarrow> bool \<times> u32" where
  "ReadDefault H selector s =
     ReadUInt32 H s kAudioObjectSystemObject (default_address selector) kAudioObjectUnknown"

definition WatchWithTemporaryDefault :: "'s hal \<Rightarrow> u32 \<Rightarrow> 's \<Rightarrow> bool \<times> 's" where
  "WatchWithTemporaryDefault H device s =
     (let output = kAudioHardwarePropertyDefaultOutputDevice;
          systemOutput = kAudioHardwarePropertyDefaultSystemOutputDevice;
          (readOutput, originalOutput) = ReadDefault H output s;
          (readSystem, originalSystem) = ReadDefault H systemOutput s
      in if \<not> readOutput \<or> \<not> readSystem then (False, s)
         else
           let (selectedSystem, s) = SetSystemDevice H systemOutput device s;
               (selectedOutput, s) = SetSystemDevice H output device s
           in if \<not> selectedSystem \<or> \<not> selectedOutput then
                let s = snd (SetSystemDevice H output originalOutput s);
                    s = snd (SetSystemDevice H systemOutput originalSystem s)
                in (False, s)
              else
                let (passed, s) = WatchNativeControls H device s;
                    (restoredOutput, s) = SetSystemDevice H output originalOutput s;
                    (restoredSystem, s) = SetSystemDevice H systemOutput originalSystem s
                in if \<not> restoredOutput \<or> \<not> restoredSystem then (False, s) else (passed, s))"

text \<open>The loop of lines 699 to 717; \<open>None\<close> when no change was seen.\<close>

fun restoration_loop ::
    "'s hal \<Rightarrow> AudioObjectPropertySelector \<Rightarrow> u32 \<Rightarrow> u32 \<Rightarrow> nat \<Rightarrow> 's \<Rightarrow> bool option \<times> 's" where
  "restoration_loop H selector device original 0 s = (None, s)"
| "restoration_loop H selector device original (Suc n) s =
     (let s = hal_sleep H s in
      case ReadDefault H selector s of
        (ok, current) \<Rightarrow>
          if ok \<and> current \<noteq> device then
            if current = original then (Some True, s)
            else (Some False, snd (SetSystemDevice H selector original s))
          else restoration_loop H selector device original n s)"

definition VerifyExternalRestoration ::
    "'s hal \<Rightarrow> u32 \<Rightarrow> AudioObjectPropertySelector \<Rightarrow> 's \<Rightarrow> bool \<times> 's" where
  "VerifyExternalRestoration H device selector s =
     (case ReadDefault H selector s of
        (ok, original) \<Rightarrow>
          if \<not> ok then (False, s)
          else (case SetSystemDevice H selector device s of
                  (ok, s) \<Rightarrow>
                    if \<not> ok then (False, s)
                    else (case restoration_loop H selector device original 120 s of
                            (Some result, s) \<Rightarrow> (result, s)
                          | (None, s) \<Rightarrow> (False, snd (SetSystemDevice H selector original s)))))"

definition RefuseIfDefault :: "'s hal \<Rightarrow> u32 \<Rightarrow> 's \<Rightarrow> int" where
  "RefuseIfDefault H device s =
     (if device = kAudioObjectUnknown then 0
      else
        let defaultOutput = snd (ReadDefault H kAudioHardwarePropertyDefaultOutputDevice s);
            defaultSystem = snd (ReadDefault H kAudioHardwarePropertyDefaultSystemOutputDevice s)
        in if device = defaultOutput \<or> device = defaultSystem then 2 else 0)"

section \<open>The command\<close>

datatype verify_mode =
    ReadOnly | Exercise | RefuseDefault | WatchNative | WatchTemporary
  | VerifyOutputRestoration | VerifySystemRestoration

definition parse_arguments :: "string list \<Rightarrow> verify_mode option" where
  "parse_arguments arguments =
     (case arguments of
        [] \<Rightarrow> Some ReadOnly
      | [a] \<Rightarrow>
          if a = ''--exercise-controls'' then Some Exercise
          else if a = ''--refuse-if-default'' then Some RefuseDefault
          else if a = ''--watch-native'' then Some WatchNative
          else if a = ''--watch-native-temporary-default'' then Some WatchTemporary
          else if a = ''--verify-external-output-restoration'' then Some VerifyOutputRestoration
          else if a = ''--verify-external-system-restoration'' then Some VerifySystemRestoration
          else None
      | _ \<Rightarrow> None)"

text \<open>The exit status of the tool, \<open>arguments\<close> without the name of the program.\<close>

definition verify_main :: "'s hal \<Rightarrow> string list \<Rightarrow> 's \<Rightarrow> int \<times> 's" where
  "verify_main H arguments s =
     (case parse_arguments arguments of
        None \<Rightarrow> (64, s)
      | Some mode \<Rightarrow>
          let device = FindDevice H s in
          if mode = RefuseDefault then (RefuseIfDefault H device s, s)
          else if device = kAudioObjectUnknown then (1, s)
          else
            let passed1 = CheckStaticProperties H s device;
                passed2 = CheckConversions H s device;
                (passed3, s) =
                  (case mode of
                     Exercise \<Rightarrow> ExerciseControls H device s
                   | WatchNative \<Rightarrow> WatchNativeControls H device s
                   | WatchTemporary \<Rightarrow> WatchWithTemporaryDefault H device s
                   | VerifyOutputRestoration \<Rightarrow>
                       VerifyExternalRestoration H device kAudioHardwarePropertyDefaultOutputDevice s
                   | VerifySystemRestoration \<Rightarrow>
                       VerifyExternalRestoration H device kAudioHardwarePropertyDefaultSystemOutputDevice s
                   | _ \<Rightarrow> (True, s))
            in (if passed1 \<and> passed2 \<and> passed3 then 0 else 1, s))"

end
