(* ===== verification/Route_Defaults.thy ===== *)
theory Route_Defaults
  imports Route_Verify
begin

text \<open>
  The check that keeps the driver from being removed while it is a default device: what it decides
  when its three reads succeed, and what when they fail.
\<close>

section \<open>What the reads return\<close>

definition default_selectors :: "AudioObjectPropertySelector set" where
  "default_selectors = {kAudioHardwarePropertyDefaultOutputDevice, kAudioHardwarePropertyDefaultSystemOutputDevice}"

lemma default_selectors_in [simp]:
  "kAudioHardwarePropertyDefaultOutputDevice \<in> default_selectors"
  "kAudioHardwarePropertyDefaultSystemOutputDevice \<in> default_selectors"
  "kAudioHardwarePropertyDefaultOutputDevice \<noteq> kAudioHardwarePropertyDefaultSystemOutputDevice"
  "kAudioHardwarePropertyDefaultSystemOutputDevice \<noteq> kAudioHardwarePropertyDefaultOutputDevice"
  by (simp_all add: default_selectors_def client_consts)

text \<open>The call that translates the identifier of the driver's device.\<close>

definition lookup_device :: "'s hal \<Rightarrow> 's \<Rightarrow> get_result" where
  "lookup_device H s =
     hal_get H s kAudioObjectSystemObject
       (MakeAddress kAudioHardwarePropertyTranslateUIDToDevice kAudioObjectPropertyScopeGlobal)
       (Some \<lparr>as_classes = (\<lambda>_. OtherClassID 0), as_string = Some SVC_DEVICE_UID\<rparr>) 4 (Fin False 0)"

text \<open>
  \<open>current selector s\<close> is the device that is the default in a state, \<open>device\<close> the identifier of the
  driver's device. Reads that succeed return them; nothing is said of reads that fail, nor of writes.
\<close>

locale default_devices =
  fixes H :: "'s hal" and current :: "AudioObjectPropertySelector \<Rightarrow> 's \<Rightarrow> u32" and device :: u32
  assumes read_default:
      "\<lbrakk>selector \<in> default_selectors;
        hal_get H s kAudioObjectSystemObject (default_address selector) None 4 x = (noErr, bytes, written)\<rbrakk>
        \<Longrightarrow> written = Some (VObject (current selector s))"
    and read_device: "lookup_device H s = (noErr, bytes, written) \<Longrightarrow> written = Some (VObject device)"
begin

lemma ReadDefault_current:
  "\<lbrakk>selector \<in> default_selectors; fst (ReadDefault H selector s)\<rbrakk> \<Longrightarrow> snd (ReadDefault H selector s) = current selector s"
  by (auto simp: ReadDefault_def ReadUInt32_def over_u32_def split: prod.splits dest: read_default)

lemma device_looked_up:
  "FindDevice H s = (if fst (lookup_device H s) = noErr then device else kAudioObjectUnknown)"
  by (cases "lookup_device H s")
    (auto simp: FindDevice_def lookup_device_def [symmetric] over_u32_def dest: read_device)

lemma refused_when_read:
  assumes "fst (lookup_device H s) = noErr" "device \<noteq> kAudioObjectUnknown" "selector \<in> default_selectors"
    "fst (ReadDefault H selector s)" "current selector s = device"
  shows "RefuseIfDefault H (FindDevice H s) s = 2"
  using assms ReadDefault_current [OF assms(3,4)]
  by (auto simp: RefuseIfDefault_def device_looked_up default_selectors_def Let_def)

lemma refused_only_if:
  assumes "RefuseIfDefault H (FindDevice H s) s = 2"
  shows "fst (lookup_device H s) = noErr \<and>
    (\<exists>selector \<in> default_selectors. current selector s = device \<or> \<not> fst (ReadDefault H selector s))"
  using assms ReadDefault_current
  by (auto simp: RefuseIfDefault_def device_looked_up default_selectors_def Let_def split: if_splits)

end

lemma refused_codes: "RefuseIfDefault H device s \<in> {0, 2}"
  by (simp add: RefuseIfDefault_def Let_def)

text \<open>A default that cannot be read counts as no device, so the check fails open.\<close>

lemma unread_not_refused:
  "\<forall>selector \<in> default_selectors. ReadDefault H selector s = (False, kAudioObjectUnknown) \<Longrightarrow>
    RefuseIfDefault H device s = 0"
  by (simp add: RefuseIfDefault_def default_selectors_def Let_def)

end
