(* ===== verification/Route_Requests.thy ===== *)
theory Route_Requests
  imports Route_Verify
begin

text \<open>
  What the verifier asks of the system. \<open>logged\<close> adds to the state of a library the list of the writes
  requested so far; the verifier behaves the same with it, and the list shows that it asks for what it
  changed to be put back. Nothing is assumed of the library: a write may fail, may take effect later or
  not at all, and every read may fail.
\<close>

section \<open>The log of the writes\<close>

record request =
  req_object :: u32
  req_address :: AudioObjectPropertyAddress
  req_value :: property_value
  req_status :: OSStatus

abbreviation Asked :: "u32 \<Rightarrow> AudioObjectPropertyAddress \<Rightarrow> property_value \<Rightarrow> OSStatus \<Rightarrow> request" where
  "Asked n a v status \<equiv> \<lparr>req_object = n, req_address = a, req_value = v, req_status = status\<rparr>"

definition logged :: "'s hal \<Rightarrow> ('s \<times> request list) hal" where
  "logged H = \<lparr>
     hal_has = (\<lambda>(s, past). hal_has H s),
     hal_settable = (\<lambda>(s, past). hal_settable H s),
     hal_size = (\<lambda>(s, past). hal_size H s),
     hal_get = (\<lambda>(s, past). hal_get H s),
     hal_buffers = (\<lambda>(s, past). hal_buffers H s),
     hal_legacy_rate = (\<lambda>(s, past). hal_legacy_rate H s),
     hal_set = (\<lambda>n a v (s, past).
       case hal_set H n a v s of
         (status, t) \<Rightarrow> (status, t, past @ [Asked n a v status])),
     hal_listen = (\<lambda>n a (s, past). case hal_listen H n a s of (status, t) \<Rightarrow> (status, t, past)),
     hal_unlisten = (\<lambda>n a (s, past). (hal_unlisten H n a s, past)),
     hal_delivered = (\<lambda>(s, past). hal_delivered H s),
     hal_sleep = (\<lambda>(s, past). (hal_sleep H s, past)),
     hal_memory = (\<lambda>(s, past). hal_memory H s)\<rparr>"

lemma logged_simps [simp]:
  "hal_has (logged H) (s, past) = hal_has H s" "hal_settable (logged H) (s, past) = hal_settable H s"
  "hal_size (logged H) (s, past) = hal_size H s" "hal_get (logged H) (s, past) = hal_get H s"
  "hal_buffers (logged H) (s, past) = hal_buffers H s" "hal_legacy_rate (logged H) (s, past) = hal_legacy_rate H s"
  "hal_set (logged H) n a v (s, past) = (case hal_set H n a v s of
     (status, t) \<Rightarrow> (status, t, past @ [Asked n a v status]))"
  "hal_listen (logged H) n a (s, past) = (case hal_listen H n a s of (status, t) \<Rightarrow> (status, t, past))"
  "hal_unlisten (logged H) n a (s, past) = (hal_unlisten H n a s, past)"
  "hal_delivered (logged H) (s, past) = hal_delivered H s" "hal_sleep (logged H) (s, past) = (hal_sleep H s, past)"
  "hal_memory (logged H) (s, past) = hal_memory H s"
  by (simp_all add: logged_def)

section \<open>Functions that only read\<close>

lemma logged_helpers [simp]:
  "ReadUInt32 (logged H) (s, past) = ReadUInt32 H s" "ReadFloat32 (logged H) (s, past) = ReadFloat32 H s"
  "ReadRange (logged H) (s, past) = ReadRange H s" "IsWritable (logged H) (s, past) = IsWritable H s"
  "ChannelCount (logged H) (s, past) = ChannelCount H s" "FindDevice (logged H) (s, past) = FindDevice H s"
  "ReadDefault (logged H) selector (s, past) = ReadDefault H selector s"
  "notification_counts (logged H) (s, past) = notification_counts H s"
  by (simp_all add: fun_eq_iff ReadUInt32_def ReadFloat32_def ReadRange_def IsWritable_def ChannelCount_def FindDevice_def
      ReadDefault_def notification_counts_def split: prod.split)

lemma logged_first_control [simp]:
  "first_volume_control (logged H) (s, past) controls = first_volume_control H s controls"
  by (induction controls) (simp_all split: prod.splits)

lemma logged_checks [simp]:
  "CheckStaticProperties (logged H) (s, past) device = CheckStaticProperties H s device"
  "CheckConversions (logged H) (s, past) device = CheckConversions H s device"
  "RefuseIfDefault (logged H) device (s, past) = RefuseIfDefault H device s"
  by (simp_all add: CheckStaticProperties_def check_format_def check_flags_def check_streams_def check_controls_def
      CheckUInt32_def CheckConversions_def FindVolumeControl_def TryDirectConversion_def RefuseIfDefault_def
      cong: if_cong prod.case_cong)

section \<open>Listening\<close>

lemma logged_add_listeners [simp]:
  "add_listeners (logged H) device (s, past) = (case add_listeners H device s of (status, t) \<Rightarrow> (status, t, past))"
  by (simp add: add_listeners_def split: prod.splits)

lemma logged_remove_listeners [simp]:
  "remove_listeners (logged H) device (s, past) = (remove_listeners H device s, past)"
  by (simp add: remove_listeners_def)

lemma logged_watch_loop [simp]:
  "watch_loop (logged H) n c (s, past) = (case watch_loop H n c s of (d, t) \<Rightarrow> (d, t, past))"
  by (induction n arbitrary: c s) (simp_all add: Let_def)

lemma logged_watch [simp]:
  "WatchNativeControls (logged H) device (s, past) = (case WatchNativeControls H device s of (ok, t) \<Rightarrow> (ok, t, past))"
  by (simp add: WatchNativeControls_def split: prod.splits)

section \<open>The writes of the exercise\<close>

definition control_request :: "u32 \<Rightarrow> request \<Rightarrow> bool" where
  "control_request device r \<longleftrightarrow>
     req_object r = device \<and>
     (case req_value r of
        VFloat32 x \<Rightarrow> req_address r = scalar_address
      | VUInt32 n \<Rightarrow> req_address r = mute_address
      | _ \<Rightarrow> False)"

lemma logged_write_scalar:
  assumes "write_scalar (logged H) device x expected old (s, past) = (ok, y, t, past')"
  shows "write_scalar H device x expected old s = (ok, y, t) \<and>
    (\<exists>w. past' = past @ [w] \<and> control_request device w)"
  using assms by (auto simp: write_scalar_def control_request_def split: prod.splits if_splits)

lemma logged_write_scalars:
  assumes "write_scalars (logged H) device xs (s, past) = (ok, t, past')"
  shows "write_scalars H device xs s = (ok, t) \<and> (\<exists>ws. past' = past @ ws \<and> (\<forall>w \<in> set ws. control_request device w))"
  using assms
proof (induction xs arbitrary: s past)
  case (Cons x xs)
  obtain ok1 y u past1 where w: "write_scalar (logged H) device x x (fp_lit binary32 True 1) (s, past) = (ok1, y, u, past1)"
    using prod_cases4 by blast
  then obtain r where r: "write_scalar H device x x (fp_lit binary32 True 1) s = (ok1, y, u)"
    "past1 = past @ [r]" "control_request device r"
    using logged_write_scalar [OF w] by blast
  show ?case
  proof (cases ok1)
    case True
    with Cons.prems w have "write_scalars (logged H) device xs (u, past1) = (ok, t, past')" by simp
    from Cons.IH [OF this] show ?thesis using True r by (auto intro: exI [of _ "r # _"])
  next
    case False
    with Cons.prems w r show ?thesis by auto
  qed
qed simp

lemma logged_exercise_writes:
  assumes "exercise_writes (logged H) device m (s, past) = (ok, t, past')"
  shows "exercise_writes H device m s = (ok, t) \<and> (\<exists>ws. past' = past @ ws \<and> (\<forall>w \<in> set ws. control_request device w))"
proof -
  obtain ok1 s1 p1 where 1: "write_scalars (logged H) device test_values (s, past) = (ok1, s1, p1)"
    using prod_cases3 by blast
  obtain ok2 y s2 p2 where 2: "write_scalar (logged H) device (fp_lit binary32 True 1) (Fin False 0)
      (fp_lit binary32 True 1) (s1, p1) = (ok2, y, s2, p2)"
    using prod_cases4 by blast
  obtain ok3 z s3 p3 where 3: "write_scalar (logged H) device (fp_lit binary32 False 2) (fp_lit binary32 False 1) y (s2, p2) =
      (ok3, z, s3, p3)"
    using prod_cases4 by blast
  define n :: u32 where "n = (if m = 0 then 1 else 0)"
  obtain status s4 where 4: "hal_set H device mute_address (VUInt32 n) s3 = (status, s4)" by fastforce
  note l = logged_write_scalars [OF 1] logged_write_scalar [OF 2] logged_write_scalar [OF 3]
  have "exercise_writes H device m s = (ok, t) \<and> past' = p3 @ [Asked device mute_address (VUInt32 n) status]"
    using assms 1 2 3 4 l by (auto simp: exercise_writes_def Let_def n_def split: prod.splits)
  moreover have "control_request device (Asked device mute_address (VUInt32 n) status)"
    by (simp add: control_request_def)
  ultimately show ?thesis using l by auto
qed

lemma logged_exercise:
  assumes "ExerciseControls (logged H) device (s, []) = (ok, t, past)"
  shows "ExerciseControls H device s = (ok, t) \<and>
    (past = [] \<or>
     (\<exists>x m ws status status'. ReadFloat32 H s device scalar_address (Fin False 0) = (True, x) \<and>
        ReadUInt32 H s device mute_address 0 = (True, m) \<and> (\<forall>w \<in> set ws. control_request device w) \<and>
        past = ws @ [Asked device scalar_address (VFloat32 x) status, Asked device mute_address (VUInt32 m) status']))"
proof -
  obtain ok1 x where x: "ReadFloat32 H s device scalar_address (Fin False 0) = (ok1, x)" by fastforce
  obtain ok2 m where m: "ReadUInt32 H s device mute_address 0 = (ok2, m)" by fastforce
  obtain status u where u: "add_listeners H device s = (status, u)" by fastforce
  show ?thesis
  proof (cases "ok1 \<and> ok2 \<and> status = noErr")
    case False
    then show ?thesis using assms x m u by (auto simp: ExerciseControls_def)
  next
    case True
    obtain passed v ws where v: "exercise_writes (logged H) device m (u, []) = (passed, v, ws)"
      using prod_cases3 by blast
    note w = logged_exercise_writes [OF v]
    obtain st1 a where a: "hal_set H device scalar_address (VFloat32 x) (hal_sleep H v) = (st1, a)" by fastforce
    obtain st2 b where b: "hal_set H device mute_address (VUInt32 m) a = (st2, b)" by fastforce
    have "ExerciseControls H device s = (ok, t) \<and>
        past = ws @ [Asked device scalar_address (VFloat32 x) st1, Asked device mute_address (VUInt32 m) st2]"
      using assms True x m u v w a b by (auto simp: ExerciseControls_def Let_def split: prod.splits)
    then show ?thesis using True x m w by auto
  qed
qed

section \<open>The writes of the default devices\<close>

abbreviation asked_default :: "AudioObjectPropertySelector \<Rightarrow> u32 \<Rightarrow> OSStatus \<Rightarrow> request" where
  "asked_default selector device status \<equiv>
     Asked kAudioObjectSystemObject (default_address selector) (VObject device) status"

lemma logged_set_default:
  obtains ok t status where "SetSystemDevice H selector device s = (ok, t)" "ok = (status = noErr)"
    "SetSystemDevice (logged H) selector device (s, past) = (ok, t, past @ [asked_default selector device status])"
  by (cases "hal_set H kAudioObjectSystemObject (default_address selector) (VObject device) s")
    (simp add: SetSystemDevice_def that)

lemma logged_watch_default:
  assumes "WatchWithTemporaryDefault (logged H) device (s, []) = (ok, t, past)"
  shows "WatchWithTemporaryDefault H device s = (ok, t) \<and>
    (past = [] \<and> \<not> ok \<or>
     (\<exists>n m st1 st2 st3 st4.
        ReadDefault H kAudioHardwarePropertyDefaultOutputDevice s = (True, n) \<and>
        ReadDefault H kAudioHardwarePropertyDefaultSystemOutputDevice s = (True, m) \<and>
        past = [asked_default kAudioHardwarePropertyDefaultSystemOutputDevice device st1,
          asked_default kAudioHardwarePropertyDefaultOutputDevice device st2,
          asked_default kAudioHardwarePropertyDefaultOutputDevice n st3,
          asked_default kAudioHardwarePropertyDefaultSystemOutputDevice m st4] \<and>
        (ok \<longrightarrow> st3 = noErr \<and> st4 = noErr)))"
proof -
  let ?O = kAudioHardwarePropertyDefaultOutputDevice and ?S = kAudioHardwarePropertyDefaultSystemOutputDevice
  obtain okO n where n: "ReadDefault H ?O s = (okO, n)" by fastforce
  obtain okS m where m: "ReadDefault H ?S s = (okS, m)" by fastforce
  show ?thesis
  proof (cases "okO \<and> okS")
    case False
    then show ?thesis using assms n m by (auto simp: WatchWithTemporaryDefault_def Let_def)
  next
    case True
    obtain ok1 s1 st1 where 1: "SetSystemDevice H ?S device s = (ok1, s1)" "ok1 = (st1 = noErr)"
      "SetSystemDevice (logged H) ?S device (s, []) = (ok1, s1, [] @ [asked_default ?S device st1])"
      by (rule logged_set_default)
    obtain ok2 s2 st2 where 2: "SetSystemDevice H ?O device s1 = (ok2, s2)" "ok2 = (st2 = noErr)"
      "SetSystemDevice (logged H) ?O device (s1, [] @ [asked_default ?S device st1]) =
        (ok2, s2, ([] @ [asked_default ?S device st1]) @ [asked_default ?O device st2])"
      by (rule logged_set_default)
    obtain seen s3 where 3: "WatchNativeControls H device s2 = (seen, s3)" by fastforce
    define u where "u = (if ok1 \<and> ok2 then s3 else s2)"
    define p where "p = ([] @ [asked_default ?S device st1]) @ [asked_default ?O device st2]"
    obtain ok4 s4 st4 where 4: "SetSystemDevice H ?O n u = (ok4, s4)" "ok4 = (st4 = noErr)"
      "SetSystemDevice (logged H) ?O n (u, p) = (ok4, s4, p @ [asked_default ?O n st4])"
      by (rule logged_set_default)
    obtain ok5 s5 st5 where 5: "SetSystemDevice H ?S m s4 = (ok5, s5)" "ok5 = (st5 = noErr)"
      "SetSystemDevice (logged H) ?S m (s4, p @ [asked_default ?O n st4]) =
        (ok5, s5, (p @ [asked_default ?O n st4]) @ [asked_default ?S m st5])"
      by (rule logged_set_default)
    have "WatchWithTemporaryDefault H device s = (ok, t) \<and> past = (p @ [asked_default ?O n st4]) @ [asked_default ?S m st5] \<and>
        (ok \<longrightarrow> ok4 \<and> ok5)"
      using assms n m True 1(1,3) 2(1,3) 3 4(1,3) 5(1,3)
      by (cases "ok1 \<and> ok2"; cases "ok4 \<and> ok5") (auto simp: WatchWithTemporaryDefault_def p_def u_def)
    then show ?thesis using n m True 4(2) 5(2) by (auto simp: p_def)
  qed
qed

lemma logged_restoration_loop:
  assumes "restoration_loop (logged H) selector device original n (s, past) = (outcome, t, past')"
  shows "restoration_loop H selector device original n s = (outcome, t) \<and>
    (past' = past \<and> outcome = None \<or> past' = past \<and> outcome = Some True \<and> ReadDefault H selector t = (True, original) \<or>
     outcome = Some False \<and> (\<exists>status. past' = past @ [asked_default selector original status]))"
  using assms
proof (induction n arbitrary: s)
  case (Suc n)
  obtain ok c where r: "ReadDefault H selector (hal_sleep H s) = (ok, c)" by fastforce
  obtain ok1 u status where u: "SetSystemDevice H selector original (hal_sleep H s) = (ok1, u)"
    "SetSystemDevice (logged H) selector original (hal_sleep H s, past) =
      (ok1, u, past @ [asked_default selector original status])"
    by (rule logged_set_default)
  show ?case
  proof (cases "ok \<and> c \<noteq> device")
    case True
    then show ?thesis using Suc.prems r u by (auto simp: Let_def split: if_splits)
  next
    case False
    then show ?thesis using Suc.prems Suc.IH [of "hal_sleep H s"] r by (auto simp: Let_def split: if_splits)
  qed
qed simp

lemma logged_verify_restoration:
  assumes "VerifyExternalRestoration (logged H) device selector (s, []) = (ok, t, past)"
  shows "VerifyExternalRestoration H device selector s = (ok, t) \<and>
    (past = [] \<and> \<not> ok \<or>
     (\<exists>original st1. ReadDefault H selector s = (True, original) \<and>
        (past = [asked_default selector device st1] \<and> st1 \<noteq> noErr \<and> \<not> ok \<or>
         past = [asked_default selector device st1] \<and> ReadDefault H selector t = (True, original) \<or>
         (\<exists>st2. past = [asked_default selector device st1, asked_default selector original st2] \<and> \<not> ok))))"
proof -
  obtain okR original where r: "ReadDefault H selector s = (okR, original)" by fastforce
  obtain ok1 u st1 where u: "SetSystemDevice H selector device s = (ok1, u)" "ok1 = (st1 = noErr)"
    "SetSystemDevice (logged H) selector device (s, []) = (ok1, u, [] @ [asked_default selector device st1])"
    by (rule logged_set_default)
  obtain outcome v past1 where l: "restoration_loop (logged H) selector device original 120 (u, [] @ [asked_default selector device st1]) =
      (outcome, v, past1)"
    using prod_cases3 by blast
  obtain ok2 w st2 where w: "SetSystemDevice H selector original v = (ok2, w)"
    "SetSystemDevice (logged H) selector original (v, past1) = (ok2, w, past1 @ [asked_default selector original st2])"
    by (rule logged_set_default)
  show ?thesis
    using assms r u l w logged_restoration_loop [OF l]
    by (auto simp: VerifyExternalRestoration_def split: if_splits option.splits)
qed

section \<open>What is written is put back\<close>

text \<open>
  The value of the property a request is for, as the tool reads it in a given state: a device, a mute
  flag or a volume, as the request's own value is. \<open>None\<close> when it cannot be read.
\<close>

definition value_read :: "'s hal \<Rightarrow> 's \<Rightarrow> request \<Rightarrow> property_value option" where
  "value_read H s r =
     (case req_value r of
        VObject x \<Rightarrow> (case ReadUInt32 H s (req_object r) (req_address r) kAudioObjectUnknown of
          (ok, n) \<Rightarrow> if ok then Some (VObject n) else None)
      | VUInt32 x \<Rightarrow> (case ReadUInt32 H s (req_object r) (req_address r) 0 of
          (ok, n) \<Rightarrow> if ok then Some (VUInt32 n) else None)
      | VFloat32 x \<Rightarrow> (case ReadFloat32 H s (req_object r) (req_address r) (Fin False 0) of
          (ok, y) \<Rightarrow> if ok then Some (VFloat32 y) else None)
      | _ \<Rightarrow> None)"

text \<open>The requests of a run for the same property, in their order.\<close>

definition requests_like :: "request \<Rightarrow> request list \<Rightarrow> request list" where
  "requests_like r past = filter (\<lambda>q. req_object q = req_object r \<and> req_address q = req_address r) past"

text \<open>
  The property had a value before the run that the tool could read; and of the requests for it either
  none was accepted, or the last asks for that value, or the tool ends having read that value again.
\<close>

definition put_back :: "'s hal \<Rightarrow> 's \<Rightarrow> 's \<Rightarrow> request list \<Rightarrow> request \<Rightarrow> bool" where
  "put_back H s t past r \<longleftrightarrow>
     (\<exists>v. value_read H s r = Some v \<and>
        ((\<forall>q \<in> set (requests_like r past). req_status q \<noteq> noErr) \<or>
         req_value (last (requests_like r past)) = v \<or> value_read H t r = Some v))"

text \<open>The last request asked for that value and was accepted, or the tool has read the value again.\<close>

definition put_back_accepted :: "'s hal \<Rightarrow> 's \<Rightarrow> 's \<Rightarrow> request list \<Rightarrow> request \<Rightarrow> bool" where
  "put_back_accepted H s t past r \<longleftrightarrow>
     (\<exists>v. value_read H s r = Some v \<and>
        (req_value (last (requests_like r past)) = v \<and> req_status (last (requests_like r past)) = noErr \<or>
         value_read H t r = Some v))"

text \<open>The properties a mode may write.\<close>

definition may_write :: "verify_mode option \<Rightarrow> u32 \<Rightarrow> request \<Rightarrow> bool" where
  "may_write mode device r =
     (case mode of
        Some Exercise \<Rightarrow> control_request device r
      | Some WatchTemporary \<Rightarrow> req_object r = kAudioObjectSystemObject \<and>
          req_address r \<in> {default_address kAudioHardwarePropertyDefaultOutputDevice,
            default_address kAudioHardwarePropertyDefaultSystemOutputDevice}
      | Some VerifyOutputRestoration \<Rightarrow> req_object r = kAudioObjectSystemObject \<and>
          req_address r = default_address kAudioHardwarePropertyDefaultOutputDevice
      | Some VerifySystemRestoration \<Rightarrow> req_object r = kAudioObjectSystemObject \<and>
          req_address r = default_address kAudioHardwarePropertyDefaultSystemOutputDevice
      | _ \<Rightarrow> False)"

lemma written_addresses [simp]:
  "scalar_address \<noteq> mute_address" "mute_address \<noteq> scalar_address"
  "default_address kAudioHardwarePropertyDefaultOutputDevice \<noteq> default_address kAudioHardwarePropertyDefaultSystemOutputDevice"
  "default_address kAudioHardwarePropertyDefaultSystemOutputDevice \<noteq> default_address kAudioHardwarePropertyDefaultOutputDevice"
  by (simp_all add: scalar_address_def mute_address_def default_address_def MakeAddress_def client_consts)

lemma exercise_puts_back:
  assumes "ExerciseControls (logged H) device (s, []) = (ok, t, past)" "r \<in> set past"
  shows "control_request device r \<and> put_back H s t past r"
proof -
  obtain x m ws st st' where l: "ReadFloat32 H s device scalar_address (Fin False 0) = (True, x)"
      "ReadUInt32 H s device mute_address 0 = (True, m)" "\<forall>w \<in> set ws. control_request device w"
      "past = ws @ [Asked device scalar_address (VFloat32 x) st, Asked device mute_address (VUInt32 m) st']"
    using logged_exercise [OF assms(1)] assms(2) by auto
  have r: "control_request device r" using l(3,4) assms(2) by (auto simp: control_request_def)
  then consider y where "req_object r = device" "req_address r = scalar_address" "req_value r = VFloat32 y"
    | n where "req_object r = device" "req_address r = mute_address" "req_value r = VUInt32 n"
    by (auto simp: control_request_def split: property_value.splits)
  then have "put_back H s t past r"
    by cases (use l in \<open>auto simp: put_back_def value_read_def requests_like_def\<close>)
  with r show ?thesis by blast
qed

lemma watch_puts_back:
  assumes "WatchWithTemporaryDefault (logged H) device (s, []) = (ok, t, past)" "r \<in> set past"
  shows "may_write (Some WatchTemporary) device r \<and> put_back H s t past r \<and> (ok \<longrightarrow> put_back_accepted H s t past r)"
proof -
  let ?O = kAudioHardwarePropertyDefaultOutputDevice and ?S = kAudioHardwarePropertyDefaultSystemOutputDevice
  obtain n m st1 st2 st3 st4 where l: "ReadDefault H ?O s = (True, n)" "ReadDefault H ?S s = (True, m)"
      "past = [asked_default ?S device st1, asked_default ?O device st2, asked_default ?O n st3, asked_default ?S m st4]"
      "ok \<longrightarrow> st3 = noErr \<and> st4 = noErr"
    using logged_watch_default [OF assms(1)] assms(2) by auto
  define v where "v = VObject (if req_address r = default_address ?O then n else m)"
  have "value_read H s r = Some v" "req_value (last (requests_like r past)) = v" "ok \<longrightarrow> req_status (last (requests_like r past)) = noErr"
    using l assms(2) by (auto simp: v_def value_read_def requests_like_def ReadDefault_def)
  then show ?thesis using l(3) assms(2) by (auto simp: put_back_def put_back_accepted_def may_write_def)
qed

lemma verify_puts_back:
  assumes "VerifyExternalRestoration (logged H) device selector (s, []) = (ok, t, past)" "r \<in> set past"
  shows "req_object r = kAudioObjectSystemObject \<and> req_address r = default_address selector \<and>
    put_back H s t past r \<and> (ok \<longrightarrow> put_back_accepted H s t past r)"
proof -
  obtain original st1 where l: "ReadDefault H selector s = (True, original)"
      "past = [asked_default selector device st1] \<and> st1 \<noteq> noErr \<and> \<not> ok \<or>
       past = [asked_default selector device st1] \<and> ReadDefault H selector t = (True, original) \<or>
       (\<exists>st2. past = [asked_default selector device st1, asked_default selector original st2] \<and> \<not> ok)"
    using logged_verify_restoration [OF assms(1)] assms(2) by auto
  obtain n where r: "req_object r = kAudioObjectSystemObject" "req_address r = default_address selector"
      "req_value r = VObject n"
    using l(2) assms(2) by auto
  then have "value_read H s r = Some (VObject original)" using l(1) by (simp add: value_read_def ReadDefault_def)
  moreover have "ok \<Longrightarrow> value_read H t r = Some (VObject original)" using r l(2) by (auto simp: value_read_def ReadDefault_def)
  moreover have "(\<forall>q \<in> set (requests_like r past). req_status q \<noteq> noErr) \<or>
      req_value (last (requests_like r past)) = VObject original \<or> value_read H t r = Some (VObject original)"
    using r l(2) by (auto simp: requests_like_def value_read_def ReadDefault_def)
  ultimately show ?thesis using r unfolding put_back_def put_back_accepted_def by blast
qed

end
