(* ===== verification/Route_System.thy ===== *)
theory Route_System
  imports Route_Defaults Route_Requests Driver_Settings
begin

text \<open>
  The system between the tools and the driver. \<open>driver_backed\<close> states what CoreAudio documents of a
  device whose plug-in is the modelled driver: reads of its objects reach the driver, and the
  volume and mute properties of the device are those of its controls. Whether the conversions of the volume
  control are forwarded too, which some versions of macOS decline, is left to a state.
  \<open>example_hal\<close> is a system that satisfies it.
\<close>

section \<open>From the device to its controls\<close>

text \<open>The control and the control's property behind a volume or mute property of the device.\<close>

definition control_property ::
    "AudioObjectPropertySelector \<Rightarrow> (u32 \<times> AudioObjectPropertySelector) option" where
  "control_property selector =
     (if selector = kAudioDevicePropertyVolumeScalar
        then Some (kSVCObjectVolume, kAudioLevelControlPropertyScalarValue)
      else if selector = kAudioDevicePropertyVolumeDecibels
        then Some (kSVCObjectVolume, kAudioLevelControlPropertyDecibelValue)
      else if selector = kAudioDevicePropertyVolumeRangeDecibels
        then Some (kSVCObjectVolume, kAudioLevelControlPropertyDecibelRange)
      else if selector = kAudioDevicePropertyVolumeScalarToDecibels
        then Some (kSVCObjectVolume, kAudioLevelControlPropertyConvertScalarToDecibels)
      else if selector = kAudioDevicePropertyVolumeDecibelsToScalar
        then Some (kSVCObjectVolume, kAudioLevelControlPropertyConvertDecibelsToScalar)
      else if selector = kAudioDevicePropertyMute
        then Some (kSVCObjectMute, kAudioBooleanControlPropertyValue)
      else None)"

lemma control_property_simps [simp]:
  "control_property kAudioDevicePropertyVolumeScalar = Some (kSVCObjectVolume, kAudioLevelControlPropertyScalarValue)"
  "control_property kAudioDevicePropertyVolumeDecibels = Some (kSVCObjectVolume, kAudioLevelControlPropertyDecibelValue)"
  "control_property kAudioDevicePropertyVolumeRangeDecibels = Some (kSVCObjectVolume, kAudioLevelControlPropertyDecibelRange)"
  "control_property kAudioDevicePropertyVolumeScalarToDecibels =
     Some (kSVCObjectVolume, kAudioLevelControlPropertyConvertScalarToDecibels)"
  "control_property kAudioDevicePropertyVolumeDecibelsToScalar =
     Some (kSVCObjectVolume, kAudioLevelControlPropertyConvertDecibelsToScalar)"
  "control_property kAudioDevicePropertyMute = Some (kSVCObjectMute, kAudioBooleanControlPropertyValue)"
  by (simp_all add: control_property_def client_consts)

text \<open>Object identifiers in a value, as the client sees them.\<close>

fun client_value :: "(u32 \<Rightarrow> u32) \<Rightarrow> property_value \<Rightarrow> property_value" where
  "client_value client (VObject n) = VObject (client n)"
| "client_value client (VObjects ns) = VObjects (map client ns)"
| "client_value client v = v"

text \<open>The memory the driver finds a value in, as far as it reads it for a control.\<close>

definition memory_of :: "property_value \<Rightarrow> in_data" where
  "memory_of v = \<lparr>as_uint32 = (case v of VUInt32 n \<Rightarrow> n | _ \<Rightarrow> 0),
     as_float32 = (case v of VFloat32 x \<Rightarrow> x | _ \<Rightarrow> Fin False 0),
     as_float64 = Fin False 0, as_format = StreamFormat\<rparr>"

text \<open>
  What the driver would do with the writes a client requested, carried out in their order as writes of
  its controls.
\<close>

definition carry_out :: "libm \<Rightarrow> request \<Rightarrow> driver \<Rightarrow> driver" where
  "carry_out L r d =
     (case control_property (mSelector (req_address r)) of
        None \<Rightarrow> d
      | Some (ob, property) \<Rightarrow>
          fst (DriverSetPropertyData L d True ob (Some (Address property)) (value_size (req_value r))
            (Some (memory_of (req_value r)))))"

section \<open>The interface\<close>

definition conversion_selectors :: "AudioObjectPropertySelector set" where
  "conversion_selectors =
     {kAudioLevelControlPropertyConvertScalarToDecibels, kAudioLevelControlPropertyConvertDecibelsToScalar}"

text \<open>\<open>drv\<close> is the driver in a state, \<open>client\<close> the identifiers its objects have for clients.\<close>

locale driver_backed =
  fixes H :: "'s hal" and L :: libm and drv :: "'s \<Rightarrow> driver" and client :: "u32 \<Rightarrow> u32"
  assumes client_known: "IsKnownObject ob \<Longrightarrow> client ob \<noteq> kAudioObjectUnknown"
    and translate_uid:
      "as_string q = Some SVC_DEVICE_UID \<Longrightarrow>
        hal_get H s kAudioObjectSystemObject
          (MakeAddress kAudioHardwarePropertyTranslateUIDToDevice kAudioObjectPropertyScopeGlobal) (Some q) 4 x =
          (noErr, Some 4, Some (VObject (client kSVCObjectDevice)))"
    and size_forwarded:
      "\<lbrakk>IsKnownObject ob; control_property (mSelector a) = None;
        DriverGetPropertyDataSize True ob (Some a) 0 None True = (noErr, Some n)\<rbrakk>
        \<Longrightarrow> hal_size H s (client ob) a = (noErr, n)"
    and get_forwarded:
      "\<lbrakk>IsKnownObject ob; control_property (mSelector a) = None; mSelector a \<notin> conversion_selectors;
        DriverGetPropertyData L (drv s) True ob (Some a) 0 None room True (Some x) = (noErr, bytes, written)\<rbrakk>
        \<Longrightarrow> hal_get H s (client ob) a None room x = (noErr, bytes, map_option (client_value client) written)"
    and buffers_forwarded:
      "\<lbrakk>DriverGetPropertyData L (drv s) True kSVCObjectDevice
          (Some (MakeAddress kAudioDevicePropertyStreamConfiguration scope)) 0 None 24 True (Some x) =
          (noErr, bytes, Some (VBufferList n channels bytes_each))\<rbrakk>
        \<Longrightarrow> hal_buffers H s (client kSVCObjectDevice) scope = (noErr, replicate (unat n) channels)"
    and rate_forwarded:
      "\<lbrakk>DriverGetPropertyData L (drv s) True kSVCObjectDevice
          (Some (Address kAudioDevicePropertyNominalSampleRate)) 0 None 8 True (Some x) =
          (noErr, Some n, Some (VFloat64 rate))\<rbrakk>
        \<Longrightarrow> hal_legacy_rate H s (client kSVCObjectDevice) = (noErr, n, rate)"
    and control_has:
      "\<lbrakk>control_property selector = Some (ob, property); DriverHasProperty True ob (Some (Address property))\<rbrakk>
        \<Longrightarrow> hal_has H s (client kSVCObjectDevice) (MakeAddress selector kAudioObjectPropertyScopeOutput)"
    and control_settable:
      "\<lbrakk>control_property selector = Some (ob, property);
        DriverIsPropertySettable True ob (Some (Address property)) True = (noErr, Some settable)\<rbrakk>
        \<Longrightarrow> hal_settable H s (client kSVCObjectDevice) (MakeAddress selector kAudioObjectPropertyScopeOutput) =
          (noErr, settable)"
    and control_get:
      "\<lbrakk>control_property selector = Some (ob, property); property \<notin> conversion_selectors;
        DriverGetPropertyData L (drv s) True ob (Some (Address property)) 0 None room True (Some x) =
          (noErr, bytes, written)\<rbrakk>
        \<Longrightarrow> hal_get H s (client kSVCObjectDevice) (MakeAddress selector kAudioObjectPropertyScopeOutput) None room x =
          (noErr, bytes, written)"

text \<open>The two conversions of the device are answered by the volume control, in a given state.\<close>

definition conversions_forwarded :: "'s hal \<Rightarrow> libm \<Rightarrow> ('s \<Rightarrow> driver) \<Rightarrow> (u32 \<Rightarrow> u32) \<Rightarrow> 's \<Rightarrow> bool" where
  "conversions_forwarded H L drv client s \<longleftrightarrow>
     (\<forall>selector property x. control_property selector = Some (kSVCObjectVolume, property) \<and>
        property \<in> conversion_selectors \<longrightarrow>
        hal_get H s (client kSVCObjectDevice) (MakeAddress selector kAudioObjectPropertyScopeOutput) None 4 x =
        DriverGetPropertyData L (drv s) True kSVCObjectVolume (Some (Address property)) 0 None 4 True (Some x))"

text \<open>
  The system answers the conversion to decibels itself, and declines it as the verifier knows of: at the
  device and at the control.
\<close>

definition conversions_declined :: "'s hal \<Rightarrow> (u32 \<Rightarrow> u32) \<Rightarrow> 's \<Rightarrow> bool" where
  "conversions_declined H client s \<longleftrightarrow>
     (\<forall>x. fst (hal_get H s (client kSVCObjectDevice)
          (MakeAddress kAudioDevicePropertyVolumeScalarToDecibels kAudioObjectPropertyScopeOutput) None 4 x) =
          kAudioHardwareUnspecifiedError \<and>
        fst (hal_get H s (client kSVCObjectVolume)
          (MakeAddress kAudioLevelControlPropertyConvertScalarToDecibels kAudioObjectPropertyScopeGlobal) None 4 x) =
          kAudioHardwareUnspecifiedError)"

section \<open>A system\<close>

text \<open>
  The driver, the two default devices, and whether the system declines the conversions. Object \<open>ob\<close> of the
  driver has the identifier \<open>ob + 48\<close>, and 80 and 81 are two other devices. No listener is ever called.
\<close>

record system =
  sys_driver :: driver
  sys_output :: u32
  sys_effects :: u32
  sys_declines :: bool

definition client_id :: "u32 \<Rightarrow> u32" where
  "client_id ob = (if IsKnownObject ob then ob + 48 else kAudioObjectUnknown)"

definition target :: "u32 \<Rightarrow> AudioObjectPropertyAddress \<Rightarrow> u32 \<times> AudioObjectPropertyAddress" where
  "target n a =
     (if n = client_id kSVCObjectDevice \<and> mScope a = kAudioObjectPropertyScopeOutput \<and> mElement a = 0
      then (case control_property (mSelector a) of
              Some (ob, property) \<Rightarrow> (ob, Address property) | None \<Rightarrow> (kSVCObjectDevice, a))
      else (n - 48, a))"

definition system_default :: "system \<Rightarrow> AudioObjectPropertySelector \<Rightarrow> u32" where
  "system_default s selector =
     (if selector = kAudioHardwarePropertyDefaultOutputDevice then sys_output s else sys_effects s)"

definition system_get ::
    "libm \<Rightarrow> system \<Rightarrow> u32 \<Rightarrow> AudioObjectPropertyAddress \<Rightarrow> qualifier option \<Rightarrow> u32 \<Rightarrow> fp \<Rightarrow> get_result" where
  "system_get L s n a q room x =
     (if n = kAudioObjectSystemObject then
        (if mSelector a \<in> default_selectors then (noErr, Some 4, Some (VObject (system_default s (mSelector a))))
         else if mSelector a = kAudioPlugInPropertyDeviceList
           then (noErr, Some 12, Some (VObjects [80, client_id kSVCObjectDevice, 81]))
         else (noErr, Some 4, Some (VObject
           (if map_option as_string q = Some (Some SVC_DEVICE_UID) then client_id kSVCObjectDevice
            else kAudioObjectUnknown))))
      else (case target n a of
              (ob, a) \<Rightarrow>
                if sys_declines s \<and> mSelector a \<in> conversion_selectors
                then (kAudioHardwareUnspecifiedError, None, None)
                else (case DriverGetPropertyData L (sys_driver s) True ob (Some a) 0 None room True (Some x) of
                        (status, bytes, written) \<Rightarrow> (status, bytes, map_option (client_value client_id) written))))"

definition system_set :: "libm \<Rightarrow> u32 \<Rightarrow> AudioObjectPropertyAddress \<Rightarrow> property_value \<Rightarrow> system \<Rightarrow> OSStatus \<times> system" where
  "system_set L n a v s =
     (if n = kAudioObjectSystemObject then
        (case v of
           VObject device \<Rightarrow>
             (noErr, if mSelector a = kAudioHardwarePropertyDefaultOutputDevice then s\<lparr>sys_output := device\<rparr>
                     else s\<lparr>sys_effects := device\<rparr>)
         | _ \<Rightarrow> (kAudioHardwareBadPropertySizeError, s))
      else (case target n a of
              (ob, a) \<Rightarrow>
                (case DriverSetPropertyData L (sys_driver s) True ob (Some a) (value_size v) (Some (memory_of v)) of
                   (d, status) \<Rightarrow> (status, s\<lparr>sys_driver := d\<rparr>))))"

definition example_hal :: "libm \<Rightarrow> system hal" where
  "example_hal L = \<lparr>
     hal_has = (\<lambda>s n a. case target n a of (ob, a) \<Rightarrow> DriverHasProperty True ob (Some a)),
     hal_settable = (\<lambda>s n a. case target n a of (ob, a) \<Rightarrow>
        map_prod id (\<lambda>w. w = Some True) (DriverIsPropertySettable True ob (Some a) True)),
     hal_size = (\<lambda>s n a. if n = kAudioObjectSystemObject then (noErr, 12) else case target n a of (ob, a) \<Rightarrow>
        map_prod id (\<lambda>w. case w of Some n \<Rightarrow> n | None \<Rightarrow> 0) (DriverGetPropertyDataSize True ob (Some a) 0 None True)),
     hal_get = system_get L,
     hal_buffers = (\<lambda>s n scope.
        case system_get L s n (MakeAddress kAudioDevicePropertyStreamConfiguration scope) None 24 (Fin False 0) of
          (status, _, Some (VBufferList n channels _)) \<Rightarrow> (status, replicate (unat n) channels)
        | (status, _, _) \<Rightarrow> (status, [])),
     hal_legacy_rate = (\<lambda>s n.
        case system_get L s n (Address kAudioDevicePropertyNominalSampleRate) None 8 (Fin False 0) of
          (status, Some n, Some (VFloat64 x)) \<Rightarrow> (status, n, x)
        | (status, _, _) \<Rightarrow> (status, 0, Fin False 0)),
     hal_set = system_set L,
     hal_listen = (\<lambda>n a s. (noErr, s)),
     hal_unlisten = (\<lambda>n a s. s),
     hal_delivered = (\<lambda>s. []),
     hal_sleep = (\<lambda>s. s),
     hal_memory = (\<lambda>s. True)\<rparr>"

section \<open>The system satisfies the interfaces\<close>

lemma target_control:
  "control_property selector = Some (ob, property) \<Longrightarrow>
    target (client_id kSVCObjectDevice) (MakeAddress selector kAudioObjectPropertyScopeOutput) = (ob, Address property)"
  by (simp add: target_def MakeAddress_def kAudioObjectPropertyElementMain_def)

lemma target_object:
  "\<lbrakk>IsKnownObject ob; control_property (mSelector a) = None\<rbrakk> \<Longrightarrow> target (client_id ob) a = (ob, a)"
  by (auto simp: target_def client_id_def IsKnownObject_def object_ids)

lemma client_id_not_system: "IsKnownObject ob \<Longrightarrow> client_id ob \<noteq> kAudioObjectSystemObject"
  by (cases rule: known_cases [of ob]) (simp_all add: client_id_def object_ids client_consts)

lemma device_known [simp]: "IsKnownObject kSVCObjectDevice"
  by (simp add: IsKnownObject_def object_ids)

lemma get_object:
  "\<lbrakk>IsKnownObject ob; control_property (mSelector a) = None; mSelector a \<notin> conversion_selectors\<rbrakk> \<Longrightarrow>
    system_get L s (client_id ob) a None room x =
      (case DriverGetPropertyData L (sys_driver s) True ob (Some a) 0 None room True (Some x) of
         (status, bytes, written) \<Rightarrow> (status, bytes, map_option (client_value client_id) written))"
  by (simp add: system_get_def client_id_not_system target_object)

text \<open>The value a control has is never an object identifier.\<close>

lemma control_value:
  assumes "control_property selector = Some (ob, property)"
    "DriverGetPropertyData L d True ob (Some (Address property)) 0 None room True (Some x) = (status, bytes, written)"
  shows "map_option (client_value client) written = written"
  using assms
  by (auto simp: control_property_def DriverGetPropertyData_def GetControlPropertyData_def CopyData_def get_error_def
      Let_def object_ids HasCommonProperty_def Address_def split: if_splits)

interpretation example_defaults: default_devices "example_hal L" "\<lambda>selector s. system_default s selector"
    "client_id kSVCObjectDevice"
  by unfold_locales
    (auto simp: example_hal_def system_get_def system_default_def default_address_def MakeAddress_def
      lookup_device_def default_selectors_def client_consts split: if_splits)

interpretation example: driver_backed "example_hal L" L sys_driver client_id
proof unfold_locales
  fix ob :: u32
  show "IsKnownObject ob \<Longrightarrow> client_id ob \<noteq> kAudioObjectUnknown"
    by (cases rule: known_cases [of ob]) (simp_all add: client_id_def object_ids)
next
  fix q :: qualifier and s :: system and x
  show "as_string q = Some SVC_DEVICE_UID \<Longrightarrow>
      hal_get (example_hal L) s kAudioObjectSystemObject
        (MakeAddress kAudioHardwarePropertyTranslateUIDToDevice kAudioObjectPropertyScopeGlobal) (Some q) 4 x =
        (noErr, Some 4, Some (VObject (client_id kSVCObjectDevice)))"
    by (simp add: example_hal_def system_get_def default_selectors_def MakeAddress_def client_consts)
next
  fix ob a n and s :: system
  show "\<lbrakk>IsKnownObject ob; control_property (mSelector a) = None;
        DriverGetPropertyDataSize True ob (Some a) 0 None True = (noErr, Some n)\<rbrakk>
        \<Longrightarrow> hal_size (example_hal L) s (client_id ob) a = (noErr, n)"
    by (simp add: example_hal_def target_object client_id_not_system)
next
  fix ob a and s :: system and room x bytes written
  show "\<lbrakk>IsKnownObject ob; control_property (mSelector a) = None; mSelector a \<notin> conversion_selectors;
        DriverGetPropertyData L (sys_driver s) True ob (Some a) 0 None room True (Some x) = (noErr, bytes, written)\<rbrakk>
        \<Longrightarrow> hal_get (example_hal L) s (client_id ob) a None room x =
          (noErr, bytes, map_option (client_value client_id) written)"
    by (simp add: example_hal_def get_object)
next
  fix s :: system and scope x bytes n channels bytes_each
  assume "DriverGetPropertyData L (sys_driver s) True kSVCObjectDevice
      (Some (MakeAddress kAudioDevicePropertyStreamConfiguration scope)) 0 None 24 True (Some x) =
      (noErr, bytes, Some (VBufferList n channels bytes_each))"
  moreover have "DriverGetPropertyData L (sys_driver s) True kSVCObjectDevice
      (Some (MakeAddress kAudioDevicePropertyStreamConfiguration scope)) 0 None 24 True (Some (Fin False 0)) =
    DriverGetPropertyData L (sys_driver s) True kSVCObjectDevice
      (Some (MakeAddress kAudioDevicePropertyStreamConfiguration scope)) 0 None 24 True (Some x)"
    by (simp add: DriverGetPropertyData_def GetDevicePropertyData_def CopyData_def MakeAddress_def HasCommonProperty_def
        object_ids Let_def)
  ultimately show "hal_buffers (example_hal L) s (client_id kSVCObjectDevice) scope = (noErr, replicate (unat n) channels)"
    by (simp add: example_hal_def get_object MakeAddress_def control_property_def client_consts
        conversion_selectors_def)
next
  fix s :: system and x n rate
  assume "DriverGetPropertyData L (sys_driver s) True kSVCObjectDevice
      (Some (Address kAudioDevicePropertyNominalSampleRate)) 0 None 8 True (Some x) = (noErr, Some n, Some (VFloat64 rate))"
  moreover have "DriverGetPropertyData L (sys_driver s) True kSVCObjectDevice
      (Some (Address kAudioDevicePropertyNominalSampleRate)) 0 None 8 True (Some (Fin False 0)) =
    DriverGetPropertyData L (sys_driver s) True kSVCObjectDevice
      (Some (Address kAudioDevicePropertyNominalSampleRate)) 0 None 8 True (Some x)"
    by (simp add: DriverGetPropertyData_def GetDevicePropertyData_def CopyData_def Address_def HasCommonProperty_def
        object_ids Let_def)
  ultimately show "hal_legacy_rate (example_hal L) s (client_id kSVCObjectDevice) = (noErr, n, rate)"
    by (simp add: example_hal_def get_object Address_def control_property_def client_consts
        conversion_selectors_def)
next
  fix selector ob property and s :: system
  show "\<lbrakk>control_property selector = Some (ob, property); DriverHasProperty True ob (Some (Address property))\<rbrakk>
      \<Longrightarrow> hal_has (example_hal L) s (client_id kSVCObjectDevice) (MakeAddress selector kAudioObjectPropertyScopeOutput)"
    by (simp add: example_hal_def target_control)
next
  fix selector ob property and s :: system and settable
  show "\<lbrakk>control_property selector = Some (ob, property);
        DriverIsPropertySettable True ob (Some (Address property)) True = (noErr, Some settable)\<rbrakk>
      \<Longrightarrow> hal_settable (example_hal L) s (client_id kSVCObjectDevice)
        (MakeAddress selector kAudioObjectPropertyScopeOutput) = (noErr, settable)"
    by (simp add: example_hal_def target_control)
next
  fix selector ob property and s :: system and room x bytes written
  assume c: "control_property selector = Some (ob, property)" and n: "property \<notin> conversion_selectors"
    and g: "DriverGetPropertyData L (sys_driver s) True ob (Some (Address property)) 0 None room True (Some x) =
      (noErr, bytes, written)"
  from control_value [OF c g] c n g
  show "hal_get (example_hal L) s (client_id kSVCObjectDevice) (MakeAddress selector kAudioObjectPropertyScopeOutput)
      None room x = (noErr, bytes, written)"
    by (simp add: example_hal_def system_get_def client_id_not_system target_control Address_def)
qed

text \<open>It forwards the conversions or declines them.\<close>

lemma example_forwards: "\<not> sys_declines s \<Longrightarrow> conversions_forwarded (example_hal L) L sys_driver client_id s"
proof -
  assume "\<not> sys_declines s"
  then show ?thesis
    using control_value [where ob = kSVCObjectVolume and L = L and d = "sys_driver s"]
    by (auto simp: conversions_forwarded_def example_hal_def system_get_def client_id_not_system target_control
        split: prod.splits)
qed

lemma MakeAddress_selector: "mSelector (MakeAddress selector scope) = selector"
  by (simp add: MakeAddress_def)

lemma example_declines:
  assumes "sys_declines s"
  shows "conversions_declined (example_hal L) client_id s"
proof -
  have "IsKnownObject kSVCObjectVolume" by (simp add: IsKnownObject_def object_ids)
  moreover have "target (client_id kSVCObjectVolume)
      (MakeAddress kAudioLevelControlPropertyConvertScalarToDecibels kAudioObjectPropertyScopeGlobal) =
      (kSVCObjectVolume, MakeAddress kAudioLevelControlPropertyConvertScalarToDecibels kAudioObjectPropertyScopeGlobal)"
    using calculation by (simp add: target_object MakeAddress_selector control_property_def client_consts)
  ultimately show ?thesis
    using assms
    by (simp add: conversions_declined_def example_hal_def system_get_def client_id_not_system target_control
        conversion_selectors_def Address_def MakeAddress_selector)
qed

end
