(* ===== verification/Route_Conversions.thy ===== *)
theory Route_Conversions
  imports Route_Verify Volume_Laws
begin

text \<open>
  The numbers the verifier compares with: its literals are the floats they stand for, its comparison
  accepts what is within the tolerance, and with correctly rounded library functions the curve gives
  the decibels and the scalar it expects.
\<close>

section \<open>Floats of the tests\<close>

lemma test_literals [simp]:
  "fp_lit binary32 False 0 = Fin False 0" "fp_lit binary32 False (1 / 4) = Fin False (1 / 4)"
  "fp_lit binary32 False (1 / 2) = Fin False (1 / 2)" "fp_lit binary32 False (7 / 8) = Fin False (7 / 8)"
  "fp_lit binary32 False 1 = Fin False 1" "fp_lit binary32 False 2 = Fin False 2"
  "fp_lit binary32 True 1 = Fin True 1" "fp_lit binary32 True 48 = Fin True 48" "fp_lit binary32 True 96 = Fin True 96"
  "fp_conv binary32 (Fin True 96) = Fin True 96" "fp_conv binary32 (Fin False 0) = Fin False 0"
  by (simp_all add: fp_lit_def fp_make_def Let_def rnd_def quantum_def ilog2_def rne_def)

lemma tolerance_positive: "0 < rnd binary32 (5 / 10000)" "rnd binary32 (5 / 10000) < 1"
  by (simp_all add: rnd_def quantum_def ilog2_def rne_def)

lemma NearlyEqual_close:
  assumes "fp_isfinite a" "fp_isfinite b" "\<bar>fp_val a - fp_val b\<bar> \<le> 5 / 10000"
  shows "NearlyEqual a b"
proof -
  obtain t r u q where ab: "a = Fin t r" "b = Fin u q" using assms(1,2) by (meson fp_isfinite_cases)
  define x where "x = fp_val a - fp_val b"
  have "fp_sub binary32 a b = fp_round binary32 (t \<and> \<not> u) x"
    by (simp add: ab x_def fp_sub_def)
  moreover have "rnd binary32 \<bar>x\<bar> \<le> rnd binary32 (5 / 10000)" using assms(3) by (simp add: x_def f32.rnd_mono)
  ultimately show ?thesis
    using f32.fp_make_small [of "\<bar>x\<bar>"] f32.fp_make_small [of "5 / 10000"] assms(3) tolerance_positive
    by (auto simp: NearlyEqual_def fp_lit_def fp_round_def x_def [symmetric] fp_le_def)
qed

lemma NearlyEqual_refl [simp]: "fp_isfinite x \<Longrightarrow> NearlyEqual x x"
  by (rule NearlyEqual_close) simp_all

section \<open>The conversions the test expects\<close>

lemma log10_two: "205 / 681 \<le> log 10 (2 :: real)" "log 10 (2 :: real) \<le> 146 / 485"
proof -
  have p: "log 10 ((2 :: real) ^ n) = real n * log 10 2" "log 10 ((10 :: real) ^ n) = real n * log 10 10" for n
    by (rule log_nat_power, simp)+
  have "log 10 ((10 :: real) ^ 205) < log 10 (2 ^ 681)" by (subst log_less_cancel_iff) simp_all
  then show "205 / 681 \<le> log 10 (2 :: real)" unfolding p by simp
  have "log 10 ((2 :: real) ^ 485) < log 10 (10 ^ 146)" by (subst log_less_cancel_iff) simp_all
  then show "log 10 (2 :: real) \<le> 146 / 485" unfolding p by simp
qed

lemma log10_quarter: "log 10 (1 / 4 :: real) = - 2 * log 10 2"
  using log_nat_power [of 2 10 2] by (simp add: log_divide)

lemma quarter_rep: "rep binary32 (1 / 4)"
  using rep_powi [of binary32 "- 2"] by simp

lemma quarter_to_decibels:
  "NearlyEqual (SVCVolumeScalarToDecibels ideal_libm (Fin False (1 / 4))) (fp_lit binary32 True (240824 / 10000))"
proof (rule NearlyEqual_close)
  have "fp_in binary32 (Fin False (1 / 4))" using quarter_rep by (simp add: f32.rnd_rep)
  from ideal.decibels_props [OF this]
  show "fp_isfinite (SVCVolumeScalarToDecibels ideal_libm (Fin False (1 / 4)))" by (simp add: fp_nonpos_def)
  have lit: "fp_lit binary32 True (240824 / 10000) = Fin True (rnd binary32 (240824 / 10000))"
    unfolding fp_lit_def by (rule f32.fp_make_small) simp
  then show "fp_isfinite (fp_lit binary32 True (240824 / 10000))" by simp
  have "\<bar>rnd binary32 (240824 / 10000) - 240824 / 10000\<bar> \<le> 2 powi (- 20)"
    using f32.rnd_error_bound [of "240824 / 10000" 5] by simp
  moreover have "\<bar>fp_val (SVCVolumeScalarToDecibels ideal_libm (Fin False (1 / 4))) - 40 * log 10 (1 / 4)\<bar>
      \<le> 40 * 2 powi (- 23) + 2 powi (- 18)"
    using decibels_close [OF quarter_rep] log10_quarter log10_two by (simp add: max_def split: if_splits)
  ultimately show "\<bar>fp_val (SVCVolumeScalarToDecibels ideal_libm (Fin False (1 / 4))) -
      fp_val (fp_lit binary32 True (240824 / 10000))\<bar> \<le> 5 / 10000"
    using log10_two unfolding lit log10_quarter by (simp add: abs_if split: if_splits)
qed

lemma minus_48_to_scalar:
  "NearlyEqual (SVCVolumeDecibelsToScalar ideal_libm (Fin True 48)) (fp_lit binary32 False (630957 / 10000000))"
proof -
  define y where "y = - rnd binary32 (6 / 5)"
  have y: "\<bar>y - (- 6 / 5)\<bar> \<le> 2 powi (- 23)" "y \<le> 0"
    using f32.rnd_error_bound [of "6 / 5" 1] by (simp_all add: y_def abs_minus_commute)
  have div: "fp_div binary32 (Fin True 48) (Fin False 40) = Fin True (rnd binary32 (6 / 5))"
    using f32.fp_make_small [of "6 / 5" True] by simp
  then have v: "SVCVolumeDecibelsToScalar ideal_libm (Fin True 48) = Fin False (rnd binary32 (10 powr y))"
    using powf_ideal_val(1) [of "Fin True (rnd binary32 (6 / 5))"] f32.rnd_nonneg [of "6 / 5"]
    by (simp add: SVCVolumeDecibelsToScalar_def SVC_VOLUME_MINIMUM_DECIBELS_def SVC_VOLUME_MAXIMUM_DECIBELS_def
        fp_le_def fp_nonpos_def y_def)
  define p where "p = (10 :: real) powr (- 6 / 5)"
  have "p ^ 5 = 10 powr (5 * (- 6 / 5))"
    by (simp add: p_def powr_power)
  also have "\<dots> = 1 / 1000000" by (simp add: powr_minus powr_numeral)
  finally have p5: "p ^ 5 = 1 / 1000000" .
  have pos: "0 \<le> p" by (simp add: p_def)
  have p: "630 / 10000 \<le> p" "p \<le> 632 / 10000"
  proof (rule_tac [!] ccontr)
    assume "\<not> 630 / 10000 \<le> p"
    then have "p ^ 5 \<le> (630 / 10000) ^ 5" using pos by (intro power_mono) simp_all
    with p5 show False by (simp add: power_divide)
  next
    assume "\<not> p \<le> 632 / 10000"
    then have "(632 / 10000) ^ 5 \<le> p ^ 5" by (intro power_mono) simp_all
    with p5 show False by (simp add: power_divide)
  qed
  have "\<bar>10 powr y - p\<bar> \<le> 9 * 2 powi (- 23)"
    unfolding p_def using y by (intro ten_powr_close) simp_all
  moreover have "\<bar>rnd binary32 (10 powr y) - 10 powr y\<bar> \<le> 2 powi (- 24)"
    using f32.rnd_error_bound [of "10 powr y" 1] powr_mono [of y 0 "10 :: real"] y by simp
  moreover have "\<bar>rnd binary32 (630957 / 10000000) - 630957 / 10000000\<bar> \<le> 2 powi (- 24)"
    using f32.rnd_error_bound [of "630957 / 10000000" 1] by simp
  moreover have "fp_lit binary32 False (630957 / 10000000) = Fin False (rnd binary32 (630957 / 10000000))"
    unfolding fp_lit_def by (rule f32.fp_make_small) simp
  ultimately show ?thesis
    using p by (intro NearlyEqual_close) (simp_all add: v abs_if split: if_splits)
qed

end
