(* ===== verification/Route_Driver.thy ===== *)
theory Route_Driver
  imports Route_System Route_Conversions
begin

text \<open>
  The verifier on the modelled driver: in a system that forwards reads to the driver as CoreAudio
  documents, what each of its checks finds; and what the writes of its exercise come to when the driver
  carries them out.
\<close>

section \<open>What the driver answers\<close>

lemma known_objects [simp]: "IsKnownObject kSVCObjectOutputStream" "IsKnownObject kSVCObjectVolume"
  "IsKnownObject kSVCObjectMute"
  by (simp_all add: IsKnownObject_def object_ids)

lemmas driver_layer = DriverGetPropertyData_def DriverGetPropertyDataSize_def DriverHasProperty_def
  DriverIsPropertySettable_def IsValidAddress_def HasCommonProperty_def HasDeviceProperty_def
  HasStreamProperty_def HasControlProperty_def Address_def MakeAddress_def kAudioObjectPropertyElementMain_def
  CopyData_def Let_def

lemma no_control [simp]:
  "control_property kAudioDevicePropertyDeviceIsAlive = None" "control_property kAudioDevicePropertyIsHidden = None"
  "control_property kAudioDevicePropertyTransportType = None"
  "control_property kAudioDevicePropertyDeviceCanBeDefaultDevice = None"
  "control_property kAudioDevicePropertyDeviceCanBeDefaultSystemDevice = None"
  "control_property kAudioDevicePropertyStreams = None" "control_property kAudioStreamPropertyIsActive = None"
  "control_property kAudioStreamPropertyDirection = None" "control_property kAudioObjectPropertyControlList = None"
  "control_property kAudioObjectPropertyClass = None" "control_property kAudioDevicePropertyStreamConfiguration = None"
  by (simp_all add: control_property_def client_consts)

lemma no_conversion [simp]:
  "kAudioDevicePropertyDeviceIsAlive \<notin> conversion_selectors" "kAudioDevicePropertyIsHidden \<notin> conversion_selectors"
  "kAudioDevicePropertyTransportType \<notin> conversion_selectors"
  "kAudioDevicePropertyDeviceCanBeDefaultDevice \<notin> conversion_selectors"
  "kAudioDevicePropertyDeviceCanBeDefaultSystemDevice \<notin> conversion_selectors"
  "kAudioDevicePropertyStreams \<notin> conversion_selectors" "kAudioStreamPropertyIsActive \<notin> conversion_selectors"
  "kAudioStreamPropertyDirection \<notin> conversion_selectors" "kAudioObjectPropertyControlList \<notin> conversion_selectors"
  "kAudioObjectPropertyClass \<notin> conversion_selectors"
  "kAudioLevelControlPropertyScalarValue \<notin> conversion_selectors"
  "kAudioLevelControlPropertyDecibelValue \<notin> conversion_selectors"
  "kAudioLevelControlPropertyDecibelRange \<notin> conversion_selectors"
  "kAudioBooleanControlPropertyValue \<notin> conversion_selectors"
  by (simp_all add: conversion_selectors_def client_consts)

lemma device_answers:
  "DriverGetPropertyData L d True kSVCObjectDevice
     (Some (MakeAddress kAudioDevicePropertyDeviceIsAlive kAudioObjectPropertyScopeGlobal)) 0 None 4 True (Some x) =
     (noErr, Some 4, Some (VUInt32 1))"
  "DriverGetPropertyData L d True kSVCObjectDevice
     (Some (MakeAddress kAudioDevicePropertyIsHidden kAudioObjectPropertyScopeGlobal)) 0 None 4 True (Some x) =
     (noErr, Some 4, Some (VUInt32 0))"
  "DriverGetPropertyData L d True kSVCObjectDevice
     (Some (MakeAddress kAudioDevicePropertyTransportType kAudioObjectPropertyScopeGlobal)) 0 None 4 True (Some x) =
     (noErr, Some 4, Some (VConstant kAudioDeviceTransportTypeVirtual))"
  "DriverGetPropertyData L d True kSVCObjectDevice
     (Some (MakeAddress kAudioDevicePropertyDeviceCanBeDefaultDevice kAudioObjectPropertyScopeOutput)) 0 None 4 True
     (Some x) = (noErr, Some 4, Some (VUInt32 1))"
  "DriverGetPropertyData L d True kSVCObjectDevice
     (Some (MakeAddress kAudioDevicePropertyDeviceCanBeDefaultSystemDevice kAudioObjectPropertyScopeOutput)) 0 None 4
     True (Some x) = (noErr, Some 4, Some (VUInt32 1))"
  "DriverGetPropertyData L d True kSVCObjectDevice
     (Some (MakeAddress kAudioDevicePropertyStreams kAudioObjectPropertyScopeOutput)) 0 None 4 True (Some x) =
     (noErr, Some 4, Some (VObject kSVCObjectOutputStream))"
  "DriverGetPropertyData L d True kSVCObjectDevice
     (Some (Address kAudioDevicePropertyNominalSampleRate)) 0 None 8 True (Some x) =
     (noErr, Some 8, Some (VFloat64 (Fin False (real kSVCSampleRate))))"
  "DriverGetPropertyData L d True kSVCObjectDevice
     (Some (MakeAddress kAudioDevicePropertyStreamConfiguration kAudioObjectPropertyScopeOutput)) 0 None 24 True (Some x) =
     (noErr, Some 24, Some (VBufferList 1 (of_nat kSVCChannelCount) 0))"
  "DriverGetPropertyData L d True kSVCObjectDevice
     (Some (MakeAddress kAudioDevicePropertyStreamConfiguration kAudioObjectPropertyScopeInput)) 0 None 24 True (Some x) =
     (noErr, Some 24, Some (VBufferList 0 (of_nat kSVCChannelCount) 0))"
  by (simp_all add: driver_layer GetDevicePropertyData_def object_ids IsKnownObject_def)

lemma device_sizes:
  "DriverGetPropertyDataSize True kSVCObjectDevice
     (Some (MakeAddress kAudioDevicePropertyStreamConfiguration scope)) 0 None True = (noErr, Some 24)"
  if "scope \<in> {kAudioObjectPropertyScopeInput, kAudioObjectPropertyScopeOutput}"
  using that by (auto simp: driver_layer DevicePropertyDataSize_def object_ids IsKnownObject_def)

lemma device_list_sizes:
  "DriverGetPropertyDataSize True kSVCObjectDevice
     (Some (MakeAddress kAudioDevicePropertyStreams kAudioObjectPropertyScopeInput)) 0 None True = (noErr, Some 0)"
  by (simp add: driver_layer DevicePropertyDataSize_def object_ids IsKnownObject_def)

lemma stream_answers:
  "DriverGetPropertyData L d True kSVCObjectOutputStream
     (Some (MakeAddress kAudioStreamPropertyIsActive kAudioObjectPropertyScopeGlobal)) 0 None 4 True (Some x) =
     (noErr, Some 4, Some (VUInt32 (gOutputStreamActive d)))"
  "DriverGetPropertyData L d True kSVCObjectOutputStream
     (Some (MakeAddress kAudioStreamPropertyDirection kAudioObjectPropertyScopeGlobal)) 0 None 4 True (Some x) =
     (noErr, Some 4, Some (VUInt32 0))"
  by (simp_all add: driver_layer GetStreamPropertyData_def object_ids IsKnownObject_def)

lemma control_answers:
  "DriverGetPropertyData L d True kSVCObjectVolume (Some (Address kAudioLevelControlPropertyScalarValue)) 0 None 4 True
     (Some x) = (noErr, Some 4, Some (VFloat32 (gVolumeScalar d)))"
  "DriverGetPropertyData L d True kSVCObjectVolume (Some (Address kAudioLevelControlPropertyDecibelRange)) 0 None 16 True
     (Some x) = (noErr, Some 16, Some (VRange SVC_VOLUME_MINIMUM_DECIBELS SVC_VOLUME_MAXIMUM_DECIBELS))"
  "DriverGetPropertyData L d True kSVCObjectVolume (Some (Address kAudioLevelControlPropertyConvertScalarToDecibels)) 0
     None 4 True (Some x) = (noErr, Some 4, Some (VFloat32 (SVCVolumeScalarToDecibels L x)))"
  "DriverGetPropertyData L d True kSVCObjectVolume (Some (Address kAudioLevelControlPropertyConvertDecibelsToScalar)) 0
     None 4 True (Some x) = (noErr, Some 4, Some (VFloat32 (SVCVolumeDecibelsToScalar L x)))"
  "DriverGetPropertyData L d True kSVCObjectMute (Some (Address kAudioBooleanControlPropertyValue)) 0 None 4 True
     (Some x) = (noErr, Some 4, Some (VUInt32 (gMute d)))"
  by (simp_all add: driver_layer GetControlPropertyData_def object_ids IsKnownObject_def)

lemma controls_published:
  "DriverHasProperty True kSVCObjectVolume (Some (Address kAudioLevelControlPropertyScalarValue))"
  "DriverHasProperty True kSVCObjectVolume (Some (Address kAudioLevelControlPropertyDecibelValue))"
  "DriverHasProperty True kSVCObjectMute (Some (Address kAudioBooleanControlPropertyValue))"
  by (simp_all add: driver_layer object_ids IsKnownObject_def)

lemma controls_settable:
  "DriverIsPropertySettable True kSVCObjectVolume (Some (Address kAudioLevelControlPropertyScalarValue)) True =
    (noErr, Some True)"
  "DriverIsPropertySettable True kSVCObjectVolume (Some (Address kAudioLevelControlPropertyDecibelValue)) True =
    (noErr, Some True)"
  "DriverIsPropertySettable True kSVCObjectMute (Some (Address kAudioBooleanControlPropertyValue)) True =
    (noErr, Some True)"
  using controls_published by (simp_all add: DriverIsPropertySettable_def Let_def Address_def)

lemma control_list:
  "DriverGetPropertyDataSize True kSVCObjectDevice
     (Some (MakeAddress kAudioObjectPropertyControlList kAudioObjectPropertyScopeOutput)) 0 None True = (noErr, Some 8)"
  "DriverGetPropertyData L d True kSVCObjectDevice
     (Some (MakeAddress kAudioObjectPropertyControlList kAudioObjectPropertyScopeOutput)) 0 None 8 True (Some x) =
     (noErr, Some 8, Some (VObjects [kSVCObjectVolume, kSVCObjectMute]))"
  by (simp_all add: driver_layer DevicePropertyDataSize_def GetDevicePropertyData_def object_ids IsKnownObject_def)

lemma control_class:
  "DriverGetPropertyData L d True kSVCObjectVolume
     (Some (MakeAddress kAudioObjectPropertyClass kAudioObjectPropertyScopeGlobal)) 0 None 4 True (Some x) =
     (noErr, Some 4, Some (VClass kAudioVolumeControlClassID))"
  by (simp add: driver_layer GetCommonPropertyData_def ClassForObject_def object_ids IsKnownObject_def)

section \<open>What the read-only checks find\<close>

text \<open>The library functions give the two values the verifier expects, within its tolerance.\<close>

definition accurate :: "libm \<Rightarrow> bool" where
  "accurate L \<longleftrightarrow>
     NearlyEqual (SVCVolumeScalarToDecibels L (Fin False (1 / 4))) (fp_lit binary32 True (240824 / 10000)) \<and>
     NearlyEqual (SVCVolumeDecibelsToScalar L (Fin True 48)) (fp_lit binary32 False (630957 / 10000000))"

lemma accurate_ideal: "accurate ideal_libm"
  using quarter_to_decibels minus_48_to_scalar by (simp add: accurate_def)

context driver_backed
begin

lemma check_word:
  assumes "IsKnownObject ob" "control_property (mSelector a) = None" "mSelector a \<notin> conversion_selectors"
    and "\<And>x. DriverGetPropertyData L (drv s) True ob (Some a) 0 None 4 True (Some x) = (noErr, Some 4, Some v)"
  shows "CheckUInt32 H s (client ob) a expected \<longleftrightarrow> over_u32 (Some (client_value client v)) 0 = expected"
  using get_forwarded [OF assms]
  by (simp add: CheckUInt32_def ReadUInt32_def)

lemma format_checked: "hal_memory H s \<Longrightarrow> check_format H s (client kSVCObjectDevice)"
  using rate_forwarded [OF device_answers(7)] buffers_forwarded [OF device_answers(8)]
    buffers_forwarded [OF device_answers(9)] size_forwarded [OF device_known _ device_sizes]
  by (simp add: check_format_def ChannelCount_def MakeAddress_def kSVCChannelCount_def)

lemma flags_checked: "check_flags H s (client kSVCObjectDevice)"
  using check_word [OF device_known _ _ device_answers(1)] check_word [OF device_known _ _ device_answers(2)]
    check_word [OF device_known _ _ device_answers(3)] check_word [OF device_known _ _ device_answers(4)]
    check_word [OF device_known _ _ device_answers(5)]
  by (simp add: check_flags_def MakeAddress_def over_u32_def)

lemma streams_checked: "check_streams H s (client kSVCObjectDevice) \<longleftrightarrow> gOutputStreamActive (drv s) = 1"
  using check_word [OF known_objects(1) _ _ stream_answers(1) [where d = "drv s"]]
    check_word [OF known_objects(1) _ _ stream_answers(2)] get_forwarded [OF device_known _ _ device_answers(6)]
    size_forwarded [OF device_known _ device_list_sizes] client_known [OF known_objects(1)]
  by (simp add: check_streams_def MakeAddress_def over_u32_def Let_def)

lemma controls_checked: "check_controls H s (client kSVCObjectDevice)"
proof -
  note p = control_property_simps(1,2,6)
  from control_has [OF p(1) controls_published(1)] control_has [OF p(2) controls_published(2)]
    control_has [OF p(3) controls_published(3)] control_settable [OF p(1) controls_settable(1)]
    control_settable [OF p(2) controls_settable(2)] control_settable [OF p(3) controls_settable(3)]
  show ?thesis by (simp add: check_controls_def Let_def IsWritable_def)
qed

lemma static_properties_checked:
  "hal_memory H s \<Longrightarrow> CheckStaticProperties H s (client kSVCObjectDevice) \<longleftrightarrow> gOutputStreamActive (drv s) = 1"
  by (simp add: CheckStaticProperties_def format_checked flags_checked streams_checked controls_checked)

lemma volume_control_found:
  assumes "hal_memory H s"
  shows "FindVolumeControl H s (client kSVCObjectDevice) = client kSVCObjectVolume"
proof -
  have "ReadUInt32 H s (client kSVCObjectVolume) (MakeAddress kAudioObjectPropertyClass kAudioObjectPropertyScopeGlobal) 0 =
      (True, class_code kAudioVolumeControlClassID)"
    using get_forwarded [OF known_objects(2) _ _ control_class] by (simp add: ReadUInt32_def over_u32_def MakeAddress_def)
  then show ?thesis
    using assms size_forwarded [OF device_known _ control_list(1)] get_forwarded [OF device_known _ _ control_list(2)]
    by (simp add: FindVolumeControl_def MakeAddress_def over_objects_def Let_def)
qed

lemma range_read:
  "ReadRange H s (client kSVCObjectDevice) (MakeAddress kAudioDevicePropertyVolumeRangeDecibels kAudioObjectPropertyScopeOutput)
    old = (True, SVC_VOLUME_MINIMUM_DECIBELS, SVC_VOLUME_MAXIMUM_DECIBELS)"
  using control_get [OF control_property_simps(3) _ control_answers(2)] by (simp add: ReadRange_def over_range_def)

lemma scalar_conversion:
  assumes "conversions_forwarded H L drv client s"
  shows "hal_get H s (client kSVCObjectDevice) (MakeAddress kAudioDevicePropertyVolumeScalarToDecibels
      kAudioObjectPropertyScopeOutput) None 4 x = (noErr, Some 4, Some (VFloat32 (SVCVolumeScalarToDecibels L x)))"
    "hal_get H s (client kSVCObjectDevice) (MakeAddress kAudioDevicePropertyVolumeDecibelsToScalar
      kAudioObjectPropertyScopeOutput) None 4 x = (noErr, Some 4, Some (VFloat32 (SVCVolumeDecibelsToScalar L x)))"
  using assms control_answers(3,4) [of L "drv s" x] control_property_simps(4,5)
  unfolding conversions_forwarded_def conversion_selectors_def by (metis insertCI)+

lemma conversions_checked:
  assumes "conversions_forwarded H L drv client s"
  shows "CheckConversions H s (client kSVCObjectDevice) \<longleftrightarrow> accurate L"
  using scalar_conversion [OF assms]
  by (simp add: CheckConversions_def range_read over_float_def accurate_def SVC_VOLUME_MINIMUM_DECIBELS_def
      SVC_VOLUME_MAXIMUM_DECIBELS_def f32.fp_make_rep Let_def)

lemma conversions_excused:
  assumes "conversions_declined H client s" "hal_memory H s"
  shows "CheckConversions H s (client kSVCObjectDevice)"
proof -
  obtain a b c d where "hal_get H s (client kSVCObjectDevice) (MakeAddress kAudioDevicePropertyVolumeScalarToDecibels
      kAudioObjectPropertyScopeOutput) None 4 (Fin False (1 / 4)) = (kAudioHardwareUnspecifiedError, a, b)"
    "hal_get H s (client kSVCObjectVolume) (MakeAddress kAudioLevelControlPropertyConvertScalarToDecibels
      kAudioObjectPropertyScopeGlobal) None 4 (Fin False (1 / 4)) = (kAudioHardwareUnspecifiedError, c, d)"
    using assms(1) unfolding conversions_declined_def by (metis prod.collapse)
  then show ?thesis
    using client_known [OF known_objects(2)]
    by (simp add: CheckConversions_def range_read volume_control_found [OF assms(2)] TryDirectConversion_def
        SVC_VOLUME_MINIMUM_DECIBELS_def SVC_VOLUME_MAXIMUM_DECIBELS_def f32.fp_make_rep Let_def)
qed

lemma device_found: "FindDevice H s = client kSVCObjectDevice"
  by (simp add: FindDevice_def translate_uid over_u32_def)

lemma scalar_read: "ReadFloat32 H s (client kSVCObjectDevice) scalar_address old = (True, gVolumeScalar (drv s))"
  using control_get [OF control_property_simps(1) _ control_answers(1)]
  by (simp add: ReadFloat32_def scalar_address_def over_float_def)

lemma mute_read: "ReadUInt32 H s (client kSVCObjectDevice) mute_address old = (True, gMute (drv s))"
  using control_get [OF control_property_simps(6) _ control_answers(5)]
  by (simp add: ReadUInt32_def mute_address_def over_u32_def)

end

section \<open>The writes of the exercise\<close>

lemma carry_out_volume:
  assumes "mSelector a = kAudioDevicePropertyVolumeScalar"
  shows "gVolumeScalar (carry_out L (Asked n a (VFloat32 x) status) d) = SVCVolumeClampScalar x"
    "gMute (carry_out L (Asked n a (VFloat32 x) status) d) = gMute d"
  using assms
  by (simp_all add: carry_out_def DriverSetPropertyData_def Let_def Address_def object_ids IsKnownObject_def memory_of_def
      Notify_def)

lemma carry_out_mute:
  assumes "mSelector a = kAudioDevicePropertyMute"
  shows "gVolumeScalar (carry_out L (Asked n a (VUInt32 m) status) d) = gVolumeScalar d"
    "gMute (carry_out L (Asked n a (VUInt32 m) status) d) = (if m \<noteq> 0 then 1 else 0)"
  using assms
  by (simp_all add: carry_out_def DriverSetPropertyData_def Let_def Address_def object_ids IsKnownObject_def memory_of_def
      Notify_def)

lemma clamp_unit_value: "fp_unit x \<Longrightarrow> fp_val (SVCVolumeClampScalar x) = fp_val x"
  by (auto simp: SVCVolumeClampScalar_def fp_le_def elim!: fp_unit_cases)

text \<open>Whatever they were before, the last two requests give the driver back its volume and its mute flag.\<close>

lemma exercise_carried_out:
  assumes "driver_backed H L drv client" "driver_ok (drv s)"
    and "ExerciseControls (logged H) (client kSVCObjectDevice) (s, []) = (ok, t, past)"
  shows "fp_val (gVolumeScalar (fold (carry_out L) past (drv s))) = fp_val (gVolumeScalar (drv s)) \<and>
    gMute (fold (carry_out L) past (drv s)) = gMute (drv s)"
proof (cases "past = []")
  case False
  then obtain x m ws st st' where l: "ReadFloat32 H s (client kSVCObjectDevice) scalar_address (Fin False 0) = (True, x)"
      "ReadUInt32 H s (client kSVCObjectDevice) mute_address 0 = (True, m)"
      "past = ws @ [Asked (client kSVCObjectDevice) scalar_address (VFloat32 x) st,
        Asked (client kSVCObjectDevice) mute_address (VUInt32 m) st']"
    using logged_exercise [OF assms(3)] by blast
  then have "x = gVolumeScalar (drv s)" "m = gMute (drv s)"
    using driver_backed.scalar_read [OF assms(1)] driver_backed.mute_read [OF assms(1)] by simp_all
  then show ?thesis
    using l(3) assms(2) clamp_unit_value [of x]
    by (auto simp: driver_ok_def carry_out_volume carry_out_mute scalar_address_def mute_address_def MakeAddress_def)
qed simp

end
