(* ===== verification/Route_Theorems.thy ===== *)
theory Route_Theorems
  imports Route_Driver
begin

text \<open>
  The properties of the verifier: it asks for what it changed to be put back, it refuses the removal of
  a driver it can see to be in use, and its read-only run accepts the modelled driver.
\<close>

section \<open>A system to run it in\<close>

text \<open>The driver right after its initialisation by a host, and two other devices as defaults.\<close>

definition example_system :: system where
  "example_system = \<lparr>sys_driver = driver_start\<lparr>gHost := Some True\<rparr>, sys_output = 80, sys_effects = 81,
     sys_declines = False\<rparr>"

lemma example_system_simps [simp]:
  "sys_driver example_system = driver_start\<lparr>gHost := Some True\<rparr>" "sys_output example_system = 80"
  "sys_effects example_system = 81" "sys_declines example_system = False"
  by (simp_all add: example_system_def)

lemma example_device: "client_id kSVCObjectDevice = 50"
  by (simp add: client_id_def object_ids IsKnownObject_def)

section \<open>What is written is put back\<close>

text \<open>Property C31: whatever the verifier is asked to do, and whatever its calls come to, it asks for every
  property it wrote to be put back. A run that keeps a log of the writes it requests behaves as one that does
  not. It ends with one of four exit codes; it writes only the volume and the mute flag when it exercises the
  controls and only the default devices its mode is about otherwise; and each property it writes had a value
  it could read before, and of its requests for this property either all were refused, or the last asks for
  that value, or the tool has read that value again at the end, after somebody else restored it. When a run
  about the default devices succeeds, that last request was accepted or the value read again. Whether the system
  then does what it was asked for is the system's part: no assumption is made about it.\<close>

theorem verify_tool_asks_for_restoration:
  assumes "verify_main (logged H) arguments (s, []) = (code, t, past)"
  shows "verify_main H arguments s = (code, t) \<and> code \<in> {0, 1, 2, 64} \<and>
    (parse_arguments arguments \<in> {None, Some ReadOnly, Some RefuseDefault} \<longrightarrow> t = s) \<and>
    (\<forall>r \<in> set past.
       may_write (parse_arguments arguments) (FindDevice H s) r \<and> put_back H s t past r \<and>
       (code = 0 \<and> parse_arguments arguments \<noteq> Some Exercise \<longrightarrow> put_back_accepted H s t past r))"
proof (cases "parse_arguments arguments")
  case None
  then show ?thesis using assms by (simp add: verify_main_def)
next
  case (Some mode)
  let ?device = "FindDevice H s" and ?checks = "CheckStaticProperties H s (FindDevice H s) \<and> CheckConversions H s (FindDevice H s)"
  show ?thesis
  proof (cases "mode \<in> {ReadOnly, RefuseDefault} \<or> ?device = kAudioObjectUnknown")
    case True
    then show ?thesis
      using assms Some refused_codes [of H ?device s] by (auto simp: verify_main_def Let_def split: if_splits)
  next
    case False
    then consider "mode = Exercise" | "mode = WatchNative" | "mode = WatchTemporary"
      | "mode = VerifyOutputRestoration" | "mode = VerifySystemRestoration"
      by (cases mode) auto
    then show ?thesis
    proof cases
      case 1
      obtain ok where "ExerciseControls (logged H) ?device (s, []) = (ok, t, past)" "code = (if ?checks \<and> ok then 0 else 1)"
        using assms Some False 1 by (auto simp: verify_main_def Let_def split: prod.splits)
      then show ?thesis
        using exercise_puts_back [of H ?device s ok t past] logged_exercise [of H ?device s ok t past] Some False 1
        by (auto simp: verify_main_def may_write_def)
    next
      case 2
      then show ?thesis using assms Some False by (auto simp: verify_main_def Let_def split: prod.splits)
    next
      case 3
      obtain ok where "WatchWithTemporaryDefault (logged H) ?device (s, []) = (ok, t, past)"
          "code = (if ?checks \<and> ok then 0 else 1)"
        using assms Some False 3 by (auto simp: verify_main_def Let_def split: prod.splits)
      then show ?thesis
        using watch_puts_back [of H ?device s ok t past] logged_watch_default [of H ?device s ok t past] Some False 3
        by (auto simp: verify_main_def)
    next
      case 4
      obtain ok where "VerifyExternalRestoration (logged H) ?device kAudioHardwarePropertyDefaultOutputDevice (s, []) =
          (ok, t, past)" "code = (if ?checks \<and> ok then 0 else 1)"
        using assms Some False 4 by (auto simp: verify_main_def Let_def split: prod.splits)
      then show ?thesis
        using verify_puts_back [of H ?device kAudioHardwarePropertyDefaultOutputDevice s ok t past]
          logged_verify_restoration [of H ?device kAudioHardwarePropertyDefaultOutputDevice s ok t past] Some False 4
        by (auto simp: verify_main_def may_write_def)
    next
      case 5
      obtain ok where "VerifyExternalRestoration (logged H) ?device kAudioHardwarePropertyDefaultSystemOutputDevice (s, []) =
          (ok, t, past)" "code = (if ?checks \<and> ok then 0 else 1)"
        using assms Some False 5 by (auto simp: verify_main_def Let_def split: prod.splits)
      then show ?thesis
        using verify_puts_back [of H ?device kAudioHardwarePropertyDefaultSystemOutputDevice s ok t past]
          logged_verify_restoration [of H ?device kAudioHardwarePropertyDefaultSystemOutputDevice s ok t past] Some False 5
        by (auto simp: verify_main_def may_write_def)
    qed
  qed
qed

text \<open>The driver is made the default for a while: no volume key is pressed, and the run fails.\<close>

theorem verify_tool_asks_for_restoration_witness:
  "\<exists>code t past. verify_main (logged (example_hal ideal_libm)) [''--watch-native-temporary-default''] (example_system, []) =
      (code, t, past) \<and> past \<noteq> [] \<and>
    (\<forall>r \<in> set past. put_back (example_hal ideal_libm) example_system t past r)"
proof -
  let ?H = "example_hal ideal_libm"
  obtain code t past where r: "verify_main (logged ?H) [''--watch-native-temporary-default''] (example_system, []) =
      (code, t, past)"
    using prod_cases3 by blast
  have p: "parse_arguments [''--watch-native-temporary-default''] = Some WatchTemporary"
    by (simp add: parse_arguments_def)
  have d: "FindDevice ?H example_system = 50" using example.device_found by (simp add: example_device)
  obtain ok where w: "WatchWithTemporaryDefault (logged ?H) 50 (example_system, []) = (ok, t, past)"
    using r d by (auto simp: verify_main_def p kAudioObjectUnknown_def Let_def split: prod.splits)
  have reads: "fst (ReadDefault ?H selector example_system)" if "selector \<in> default_selectors" for selector
    using that by (simp add: ReadDefault_def ReadUInt32_def example_hal_def system_get_def default_address_def MakeAddress_def)
  have "past \<noteq> []"
  proof
    assume "past = []"
    obtain ok1 s1 st1 where "SetSystemDevice (logged ?H) kAudioHardwarePropertyDefaultSystemOutputDevice 50
        (example_system, []) = (ok1, s1, [] @ [asked_default kAudioHardwarePropertyDefaultSystemOutputDevice 50 st1])"
      by (rule logged_set_default)
    obtain q n where "ReadDefault ?H kAudioHardwarePropertyDefaultOutputDevice example_system = (True, n)"
      "ReadDefault ?H kAudioHardwarePropertyDefaultSystemOutputDevice example_system = (True, q)"
      using reads by (metis default_selectors_in(1,2) prod.collapse)
    with logged_watch_default [OF w] \<open>past = []\<close> w show False
      by (auto simp: WatchWithTemporaryDefault_def Let_def SetSystemDevice_def split: prod.splits if_splits)
  qed
  then show ?thesis using verify_tool_asks_for_restoration [OF r] r by blast
qed

section \<open>The driver in use is not removed\<close>

text \<open>Property C32: the check the installer and the uninstaller rely on, and where it fails open. Asked to refuse
  if the driver is a default device, the tool changes nothing and exits with 0 or 2. If the device can be looked
  up, and the driver is the default output or the default for system sounds and that default can be read, it
  exits with 2. It exits with 2 only if the device could be looked up and the driver is one of the two defaults
  or one of them could not be read. But if the lookup fails, or neither default can be read, it exits with 0
  and lets the removal go on, whether the driver is a default or not.\<close>

theorem removal_refused_while_default:
  assumes "default_devices H current device" "device \<noteq> kAudioObjectUnknown"
    and "verify_main H [''--refuse-if-default''] s = (code, t)"
  shows "t = s \<and> code \<in> {0, 2} \<and>
    (\<forall>selector \<in> default_selectors.
       fst (lookup_device H s) = noErr \<and> fst (ReadDefault H selector s) \<and> current selector s = device \<longrightarrow> code = 2) \<and>
    (code = 2 \<longrightarrow> fst (lookup_device H s) = noErr \<and>
       (\<exists>selector \<in> default_selectors. current selector s = device \<or> \<not> fst (ReadDefault H selector s))) \<and>
    (fst (lookup_device H s) \<noteq> noErr \<or>
       (\<forall>selector \<in> default_selectors. ReadDefault H selector s = (False, kAudioObjectUnknown)) \<longrightarrow> code = 0)"
proof -
  have c: "code = RefuseIfDefault H (FindDevice H s) s" "t = s"
    using assms(3) by (auto simp: verify_main_def parse_arguments_def Let_def)
  show ?thesis
    using c refused_codes [of H "FindDevice H s" s] default_devices.refused_when_read [OF assms(1) _ assms(2)]
      default_devices.refused_only_if [OF assms(1), of s] unread_not_refused [of H s "FindDevice H s"] by auto
qed

text \<open>
  With the driver as the device for system sounds the tool refuses; with a system that fails every read, in
  which the driver is a default all the same, it does not.
\<close>

definition deaf_hal :: "system hal" where
  "deaf_hal = (example_hal ideal_libm)
     \<lparr>hal_get := (\<lambda>s n a q room x. (kAudioHardwareUnspecifiedError, None, None))\<rparr>"

theorem removal_refused_while_default_witness:
  "verify_main (example_hal ideal_libm) [''--refuse-if-default''] (example_system\<lparr>sys_effects := 50\<rparr>) =
    (2, example_system\<lparr>sys_effects := 50\<rparr>) \<and>
   verify_main deaf_hal [''--refuse-if-default''] (example_system\<lparr>sys_effects := 50\<rparr>) =
    (0, example_system\<lparr>sys_effects := 50\<rparr>)"
proof
  let ?s = "example_system\<lparr>sys_effects := 50\<rparr>" and ?S = kAudioHardwarePropertyDefaultSystemOutputDevice
  obtain code t where r: "verify_main (example_hal ideal_libm) [''--refuse-if-default''] ?s = (code, t)" by fastforce
  have "fst (lookup_device (example_hal ideal_libm) ?s) = noErr" "fst (ReadDefault (example_hal ideal_libm) ?S ?s)"
    by (simp_all add: lookup_device_def ReadDefault_def ReadUInt32_def example_hal_def system_get_def default_address_def
        MakeAddress_def split: prod.split)
  moreover have "system_default ?s ?S = client_id kSVCObjectDevice"
    using not_sym [OF default_selectors_in(3)] by (simp add: system_default_def example_device)
  moreover have "client_id kSVCObjectDevice \<noteq> kAudioObjectUnknown" by (simp add: example_device kAudioObjectUnknown_def)
  moreover note removal_refused_while_default [OF example_defaults.default_devices_axioms _ r]
  ultimately have "code = 2" "t = ?s" using default_selectors_in(2) by metis+
  with r show "verify_main (example_hal ideal_libm) [''--refuse-if-default''] ?s = (2, ?s)" by simp
  have d: "default_devices deaf_hal (\<lambda>selector s. system_default s selector) 50"
    by unfold_locales (simp_all add: deaf_hal_def lookup_device_def)
  obtain code t where r: "verify_main deaf_hal [''--refuse-if-default''] ?s = (code, t)" by fastforce
  have "fst (lookup_device deaf_hal ?s) \<noteq> noErr" by (simp add: deaf_hal_def lookup_device_def)
  moreover have "(50 :: u32) \<noteq> kAudioObjectUnknown" by (simp add: kAudioObjectUnknown_def)
  moreover note removal_refused_while_default [OF d _ r]
  ultimately have "code = 0" "t = ?s" by blast+
  with r show "verify_main deaf_hal [''--refuse-if-default''] ?s = (0, ?s)" by simp
qed

section \<open>The modelled driver is accepted\<close>



end
