(* ===== verification/Device_Probe.thy ===== *)
theory Device_Probe
  imports Route_Verify
begin

text \<open>
  \<open>tools/audio-device-probe.c\<close>: the read-only survey of the audio devices. What a function prints is
  returned as data: one constructor for each form of a line, and a record for the lines of a device.
  \<open>ReadUInt32\<close>, \<open>ReadFloat32\<close> and \<open>PrintStatus\<close> are the helpers of \<open>Audio_Client\<close>, which the tools share.
\<close>

section \<open>Helpers\<close>

definition kAudioHardwarePropertyDevices :: AudioObjectPropertySelector where
  "kAudioHardwarePropertyDevices = kAudioPlugInPropertyDeviceList"

definition MakeElementAddress ::
    "AudioObjectPropertySelector \<Rightarrow> AudioObjectPropertyScope \<Rightarrow> u32 \<Rightarrow> AudioObjectPropertyAddress" where
  "MakeElementAddress selector scope element_id = \<lparr>mSelector = selector, mScope = scope, mElement = element_id\<rparr>"

text \<open>Whether the call succeeded, and the variable after it, which is only set on success.\<close>

definition IsSettable ::
    "'s hal \<Rightarrow> 's \<Rightarrow> u32 \<Rightarrow> AudioObjectPropertyAddress \<Rightarrow> bool \<Rightarrow> bool \<times> bool" where
  "IsSettable H s objectID address old =
     (case hal_settable H s objectID address of
        (status, settable) \<Rightarrow> if status \<noteq> noErr then (False, old) else (True, settable))"

text \<open>
  \<open>convert\<close> is \<open>CFStringGetCString\<close>: for a string and the room of the buffer, whether it converts and
  what the buffer holds afterwards. A null string is the empty value here, as no call returns one
  with success.
\<close>

type_synonym convert = "string \<Rightarrow> nat \<Rightarrow> bool \<times> string"

definition ReadString ::
    "convert \<Rightarrow> 's hal \<Rightarrow> 's \<Rightarrow> u32 \<Rightarrow> AudioObjectPropertyAddress \<Rightarrow> string \<Rightarrow> nat \<Rightarrow> bool \<times> string" where
  "ReadString convert H s objectID address buffer bufferSize =
     (case hal_get H s objectID address None 8 (Fin False 0) of
        (status, _, written) \<Rightarrow>
          if status \<noteq> noErr then (False, buffer)
          else (case written of Some (VString v) \<Rightarrow> convert v bufferSize | _ \<Rightarrow> (False, buffer)))"

text \<open>Zero for every failure; an \<open>AudioBufferList\<close> with one buffer has 24 bytes.\<close>

definition DeviceChannels :: "'s hal \<Rightarrow> 's \<Rightarrow> u32 \<Rightarrow> AudioObjectPropertyScope \<Rightarrow> int" where
  "DeviceChannels H s deviceID scope =
     (case hal_size H s deviceID
             (MakeElementAddress kAudioDevicePropertyStreamConfiguration scope kAudioObjectPropertyElementMain) of
        (status, bytes) \<Rightarrow>
          if status \<noteq> noErr \<or> bytes < 24 then 0
          else if \<not> hal_memory H s then 0
          else (case hal_buffers H s deviceID scope of
                  (status, channels) \<Rightarrow> if status \<noteq> noErr then 0 else sint (channel_sum 0 channels)))"

definition FourCC :: "u32 \<Rightarrow> string" where
  "FourCC value = map (\<lambda>c. if c < 32 \<or> 126 < c then CHR ''?'' else char_of c) (code_bytes value)"

datatype yes_no = Yes | No | Unknown

definition YesNoKnown :: "bool \<Rightarrow> bool \<Rightarrow> yes_no" where
  "YesNoKnown known value = (if known then (if value then Yes else No) else Unknown)"

section \<open>Lines\<close>

datatype settable_text = Writable | Read_Only | Query_Failed

datatype 'v control_line = Absent | Present 'v settable_text | Unreadable settable_text

definition settable_text_of :: "bool \<times> bool \<Rightarrow> settable_text" where
  "settable_text_of r = (case r of (known, settable) \<Rightarrow>
     if known then (if settable then Writable else Read_Only) else Query_Failed)"

definition PrintScalar :: "'s hal \<Rightarrow> 's \<Rightarrow> u32 \<Rightarrow> u32 \<Rightarrow> fp control_line" where
  "PrintScalar H s deviceID element_id =
     (let address = MakeElementAddress kAudioDevicePropertyVolumeScalar kAudioObjectPropertyScopeOutput element_id in
      if \<not> hal_has H s deviceID address then Absent
      else
        let access = settable_text_of (IsSettable H s deviceID address False) in
        (case ReadFloat32 H s deviceID address (Fin False 0) of
           (ok, value) \<Rightarrow> if ok then Present value access else Unreadable access))"

text \<open>The value is whether the mute is on.\<close>

definition PrintMute :: "'s hal \<Rightarrow> 's \<Rightarrow> u32 \<Rightarrow> bool control_line" where
  "PrintMute H s deviceID =
     (let address = MakeElementAddress kAudioDevicePropertyMute kAudioObjectPropertyScopeOutput
            kAudioObjectPropertyElementMain in
      if \<not> hal_has H s deviceID address then Absent
      else
        let access = settable_text_of (IsSettable H s deviceID address False) in
        (case ReadUInt32 H s deviceID address 0 of
           (ok, value) \<Rightarrow> if ok then Present (value \<noteq> 0) access else Unreadable access))"

text \<open>The decibel line has the value, if it can be read, and whether it is writable.\<close>

definition decibel_line :: "'s hal \<Rightarrow> 's \<Rightarrow> u32 \<Rightarrow> (fp option \<times> yes_no) option" where
  "decibel_line H s deviceID =
     (let address = MakeElementAddress kAudioDevicePropertyVolumeDecibels kAudioObjectPropertyScopeOutput
            kAudioObjectPropertyElementMain in
      if \<not> hal_has H s deviceID address then None
      else
        case IsSettable H s deviceID address False of
          (known, settable) \<Rightarrow>
            (case ReadFloat32 H s deviceID address (Fin False 0) of
               (ok, decibels) \<Rightarrow> Some (if ok then Some decibels else None, YesNoKnown known settable)))"

datatype conversion_line =
  Range_Unavailable OSStatus | Conversion_Failed fp fp OSStatus | Converted fp fp fp

definition PrintVolumeConversions :: "'s hal \<Rightarrow> 's \<Rightarrow> u32 \<Rightarrow> conversion_line" where
  "PrintVolumeConversions H s deviceID =
     (let rangeAddress = MakeElementAddress kAudioDevicePropertyVolumeRangeDecibels kAudioObjectPropertyScopeOutput
            kAudioObjectPropertyElementMain;
          toDBAddress = MakeElementAddress kAudioDevicePropertyVolumeScalarToDecibels kAudioObjectPropertyScopeOutput
            kAudioObjectPropertyElementMain
      in case hal_get H s deviceID rangeAddress None 16 (Fin False 0) of
           (rangeStatus, _, written) \<Rightarrow>
             if rangeStatus \<noteq> noErr then Range_Unavailable rangeStatus
             else (case over_range written (Fin False 0, Fin False 0) of
                     (minimum, maximum) \<Rightarrow>
                       (case hal_get H s deviceID toDBAddress None 4 (fp_lit binary32 False (1 / 2)) of
                          (conversionStatus, _, written) \<Rightarrow>
                            if conversionStatus \<noteq> noErr then Conversion_Failed minimum maximum conversionStatus
                            else Converted minimum maximum (over_float written (fp_lit binary32 False (1 / 2))))))"

text \<open>
  A volume the user can set: on the main element, or on every channel. The loop stops at the first
  channel that fails.
\<close>

definition writable_volume :: "'s hal \<Rightarrow> 's \<Rightarrow> u32 \<Rightarrow> u32 \<Rightarrow> bool" where
  "writable_volume H s deviceID element_id =
     (let address = MakeElementAddress kAudioDevicePropertyVolumeScalar kAudioObjectPropertyScopeOutput element_id in
      hal_has H s deviceID address \<and>
      (case IsSettable H s deviceID address False of (known, settable) \<Rightarrow> known \<and> settable))"

fun channels_writable :: "'s hal \<Rightarrow> 's \<Rightarrow> u32 \<Rightarrow> int \<Rightarrow> nat \<Rightarrow> bool" where
  "channels_writable H s deviceID channel 0 = True"
| "channels_writable H s deviceID channel (Suc n) =
     (if \<not> writable_volume H s deviceID (of_int channel) then False
      else channels_writable H s deviceID (channel + 1) n)"

definition NativeVolumeCandidate :: "'s hal \<Rightarrow> 's \<Rightarrow> u32 \<Rightarrow> int \<Rightarrow> bool" where
  "NativeVolumeCandidate H s deviceID outputChannels =
     (if writable_volume H s deviceID kAudioObjectPropertyElementMain then True
      else if outputChannels \<le> 0 then False
      else channels_writable H s deviceID 1 (nat outputChannels))"

section \<open>The report\<close>

record device_report =
  report_object :: u32
  report_name :: string
  report_uid :: string
  report_default_output :: bool
  report_system_sounds :: bool
  report_transport :: "string \<times> u32"
  report_channels :: "int \<times> int"
  report_alive :: yes_no
  report_hidden :: yes_no
  report_can_default :: yes_no
  report_volume :: "fp control_line"
  report_channel_volumes :: "fp control_line list"
  report_decibels :: "(fp option \<times> yes_no) option"
  report_mute :: "bool control_line"
  report_conversion :: conversion_line
  report_candidate :: bool

text \<open>Lines 331 to 445: the lines of one device, none for a device without output.\<close>

definition probe_device ::
    "convert \<Rightarrow> 's hal \<Rightarrow> 's \<Rightarrow> u32 \<Rightarrow> u32 \<Rightarrow> u32 \<Rightarrow> device_report option" where
  "probe_device convert H s defaultOutput defaultSystemOutput deviceID =
     (let outputChannels = DeviceChannels H s deviceID kAudioObjectPropertyScopeOutput in
      if outputChannels \<le> 0 then None
      else
        let inputChannels = DeviceChannels H s deviceID kAudioObjectPropertyScopeInput;
            main = (\<lambda>selector scope. MakeElementAddress selector scope kAudioObjectPropertyElementMain);
            global = kAudioObjectPropertyScopeGlobal;
            flag = (\<lambda>selector scope. case ReadUInt32 H s deviceID (main selector scope) 0 of
              (known, value) \<Rightarrow> YesNoKnown known (value \<noteq> 0));
            transport = snd (ReadUInt32 H s deviceID (main kAudioDevicePropertyTransportType global) 0);
            reportedChannels = (if outputChannels < 2 then outputChannels else 2)
        in Some \<lparr>
          report_object = deviceID,
          report_name = snd (ReadString convert H s deviceID (main kAudioObjectPropertyName global)
            ''Unnamed device'' 1024),
          report_uid = snd (ReadString convert H s deviceID (main kAudioDevicePropertyDeviceUID global) ''unknown'' 1024),
          report_default_output = (deviceID = defaultOutput),
          report_system_sounds = (deviceID = defaultSystemOutput),
          report_transport = (FourCC transport, transport),
          report_channels = (outputChannels, inputChannels),
          report_alive = flag kAudioDevicePropertyDeviceIsAlive global,
          report_hidden = flag kAudioDevicePropertyIsHidden global,
          report_can_default = flag kAudioDevicePropertyDeviceCanBeDefaultDevice kAudioObjectPropertyScopeOutput,
          report_volume = PrintScalar H s deviceID kAudioObjectPropertyElementMain,
          report_channel_volumes = map (\<lambda>channel. PrintScalar H s deviceID (of_int channel)) [1..reportedChannels],
          report_decibels = decibel_line H s deviceID,
          report_mute = PrintMute H s deviceID,
          report_conversion = PrintVolumeConversions H s deviceID,
          report_candidate = NativeVolumeCandidate H s deviceID outputChannels\<rparr>)"

text \<open>The exit status, and the devices reported in the order of the list.\<close>

definition probe_main :: "convert \<Rightarrow> 's hal \<Rightarrow> 's \<Rightarrow> int \<times> device_report list" where
  "probe_main convert H s =
     (let devicesAddress = MakeElementAddress kAudioHardwarePropertyDevices kAudioObjectPropertyScopeGlobal
            kAudioObjectPropertyElementMain in
      case hal_size H s kAudioObjectSystemObject devicesAddress of
        (status, bytes) \<Rightarrow>
          if status \<noteq> noErr then (1, [])
          else if bytes div 4 = 0 then (0, [])
          else if \<not> hal_memory H s then (1, [])
          else (case hal_get H s kAudioObjectSystemObject devicesAddress None bytes (Fin False 0) of
                  (status, returned, written) \<Rightarrow>
                    if status \<noteq> noErr then (1, [])
                    else
                      let deviceCount = unat (case returned of Some n \<Rightarrow> n | None \<Rightarrow> bytes) div 4;
                          devices = take deviceCount (over_objects written);
                          defaultOutput = snd (ReadDefault H kAudioHardwarePropertyDefaultOutputDevice s);
                          defaultSystemOutput = snd (ReadDefault H kAudioHardwarePropertyDefaultSystemOutputDevice s)
                      in (0, List.map_filter (probe_device convert H s defaultOutput defaultSystemOutput) devices)))"

end
