(* ===== verification/Probe_Theorems.thy ===== *)
theory Probe_Theorems
  imports Route_Theorems Device_Probe
begin

text \<open>
  The survey of the probe where the modelled driver is one of the devices.
\<close>

section \<open>What the driver answers\<close>

lemma string_answers:
  "DriverGetPropertyData L d True kSVCObjectDevice
     (Some (MakeAddress kAudioObjectPropertyName kAudioObjectPropertyScopeGlobal)) 0 None 8 True (Some x) =
     (noErr, Some 8, Some (VString ''Sound Volume''))"
  "DriverGetPropertyData L d True kSVCObjectDevice
     (Some (MakeAddress kAudioDevicePropertyDeviceUID kAudioObjectPropertyScopeGlobal)) 0 None 8 True (Some x) =
     (noErr, Some 8, Some (VString SVC_DEVICE_UID))"
  by (simp_all add: driver_layer GetCommonPropertyData_def GetDevicePropertyData_def CopyNameForObject_def
      SVC_DEVICE_NAME_def object_ids IsKnownObject_def)

lemma decibel_answer:
  "DriverGetPropertyData L d True kSVCObjectVolume (Some (Address kAudioLevelControlPropertyDecibelValue)) 0 None 4 True
     (Some x) = (noErr, Some 4, Some (VFloat32 (SVCVolumeScalarToDecibels L (gVolumeScalar d))))"
  by (simp add: driver_layer GetControlPropertyData_def object_ids IsKnownObject_def)

lemma no_control_strings [simp]:
  "control_property kAudioObjectPropertyName = None" "control_property kAudioDevicePropertyDeviceUID = None"
  by (simp_all add: control_property_def client_consts)

lemma no_conversion_strings [simp]:
  "kAudioObjectPropertyName \<notin> conversion_selectors" "kAudioDevicePropertyDeviceUID \<notin> conversion_selectors"
  by (simp_all add: conversion_selectors_def)

lemma main_address: "MakeElementAddress selector scope kAudioObjectPropertyElementMain = MakeAddress selector scope"
  by (simp add: MakeElementAddress_def MakeAddress_def)

lemma virt_code: "FourCC 1986622068 = ''virt''"
  by (simp add: FourCC_def code_bytes_def drop_bit_eq_div char_of_def bit_0)

context driver_backed
begin

lemma device_channels:
  assumes "hal_memory H s"
  shows "DeviceChannels H s (client kSVCObjectDevice) kAudioObjectPropertyScopeOutput = 2"
    "DeviceChannels H s (client kSVCObjectDevice) kAudioObjectPropertyScopeInput = 0"
  using assms buffers_forwarded [OF device_answers(8)] buffers_forwarded [OF device_answers(9)]
    size_forwarded [OF device_known _ device_sizes]
  by (simp_all add: DeviceChannels_def main_address MakeAddress_def kSVCChannelCount_def)

lemma word_read:
  assumes "IsKnownObject ob" "control_property (mSelector a) = None" "mSelector a \<notin> conversion_selectors"
    and "\<And>x. DriverGetPropertyData L (drv s) True ob (Some a) 0 None 4 True (Some x) = (noErr, Some 4, Some v)"
  shows "ReadUInt32 H s (client ob) a old = (True, over_u32 (Some (client_value client v)) old)"
  using get_forwarded [OF assms] by (simp add: ReadUInt32_def)

lemma string_read:
  assumes "control_property (mSelector a) = None" "mSelector a \<notin> conversion_selectors" "convert v n = (True, w)"
    and "\<And>x. DriverGetPropertyData L (drv s) True kSVCObjectDevice (Some a) 0 None 8 True (Some x) =
      (noErr, Some 8, Some (VString v))"
  shows "ReadString convert H s (client kSVCObjectDevice) a old n = (True, w)"
  using get_forwarded [OF device_known assms(1,2,4)] assms(3) by (simp add: ReadString_def)

lemma volume_lines:
  "PrintScalar H s (client kSVCObjectDevice) kAudioObjectPropertyElementMain = Present (gVolumeScalar (drv s)) Writable"
  "decibel_line H s (client kSVCObjectDevice) =
    Some (Some (SVCVolumeScalarToDecibels L (gVolumeScalar (drv s))), Yes)"
  "PrintMute H s (client kSVCObjectDevice) = Present (gMute (drv s) \<noteq> 0) Writable"
  "writable_volume H s (client kSVCObjectDevice) kAudioObjectPropertyElementMain"
  using control_has [OF control_property_simps(1) controls_published(1)] control_has [OF control_property_simps(2) controls_published(2)]
    control_has [OF control_property_simps(6) controls_published(3)]
    control_settable [OF control_property_simps(1) controls_settable(1)] control_settable [OF control_property_simps(2) controls_settable(2)]
    control_settable [OF control_property_simps(6) controls_settable(3)]
    scalar_read [of s] mute_read [of s] control_get [OF control_property_simps(2) _ decibel_answer]
  by (simp_all add: PrintScalar_def decibel_line_def PrintMute_def writable_volume_def main_address IsSettable_def
      settable_text_of_def scalar_address_def mute_address_def ReadFloat32_def over_float_def YesNoKnown_def Let_def)

lemma conversion_lines:
  assumes "conversions_forwarded H L drv client s"
  shows "PrintVolumeConversions H s (client kSVCObjectDevice) =
    Converted (Fin True 96) (Fin False 0) (SVCVolumeScalarToDecibels L (Fin False (1 / 2)))"
  using control_get [OF control_property_simps(3) _ control_answers(2)] scalar_conversion [OF assms]
  by (simp add: PrintVolumeConversions_def main_address over_range_def over_float_def SVC_VOLUME_MINIMUM_DECIBELS_def
      SVC_VOLUME_MAXIMUM_DECIBELS_def Let_def)

end

section \<open>The driver in the survey\<close>

definition expected_report :: "libm \<Rightarrow> driver \<Rightarrow> device_report \<Rightarrow> bool" where
  "expected_report L d r \<longleftrightarrow>
     report_name r = ''Sound Volume'' \<and> report_uid r = SVC_DEVICE_UID \<and> fst (report_transport r) = ''virt'' \<and>
     report_channels r = (2, 0) \<and> report_alive r = Yes \<and> report_hidden r = No \<and> report_can_default r = Yes \<and>
     report_volume r = Present (gVolumeScalar d) Writable \<and>
     report_decibels r = Some (Some (SVCVolumeScalarToDecibels L (gVolumeScalar d)), Yes) \<and>
     report_mute r = Present (gMute d \<noteq> 0) Writable \<and>
     report_conversion r = Converted (Fin True 96) (Fin False 0) (SVCVolumeScalarToDecibels L (Fin False (1 / 2))) \<and>
     report_candidate r"

context driver_backed
begin

lemma device_reported:
  assumes "hal_memory H s" "conversions_forwarded H L drv client s"
    and "\<And>v. length v < 1024 \<Longrightarrow> convert v 1024 = (True, v)"
  obtains r where "probe_device convert H s o1 o2 (client kSVCObjectDevice) = Some r"
    "report_object r = client kSVCObjectDevice" "expected_report L (drv s) r"
proof -
  have c: "convert ''Sound Volume'' 1024 = (True, ''Sound Volume'')" "convert SVC_DEVICE_UID 1024 = (True, SVC_DEVICE_UID)"
    using assms(3) by (simp_all add: SVC_DEVICE_UID_def)
  note string_read [where convert = convert and n = 1024, OF _ _ c(1) string_answers(1) [of L "drv s"]] string_read [where convert = convert and n = 1024, OF _ _ c(2) string_answers(2) [of L "drv s"]]
    word_read [OF device_known _ _ device_answers(1) [where d = "drv s"]]
    word_read [OF device_known _ _ device_answers(2) [where d = "drv s"]]
    word_read [OF device_known _ _ device_answers(3) [where d = "drv s"]]
    word_read [OF device_known _ _ device_answers(4) [where d = "drv s"]]
  note reads = this [unfolded MakeAddress_def, simplified]
  have "\<exists>r. probe_device convert H s o1 o2 (client kSVCObjectDevice) = Some r \<and>
      report_object r = client kSVCObjectDevice \<and> expected_report L (drv s) r"
    by (simp add: probe_device_def Let_def device_channels [OF assms(1)] main_address reads [folded MakeAddress_def] volume_lines
        conversion_lines [OF assms(2)] expected_report_def over_u32_def YesNoKnown_def virt_code NativeVolumeCandidate_def)
  then show thesis using that by blast
qed

end


text \<open>The list of devices as the system gives it to a client that asks for its size first.\<close>

definition devices_listed :: "'s hal \<Rightarrow> 's \<Rightarrow> u32 list \<Rightarrow> bool" where
  "devices_listed H s ids \<longleftrightarrow>
     (let a = MakeAddress kAudioHardwarePropertyDevices kAudioObjectPropertyScopeGlobal;
          bytes = of_nat (4 * length ids)
      in 4 * length ids < 2 ^ 32 \<and> hal_size H s kAudioObjectSystemObject a = (noErr, bytes) \<and>
         hal_get H s kAudioObjectSystemObject a None bytes (Fin False 0) = (noErr, Some bytes, Some (VObjects ids)))"

text \<open>Property C33: the survey shows the driver's device as what it is. Where the system lists the device and
  forwards reads to the driver, the conversions of its volume control included, the probe succeeds and has an
  entry for the device with its name and identifier, two output channels and no input, alive, visible, fit to be
  the default, the volume, its decibels and the mute flag of the driver's state, all writable, the range of the
  control, and the verdict that it is a candidate for the native volume keys.\<close>

theorem probe_reports_driver:
  assumes "driver_backed H L drv client" "hal_memory H s" "conversions_forwarded H L drv client s"
    and "devices_listed H s ids" "client kSVCObjectDevice \<in> set ids"
    and "\<And>v. length v < 1024 \<Longrightarrow> convert v 1024 = (True, v)"
  shows "\<exists>reports r. probe_main convert H s = (0, reports) \<and> r \<in> set reports \<and>
    report_object r = client kSVCObjectDevice \<and> expected_report L (drv s) r"
proof -
  obtain r where r: "probe_device convert H s (snd (ReadDefault H kAudioHardwarePropertyDefaultOutputDevice s))
      (snd (ReadDefault H kAudioHardwarePropertyDefaultSystemOutputDevice s)) (client kSVCObjectDevice) = Some r"
    "report_object r = client kSVCObjectDevice" "expected_report L (drv s) r"
    by (rule driver_backed.device_reported [OF assms(1), where convert = convert]) (use assms(2,3,6) in auto)
  have l: "4 * length ids < 2 ^ 32" using assms(4) by (simp add: devices_listed_def Let_def)
  then have n: "unat (of_nat (4 * length ids) :: u32) div 4 = length ids"
    by (subst unat_of_nat_u32) simp_all
  moreover have "unat (v div 4) = unat v div 4" for v :: u32 by (simp add: unat_div)
  ultimately have "unat ((of_nat (4 * length ids) :: u32) div 4) = length ids" by simp
  moreover have "length ids \<noteq> 0" using assms(5) by auto
  ultimately have "(of_nat (4 * length ids) :: u32) div 4 \<noteq> 0" by (metis unat_0)
  with assms(4) n have m: "probe_main convert H s = (0, List.map_filter (probe_device convert H s
      (snd (ReadDefault H kAudioHardwarePropertyDefaultOutputDevice s))
      (snd (ReadDefault H kAudioHardwarePropertyDefaultSystemOutputDevice s))) ids)"
    using assms(2)
    by (simp add: probe_main_def devices_listed_def main_address Let_def over_objects_def del: of_nat_mult)
  have "r \<in> set (List.map_filter (probe_device convert H s
      (snd (ReadDefault H kAudioHardwarePropertyDefaultOutputDevice s))
      (snd (ReadDefault H kAudioHardwarePropertyDefaultSystemOutputDevice s))) ids)"
    using r(1) assms(5) by (force simp: List.map_filter_def)
  with m r(2,3) show ?thesis by blast
qed

theorem probe_reports_driver_witness:
  "\<exists>reports r. probe_main (\<lambda>v n. (length v < n, v)) (example_hal ideal_libm) example_system = (0, reports) \<and>
    r \<in> set reports \<and> report_object r = 50 \<and> report_volume r = Present (Fin False 1) Writable"
proof -
  have l: "devices_listed (example_hal ideal_libm) example_system [80, client_id kSVCObjectDevice, 81]"
    by (simp add: devices_listed_def Let_def example_hal_def system_get_def default_selectors_def MakeAddress_def
        kAudioHardwarePropertyDevices_def client_consts)
  have "\<exists>reports r. probe_main (\<lambda>v n. (length v < n, v)) (example_hal ideal_libm) example_system = (0, reports) \<and>
      r \<in> set reports \<and> report_object r = client_id kSVCObjectDevice \<and>
      expected_report ideal_libm (sys_driver example_system) r"
    by (rule probe_reports_driver [OF example.driver_backed_axioms _ example_forwards l]) (simp_all add: example_hal_def)
  then show ?thesis by (auto simp: expected_report_def client_id_def object_ids IsKnownObject_def driver_start_def)
qed

end
