(* ===== verification/Spec2Isabelle.thy ===== *)
theory Spec2Isabelle
  imports Volume_Laws Ring_Concurrency Reader_Theorems Gain_Theorems Driver_Settings Driver_Sessions
    Driver_Clock Build_Pinning Secure_Memory Secure_Session Audio_Path
    Route_Theorems Probe_Theorems
begin

text \<open>
  SoundVolumeControl gives macOS outputs without a hardware volume a software one. A virtual output
  device (a HAL plug-in in coreaudiod) captures the mix into a ring in shared memory; a forwarder
  process of the console user maps that ring read-only, scales the samples by the device's volume and
  plays them on the physical output; a small root daemon, the broker, decides who gets the ring.

  \<^bold>\<open>The parts and their theories.\<close>

  \<^item> \<open>SVC_Prelude\<close>: word types, error numbers, fact collections, lemmas on words.
  \<^item> \<open>Transition_Systems\<close>: reachable states, and the locale of inductive invariants that the writer and
    the reader connection interpret for their step relations.
  \<^item> \<open>Float_Model\<close>, \<open>Float_Ops\<close>: binary32 and binary64 with round-to-nearest-even, infinities, NaN and
    signed zeros; the operations the sources use, and their bit patterns. The locale \<open>ieee_format\<close>
    states what a format is, and both formats interpret it.
  \<^item> \<open>Volume_Curve\<close>, \<open>Volume_Laws\<close> (\<open>common/VolumeCurve.h\<close>): scalar, decibels and gain. The C library's
    \<open>log10f\<close> and \<open>powf\<close> are a parameter; the locales \<open>libm_contract\<close> and \<open>libm_monotone\<close> say what is
    needed of it, and the correctly rounded functions interpret them.
  \<^item> \<open>Frame_Store\<close>, \<open>Shared_Audio\<close> (\<open>common/SharedAudio.h\<close>): the ring. The locale \<open>frame_store\<close> is the
    contract of a store of tagged frames, refined from the history of stores; the ring interprets it.
  \<^item> \<open>Ring_Concurrency\<close>: one store and one load of that file interleaved access by access.
  \<^item> \<open>Driver_Objects\<close>, \<open>Driver_Properties\<close>, \<open>Driver_Laws\<close>, \<open>Driver_Settings\<close>
    (\<open>driver/SoundVolumeControl.c\<close>, \<open>driver/SoundVolumeControlIDs.h\<close>): the five HAL objects, which
    properties they have, their sizes and values, and writing them. The record \<open>driver\<close> holds the
    globals of the file; \<open>sent\<close> records the calls of the host's \<open>PropertiesChanged\<close>.
  \<^item> \<open>Driver_IO\<close>, \<open>Driver_Capture\<close>, \<open>Driver_Sessions\<close>, \<open>Driver_Clock\<close> (same file): the life of the
    plug-in, starting and stopping, capturing the mix, the zero time stamps.
  \<^item> \<open>Audio_Reader\<close>, \<open>Reader_Ratio\<close>, \<open>Reader_Laws\<close>, \<open>Reader_Read\<close>, \<open>Reader_Playback\<close>,
    \<open>Reader_Theorems\<close> (\<open>forwarder/SharedAudioReader.c\<close>): following the stream, the clock correction and
    the interpolating read. The driver may write while a read runs, so a read is given a view: what
    each of its loads returned, with no assumption that they agree.
  \<^item> \<open>Gain_Processor\<close>, \<open>Gain_Laws\<close>, \<open>Gain_Process\<close>, \<open>Gain_Theorems\<close> (\<open>forwarder/AudioProcessor.c\<close>): the
    gain ramp, the channel map and the processing of a block; another thread may set a new target
    before any frame.
  \<^item> \<open>Broker\<close> (\<open>broker/main.c\<close>): each handler of the serial queue is a step on the record \<open>broker\<close>; a run
    is a list of events. Users, capabilities and reply objects are what the system supplies.
  \<^item> \<open>Secure_Writer\<close> (\<open>common/SecureAudioWriter.c\<close>): leases of the real-time callbacks against the
    control queue, every atomic access a step.
  \<^item> \<open>Secure_Reader\<close> (\<open>common/SecureAudioReader.c\<close>): the reference-counted connection object, shared by
    the caller, the handlers and the finalizer, every access a step.
  \<^item> \<open>Secure_Memory\<close> (\<open>common/SecureAudioMemory.c\<close>): allocation, capability and mapping of a ring, over
    regions and rights that carry the protections they permit, as the kernel enforces them.
  \<^item> \<open>Signing_Policy\<close> (\<open>tools/signing-policy.c\<close>, \<open>ReadPolicy\<close> of the broker,
    \<open>SVCCopyBrokerRequirement\<close>), \<open>Build_Pinning\<close> (the tool's and the broker's \<open>main\<close>,
    \<open>InitializeSharedAudio\<close>): the requirement text that pins a build, from the signature to the peers.
  \<^item> \<open>Secure_Session\<close>: broker, writer and reader connected, what one sends being an event of another.
  \<^item> \<open>Audio_Path\<close>: the driver's IO calls followed by the forwarder's read.
  \<^item> \<open>Audio_Client\<close>, \<open>Route_Verify\<close> (\<open>tools/audio-route-verify.c\<close>), \<open>Device_Probe\<close>
    (\<open>tools/audio-device-probe.c\<close>): the command line tools, over the record \<open>hal\<close> of the CoreAudio
    client calls. What they print is left out of the verifier and is the result of the probe.
  \<^item> \<open>Route_Requests\<close>, \<open>Route_Defaults\<close>, \<open>Route_System\<close>, \<open>Route_Conversions\<close>, \<open>Route_Driver\<close>,
    \<open>Route_Theorems\<close>, \<open>Probe_Theorems\<close>: the tools in a system. \<open>logged\<close> adds a log of the requested writes
    to any library. The locale \<open>default_devices\<close> says what successful reads of the default devices return,
    \<open>driver_backed\<close> that reads of a device reach the modelled driver; neither says when or whether a write
    takes effect, nor that notifications arrive. \<open>example_hal\<close>, built on the driver's own definitions,
    interprets both.

  \<^bold>\<open>What the lemmas show.\<close> End to end: what the host mixes is what the forwarder hears
  (\<open>captured_audio_is_heard\<close>), and a request of the console user's forwarder ends with the ring the
  driver writes mapped read-only (\<open>session_opens\<close>, \<open>capability_shares_ring_read_only\<close>) or with the reason
  for the refusal. Memory safety: no callback holds a freed ring, the connection object is freed once
  and last, no ring leaks, a load of the ring never mixes two stores, and the block processing and the
  read stay inside their buffers. Authority: each grant has a request, a publish and a console user that
  justify it, a third peer cannot disturb a session, and the broker and the driver talk to exactly the
  builds that were signed (\<open>broker_serves_one_build\<close>, \<open>signed_build_is_let_in\<close>). Sound: the gain never amplifies, the curve is
  monotone and a square law, ramps end at their target, underruns lose no position. HAL contract: sizes
  announced are sizes delivered, errors change nothing, starts and stops count clients, clocks are
  monotone. Tools: the read-only run of the verifier accepts the
  modelled driver while its stream is active; the verifier asks for every property it wrote to be put
  back, on every path, whatever the system answers; the check before a removal is stated with the reads
  it ignores the failure of (\<open>removal_refused_while_default\<close>); and the probe shows the driver's state.

  \<^bold>\<open>Bounds.\<close> Frame counters are taken below \<open>2 ^ 52\<close> where positions are doubles (three thousand years
  at 48 kHz), the generations of the broker are distinct for fewer than \<open>2 ^ 64\<close> events, the writer has
  fewer than \<open>2 ^ 32\<close> callbacks. Loops are structural recursions over the counts the code computes; no
  fuel is used. A block of the writer's control queue has at most five accesses, a reply handler at
  most six.

  \<^bold>\<open>Sequential consistency.\<close> Where threads interleave, the atomic operations concerned are the plain
  ones, which C11 makes sequentially consistent; the release and acquire accesses elsewhere are taken in
  program order.

  \<^bold>\<open>Limits.\<close> The interleavings of \<open>Ring_Concurrency\<close> store each frame number once, so they speak of one
  stream between two resets of the ring. \<open>HandleOpen\<close> takes one answer for the console user where the source
  asks twice in a row. A write past the end of the reader's modelled buffer would have no effect;
  \<open>reader_read_total\<close> shows that a read leaves everything past the frames asked for alone. The
  monotonicity of the curve and its square law are proved for correctly rounded library functions, its range
  for every library within \<open>libm_contract\<close>.

  \<^bold>\<open>Not modelled.\<close> The Objective-C processes (\<open>app/main.m\<close>, \<open>forwarder/main.m\<close>), which choose devices and
  call the modelled reader and processor; \<open>StartupTiming.h\<close>, which only logs; tests, the
  legacy transport kept for them, and packaging. Calls of CoreFoundation, XPC, Mach and CoreAudio appear as parameters or as events with the order their documentation gives.
\<close>

end
